(* ===== verification/Prelude.thy ===== *)
theory Prelude
  imports Main "HOL-Library.Word"
begin

text \<open>
  Shared vocabulary of the development: machine integers, the shape of a Rust \<open>Result\<close>, and the
  generic facts about byte arrays that the wire format, the transport and the session rely on.

  \<^item> \<open>u8\<close>, \<open>u16\<close>, \<open>u32\<close>, \<open>u64\<close> are words of that width, \<open>usize\<close> values are \<open>nat\<close>.
  \<^item> A \<open>Result<T, E>\<close> is the sum \<open>'e + 't\<close>: \<open>Inl e\<close> for \<open>Err(e)\<close>, \<open>Inr v\<close> for \<open>Ok(v)\<close>.
  \<^item> A method taking \<open>&mut self\<close> and returning a \<open>Result\<close> is a function into \<open>('e + 'a) \<times> 's\<close>;
    \<open>and_then\<close> is the \<open>?\<close> operator between two such steps.
  \<^item> A fixed array \<open>[u8; N]\<close> is a list whose length is \<open>N\<close>; the length is part of the
    well-formedness predicates, as the Rust type system makes it.
\<close>

unbundle bit_operations_syntax

type_synonym u8 = "8 word"
type_synonym u16 = "16 word"
type_synonym u32 = "32 word"
type_synonym u64 = "64 word"
type_synonym bytes = "u8 list"

named_theorems frame_simps \<open>facts about the bytes of an encoded report\<close>
named_theorems session_defs \<open>definitions of the session's operations\<close>

lemma unat_less_256: "unat b < 256" for b :: u8
  using unsigned_less [of b] by simp

lemma unat_less_65536: "unat b < 65536" for b :: u16
  using unsigned_less [of b] by simp

subsection \<open>Results\<close>

fun and_then :: "('e + 'a) \<times> 's \<Rightarrow> ('a \<Rightarrow> 's \<Rightarrow> ('e + 'b) \<times> 's) \<Rightarrow> ('e + 'b) \<times> 's" where
  "and_then (Inl e, s) k = (Inl e, s)"
| "and_then (Inr v, s) k = k v s"

fun map_err :: "('e \<Rightarrow> 'f) \<Rightarrow> 'e + 'a \<Rightarrow> 'f + 'a" where
  "map_err f (Inl e) = Inl (f e)"
| "map_err f (Inr v) = Inr v"

definition ok_or :: "'e \<Rightarrow> 'a option \<Rightarrow> 'e + 'a" where
  "ok_or e x = (case x of None \<Rightarrow> Inl e | Some v \<Rightarrow> Inr v)"

lemma ok_or_simps [simp]:
  "ok_or e None = Inl e"
  "ok_or e (Some v) = Inr v"
  by (simp_all add: ok_or_def)

lemma ok_or_eq_Inr [simp]: "ok_or e x = Inr v \<longleftrightarrow> x = Some v"
  by (cases x) auto

lemma ok_or_eq_Inl [simp]: "ok_or e x = Inl d \<longleftrightarrow> x = None \<and> d = e"
  by (cases x) auto

lemma and_then_Inr:
  "and_then p k = (Inr v, t) \<longleftrightarrow> (\<exists>u s. p = (Inr u, s) \<and> k u s = (Inr v, t))"
  by (cases p rule: prod.exhaust, rename_tac r s, case_tac r) auto

lemma and_then_Inl:
  "and_then p k = (Inl e, t) \<longleftrightarrow>
     p = (Inl e, t) \<or> (\<exists>u s. p = (Inr u, s) \<and> k u s = (Inl e, t))"
  by (cases p rule: prod.exhaust, rename_tac r s, case_tac r) auto

lemma map_err_eq_Inr [simp]: "map_err f r = Inr v \<longleftrightarrow> r = Inr v"
  by (cases r) auto

lemma map_err_eq_Inl [simp]: "map_err f r = Inl e \<longleftrightarrow> (\<exists>d. r = Inl d \<and> e = f d)"
  by (cases r) auto

subsection \<open>Writing a slice into a fixed array\<close>

definition copy_slice :: "nat \<Rightarrow> 'a list \<Rightarrow> 'a list \<Rightarrow> 'a list" where
  "copy_slice off src dst = take off dst @ src @ drop (off + length src) dst"

lemma length_copy_slice [simp]:
  "off + length src \<le> length dst \<Longrightarrow> length (copy_slice off src dst) = length dst"
  by (simp add: copy_slice_def)

lemma copy_slice_nth:
  assumes "off + length src \<le> length dst" and "i < length dst"
  shows "copy_slice off src dst ! i =
    (if off \<le> i \<and> i < off + length src then src ! (i - off) else dst ! i)"
proof -
  have "min (length dst) off = off" using assms(1) by simp
  then show ?thesis using assms by (auto simp: copy_slice_def nth_append)
qed

lemma copy_slice_middle:
  "off = length pre \<Longrightarrow> length src = length mid \<Longrightarrow>
    copy_slice off src (pre @ mid @ post) = pre @ src @ post"
  by (simp add: copy_slice_def)

subsection \<open>Folding exclusive or over bytes\<close>

definition xor_bytes :: "bytes \<Rightarrow> u8" where
  "xor_bytes bs = foldl (\<lambda>acc b. acc XOR b) 0 bs"

lemma foldl_xor: "foldl (\<lambda>acc b. acc XOR b) a bs = a XOR xor_bytes bs" for a :: u8
proof (induction bs arbitrary: a)
  case Nil
  then show ?case by (simp add: xor_bytes_def)
next
  case (Cons b bs)
  have "foldl (\<lambda>acc b. acc XOR b) a (b # bs) = (a XOR b) XOR xor_bytes bs"
    by (simp add: Cons.IH)
  moreover have "xor_bytes (b # bs) = b XOR xor_bytes bs"
    by (simp add: xor_bytes_def[of "b # bs"] Cons.IH)
  ultimately show ?case by (simp add: ac_simps)
qed

lemma xor_bytes_Nil [simp]: "xor_bytes [] = 0"
  by (simp add: xor_bytes_def)

lemma xor_bytes_Cons [simp]: "xor_bytes (b # bs) = b XOR xor_bytes bs"
  by (simp add: xor_bytes_def[of "b # bs"] foldl_xor)

lemma xor_bytes_append [simp]: "xor_bytes (as @ bs) = xor_bytes as XOR xor_bytes bs"
  by (induction as) (simp_all add: ac_simps)

lemma xor_bytes_replicate_0 [simp]: "xor_bytes (replicate n 0) = 0"
  by (induction n) simp_all

lemma word_xor_cancel [simp]: "a XOR (a XOR b) = b" for a b :: "'n::len word"
  by (simp flip: xor.assoc)

lemma word_xor_eq_0 [simp]: "a XOR b = 0 \<longleftrightarrow> a = b" for a b :: "'n::len word"
proof
  assume "a XOR b = 0"
  then have "a XOR (a XOR b) = a" by simp
  then show "a = b" by simp
qed simp

lemma word_xor_eq_self [simp]:
  "a XOR b = a \<longleftrightarrow> b = 0" "a = a XOR b \<longleftrightarrow> b = 0" for a b :: "'n::len word"
  by (metis word_xor_cancel word_xor_eq_0 xor.right_neutral)+

lemma xor_bytes_update:
  "i < length bs \<Longrightarrow> xor_bytes (bs[i := b]) = xor_bytes bs XOR (bs ! i XOR b)"
proof (induction bs arbitrary: i)
  case Nil
  then show ?case by simp
next
  case (Cons x xs)
  show ?case
  proof (cases i)
    case 0
    have "xor_bytes xs XOR (x XOR (x XOR b)) = xor_bytes xs XOR b" by simp
    with 0 show ?thesis by (simp add: ac_simps)
  next
    case (Suc j)
    with Cons show ?thesis by (simp add: ac_simps)
  qed
qed

lemma word_eq_bits: "x = y \<longleftrightarrow> (\<forall>n. bit x n = bit y n)" for x y :: "'n::len word"
  by (auto intro: bit_word_eqI)

subsection \<open>Small facts about lists\<close>

lemma list_eq_iff_nth_less:
  "length xs = n \<Longrightarrow> length ys = n \<Longrightarrow> (\<And>i. i < n \<Longrightarrow> xs ! i = ys ! i) \<Longrightarrow> xs = ys"
  by (simp add: list_eq_iff_nth_eq)

lemma take_update_swap_le [simp]: "n \<le> i \<Longrightarrow> take n (xs[i := x]) = take n xs"
  by simp

lemma find_Some_distinct:
  assumes "distinct (map k xs)"
  shows "List.find (\<lambda>x. k x = a) xs = Some x \<longleftrightarrow> x \<in> set xs \<and> k x = a"
  using assms by (induction xs) (auto simp: rev_image_eqI)

lemma find_None_key: "List.find (\<lambda>x. k x = a) xs = None \<longleftrightarrow> a \<notin> k ` set xs"
  by (auto simp: find_None_iff)

text \<open>What a search of a list sorted by an injective key stops at.\<close>

lemma dropWhile_sorted_key:
  fixes k :: "'a \<Rightarrow> 'b::linorder"
  assumes "sorted (map k xs)" and "inj k"
  shows "(\<exists>rest. dropWhile P xs = n # rest) \<longleftrightarrow>
    n \<in> set xs \<and> \<not> P n \<and> (\<forall>x \<in> set xs. k x < k n \<longrightarrow> P x)"
proof -
  have "set xs = set (takeWhile P xs) \<union> set (dropWhile P xs)"
    by (metis set_append takeWhile_dropWhile_id)
  then have split: "x \<in> set xs \<longleftrightarrow> x \<in> set (takeWhile P xs) \<or> x \<in> set (dropWhile P xs)" for x
    by blast
  have below: "k m \<le> k x" if "dropWhile P xs = m # rest" "x \<in> set (dropWhile P xs)" for m rest x
  proof -
    have "sorted (map k (takeWhile P xs) @ map k (dropWhile P xs))"
      using assms(1) by (simp flip: map_append)
    then have "sorted (map k (m # rest))" by (simp only: sorted_append that(1))
    with that show ?thesis by auto
  qed
  show ?thesis
  proof
    assume "\<exists>rest. dropWhile P xs = n # rest"
    then obtain rest where dw: "dropWhile P xs = n # rest" by blast
    then have "\<not> P n" using hd_dropWhile [of P xs] by simp
    moreover have "P x" if "x \<in> set xs" "k x < k n" for x
      using that(2) split [of x, THEN iffD1, OF that(1)] below [OF dw, of x]
      by (metis leD set_takeWhileD)
    moreover have "n \<in> set xs" using dw by (metis list.set_intros(1) split)
    ultimately show "n \<in> set xs \<and> \<not> P n \<and> (\<forall>x \<in> set xs. k x < k n \<longrightarrow> P x)" by blast
  next
    assume n: "n \<in> set xs \<and> \<not> P n \<and> (\<forall>x \<in> set xs. k x < k n \<longrightarrow> P x)"
    then have dn: "n \<in> set (dropWhile P xs)" by (metis set_takeWhileD split)
    then obtain m rest where dw: "dropWhile P xs = m # rest" by (cases "dropWhile P xs") auto
    then have "\<not> P m" "m \<in> set xs"
      using hd_dropWhile [of P xs] by simp (metis dw list.set_intros(1) split)
    then have "\<not> k m < k n" using n by blast
    with below [OF dw dn] have "k m = k n" by simp
    then have "m = n" by (rule injD [OF assms(2)])
    with dw show "\<exists>rest. dropWhile P xs = n # rest" by simp
  qed
qed

end
