(* ===== verification/Report.thy ===== *)
theory Report
  imports Prelude
begin

text \<open>
  The wire format: \<open>crates/razer-proto/src/report.rs\<close> and \<open>crc.rs\<close>.

  The value types of a report (status, colour, storage, LED, device mode, polling rate) with their
  byte encodings, the 90-byte report itself with \<open>to_bytes\<close> and \<open>from_bytes\<close>, and the checksum over
  the bytes 2 to 87. The lemmas show that encoding and decoding are inverse up to the checksum, which
  corruptions the checksum sees, and that the transaction id is outside it.
\<close>

subsection \<open>Constants\<close>

definition REPORT_LEN :: nat where
  "REPORT_LEN = 90"

definition ARGS_LEN :: nat where
  "ARGS_LEN = 80"

subsection \<open>The checksum\<close>

text \<open>\<open>bytes[2..88].iter().fold(0u8, |acc, b| acc ^ b)\<close>\<close>

definition crc :: "bytes \<Rightarrow> u8" where
  "crc bs = foldl (\<lambda>acc b. acc XOR b) 0 (take 86 (drop 2 bs))"

definition verify_crc :: "bytes \<Rightarrow> bool" where
  "verify_crc bs \<longleftrightarrow> bs ! 88 = crc bs"

subsection \<open>Status\<close>

datatype status = New | Busy | Successful | Failure | Timeout | NotSupported | Unknown u8

definition status_from_u8 :: "u8 \<Rightarrow> status" where
  "status_from_u8 v =
     (if v = 0x00 then New
      else if v = 0x01 then Busy
      else if v = 0x02 then Successful
      else if v = 0x03 then Failure
      else if v = 0x04 then Timeout
      else if v = 0x05 then NotSupported
      else Unknown v)"

fun status_to_u8 :: "status \<Rightarrow> u8" where
  "status_to_u8 New = 0x00"
| "status_to_u8 Busy = 0x01"
| "status_to_u8 Successful = 0x02"
| "status_to_u8 Failure = 0x03"
| "status_to_u8 Timeout = 0x04"
| "status_to_u8 NotSupported = 0x05"
| "status_to_u8 (Unknown other) = other"

definition is_ok :: "status \<Rightarrow> bool" where
  "is_ok s = (case s of Successful \<Rightarrow> True | Busy \<Rightarrow> True | _ \<Rightarrow> False)"

subsection \<open>Colour, storage, LED, device mode\<close>

record rgb =
  rgb_r :: u8
  rgb_g :: u8
  rgb_b :: u8

definition rgb_new :: "u8 \<Rightarrow> u8 \<Rightarrow> u8 \<Rightarrow> rgb" where
  "rgb_new red green blue = \<lparr>rgb_r = red, rgb_g = green, rgb_b = blue\<rparr>"

datatype storage = NoStore | VarStore

fun storage_as_u8 :: "storage \<Rightarrow> u8" where
  "storage_as_u8 NoStore = 0x00"
| "storage_as_u8 VarStore = 0x01"

datatype led_id = Zero | ScrollWheel | Logo | Backlight

fun led_id_as_u8 :: "led_id \<Rightarrow> u8" where
  "led_id_as_u8 Zero = 0x00"
| "led_id_as_u8 ScrollWheel = 0x01"
| "led_id_as_u8 Logo = 0x04"
| "led_id_as_u8 Backlight = 0x05"

datatype device_mode = Normal | Driver

definition device_mode_from_u8 :: "u8 \<Rightarrow> device_mode option" where
  "device_mode_from_u8 v =
     (if v = 0x00 then Some Normal else if v = 0x03 then Some Driver else None)"

fun device_mode_to_u8 :: "device_mode \<Rightarrow> u8" where
  "device_mode_to_u8 Normal = 0x00"
| "device_mode_to_u8 Driver = 0x03"

subsection \<open>Polling rates\<close>

datatype poll_rate = Hz125 | Hz250 | Hz500 | Hz1000 | Hz2000 | Hz4000 | Hz8000

fun hz :: "poll_rate \<Rightarrow> u16" where
  "hz Hz125 = 125"
| "hz Hz250 = 250"
| "hz Hz500 = 500"
| "hz Hz1000 = 1000"
| "hz Hz2000 = 2000"
| "hz Hz4000 = 4000"
| "hz Hz8000 = 8000"

definition from_hz :: "u16 \<Rightarrow> poll_rate option" where
  "from_hz v =
     (if v = 125 then Some Hz125
      else if v = 250 then Some Hz250
      else if v = 500 then Some Hz500
      else if v = 1000 then Some Hz1000
      else if v = 2000 then Some Hz2000
      else if v = 4000 then Some Hz4000
      else if v = 8000 then Some Hz8000
      else None)"

fun legacy_code :: "poll_rate \<Rightarrow> u8 option" where
  "legacy_code Hz1000 = Some 0x01"
| "legacy_code Hz500 = Some 0x02"
| "legacy_code Hz125 = Some 0x08"
| "legacy_code _ = None"

definition from_legacy_code :: "u8 \<Rightarrow> poll_rate option" where
  "from_legacy_code c =
     (if c = 0x01 then Some Hz1000
      else if c = 0x02 then Some Hz500
      else if c = 0x08 then Some Hz125
      else None)"

fun v2_code :: "poll_rate \<Rightarrow> u8" where
  "v2_code Hz8000 = 0x01"
| "v2_code Hz4000 = 0x02"
| "v2_code Hz2000 = 0x04"
| "v2_code Hz1000 = 0x08"
| "v2_code Hz500 = 0x10"
| "v2_code Hz250 = 0x20"
| "v2_code Hz125 = 0x40"

definition from_v2_code :: "u8 \<Rightarrow> poll_rate option" where
  "from_v2_code c =
     (if c = 0x01 then Some Hz8000
      else if c = 0x02 then Some Hz4000
      else if c = 0x04 then Some Hz2000
      else if c = 0x08 then Some Hz1000
      else if c = 0x10 then Some Hz500
      else if c = 0x20 then Some Hz250
      else if c = 0x40 then Some Hz125
      else None)"

subsection \<open>The report\<close>

record razer_report =
  status :: status
  transaction_id :: u8
  remaining_packets :: u16
  protocol_type :: u8
  data_size :: u8
  command_class :: u8
  command_id :: u8
  arguments :: bytes
  crc_byte :: u8
  reserved :: u8

text \<open>The array type \<open>[u8; ARGS_LEN]\<close> of the field \<open>arguments\<close>.\<close>

definition wf_report :: "razer_report \<Rightarrow> bool" where
  "wf_report rep \<longleftrightarrow> length (arguments rep) = ARGS_LEN"

definition new_report :: "u8 \<Rightarrow> u8 \<Rightarrow> u8 \<Rightarrow> razer_report" where
  "new_report class cid dsize =
     \<lparr>status = New, transaction_id = 0x00, remaining_packets = 0, protocol_type = 0x00,
      data_size = dsize, command_class = class, command_id = cid,
      arguments = replicate ARGS_LEN 0, crc_byte = 0x00, reserved = 0x00\<rparr>"

definition with_transaction_id :: "razer_report \<Rightarrow> u8 \<Rightarrow> razer_report" where
  "with_transaction_id rep tid = rep\<lparr>transaction_id := tid\<rparr>"

text \<open>
  \<open>with_args\<close> asserts that the slice fits and copies it to the front: \<open>None\<close> is the panic of the
  failed assertion, \<open>fill_args\<close> the copy behind it.
\<close>

definition fill_args :: "razer_report \<Rightarrow> bytes \<Rightarrow> razer_report" where
  "fill_args rep args = rep\<lparr>arguments := copy_slice 0 args (arguments rep)\<rparr>"

definition with_args :: "razer_report \<Rightarrow> bytes \<Rightarrow> razer_report option" where
  "with_args rep args = (if length args \<le> ARGS_LEN then Some (fill_args rep args) else None)"

text \<open>\<open>u16::to_be_bytes\<close> and \<open>u16::from_be_bytes\<close>.\<close>

definition to_be_bytes :: "u16 \<Rightarrow> bytes" where
  "to_be_bytes w = [ucast (drop_bit 8 w), ucast w]"

definition from_be_bytes :: "u8 \<Rightarrow> u8 \<Rightarrow> u16" where
  "from_be_bytes hi lo = push_bit 8 (ucast hi) OR ucast lo"

definition to_bytes :: "razer_report \<Rightarrow> bytes" where
  "to_bytes rep =
     (let out = replicate REPORT_LEN 0;
          out = out[0 := status_to_u8 (status rep)];
          out = out[1 := transaction_id rep];
          out = copy_slice 2 (to_be_bytes (remaining_packets rep)) out;
          out = out[4 := protocol_type rep];
          out = out[5 := data_size rep];
          out = out[6 := command_class rep];
          out = out[7 := command_id rep];
          out = copy_slice 8 (arguments rep) out;
          out = out[89 := reserved rep]
      in out[88 := crc out])"

definition from_bytes :: "bytes \<Rightarrow> razer_report" where
  "from_bytes bs =
     \<lparr>status = status_from_u8 (bs ! 0),
      transaction_id = bs ! 1,
      remaining_packets = from_be_bytes (bs ! 2) (bs ! 3),
      protocol_type = bs ! 4,
      data_size = bs ! 5,
      command_class = bs ! 6,
      command_id = bs ! 7,
      arguments = copy_slice 0 (take 80 (drop 8 bs)) (replicate ARGS_LEN 0),
      crc_byte = bs ! 88,
      reserved = bs ! 89\<rparr>"

definition report_args :: "razer_report \<Rightarrow> bytes" where
  "report_args rep =
     (let n = (if unat (data_size rep) < ARGS_LEN then unat (data_size rep) else ARGS_LEN)
      in take n (arguments rep))"

definition is_get :: "razer_report \<Rightarrow> bool" where
  "is_get rep \<longleftrightarrow> command_id rep AND 0x80 \<noteq> 0"

subsection \<open>Value types: the encodings invert\<close>

lemma status_from_to [simp]: "status_to_u8 (status_from_u8 v) = v"
  by (simp add: status_from_u8_def)

text \<open>
  A status built by \<open>from_u8\<close> never holds a known byte under \<open>Unknown\<close>; such statuses are the ones
  that decode back to themselves.
\<close>

definition canonical_status :: "status \<Rightarrow> bool" where
  "canonical_status s = (case s of Unknown v \<Rightarrow> v \<notin> {0, 1, 2, 3, 4, 5} | _ \<Rightarrow> True)"

lemma status_to_from: "status_from_u8 (status_to_u8 s) = s \<longleftrightarrow> canonical_status s"
  by (cases s) (auto simp: status_from_u8_def canonical_status_def)

lemma canonical_from_u8 [simp]: "canonical_status (status_from_u8 v)"
  by (simp add: status_from_u8_def canonical_status_def)

lemma is_ok_iff: "is_ok s \<longleftrightarrow> s = Successful \<or> s = Busy"
  by (cases s) (simp_all add: is_ok_def)

lemma be_bytes_inverse [simp]:
  "from_be_bytes (to_be_bytes w ! 0) (to_be_bytes w ! Suc 0) = w"
proof (rule bit_word_eqI)
  fix n assume "n < LENGTH(16)"
  then show "bit (from_be_bytes (to_be_bytes w ! 0) (to_be_bytes w ! Suc 0)) n \<longleftrightarrow> bit w n"
    by (auto simp: from_be_bytes_def to_be_bytes_def bit_simps)
qed

lemma u8_high_bits: "8 \<le> n \<Longrightarrow> \<not> bit v n" for v :: u8
  using bit_imp_le_length [of v n] by auto

lemma to_from_be_bytes [simp]: "to_be_bytes (from_be_bytes hi lo) = [hi, lo]"
  by (auto simp: from_be_bytes_def to_be_bytes_def bit_simps u8_high_bits intro!: bit_word_eqI)

lemma length_to_be_bytes [simp]: "length (to_be_bytes w) = 2"
  by (simp add: to_be_bytes_def)

subsection \<open>The checksum\<close>

text \<open>The fold of the source is the exclusive or of the covered range.\<close>

lemma crc_eq: "crc bs = xor_bytes (take 86 (drop 2 bs))"
  by (simp add: crc_def xor_bytes_def)

lemma crc_update_covered:
  assumes "length bs = REPORT_LEN" and "2 \<le> i" and "i \<le> 87"
  shows "crc (bs[i := v]) = crc bs XOR (bs ! i XOR v)"
proof -
  have i: "i - 2 < length (take 86 (drop 2 bs))"
    using assms by (simp add: REPORT_LEN_def)
  have "take 86 (drop 2 (bs[i := v])) = (take 86 (drop 2 bs))[i - 2 := v]"
    using assms by (simp add: drop_update_swap take_update_swap REPORT_LEN_def)
  then have "crc (bs[i := v]) = xor_bytes ((take 86 (drop 2 bs))[i - 2 := v])"
    by (simp add: crc_eq)
  also have "\<dots> = crc bs XOR (take 86 (drop 2 bs) ! (i - 2) XOR v)"
    by (simp add: xor_bytes_update [OF i] crc_eq)
  also have "take 86 (drop 2 bs) ! (i - 2) = bs ! i"
    using assms by (simp add: REPORT_LEN_def nth_append flip: add_2_eq_Suc)
  finally show ?thesis .
qed

lemma crc_update_outside [frame_simps]:
  assumes "i < 2 \<or> 87 < i"
  shows "crc (bs[i := v]) = crc bs"
proof -
  have "take 86 (drop 2 (bs[i := v])) = take 86 (drop 2 bs)"
    using assms by (auto simp: drop_update_swap take_update_swap list_update_beyond)
  then show ?thesis by (simp add: crc_def)
qed

subsection \<open>The encoded frame\<close>

lemma to_bytes_eq:
  assumes "wf_report rep"
  shows "to_bytes rep =
    (let body = [protocol_type rep, data_size rep, command_class rep, command_id rep]
     in [status_to_u8 (status rep), transaction_id rep]
        @ to_be_bytes (remaining_packets rep) @ body @ arguments rep
        @ [xor_bytes (to_be_bytes (remaining_packets rep) @ body @ arguments rep), reserved rep])"
proof -
  obtain hi lo where be: "to_be_bytes (remaining_packets rep) = [hi, lo]"
    by (simp add: to_be_bytes_def)
  define header where "header = [status_to_u8 (status rep), transaction_id rep, hi, lo,
    protocol_type rep, data_size rep, command_class rep, command_id rep]"
  have len: "length (arguments rep) = 80" using assms by (simp add: wf_report_def ARGS_LEN_def)
  have zeros: "replicate REPORT_LEN (0::u8) = [0,0] @ [0,0] @ [0,0,0,0] @ replicate 80 0 @ [0,0]"
    by (simp add: REPORT_LEN_def numeral_eq_Suc)
  have copy2: "copy_slice 2 [hi, lo] ([x, y] @ [0, 0] @ post) = [x, y] @ [hi, lo] @ post" for x y post
    by (rule copy_slice_middle) simp_all
  have copy8: "copy_slice 8 (arguments rep) (header @ replicate 80 0 @ [0, 0])
      = header @ arguments rep @ [0, 0]"
    by (rule copy_slice_middle) (simp_all add: header_def len)
  have hdr: "header = [status_to_u8 (status rep), transaction_id rep] @ [hi, lo]
      @ [protocol_type rep, data_size rep, command_class rep, command_id rep]"
    by (simp add: header_def)
  have crc: "crc (header @ arguments rep @ [0, reserved rep])
      = xor_bytes ([hi, lo, protocol_type rep, data_size rep, command_class rep, command_id rep]
          @ arguments rep)"
    by (simp add: crc_eq header_def len)
  have upd: "(header @ arguments rep @ [x, y])[88 := z] = header @ arguments rep @ [z, y]"
    "(header @ arguments rep @ [x, y])[89 := z] = header @ arguments rep @ [x, z]" for x y z
    by (simp_all add: list_update_append header_def len)
  have start: "(let out = replicate REPORT_LEN 0;
          out = out[0 := status_to_u8 (status rep)];
          out = out[1 := transaction_id rep];
          out = copy_slice 2 [hi, lo] out;
          out = out[4 := protocol_type rep];
          out = out[5 := data_size rep];
          out = out[6 := command_class rep]
      in out[7 := command_id rep]) = header @ replicate 80 0 @ [0, 0]"
    unfolding zeros Let_def using copy2 by (simp add: header_def)
  show ?thesis
    using start unfolding to_bytes_def Let_def be by (simp only: copy8 upd crc) (simp add: hdr)
qed

lemma length_to_bytes [simp]: "wf_report rep \<Longrightarrow> length (to_bytes rep) = REPORT_LEN"
  by (simp add: to_bytes_eq Let_def wf_report_def ARGS_LEN_def REPORT_LEN_def)

lemma to_bytes_verify [simp]: "wf_report rep \<Longrightarrow> verify_crc (to_bytes rep)"
  by (simp add: verify_crc_def to_bytes_def Let_def frame_simps copy_slice_def wf_report_def
      REPORT_LEN_def ARGS_LEN_def)

lemma to_bytes_fields [frame_simps]:
  assumes "wf_report rep"
  shows "to_bytes rep ! 0 = status_to_u8 (status rep)"
    and "to_bytes rep ! Suc 0 = transaction_id rep"
    and "to_bytes rep ! 2 = to_be_bytes (remaining_packets rep) ! 0"
    and "to_bytes rep ! 3 = to_be_bytes (remaining_packets rep) ! Suc 0"
    and "to_bytes rep ! 4 = protocol_type rep"
    and "to_bytes rep ! 5 = data_size rep"
    and "to_bytes rep ! 6 = command_class rep"
    and "to_bytes rep ! 7 = command_id rep"
    and "take 80 (drop 8 (to_bytes rep)) = arguments rep"
    and "to_bytes rep ! 88 = crc (to_bytes rep)"
    and "to_bytes rep ! 89 = reserved rep"
proof -
  have len: "length (arguments rep) = 80" using assms by (simp add: wf_report_def ARGS_LEN_def)
  show "to_bytes rep ! 88 = crc (to_bytes rep)"
    using to_bytes_verify [OF assms] by (simp add: verify_crc_def)
qed (use assms in \<open>simp_all add: to_bytes_eq Let_def to_be_bytes_def nth_append wf_report_def
      ARGS_LEN_def\<close>)

lemma frame_split:
  assumes "length bs = REPORT_LEN"
  shows "bs = [bs ! 0, bs ! 1, bs ! 2, bs ! 3, bs ! 4, bs ! 5, bs ! 6, bs ! 7]
    @ take 80 (drop 8 bs) @ [bs ! 88, bs ! 89]"
proof -
  have "take 8 bs = [bs ! 0, bs ! 1, bs ! 2, bs ! 3, bs ! 4, bs ! 5, bs ! 6, bs ! 7]"
    using assms by (intro nth_equalityI) (auto simp: REPORT_LEN_def nth_Cons' less_Suc_eq numeral_eq_Suc)
  moreover have "drop 88 bs = [bs ! 88, bs ! 89]"
    using assms by (intro nth_equalityI) (auto simp: REPORT_LEN_def nth_Cons' less_2_cases_iff)
  moreover have "bs = take 8 bs @ take 80 (drop 8 bs) @ drop 88 bs"
    using append_take_drop_id [of 8 bs] append_take_drop_id [of 80 "drop 8 bs"] by simp
  ultimately show ?thesis by simp
qed

lemma wf_from_bytes [simp]: "length bs = REPORT_LEN \<Longrightarrow> wf_report (from_bytes bs)"
  by (simp add: wf_report_def from_bytes_def copy_slice_def ARGS_LEN_def REPORT_LEN_def)

lemma arguments_from_bytes [frame_simps]:
  "length bs = REPORT_LEN \<Longrightarrow> arguments (from_bytes bs) = take 80 (drop 8 bs)"
  by (simp add: from_bytes_def copy_slice_def ARGS_LEN_def REPORT_LEN_def)

subsection \<open>Round trips\<close>

lemma decode_encode:
  assumes "wf_report rep" and "canonical_status (status rep)"
  shows "from_bytes (to_bytes rep) = rep\<lparr>crc_byte := crc (to_bytes rep)\<rparr>"
proof (rule razer_report.equality)
  note len = length_to_bytes [OF assms(1)]
  show "arguments (from_bytes (to_bytes rep)) = arguments (rep\<lparr>crc_byte := crc (to_bytes rep)\<rparr>)"
    using assms by (simp add: arguments_from_bytes [OF len] to_bytes_fields)
qed (use assms in \<open>simp_all add: from_bytes_def to_bytes_fields status_to_from\<close>)

text \<open>Decoding an encoded report gives the report back with the computed checksum in its
  checksum field, for every report whose status is one that \<open>from_u8\<close> can produce.\<close>

theorem report_roundtrip:
  assumes "wf_report rep" and "canonical_status (status rep)"
  shows "from_bytes (to_bytes rep) = rep\<lparr>crc_byte := crc (to_bytes rep)\<rparr>"
  using assms by (rule decode_encode)

text \<open>Re-encoding a decoded 90-byte buffer reproduces it except for the checksum byte, which is
  recomputed; so the buffer is reproduced exactly when its checksum was right.\<close>

theorem reencode_fixes_crc:
  assumes "length bs = REPORT_LEN"
  shows "to_bytes (from_bytes bs) = bs[88 := crc bs] \<and>
    (to_bytes (from_bytes bs) = bs \<longleftrightarrow> verify_crc bs)"
proof -
  define mid where "mid = take 80 (drop 8 bs)"
  define hd where "hd = [bs ! 0, bs ! 1, bs ! 2, bs ! 3, bs ! 4, bs ! 5, bs ! 6, bs ! 7]"
  have len: "length mid = 80" using assms by (simp add: mid_def REPORT_LEN_def)
  define x y where "x = bs ! 88" and "y = bs ! 89"
  have split: "bs = hd @ mid @ [x, y]"
    unfolding hd_def mid_def x_def y_def by (rule frame_split [OF assms])
  have "crc (hd @ mid @ [x, y]) = xor_bytes (drop 2 hd @ mid)"
    by (simp add: crc_eq len hd_def)
  then have crc: "crc bs = xor_bytes (drop 2 hd @ mid)" by (simp only: split [symmetric])
  have "(hd @ mid @ [x, y])[88 := z] = hd @ mid @ [z, y]" for z
    by (simp add: list_update_append len hd_def)
  then have upd: "bs[88 := z] = hd @ mid @ [z, y]" for z by (simp only: split [symmetric])
  have "to_bytes (from_bytes bs) = hd @ mid @ [crc bs, y]"
    unfolding to_bytes_eq [OF wf_from_bytes [OF assms]] crc Let_def arguments_from_bytes [OF assms]
    by (simp add: from_bytes_def hd_def mid_def y_def)
  then have enc: "to_bytes (from_bytes bs) = bs[88 := crc bs]" by (simp only: upd)
  have "bs[88 := crc bs] = hd @ mid @ [x, y] \<longleftrightarrow> x = crc bs"
    by (auto simp: upd)
  then have "bs[88 := crc bs] = bs \<longleftrightarrow> x = crc bs" by (simp only: split [symmetric])
  with enc show ?thesis by (simp add: verify_crc_def x_def)
qed

text \<open>C9: decoding and encoding invert one another up to the checksum: decoding an encoded report gives it
  back with the computed checksum in its checksum field, for every report whose status is one that
  \<open>from_u8\<close> can produce; encoding a decoded 90-byte buffer gives it back with its checksum byte
  recomputed, hence unchanged exactly when that byte was right.\<close>

theorem wire_roundtrip:
  assumes "wf_report rep" and "canonical_status (status rep)" and "length bs = REPORT_LEN"
  shows "from_bytes (to_bytes rep) = rep\<lparr>crc_byte := crc (to_bytes rep)\<rparr> \<and>
    to_bytes (from_bytes bs) = bs[88 := crc bs] \<and> (to_bytes (from_bytes bs) = bs \<longleftrightarrow> verify_crc bs)"
  using report_roundtrip [OF assms(1,2)] reencode_fixes_crc [OF assms(3)] by blast

theorem wire_roundtrip_witness:
  "from_bytes (to_bytes (new_report 0x0F 0x84 3)) =
     (new_report 0x0F 0x84 3)\<lparr>crc_byte := crc (to_bytes (new_report 0x0F 0x84 3))\<rparr> \<and>
   to_bytes (from_bytes (replicate REPORT_LEN 7)) = (replicate REPORT_LEN 7)[88 := crc (replicate REPORT_LEN 7)]"
  using wire_roundtrip [of "new_report 0x0F 0x84 3" "replicate REPORT_LEN 7"]
  by (simp add: wf_report_def new_report_def canonical_status_def)

text \<open>C13: the checksum detects every corruption of one byte of a valid frame, other than in the
  three bytes it does not cover: the status, the transaction id and the reserved byte.\<close>

theorem crc_detects_single_byte:
  assumes "length bs = REPORT_LEN" and "verify_crc bs" and "i < REPORT_LEN"
  shows "verify_crc (bs[i := v]) \<longleftrightarrow> i \<in> {0, 1, 89} \<or> v = bs ! i"
proof (cases "2 \<le> i \<and> i \<le> 87")
  case True
  with assms show ?thesis
    by (auto simp: verify_crc_def crc_update_covered)
next
  case False
  with assms(3) consider "i = 88" | "i \<in> {0, 1, 89}" by (fastforce simp: REPORT_LEN_def)
  then show ?thesis
  proof cases
    case 1
    with assms show ?thesis by (auto simp: verify_crc_def crc_update_outside REPORT_LEN_def)
  next
    case 2
    with assms show ?thesis by (auto simp: verify_crc_def crc_update_outside REPORT_LEN_def)
  qed
qed

theorem crc_detects_single_byte_witness:
  "\<not> verify_crc ((to_bytes (new_report 0x00 0x81 2))[7 := 0x82]) \<and>
   verify_crc ((to_bytes (new_report 0x00 0x81 2))[1 := 0xFF])"
proof -
  let ?rep = "new_report 0x00 0x81 2"
  have wf: "wf_report ?rep" by (simp add: wf_report_def new_report_def)
  note detect = crc_detects_single_byte [OF length_to_bytes [OF wf] to_bytes_verify [OF wf]]
  show ?thesis
    using detect [of 7 "0x82"] detect [of 1 "0xFF"] to_bytes_fields(8) [OF wf]
    by (simp add: REPORT_LEN_def new_report_def)
qed

lemma to_bytes_stamp:
  assumes "wf_report rep"
  shows "to_bytes (with_transaction_id rep tid) = (to_bytes rep)[1 := tid]"
proof -
  have "wf_report (with_transaction_id rep tid)"
    using assms by (simp add: wf_report_def with_transaction_id_def)
  then show ?thesis using assms by (simp add: to_bytes_eq with_transaction_id_def Let_def)
qed

text \<open>Stamping a transaction id changes byte 1 of the frame and nothing else, and the frame
  keeps a valid checksum whatever the id is.\<close>

theorem transaction_id_outside_crc:
  assumes "wf_report rep"
  shows "to_bytes (with_transaction_id rep tid) = (to_bytes rep)[1 := tid] \<and>
    verify_crc (to_bytes (with_transaction_id rep tid))"
  using assms to_bytes_stamp [OF assms] to_bytes_verify [of "with_transaction_id rep tid"]
  by (simp add: wf_report_def with_transaction_id_def)

theorem transaction_id_outside_crc_witness:
  "to_bytes (with_transaction_id (new_report 0x00 0x04 2) 0xFF) =
     (to_bytes (new_report 0x00 0x04 2))[1 := 0xFF] \<and>
   verify_crc (to_bytes (with_transaction_id (new_report 0x00 0x04 2) 0xFF))"
  by (rule transaction_id_outside_crc) (simp add: wf_report_def new_report_def)

subsection \<open>The two polling-rate encodings\<close>

text \<open>Each of the three codes of a polling rate is decoded to exactly that rate and to no other,
  and a byte that is a code of both families never means the same rate in both.\<close>

theorem poll_rate_codes:
  "(from_hz v = Some rate \<longleftrightarrow> v = hz rate) \<and>
   (from_v2_code c = Some rate \<longleftrightarrow> c = v2_code rate) \<and>
   (from_legacy_code c = Some rate \<longleftrightarrow> legacy_code rate = Some c) \<and>
   \<not> (from_legacy_code c = Some rate \<and> from_v2_code c = Some rate)"
  by (cases rate) (auto simp: from_hz_def from_v2_code_def from_legacy_code_def)

lemma v2_code_inverse: "from_v2_code (v2_code rate) = Some rate"
  by (cases rate) (simp_all add: from_v2_code_def)

lemma legacy_code_None_iff:
  "legacy_code rate = None \<longleftrightarrow> rate \<in> {Hz250, Hz2000, Hz4000, Hz8000}"
  by (cases rate) auto

lemma device_mode_from_to:
  "device_mode_from_u8 v = Some m \<longleftrightarrow> v = device_mode_to_u8 m"
  by (cases m) (auto simp: device_mode_from_u8_def)

end
