(* ===== verification/Rust_Str.thy ===== *)
theory Rust_Str
  imports Prelude "HOL-Library.Char_ord" "HOL-Library.Sublist"
begin

text \<open>
  What the program uses of Rust's string library. A \<open>String\<close> or \<open>&str\<close> is modelled by its UTF-8
  encoding, a list of 8-bit characters, so \<open>length\<close> is Rust's \<open>len()\<close> and comparison is bytewise.

  \<^item> \<open>trim\<close> and \<open>trim_end\<close> remove characters with the Unicode property White\_Space; the encodings of
    those characters are listed in \<open>utf8_whitespace\<close>.
  \<^item> \<open>from_str_radix\<close> is the parser behind \<open>str::parse\<close> and \<open>from_str_radix\<close> for unsigned types,
    with its three errors in the order the library reports them.
  \<^item> \<open>fmt_dec\<close>, \<open>fmt_hex\<close> and the padded forms are what \<open>write!\<close> prints for the format
    specifications the program uses.
\<close>

subsection \<open>Characters\<close>

abbreviation ord :: "char \<Rightarrow> nat" where
  "ord c \<equiv> of_char c"

definition char_of_byte :: "u8 \<Rightarrow> char" where
  "char_of_byte b = char_of (unat b)"

lemma ord_char_of_byte [simp]: "ord (char_of_byte b) = unat b"
  using unat_less_256 [of b] by (simp add: char_of_byte_def)

lemma char_of_byte_eq: "char_of_byte v = c \<longleftrightarrow> unat v = ord c"
  by (metis char_of_char char_of_byte_def ord_char_of_byte)

lemma ord_less_256: "ord c < 256"
  by (metis of_char_of char_of_char mod_less_divisor zero_less_numeral)

definition is_ascii :: "char \<Rightarrow> bool" where
  "is_ascii c \<longleftrightarrow> ord c < 128"

subsection \<open>White space and trimming\<close>

text \<open>The White\_Space characters of one byte, then those of two and three bytes.\<close>

definition ascii_whitespace :: "char list" where
  "ascii_whitespace = [CHR 0x09, CHR 0x0A, CHR 0x0B, CHR 0x0C, CHR 0x0D, CHR 0x20]"

definition wide_whitespace :: "string list" where
  "wide_whitespace =
     [[CHR 0xC2, CHR 0x85], [CHR 0xC2, CHR 0xA0], [CHR 0xE1, CHR 0x9A, CHR 0x80],
      [CHR 0xE2, CHR 0x80, CHR 0x80], [CHR 0xE2, CHR 0x80, CHR 0x81],
      [CHR 0xE2, CHR 0x80, CHR 0x82], [CHR 0xE2, CHR 0x80, CHR 0x83],
      [CHR 0xE2, CHR 0x80, CHR 0x84], [CHR 0xE2, CHR 0x80, CHR 0x85],
      [CHR 0xE2, CHR 0x80, CHR 0x86], [CHR 0xE2, CHR 0x80, CHR 0x87],
      [CHR 0xE2, CHR 0x80, CHR 0x88], [CHR 0xE2, CHR 0x80, CHR 0x89],
      [CHR 0xE2, CHR 0x80, CHR 0x8A], [CHR 0xE2, CHR 0x80, CHR 0xA8],
      [CHR 0xE2, CHR 0x80, CHR 0xA9], [CHR 0xE2, CHR 0x80, CHR 0xAF],
      [CHR 0xE2, CHR 0x81, CHR 0x9F], [CHR 0xE3, CHR 0x80, CHR 0x80]]"

definition utf8_whitespace :: "string list" where
  "utf8_whitespace = map (\<lambda>c. [c]) ascii_whitespace @ wide_whitespace"

text \<open>Remove one of the given encodings from the front, if one is there.\<close>

fun strip_one :: "string list \<Rightarrow> string \<Rightarrow> string option" where
  "strip_one [] s = None"
| "strip_one (p # ps) s =
     (if p \<noteq> [] \<and> take (length p) s = p then Some (drop (length p) s) else strip_one ps s)"

lemma strip_one_shorter: "strip_one ps s = Some s' \<Longrightarrow> length s' < length s"
proof (induction ps)
  case Nil
  then show ?case by simp
next
  case (Cons p ps)
  show ?case
  proof (cases "p \<noteq> [] \<and> take (length p) s = p")
    case True
    then have "s \<noteq> []" by auto
    with True Cons.prems show ?thesis by auto
  next
    case False
    with Cons show ?thesis by auto
  qed
qed

function strip_all :: "string list \<Rightarrow> string \<Rightarrow> string" where
  "strip_all ps s = (case strip_one ps s of None \<Rightarrow> s | Some s' \<Rightarrow> strip_all ps s')"
  by pat_completeness auto
termination
  by (relation "measure (\<lambda>(ps, s). length s)") (auto dest: strip_one_shorter)

declare strip_all.simps [simp del]

definition trim_start :: "string \<Rightarrow> string" where
  "trim_start s = strip_all utf8_whitespace s"

definition trim_end :: "string \<Rightarrow> string" where
  "trim_end s = rev (strip_all (map rev utf8_whitespace) (rev s))"

definition trim :: "string \<Rightarrow> string" where
  "trim s = trim_end (trim_start s)"

lemma strip_all_suffix: "\<exists>pre. s = pre @ strip_all ps s"
proof (induction ps s rule: strip_all.induct)
  case (1 ps s)
  show ?case
  proof (cases "strip_one ps s")
    case None
    then show ?thesis by (simp add: strip_all.simps [of ps s])
  next
    case (Some s')
    have "\<exists>p. s = p @ s'" using Some
    proof (induction ps)
      case Nil
      then show ?case by simp
    next
      case (Cons p ps)
      show ?case
      proof (cases "p \<noteq> [] \<and> take (length p) s = p")
        case True
        with Cons.prems have "s' = drop (length p) s" by simp
        then show ?thesis by (metis append_take_drop_id)
      next
        case False
        with Cons show ?thesis by (auto split: if_splits)
      qed
    qed
    moreover from 1 Some obtain pre where "s' = pre @ strip_all ps s'" by blast
    ultimately show ?thesis
      by (metis Some append_assoc option.simps(5) strip_all.simps)
  qed
qed

text \<open>On an ASCII string only the one-byte encodings can match.\<close>

lemma strip_one_append:
  "strip_one (ps @ qs) s = (case strip_one ps s of None \<Rightarrow> strip_one qs s | Some s' \<Rightarrow> Some s')"
  by (induction ps) auto

lemma strip_one_chars:
  "strip_one (map (\<lambda>c. [c]) cs) s =
     (case s of [] \<Rightarrow> None | x # xs \<Rightarrow> if x \<in> set cs then Some xs else None)"
  by (induction cs) (auto split: list.splits)

lemma strip_one_no_match:
  "\<forall>p \<in> set ps. p \<noteq> [] \<longrightarrow> hd p \<notin> set s \<Longrightarrow> strip_one ps s = None"
proof (induction ps)
  case Nil
  then show ?case by simp
next
  case (Cons p ps)
  have "\<not> (p \<noteq> [] \<and> take (length p) s = p)"
  proof
    assume p: "p \<noteq> [] \<and> take (length p) s = p"
    then have "hd p \<in> set (take (length p) s)" by simp
    then have "hd p \<in> set s" by (rule in_set_takeD)
    with p Cons.prems show False by simp
  qed
  with Cons show ?case by simp
qed

lemma strip_one_ascii:
  assumes "list_all is_ascii s"
  shows "strip_one (map rev utf8_whitespace) s =
    (case s of [] \<Rightarrow> None | x # xs \<Rightarrow> if x \<in> set ascii_whitespace then Some xs else None)"
proof -
  have "\<forall>p \<in> set (map rev wide_whitespace). p \<noteq> [] \<longrightarrow> \<not> is_ascii (hd p)"
    by (simp add: wide_whitespace_def is_ascii_def)
  with assms have "strip_one (map rev wide_whitespace) s = None"
    by (intro strip_one_no_match) (auto simp: list_all_iff)
  moreover have "map rev (map (\<lambda>c. [c]) ascii_whitespace) = map (\<lambda>c. [c]) ascii_whitespace"
    by simp
  ultimately show ?thesis
    by (cases s) (simp_all add: utf8_whitespace_def strip_one_append strip_one_chars comp_def)
qed

lemma strip_all_ascii:
  "list_all is_ascii s \<Longrightarrow>
    strip_all (map rev utf8_whitespace) s = dropWhile (\<lambda>c. c \<in> set ascii_whitespace) s"
proof (induction s)
  case Nil
  then show ?case by (simp add: strip_all.simps strip_one_ascii)
next
  case (Cons x xs)
  then show ?case
    by (subst strip_all.simps) (simp add: strip_one_ascii)
qed

lemma trim_end_ascii:
  "list_all is_ascii s \<Longrightarrow>
    trim_end s = rev (dropWhile (\<lambda>c. c \<in> set ascii_whitespace) (rev s))"
  by (simp add: trim_end_def strip_all_ascii list_all_iff)

lemma strip_one_ascii_front:
  assumes "list_all is_ascii s"
  shows "strip_one utf8_whitespace s =
    (case s of [] \<Rightarrow> None | x # xs \<Rightarrow> if x \<in> set ascii_whitespace then Some xs else None)"
proof -
  have "\<forall>p \<in> set wide_whitespace. p \<noteq> [] \<longrightarrow> \<not> is_ascii (hd p)"
    by (simp add: wide_whitespace_def is_ascii_def)
  with assms have "strip_one wide_whitespace s = None"
    by (intro strip_one_no_match) (auto simp: list_all_iff)
  then show ?thesis
    by (cases s) (simp_all add: utf8_whitespace_def strip_one_append strip_one_chars comp_def)
qed

lemma trim_start_ascii:
  "list_all is_ascii s \<Longrightarrow> trim_start s = dropWhile (\<lambda>c. c \<in> set ascii_whitespace) s"
  unfolding trim_start_def
proof (induction s)
  case Nil
  then show ?case by (simp add: strip_all.simps strip_one_ascii_front)
next
  case (Cons x xs)
  then show ?case
    by (subst strip_all.simps) (simp add: strip_one_ascii_front)
qed

text \<open>Trimming a text that neither starts nor ends with white space, followed by white space.\<close>

lemma trim_padded:
  assumes "list_all is_ascii s" and "list_all (\<lambda>c. c \<in> set ascii_whitespace) pad"
    and "s \<noteq> []" and "hd s \<notin> set ascii_whitespace" and "last s \<notin> set ascii_whitespace"
  shows "trim (s @ pad) = s"
proof -
  have ascii: "list_all is_ascii (s @ pad)"
  proof -
    have "is_ascii c" if "c \<in> set ascii_whitespace" for c
      using that by (auto simp: is_ascii_def ascii_whitespace_def)
    with assms(1,2) show ?thesis by (auto simp: list_all_iff)
  qed
  have "trim_start (s @ pad) = s @ pad"
    unfolding trim_start_ascii [OF ascii] using assms(3,4) by (cases s) simp_all
  moreover have "dropWhile (\<lambda>c. c \<in> set ascii_whitespace) (rev pad @ rev s)
      = dropWhile (\<lambda>c. c \<in> set ascii_whitespace) (rev s)"
    using assms(2) by (intro dropWhile_append2) (simp add: list_all_iff)
  moreover have "dropWhile (\<lambda>c. c \<in> set ascii_whitespace) (rev s) = rev s"
    using assms(3,5) by (cases s rule: rev_cases) simp_all
  ultimately show ?thesis
    unfolding trim_def by (simp only: trim_end_ascii [OF ascii] rev_append rev_rev_ident)
qed

lemma trim_end_prefix: "\<exists>suf. s = trim_end s @ suf"
proof -
  obtain pre where "rev s = pre @ strip_all (map rev utf8_whitespace) (rev s)"
    using strip_all_suffix by blast
  then have "s = trim_end s @ rev pre"
    by (metis rev_append rev_rev_ident trim_end_def)
  then show ?thesis by blast
qed

subsection \<open>Lines\<close>

text \<open>\<open>str::lines\<close>: the pieces between line feeds, without a final empty one. The carriage return it
  also drops from the end of a line plays no part where the program uses it.\<close>

fun str_lines :: "string \<Rightarrow> string list" where
  "str_lines [] = []"
| "str_lines (c # cs) =
     (if c = CHR 0x0A then [] # str_lines cs
      else (case str_lines cs of [] \<Rightarrow> [[c]] | l # ls \<Rightarrow> (c # l) # ls))"

definition write_lines :: "string list \<Rightarrow> string" where
  "write_lines ls = concat (map (\<lambda>l. l @ [CHR 0x0A]) ls)"

lemma str_lines_line: "CHR 0x0A \<notin> set l \<Longrightarrow> str_lines (l @ CHR 0x0A # rest) = l # str_lines rest"
  by (induction l) auto

lemma str_lines_write: "(\<And>l. l \<in> set ls \<Longrightarrow> CHR 0x0A \<notin> set l) \<Longrightarrow> str_lines (write_lines ls) = ls"
  by (induction ls) (simp_all add: write_lines_def str_lines_line)

subsection \<open>Parsing unsigned integers\<close>

datatype int_error_kind = Empty | InvalidDigit | PosOverflow

definition digit_value :: "char \<Rightarrow> nat option" where
  "digit_value c =
     (let n = ord c in
      if 48 \<le> n \<and> n \<le> 57 then Some (n - 48)
      else if 97 \<le> n \<and> n \<le> 122 then Some (n - 87)
      else if 65 \<le> n \<and> n \<le> 90 then Some (n - 55)
      else None)"

definition to_digit :: "nat \<Rightarrow> char \<Rightarrow> nat option" where
  "to_digit radix c =
     (case digit_value c of None \<Rightarrow> None | Some d \<Rightarrow> if d < radix then Some d else None)"

text \<open>
  The digit loop: multiply with an overflow check, look the digit up, report a bad digit before an
  overflow of the product, then add with an overflow check. \<open>lim\<close> is \<open>2\<close> to the width.
\<close>

fun digits_loop :: "nat \<Rightarrow> nat \<Rightarrow> nat \<Rightarrow> string \<Rightarrow> int_error_kind + nat" where
  "digits_loop lim radix acc [] = Inr acc"
| "digits_loop lim radix acc (c # cs) =
     (case to_digit radix c of
        None \<Rightarrow> Inl InvalidDigit
      | Some d \<Rightarrow>
          if lim \<le> acc * radix then Inl PosOverflow
          else if lim \<le> acc * radix + d then Inl PosOverflow
          else digits_loop lim radix (acc * radix + d) cs)"

text \<open>An empty source, a lone sign, one optional leading plus; a minus is not a digit.\<close>

definition from_str_radix :: "nat \<Rightarrow> nat \<Rightarrow> string \<Rightarrow> int_error_kind + nat" where
  "from_str_radix lim radix src =
     (if src = [] then Inl Empty
      else if src = ''+'' \<or> src = ''-'' then Inl InvalidDigit
      else if hd src = CHR ''+'' then digits_loop lim radix 0 (tl src)
      else digits_loop lim radix 0 src)"

definition show_int_error :: "int_error_kind \<Rightarrow> string" where
  "show_int_error k =
     (case k of
        Empty \<Rightarrow> ''cannot parse integer from empty string''
      | InvalidDigit \<Rightarrow> ''invalid digit found in string''
      | PosOverflow \<Rightarrow> ''number too large to fit in target type'')"

lemma digits_loop_bound: "digits_loop lim radix acc s = Inr n \<Longrightarrow> acc < lim \<Longrightarrow> n < lim"
  by (induction lim radix acc s rule: digits_loop.induct) (auto split: option.splits if_splits)

lemma from_str_radix_bound: "from_str_radix lim radix s = Inr n \<Longrightarrow> 0 < lim \<Longrightarrow> n < lim"
  by (auto simp: from_str_radix_def split: if_splits dest: digits_loop_bound)

subsection \<open>Formatting integers\<close>

definition digit_char :: "bool \<Rightarrow> nat \<Rightarrow> char" where
  "digit_char upper d =
     (if d < 10 then char_of (48 + d) else if upper then char_of (55 + d) else char_of (87 + d))"

fun fmt_radix :: "nat \<Rightarrow> bool \<Rightarrow> nat \<Rightarrow> string" where
  "fmt_radix radix upper n =
     (if n < radix \<or> radix < 2 then [digit_char upper n]
      else fmt_radix radix upper (n div radix) @ [digit_char upper (n mod radix)])"

declare fmt_radix.simps [simp del]

definition pad_zero :: "nat \<Rightarrow> string \<Rightarrow> string" where
  "pad_zero w s = replicate (w - length s) (CHR ''0'') @ s"

text \<open>
  \<open>{}\<close>; \<open>{:x}\<close> and \<open>{:X}\<close> with a zero-padded width; \<open>{:#x}\<close>; and \<open>{:#0w x}\<close>, whose width
  counts the \<open>0x\<close> prefix.
\<close>

definition fmt_dec :: "nat \<Rightarrow> string" where
  "fmt_dec n = fmt_radix 10 False n"

definition fmt_hex :: "nat \<Rightarrow> nat \<Rightarrow> string" where
  "fmt_hex w n = pad_zero w (fmt_radix 16 False n)"

definition fmt_HEX :: "nat \<Rightarrow> nat \<Rightarrow> string" where
  "fmt_HEX w n = pad_zero w (fmt_radix 16 True n)"

definition fmt_hex_alt :: "nat \<Rightarrow> nat \<Rightarrow> string" where
  "fmt_hex_alt w n = ''0x'' @ fmt_hex (w - 2) n"

definition fmt_HEX_alt :: "nat \<Rightarrow> nat \<Rightarrow> string" where
  "fmt_HEX_alt w n = ''0x'' @ fmt_HEX (w - 2) n"

lemma to_digit_digit_char:
  assumes "d < radix" and "radix \<le> 36"
  shows "to_digit radix (digit_char upper d) = Some d"
  using assms by (auto simp: to_digit_def digit_char_def digit_value_def Let_def)

lemma digits_loop_append:
  "digits_loop lim radix acc (s @ t) =
     (case digits_loop lim radix acc s of Inl e \<Rightarrow> Inl e | Inr n \<Rightarrow> digits_loop lim radix n t)"
  by (induction lim radix acc s rule: digits_loop.induct) (auto split: option.splits)

lemma digits_loop_fmt_radix:
  assumes radix: "2 \<le> radix" "radix \<le> 36"
  shows "n < lim \<Longrightarrow> digits_loop lim radix 0 (fmt_radix radix upper n) = Inr n"
proof (induction n rule: less_induct)
  case (less n)
  note dig = to_digit_digit_char [OF _ radix(2)]
  show ?case
  proof (cases "n < radix")
    case True
    with less.prems radix show ?thesis
      by (simp add: fmt_radix.simps [of radix upper n] dig)
  next
    case False
    define q where "q = n div radix"
    define r where "r = n mod radix"
    have n: "n = q * radix + r" and r: "r < radix" and "q < n"
      using False radix by (simp_all add: q_def r_def)
    from less.prems \<open>q < n\<close> have "digits_loop lim radix 0 (fmt_radix radix upper q) = Inr q"
      by (intro less.IH) simp_all
    moreover have "fmt_radix radix upper n = fmt_radix radix upper q @ [digit_char upper r]"
      using False radix by (subst fmt_radix.simps) (simp add: q_def r_def)
    ultimately show ?thesis
      using less.prems n r by (simp add: digits_loop_append dig)
  qed
qed

lemma digits_loop_zeros:
  assumes "2 \<le> radix" and "0 < lim"
  shows "digits_loop lim radix 0 (replicate k (CHR ''0'') @ s) = digits_loop lim radix 0 s"
proof (induction k)
  case 0
  then show ?case by simp
next
  case (Suc k)
  with assms show ?case by (simp add: to_digit_def digit_value_def)
qed

lemma fmt_radix_chars:
  assumes radix: "2 \<le> radix" "radix \<le> 36"
  shows "c \<in> set (fmt_radix radix upper n) \<Longrightarrow> \<exists>d < radix. c = digit_char upper d"
proof (induction n rule: less_induct)
  case (less n)
  show ?case
  proof (cases "n < radix")
    case True
    with less.prems radix show ?thesis by (auto simp: fmt_radix.simps [of radix upper n])
  next
    case False
    then have smaller: "n div radix < n" using radix by simp
    from False less.prems radix
    have "c \<in> set (fmt_radix radix upper (n div radix)) \<or> c = digit_char upper (n mod radix)"
      by (auto simp: fmt_radix.simps [of radix upper n])
    then show ?thesis
    proof
      assume "c \<in> set (fmt_radix radix upper (n div radix))"
      with smaller show ?thesis by (rule less.IH)
    next
      assume "c = digit_char upper (n mod radix)"
      moreover have "n mod radix < radix" using radix by simp
      ultimately show ?thesis by blast
    qed
  qed
qed

lemma fmt_radix_not_Nil [simp]: "fmt_radix radix upper n \<noteq> []"
  by (subst fmt_radix.simps) simp

text \<open>Printing then parsing returns the number, at any width that holds it.\<close>

lemma from_str_radix_fmt:
  assumes radix: "2 \<le> radix" "radix \<le> 36" and n: "n < lim"
  shows "from_str_radix lim radix (pad_zero w (fmt_radix radix upper n)) = Inr n"
proof -
  let ?s = "pad_zero w (fmt_radix radix upper n)"
  have "0 < lim" using n by simp
  then have loop: "digits_loop lim radix 0 ?s = Inr n"
    using radix n by (simp add: pad_zero_def digits_loop_zeros digits_loop_fmt_radix)
  have no_sign: "\<forall>c \<in> set ?s. to_digit radix c \<noteq> None"
    using fmt_radix_chars [OF radix, of _ upper n] to_digit_digit_char [OF _ radix(2)] radix
    by (fastforce simp: pad_zero_def to_digit_def digit_value_def)
  moreover have "to_digit radix (CHR ''+'') = None" and "to_digit radix (CHR ''-'') = None"
    by (simp_all add: to_digit_def digit_value_def)
  moreover have ne: "?s \<noteq> []" by (simp add: pad_zero_def)
  ultimately have "hd ?s \<noteq> CHR ''+''" and "?s \<noteq> ''-''"
    by (metis list.set_sel(1), metis list.set_intros(1))
  with ne loop show ?thesis by (auto simp: from_str_radix_def)
qed

lemma whitespace_ord: "c \<in> set ascii_whitespace \<Longrightarrow> ord c \<le> 32"
  by (auto simp: ascii_whitespace_def)

lemma digit_char_ascii:
  assumes "d < 36"
  shows "is_ascii (digit_char upper d) \<and> digit_char upper d \<notin> set ascii_whitespace"
proof -
  have "48 \<le> ord (digit_char upper d)" "ord (digit_char upper d) < 128"
    using assms by (simp_all add: digit_char_def)
  with whitespace_ord [of "digit_char upper d"] show ?thesis by (auto simp: is_ascii_def)
qed

lemma trim_fmt_radix:
  assumes radix: "2 \<le> radix" "radix \<le> 36" and "list_all (\<lambda>c. c \<in> set ascii_whitespace) pad"
  shows "trim (pad_zero w (fmt_radix radix upper n) @ pad) = pad_zero w (fmt_radix radix upper n)"
proof -
  have digit: "is_ascii c \<and> c \<notin> set ascii_whitespace" if "c \<in> set (pad_zero w (fmt_radix radix upper n))" for c
  proof -
    have "c = digit_char upper 0 \<or> c \<in> set (fmt_radix radix upper n)"
      using that by (auto simp: pad_zero_def digit_char_def char_of_def bit_0)
    then obtain d where "d < radix" "c = digit_char upper d"
      using fmt_radix_chars [OF radix, of c upper n] radix by fastforce
    then show ?thesis using radix by (simp add: digit_char_ascii)
  qed
  have "pad_zero w (fmt_radix radix upper n) \<noteq> []" by (simp add: pad_zero_def)
  then show ?thesis
    using digit by (intro trim_padded) (auto simp: list_all_iff assms(3) [unfolded list_all_iff])
qed

lemma trim_fmt_hex: "list_all (\<lambda>c. c \<in> set ascii_whitespace) pad \<Longrightarrow> trim (fmt_hex w n @ pad) = fmt_hex w n"
  unfolding fmt_hex_def by (rule trim_fmt_radix) simp_all

lemma trim_fmt_dec: "list_all (\<lambda>c. c \<in> set ascii_whitespace) pad \<Longrightarrow> trim (fmt_dec n @ pad) = fmt_dec n"
  using trim_fmt_radix [of 10 pad 0 False n] by (simp add: fmt_dec_def pad_zero_def)

end
