(* ===== verification/Proto_Error.thy ===== *)
theory Proto_Error
  imports Report Rust_Str
begin

text \<open>
  The protocol error type, \<open>crates/razer-proto/src/error.rs\<close>, with the text its \<open>Display\<close> prints.
\<close>

datatype proto_error =
    DataSizeTooLarge u8
  | ResponseMismatch string u32 u32
  | DeviceStatus status
  | BadCrc u8 u8
  | Malformed string

fun proto_error_display :: "proto_error \<Rightarrow> string" where
  "proto_error_display (DataSizeTooLarge got) =
     ''data_size '' @ fmt_dec (unat got) @ '' exceeds the 80-byte argument array''"
| "proto_error_display (ResponseMismatch field expected got) =
     ''response '' @ field @ '' mismatch: expected '' @ fmt_hex_alt 4 (unat expected)
       @ '', got '' @ fmt_hex_alt 4 (unat got)"
| "proto_error_display (DeviceStatus st) =
     ''device returned status '' @ fmt_hex_alt 4 (unat (status_to_u8 st))"
| "proto_error_display (BadCrc expected got) =
     ''bad crc: expected '' @ fmt_hex_alt 4 (unat expected)
       @ '', got '' @ fmt_hex_alt 4 (unat got)"
| "proto_error_display (Malformed what) = ''malformed report: '' @ what"

end
