(* ===== verification/Hid_Error.thy ===== *)
theory Hid_Error
  imports Proto_Error
begin

text \<open>
  The error type of enumeration and transport, \<open>crates/razer-hid/src/error.rs\<close>: its variants, the
  device status an error carries, the test for an idle wireless receiver, and the text \<open>Display\<close>
  prints. An \<open>errno\<close> (\<open>i32\<close>) is an integer, a path is its text.
\<close>

datatype hid_error =
    DeviceNotFound u16 u16 u8
  | UnsupportedDevice u16
  | Unsupported u16 string
  | DeviceIdentityMismatch string "u16 \<times> u16" "u16 \<times> u16"
  | Io string int
  | ShortRead nat
  | Sysfs string
  | Proto proto_error
  | RetriesExhausted proto_error

definition terminal_status :: "hid_error \<Rightarrow> status option" where
  "terminal_status e =
     (case e of
        RetriesExhausted (DeviceStatus st) \<Rightarrow> Some st
      | Proto (DeviceStatus st) \<Rightarrow> Some st
      | _ \<Rightarrow> None)"

definition is_receiver_idle :: "hid_error \<Rightarrow> bool" where
  "is_receiver_idle e \<longleftrightarrow> terminal_status e = Some Timeout"

text \<open>\<open>{}\<close> on an \<open>i32\<close>.\<close>

definition fmt_int :: "int \<Rightarrow> string" where
  "fmt_int i = (if i < 0 then ''-'' @ fmt_dec (nat (- i)) else fmt_dec (nat i))"

fun hid_error_display :: "hid_error \<Rightarrow> string" where
  "hid_error_display (DeviceNotFound vid p interface) =
     ''no hidraw node for '' @ fmt_hex 4 (unat vid) @ '':'' @ fmt_hex 4 (unat p)
       @ '' on USB interface '' @ fmt_dec (unat interface)"
| "hid_error_display (UnsupportedDevice p) =
     ''product id '' @ fmt_hex_alt 6 (unat p) @ '' is not a supported device''"
| "hid_error_display (Unsupported p what) =
     ''device '' @ fmt_hex_alt 6 (unat p) @ '' does not support '' @ what"
| "hid_error_display (DeviceIdentityMismatch path expected got) =
     path @ '' is '' @ fmt_hex 4 (unat (fst got)) @ '':'' @ fmt_hex 4 (unat (snd got))
       @ '', not the '' @ fmt_hex 4 (unat (fst expected)) @ '':'' @ fmt_hex 4 (unat (snd expected))
       @ '' that was enumerated (the device re-enumerated and the node number was reused)''"
| "hid_error_display (Io oper errno) = oper @ '' failed: errno '' @ fmt_int errno"
| "hid_error_display (ShortRead got) =
     ''short feature read: got '' @ fmt_dec got @ '' bytes, expected '' @ fmt_dec 91"
| "hid_error_display (Sysfs msg) = ''sysfs: '' @ msg"
| "hid_error_display (Proto e) = ''protocol error: '' @ proto_error_display e"
| "hid_error_display (RetriesExhausted last_error) =
     ''all 5 attempts failed, last error: '' @ proto_error_display last_error"

definition hid_error_source :: "hid_error \<Rightarrow> proto_error option" where
  "hid_error_source e = (case e of Proto p \<Rightarrow> Some p | RetriesExhausted p \<Rightarrow> Some p | _ \<Rightarrow> None)"

lemma terminal_status_Some:
  "terminal_status e = Some st \<longleftrightarrow> e \<in> {RetriesExhausted (DeviceStatus st), Proto (DeviceStatus st)}"
  by (auto simp: terminal_status_def split: hid_error.splits proto_error.splits)

lemma is_receiver_idle_iff:
  "is_receiver_idle e \<longleftrightarrow> e \<in> {RetriesExhausted (DeviceStatus Timeout), Proto (DeviceStatus Timeout)}"
  by (simp add: is_receiver_idle_def terminal_status_Some)

lemma terminal_status_source:
  "terminal_status e = Some st \<Longrightarrow> hid_error_source e = Some (DeviceStatus st)"
  by (auto simp: terminal_status_Some hid_error_source_def)

end
