(* ===== verification/Transport.thy ===== *)
theory Transport
  imports Hid_Error
begin

text \<open>
  The feature-report transport, \<open>crates/razer-hid/src/transport.rs\<close>.

  \<open>hid_io\<close> is what a session borrows: the two methods of the trait \<open>FeatureTransport\<close> and the method
  of the trait \<open>Clock\<close>, all acting on one world \<open>'w\<close> behind the two mutable references. The locale
  \<open>feature_transport\<close> is the contract of the trait, as its documentation states it. \<open>HidrawDevice\<close> is
  the implementation over the kernel, whose system calls (\<open>open\<close>, \<open>close\<close>, \<open>ioctl\<close>, the sleep) are the
  fields of a record \<open>os\<close> and the parameter of the definitions; an \<open>ioctl\<close> is given the buffer, and
  overwrites at most its length, which is the size encoded in the request number.
\<close>

subsection \<open>Constants\<close>

definition HIDRAW_BUF_LEN :: nat where "HIDRAW_BUF_LEN = 91"
definition HIDIOCSFEATURE_91 :: u64 where "HIDIOCSFEATURE_91 = 0xC05B4806"
definition HIDIOCGFEATURE_91 :: u64 where "HIDIOCGFEATURE_91 = 0xC05B4807"
definition HIDIOCGRAWINFO :: u64 where "HIDIOCGRAWINFO = 0x80084803"

subsection \<open>The interface a session uses\<close>

record 'w hid_io =
  set_feature :: "bytes \<Rightarrow> 'w \<Rightarrow> (hid_error + unit) \<times> 'w"
  get_feature :: "bytes \<Rightarrow> 'w \<Rightarrow> ((hid_error + nat) \<times> bytes) \<times> 'w"
  clock_sleep :: "nat \<Rightarrow> 'w \<Rightarrow> 'w"

locale feature_transport =
  fixes E :: "'w hid_io" and inv :: "'w \<Rightarrow> bool"
  assumes set_feature_err:
    "set_feature E buf w = (Inl e, w') \<Longrightarrow> \<exists>errno. e = Io ''HIDIOCSFEATURE'' errno"
    and get_feature_err:
    "get_feature E buf w = ((Inl e, buf'), w') \<Longrightarrow> \<exists>errno. e = Io ''HIDIOCGFEATURE'' errno"
    and get_feature_length:
    "inv w \<Longrightarrow> length buf = HIDRAW_BUF_LEN \<Longrightarrow> get_feature E buf w = ((res, buf'), w') \<Longrightarrow>
      length buf' = HIDRAW_BUF_LEN"
    and set_feature_inv:
    "inv w \<Longrightarrow> length buf = HIDRAW_BUF_LEN \<Longrightarrow> set_feature E buf w = (x, w') \<Longrightarrow> inv w'"
    and get_feature_inv:
    "inv w \<Longrightarrow> length buf = HIDRAW_BUF_LEN \<Longrightarrow> get_feature E buf w = (y, w') \<Longrightarrow> inv w'"
    and clock_sleep_inv:
    "inv w \<Longrightarrow> inv (clock_sleep E d w)"

subsection \<open>The kernel\<close>

record hidraw_devinfo =
  di_bustype :: u32
  di_vendor :: int
  di_product :: int

record raw_info =
  bustype :: u32
  vendor_id :: u16
  product_id :: u16

text \<open>
  The result of a call is its return code with the \<open>errno\<close> it leaves, if the platform says; a
  feature \<open>ioctl\<close> also yields the bytes it put into the buffer.
\<close>

record 'k os =
  os_open :: "string \<Rightarrow> 'k \<Rightarrow> (int option + nat) \<times> 'k"
  os_close :: "nat \<Rightarrow> 'k \<Rightarrow> 'k"
  os_feature :: "nat \<Rightarrow> u64 \<Rightarrow> bytes \<Rightarrow> 'k \<Rightarrow> (int \<times> int option \<times> bytes) \<times> 'k"
  os_rawinfo :: "nat \<Rightarrow> u64 \<Rightarrow> 'k \<Rightarrow> (int \<times> int option \<times> hidraw_devinfo) \<times> 'k"
  os_sleep :: "nat \<Rightarrow> 'k \<Rightarrow> 'k"

definition write_back :: "bytes \<Rightarrow> bytes \<Rightarrow> bytes" where
  "write_back buf new = take (length buf) new @ drop (length new) buf"

definition last_errno :: "int option \<Rightarrow> int" where
  "last_errno errno = (case errno of None \<Rightarrow> 0 | Some n \<Rightarrow> n)"

subsection \<open>HidrawDevice\<close>

record hidraw_device =
  dev_file :: nat
  dev_path :: string

definition hidraw_path :: "hidraw_device \<Rightarrow> string" where "hidraw_path dev = dev_path dev"

text \<open>The \<open>Debug\<close> output shows the path, quoted by the standard library, and not the open file.\<close>

definition hidraw_debug :: "(string \<Rightarrow> string) \<Rightarrow> hidraw_device \<Rightarrow> string" where
  "hidraw_debug quote dev = ''HidrawDevice { path: '' @ quote (dev_path dev) @ '', .. }''"

definition hidraw_open :: "'k os \<Rightarrow> string \<Rightarrow> 'k \<Rightarrow> (hid_error + hidraw_device) \<times> 'k" where
  "hidraw_open os p k =
     (case os_open os p k of
        (Inl errno, k') \<Rightarrow> (Inl (Io ''open'' (last_errno errno)), k')
      | (Inr fd, k') \<Rightarrow> (Inr \<lparr>dev_file = fd, dev_path = p\<rparr>, k'))"

text \<open>\<open>info.vendor as u16\<close>: the signed 16-bit value reinterpreted.\<close>

definition hidraw_raw_info :: "'k os \<Rightarrow> hidraw_device \<Rightarrow> 'k \<Rightarrow> (hid_error + raw_info) \<times> 'k" where
  "hidraw_raw_info os dev k =
     (case os_rawinfo os (dev_file dev) HIDIOCGRAWINFO k of
        ((rc, errno, info), k') \<Rightarrow>
          if rc < 0 then (Inl (Io ''HIDIOCGRAWINFO'' (last_errno errno)), k')
          else (Inr \<lparr>bustype = di_bustype info, vendor_id = word_of_int (di_vendor info),
                     product_id = word_of_int (di_product info)\<rparr>, k'))"

text \<open>Dropping a device closes its descriptor.\<close>

definition hidraw_drop :: "'k os \<Rightarrow> hidraw_device \<Rightarrow> 'k \<Rightarrow> 'k" where
  "hidraw_drop os dev k = os_close os (dev_file dev) k"

text \<open>Every early return of \<open>open_expecting\<close> after the open drops the device.\<close>

definition hidraw_open_expecting ::
  "'k os \<Rightarrow> string \<Rightarrow> u16 \<Rightarrow> u16 \<Rightarrow> 'k \<Rightarrow> (hid_error + hidraw_device) \<times> 'k" where
  "hidraw_open_expecting os p vid prd k =
     (case hidraw_open os p k of
        (Inl e, k1) \<Rightarrow> (Inl e, k1)
      | (Inr dev, k1) \<Rightarrow>
          (case hidraw_raw_info os dev k1 of
             (Inl e, k2) \<Rightarrow> (Inl e, hidraw_drop os dev k2)
           | (Inr info, k2) \<Rightarrow>
               if vendor_id info \<noteq> vid \<or> product_id info \<noteq> prd then
                 (Inl (DeviceIdentityMismatch (dev_path dev) (vid, prd)
                    (vendor_id info, product_id info)), hidraw_drop os dev k2)
               else (Inr dev, k2)))"

definition hidraw_set_feature ::
  "'k os \<Rightarrow> bytes \<Rightarrow> hidraw_device \<times> 'k \<Rightarrow> (hid_error + unit) \<times> hidraw_device \<times> 'k" where
  "hidraw_set_feature os buf w =
     (case w of (dev, k) \<Rightarrow>
        (case os_feature os (dev_file dev) HIDIOCSFEATURE_91 buf k of
           ((rc, errno, scratch), k') \<Rightarrow>
             if rc < 0 then (Inl (Io ''HIDIOCSFEATURE'' (last_errno errno)), dev, k')
             else (Inr (), dev, k')))"

definition hidraw_get_feature ::
  "'k os \<Rightarrow> bytes \<Rightarrow> hidraw_device \<times> 'k \<Rightarrow> ((hid_error + nat) \<times> bytes) \<times> hidraw_device \<times> 'k" where
  "hidraw_get_feature os buf w =
     (case w of (dev, k) \<Rightarrow>
        let buf = buf[0 := 0x00] in
        (case os_feature os (dev_file dev) HIDIOCGFEATURE_91 buf k of
           ((rc, errno, new), k') \<Rightarrow>
             if rc < 0 then ((Inl (Io ''HIDIOCGFEATURE'' (last_errno errno)), write_back buf new), dev, k')
             else ((Inr (nat rc), write_back buf new), dev, k')))"

text \<open>The real clock blocks the thread in the kernel.\<close>

definition real_clock_sleep :: "'k os \<Rightarrow> nat \<Rightarrow> 'k \<Rightarrow> 'k" where [simp]:
  "real_clock_sleep os d k = os_sleep os d k"

text \<open>A device and the real clock together, as the binary hands them to a session.\<close>

definition hidraw_io :: "'k os \<Rightarrow> (hidraw_device \<times> 'k) hid_io" where
  "hidraw_io os =
     \<lparr>set_feature = hidraw_set_feature os,
      get_feature = hidraw_get_feature os,
      clock_sleep = (\<lambda>d (dev, k). (dev, real_clock_sleep os d k))\<rparr>"

lemma length_write_back [simp]: "length (write_back buf new) = length buf"
  by (simp add: write_back_def)

interpretation hidraw: feature_transport "hidraw_io os" "\<lambda>_. True" for os :: "'k os"
proof unfold_locales
  fix buf w e w'
  assume "set_feature (hidraw_io os) buf w = (Inl e, w')"
  then show "\<exists>errno. e = Io ''HIDIOCSFEATURE'' errno"
    by (auto simp: hidraw_io_def hidraw_set_feature_def split: prod.splits if_splits)
next
  fix buf w e buf' w'
  assume "get_feature (hidraw_io os) buf w = ((Inl e, buf'), w')"
  then show "\<exists>errno. e = Io ''HIDIOCGFEATURE'' errno"
    by (auto simp: hidraw_io_def hidraw_get_feature_def Let_def split: prod.splits if_splits)
next
  fix buf w res buf' w'
  assume "get_feature (hidraw_io os) buf w = ((res, buf'), w')" and "length buf = HIDRAW_BUF_LEN"
  then show "length buf' = HIDRAW_BUF_LEN"
    by (auto simp: hidraw_io_def hidraw_get_feature_def Let_def split: prod.splits if_splits)
qed simp_all

subsection \<open>Request numbers\<close>

text \<open>The kernel's \<open>_IOC\<close> macro.\<close>

definition ioc :: "nat \<Rightarrow> nat \<Rightarrow> nat \<Rightarrow> nat \<Rightarrow> u64" where
  "ioc dir type_code nr sz =
     push_bit 30 (of_nat dir) OR push_bit 16 (of_nat sz) OR push_bit 8 (of_nat type_code) OR of_nat nr"

text \<open>The three request numbers are those of the kernel's macro, for a 91-byte buffer (the report
  id and the 90-byte report) and for an 8-byte device-info structure.\<close>

theorem request_numbers:
  "HIDIOCSFEATURE_91 = ioc 3 0x48 0x06 HIDRAW_BUF_LEN \<and>
   HIDIOCGFEATURE_91 = ioc 3 0x48 0x07 HIDRAW_BUF_LEN \<and>
   HIDIOCGRAWINFO = ioc 2 0x48 0x03 8 \<and> HIDRAW_BUF_LEN = Suc REPORT_LEN"
  by (simp add: ioc_def HIDIOCSFEATURE_91_def HIDIOCGFEATURE_91_def HIDIOCGRAWINFO_def
      HIDRAW_BUF_LEN_def REPORT_LEN_def)

subsection \<open>Opening the right node\<close>

text \<open>The system calls a run makes, recorded beside the kernel state.\<close>

datatype os_event =
    OpenEv string
  | CloseEv nat
  | FeatureEv nat u64 bytes
  | RawInfoEv nat
  | OsSleepEv nat

definition traced_os :: "'k os \<Rightarrow> ('k \<times> os_event list) os" where
  "traced_os os =
     \<lparr>os_open = (\<lambda>p (k, tr). case os_open os p k of (x, k') \<Rightarrow> (x, k', tr @ [OpenEv p])),
      os_close = (\<lambda>fd (k, tr). (os_close os fd k, tr @ [CloseEv fd])),
      os_feature = (\<lambda>fd req buf (k, tr).
        case os_feature os fd req buf k of (x, k') \<Rightarrow> (x, k', tr @ [FeatureEv fd req buf])),
      os_rawinfo = (\<lambda>fd req (k, tr).
        case os_rawinfo os fd req k of (x, k') \<Rightarrow> (x, k', tr @ [RawInfoEv fd])),
      os_sleep = (\<lambda>d (k, tr). (os_sleep os d k, tr @ [OsSleepEv d]))\<rparr>"

text \<open>An id above 0x7FFF, which the kernel hands over as a negative number, survives the cast.\<close>

lemma signed_id_survives: "(word_of_int (sint v) :: u16) = v" for v :: u16
  by simp

definition identity_checked :: "'k os \<Rightarrow> u16 \<Rightarrow> u16 \<Rightarrow> nat \<Rightarrow> bool" where
  "identity_checked os vid prd fd \<longleftrightarrow>
     (\<exists>k rc errno info k'. os_rawinfo os fd HIDIOCGRAWINFO k = ((rc, errno, info), k') \<and> 0 \<le> rc \<and>
        word_of_int (di_vendor info) = vid \<and> word_of_int (di_product info) = prd)"

definition open_outcome ::
  "'k os \<Rightarrow> string \<Rightarrow> u16 \<Rightarrow> u16 \<Rightarrow> hid_error + hidraw_device \<Rightarrow> os_event list \<Rightarrow> bool" where
  "open_outcome os p vid prd res evs =
     (case res of
        Inr dev \<Rightarrow> dev_path dev = p \<and> evs = [OpenEv p, RawInfoEv (dev_file dev)] \<and>
          identity_checked os vid prd (dev_file dev)
      | Inl e \<Rightarrow>
          (evs = [OpenEv p] \<and> (\<exists>n. e = Io ''open'' n)) \<or>
          (\<exists>fd. evs = [OpenEv p, RawInfoEv fd, CloseEv fd] \<and>
            ((\<exists>n. e = Io ''HIDIOCGRAWINFO'' n) \<or>
             (\<exists>got. got \<noteq> (vid, prd) \<and> e = DeviceIdentityMismatch p (vid, prd) got))))"

lemma open_expecting_outcome:
  assumes "hidraw_open_expecting (traced_os os) p vid prd (k, tr) = (res, k', tr')"
  shows "\<exists>evs. tr' = tr @ evs \<and> open_outcome os p vid prd res evs"
proof -
  obtain r1 k1 where o: "os_open os p k = (r1, k1)" by fastforce
  show ?thesis
  proof (cases r1)
    case (Inl errno)
    with o assms show ?thesis
      by (auto simp: hidraw_open_expecting_def hidraw_open_def traced_os_def open_outcome_def)
  next
    case (Inr fd)
    obtain rc errno info k2 where r: "os_rawinfo os fd HIDIOCGRAWINFO k1 = ((rc, errno, info), k2)"
      by (metis prod.exhaust)
    show ?thesis
    proof (cases "rc < 0")
      case True
      with o r Inr assms show ?thesis
        by (auto simp: hidraw_open_expecting_def hidraw_open_def hidraw_raw_info_def hidraw_drop_def
            traced_os_def open_outcome_def)
    next
      case False
      with r have "identity_checked os (word_of_int (di_vendor info)) (word_of_int (di_product info)) fd"
        unfolding identity_checked_def by (metis not_less)
      with False o r Inr assms show ?thesis
        by (auto simp: hidraw_open_expecting_def hidraw_open_def hidraw_raw_info_def hidraw_drop_def
            traced_os_def open_outcome_def split: if_splits)
    qed
  qed
qed


text \<open>C11: a device is handed out only after the kernel has confirmed, for the very descriptor that is
  held, the vendor and product id that were asked for; every failure after the open closes that
  descriptor; and no feature report is sent or read on any path.\<close>

theorem open_expecting_safe:
  assumes "hidraw_open_expecting (traced_os os) p vid prd (k, []) = (res, k', tr)"
  shows "case res of
      Inr dev \<Rightarrow> dev_path dev = p \<and> tr = [OpenEv p, RawInfoEv (dev_file dev)] \<and>
        identity_checked os vid prd (dev_file dev)
    | Inl e \<Rightarrow>
        (tr = [OpenEv p] \<and> (\<exists>n. e = Io ''open'' n)) \<or>
        (\<exists>fd. tr = [OpenEv p, RawInfoEv fd, CloseEv fd] \<and>
          ((\<exists>n. e = Io ''HIDIOCGRAWINFO'' n) \<or>
           (\<exists>got. got \<noteq> (vid, prd) \<and> e = DeviceIdentityMismatch p (vid, prd) got)))"
  using open_expecting_outcome [OF assms] by (simp add: open_outcome_def)

text \<open>A kernel on which every node is a Razer device that answers every report.\<close>

definition silent_os :: "unit os" where
  "silent_os =
     \<lparr>os_open = (\<lambda>_ k. (Inr 3, k)), os_close = (\<lambda>_ k. k),
      os_feature = (\<lambda>_ _ _ k. ((91, None, []), k)),
      os_rawinfo = (\<lambda>_ _ k. ((0, None, \<lparr>di_bustype = 3, di_vendor = 0x1532, di_product = 0xAA\<rparr>), k)),
      os_sleep = (\<lambda>_ k. k)\<rparr>"

theorem open_expecting_safe_witness:
  "identity_checked silent_os 0x1532 0xAA 3"
proof -
  have "hidraw_open_expecting (traced_os silent_os) ''/dev/hidraw3'' 0x1532 0xAA ((), [])
      = (Inr \<lparr>dev_file = 3, dev_path = ''/dev/hidraw3''\<rparr>, (), [OpenEv ''/dev/hidraw3'', RawInfoEv 3])"
    by (simp add: hidraw_open_expecting_def hidraw_open_def hidraw_raw_info_def traced_os_def silent_os_def)
  from open_expecting_safe [OF this] show ?thesis by simp
qed

end
