(* ===== verification/Cmd.thy ===== *)
theory Cmd
  imports Proto_Error
begin

text \<open>
  The command constructors, \<open>crates/razer-proto/src/cmd.rs\<close>. Every call site of \<open>with_args\<close> passes a
  short literal, so the constructors are written with \<open>fill_args\<close>, the copy behind the assertion;
  \<open>constructors_never_panic\<close> shows that the assertion holds at each of them.
\<close>

subsection \<open>Standard device commands\<close>

definition cmd_set_device_mode :: "device_mode \<Rightarrow> razer_report" where
  "cmd_set_device_mode mode = fill_args (new_report 0x00 0x04 0x02) [device_mode_to_u8 mode, 0x00]"

definition cmd_get_device_mode :: razer_report where
  "cmd_get_device_mode = new_report 0x00 0x84 0x02"

definition cmd_get_firmware_version :: razer_report where
  "cmd_get_firmware_version = new_report 0x00 0x81 0x02"

definition cmd_get_serial :: razer_report where
  "cmd_get_serial = new_report 0x00 0x82 0x16"

subsection \<open>Extended matrix commands\<close>

definition cmd_set_brightness :: "storage \<Rightarrow> led_id \<Rightarrow> u8 \<Rightarrow> razer_report" where
  "cmd_set_brightness storage led brightness =
     fill_args (new_report 0x0F 0x04 0x03) [storage_as_u8 storage, led_id_as_u8 led, brightness]"

definition cmd_get_brightness :: "storage \<Rightarrow> led_id \<Rightarrow> razer_report" where
  "cmd_get_brightness storage led =
     fill_args (new_report 0x0F 0x84 0x03) [storage_as_u8 storage, led_id_as_u8 led]"

definition cmd_set_static_effect :: "storage \<Rightarrow> led_id \<Rightarrow> rgb \<Rightarrow> razer_report" where
  "cmd_set_static_effect storage led colour =
     fill_args (new_report 0x0F 0x02 0x09)
       [storage_as_u8 storage, led_id_as_u8 led, 0x01, 0x00, 0x00, 0x01,
        rgb_r colour, rgb_g colour, rgb_b colour]"

definition cmd_set_effect_none :: "storage \<Rightarrow> led_id \<Rightarrow> razer_report" where
  "cmd_set_effect_none storage led =
     fill_args (new_report 0x0F 0x02 0x06) [storage_as_u8 storage, led_id_as_u8 led, 0x00]"

subsection \<open>Polling rate\<close>

definition cmd_set_poll_rate_legacy :: "poll_rate \<Rightarrow> proto_error + razer_report" where
  "cmd_set_poll_rate_legacy rate =
     (case ok_or (Malformed ''poll rate has no legacy encoding'') (legacy_code rate) of
        Inl e \<Rightarrow> Inl e
      | Inr code \<Rightarrow> Inr (fill_args (new_report 0x00 0x05 0x01) [code]))"

definition cmd_get_poll_rate_legacy :: razer_report where
  "cmd_get_poll_rate_legacy = new_report 0x00 0x85 0x01"

definition cmd_set_poll_rate_v2 :: "poll_rate \<Rightarrow> u8 \<Rightarrow> razer_report" where
  "cmd_set_poll_rate_v2 rate argument =
     fill_args (new_report 0x00 0x40 0x02) [argument, v2_code rate]"

definition cmd_get_poll_rate_v2 :: razer_report where
  "cmd_get_poll_rate_v2 = new_report 0x00 0xC0 0x01"

text \<open>The reports a constructor can return, as one predicate.\<close>

inductive constructed :: "razer_report \<Rightarrow> bool" where
  "constructed (cmd_set_device_mode mode)"
| "constructed cmd_get_device_mode"
| "constructed cmd_get_firmware_version"
| "constructed cmd_get_serial"
| "constructed (cmd_set_brightness storage led brightness)"
| "constructed (cmd_get_brightness storage led)"
| "constructed (cmd_set_static_effect storage led colour)"
| "constructed (cmd_set_effect_none storage led)"
| "cmd_set_poll_rate_legacy rate = Inr rep \<Longrightarrow> constructed rep"
| "constructed cmd_get_poll_rate_legacy"
| "constructed (cmd_set_poll_rate_v2 rate argument)"
| "constructed cmd_get_poll_rate_v2"

lemmas cmd_defs =
  cmd_set_device_mode_def cmd_get_device_mode_def cmd_get_firmware_version_def cmd_get_serial_def
  cmd_set_brightness_def cmd_get_brightness_def cmd_set_static_effect_def cmd_set_effect_none_def
  cmd_set_poll_rate_legacy_def cmd_get_poll_rate_legacy_def cmd_set_poll_rate_v2_def cmd_get_poll_rate_v2_def

lemma fill_args_new:
  "length xs \<le> ARGS_LEN \<Longrightarrow>
    arguments (fill_args (new_report c i n) xs) = xs @ replicate (ARGS_LEN - length xs) 0"
  by (simp add: fill_args_def new_report_def copy_slice_def)

lemma fill_args_fields [simp]:
  "status (fill_args rep xs) = status rep"
  "transaction_id (fill_args rep xs) = transaction_id rep"
  "remaining_packets (fill_args rep xs) = remaining_packets rep"
  "protocol_type (fill_args rep xs) = protocol_type rep"
  "data_size (fill_args rep xs) = data_size rep"
  "command_class (fill_args rep xs) = command_class rep"
  "command_id (fill_args rep xs) = command_id rep"
  "crc_byte (fill_args rep xs) = crc_byte rep"
  "reserved (fill_args rep xs) = reserved rep"
  by (simp_all add: fill_args_def)

lemma new_report_fields [simp]:
  "status (new_report c i n) = New"
  "transaction_id (new_report c i n) = 0"
  "remaining_packets (new_report c i n) = 0"
  "protocol_type (new_report c i n) = 0"
  "data_size (new_report c i n) = n"
  "command_class (new_report c i n) = c"
  "command_id (new_report c i n) = i"
  "crc_byte (new_report c i n) = 0"
  "reserved (new_report c i n) = 0"
  "arguments (new_report c i n) = replicate ARGS_LEN 0"
  by (simp_all add: new_report_def)

text \<open>
  What every constructor returns: a new host command with no id stamped, zero fields where the wire
  wants zeros, and no payload byte beyond the declared size.
\<close>

definition clean_request :: "razer_report \<Rightarrow> bool" where
  "clean_request rep \<longleftrightarrow>
     wf_report rep \<and> status rep = New \<and> transaction_id rep = 0 \<and> remaining_packets rep = 0 \<and>
     protocol_type rep = 0 \<and> reserved rep = 0 \<and> unat (data_size rep) \<le> ARGS_LEN \<and>
     (\<exists>payload. length payload \<le> unat (data_size rep) \<and>
       arguments rep = payload @ replicate (ARGS_LEN - length payload) 0)"

lemma clean_requestI:
  assumes "length xs \<le> unat n" and "unat n \<le> ARGS_LEN"
  shows "clean_request (fill_args (new_report c i n) xs)"
  using assms by (auto simp: clean_request_def fill_args_new wf_report_def)

lemma clean_new_report: "unat n \<le> ARGS_LEN \<Longrightarrow> clean_request (new_report c i n)"
  by (auto simp: clean_request_def wf_report_def intro!: exI [of _ "[]"])

lemma constructed_is_clean: "constructed rep \<Longrightarrow> clean_request rep"
  by (erule constructed.cases)
    (auto simp: cmd_defs ARGS_LEN_def split: sum.splits intro!: clean_requestI clean_new_report)

lemma constructed_cmd [simp]:
  "constructed (cmd_set_device_mode mode)" "constructed cmd_get_device_mode"
  "constructed cmd_get_firmware_version" "constructed cmd_get_serial"
  "constructed (cmd_set_brightness storage led brightness)"
  "constructed (cmd_get_brightness storage led)"
  "constructed (cmd_set_static_effect storage led colour)"
  "constructed (cmd_set_effect_none storage led)"
  "constructed cmd_get_poll_rate_legacy" "constructed (cmd_set_poll_rate_v2 rate argument)"
  "constructed cmd_get_poll_rate_v2"
  by (rule constructed.intros)+

lemma is_get_cmd [simp]:
  "is_get cmd_get_device_mode" "is_get cmd_get_firmware_version" "is_get cmd_get_serial"
  "is_get (cmd_get_brightness storage led)" "is_get cmd_get_poll_rate_legacy" "is_get cmd_get_poll_rate_v2"
  "\<not> is_get (cmd_set_device_mode mode)" "\<not> is_get (cmd_set_brightness storage led brightness)"
  "\<not> is_get (cmd_set_static_effect storage led colour)" "\<not> is_get (cmd_set_poll_rate_v2 rate argument)"
  by (simp_all add: is_get_def cmd_defs)

text \<open>No constructor stamps a transaction id: every report built by a command constructor is a
  new host command with transaction id 0, no remaining packets, zero protocol type and reserved
  byte, a data size of at most 80 and zeros after the declared payload.\<close>

theorem constructed_clean:
  assumes "constructed rep"
  shows "clean_request rep"
  using assms by (rule constructed_is_clean)

theorem constructed_clean_witness: "clean_request (cmd_set_device_mode Driver)"
  by (rule constructed_clean) (rule constructed.intros)

text \<open>The assertion of \<open>with_args\<close> holds at every call site: each constructor is the successful
  result of \<open>with_args\<close> on its literal, so none of them can panic.\<close>

theorem constructors_never_panic:
  "with_args (new_report 0x00 0x04 0x02) [device_mode_to_u8 mode, 0x00] = Some (cmd_set_device_mode mode) \<and>
   with_args (new_report 0x0F 0x04 0x03) [storage_as_u8 st, led_id_as_u8 led, bright]
     = Some (cmd_set_brightness st led bright) \<and>
   with_args (new_report 0x0F 0x84 0x03) [storage_as_u8 st, led_id_as_u8 led]
     = Some (cmd_get_brightness st led) \<and>
   with_args (new_report 0x0F 0x02 0x09)
     [storage_as_u8 st, led_id_as_u8 led, 0x01, 0x00, 0x00, 0x01, rgb_r c, rgb_g c, rgb_b c]
     = Some (cmd_set_static_effect st led c) \<and>
   with_args (new_report 0x0F 0x02 0x06) [storage_as_u8 st, led_id_as_u8 led, 0x00]
     = Some (cmd_set_effect_none st led) \<and>
   with_args (new_report 0x00 0x40 0x02) [arg, v2_code rate] = Some (cmd_set_poll_rate_v2 rate arg) \<and>
   (case legacy_code rate of
      None \<Rightarrow> cmd_set_poll_rate_legacy rate = Inl (Malformed ''poll rate has no legacy encoding'')
    | Some code \<Rightarrow>
        map_option Inr (with_args (new_report 0x00 0x05 0x01) [code]) = Some (cmd_set_poll_rate_legacy rate))"
  by (cases "legacy_code rate") (simp_all add: with_args_def cmd_defs ARGS_LEN_def)

text \<open>The device-mode frame, byte for byte: whatever id is stamped, it is the id, the command
  0x00/0x04 with two payload bytes, the mode byte 0x00 or 0x03, zeros, and a checksum that is 0x06
  for normal mode and 0x05 for driver mode.\<close>

theorem device_mode_frame:
  "to_bytes (with_transaction_id (cmd_set_device_mode mode) tid) =
     [0x00, tid, 0x00, 0x00, 0x00, 0x02, 0x00, 0x04, device_mode_to_u8 mode, 0x00]
     @ replicate 78 0x00
     @ [case mode of Normal \<Rightarrow> 0x06 | Driver \<Rightarrow> 0x05, 0x00]"
proof -
  let ?rep = "with_transaction_id (cmd_set_device_mode mode) tid"
  have args: "arguments ?rep = device_mode_to_u8 mode # 0 # replicate 78 0"
    by (simp add: with_transaction_id_def cmd_set_device_mode_def fill_args_new ARGS_LEN_def)
  then have "wf_report ?rep" by (simp add: wf_report_def ARGS_LEN_def)
  moreover have "to_be_bytes 0 = [0, 0]" by (simp add: to_be_bytes_def)
  ultimately show ?thesis
    using args
    by (cases mode) (simp_all add: to_bytes_eq with_transaction_id_def cmd_set_device_mode_def)
qed

text \<open>The two vectors of \<open>tests/fixtures/golden_vectors.txt\<close> that are not device-mode frames.\<close>

lemma golden_firmware_version:
  "to_bytes (with_transaction_id cmd_get_firmware_version 0x1F) =
     [0x00, 0x1F, 0x00, 0x00, 0x00, 0x02, 0x00, 0x81] @ replicate 80 0 @ [0x83, 0x00]"
  by (simp add: to_bytes_eq with_transaction_id_def cmd_get_firmware_version_def wf_report_def
      to_be_bytes_def ARGS_LEN_def)

lemma golden_serial:
  "to_bytes (with_transaction_id cmd_get_serial 0x1F) =
     [0x00, 0x1F, 0x00, 0x00, 0x00, 0x16, 0x00, 0x82] @ replicate 80 0 @ [0x94, 0x00]"
  by (simp add: to_bytes_eq with_transaction_id_def cmd_get_serial_def wf_report_def
      to_be_bytes_def ARGS_LEN_def)

end
