(* ===== verification/Parse.thy ===== *)
theory Parse
  imports Cmd
begin

text \<open>
  Validation and decoding of reports, \<open>crates/razer-proto/src/parse.rs\<close>: the outbound guard, the
  acceptance test for a response with its checks in the order of the code, and the payload readers
  with their argument indices. The lemmas characterise acceptance completely and describe the text
  that the serial reader can return.
\<close>

subsection \<open>Guards\<close>

definition check_data_size :: "razer_report \<Rightarrow> proto_error + unit" where
  "check_data_size rep =
     (if ARGS_LEN < unat (data_size rep) then Inl (DataSizeTooLarge (data_size rep)) else Inr ())"

definition check_request :: "razer_report \<Rightarrow> proto_error + unit" where
  "check_request request =
     (case check_data_size request of
        Inl e \<Rightarrow> Inl e
      | Inr _ \<Rightarrow>
          if protocol_type request \<noteq> 0x00 then
            Inl (Malformed ''protocol_type must be 0x00 on an outbound report'')
          else if reserved request \<noteq> 0x00 then
            Inl (Malformed ''reserved must be 0x00 on an outbound report'')
          else Inr ())"

definition check_response :: "razer_report \<Rightarrow> razer_report \<Rightarrow> proto_error + unit" where
  "check_response request response =
     (case check_data_size request of
        Inl e \<Rightarrow> Inl e
      | Inr _ \<Rightarrow>
          (case check_data_size response of
             Inl e \<Rightarrow> Inl e
           | Inr _ \<Rightarrow>
               if remaining_packets response \<noteq> remaining_packets request then
                 Inl (ResponseMismatch ''remaining_packets''
                   (ucast (remaining_packets request)) (ucast (remaining_packets response)))
               else if command_class response \<noteq> command_class request then
                 Inl (ResponseMismatch ''command_class''
                   (ucast (command_class request)) (ucast (command_class response)))
               else if command_id response \<noteq> command_id request then
                 Inl (ResponseMismatch ''command_id''
                   (ucast (command_id request)) (ucast (command_id response)))
               else if is_ok (status response) then Inr ()
               else Inl (DeviceStatus (status response))))"

subsection \<open>Payload readers\<close>

text \<open>\<open>raw.iter().position(|&b| b == 0x00).unwrap_or(raw.len())\<close> is the length of the NUL-free prefix.\<close>

definition parse_serial :: "razer_report \<Rightarrow> proto_error + string" where
  "parse_serial response =
     (let raw = take 22 (arguments response);
          end' = length (takeWhile (\<lambda>b. b \<noteq> 0x00) raw);
          trimmed = take end' raw
      in if \<not> list_all (\<lambda>b. unat b < 128) trimmed then Inl (Malformed ''serial is not ASCII'')
         else Inr (trim_end (map char_of_byte trimmed)))"

definition parse_firmware_version :: "razer_report \<Rightarrow> proto_error + u8 \<times> u8" where
  "parse_firmware_version response = Inr (arguments response ! 0, arguments response ! 1)"

definition parse_device_mode :: "razer_report \<Rightarrow> proto_error + u8 \<times> u8" where
  "parse_device_mode response = Inr (arguments response ! 0, arguments response ! 1)"

definition parse_brightness :: "razer_report \<Rightarrow> proto_error + u8" where
  "parse_brightness response = Inr (arguments response ! 2)"

definition parse_poll_rate_legacy :: "razer_report \<Rightarrow> proto_error + poll_rate" where
  "parse_poll_rate_legacy response =
     ok_or (Malformed ''unknown legacy poll rate code'') (from_legacy_code (arguments response ! 0))"

definition parse_poll_rate_v2 :: "razer_report \<Rightarrow> proto_error + poll_rate" where
  "parse_poll_rate_v2 response =
     ok_or (Malformed ''unknown v2 poll rate code'') (from_v2_code (arguments response ! 1))"

subsection \<open>Acceptance\<close>

lemma check_data_size_ok [simp]:
  "check_data_size rep = Inr u \<longleftrightarrow> unat (data_size rep) \<le> ARGS_LEN"
  by (auto simp: check_data_size_def)

lemma check_data_size_err [simp]:
  "check_data_size rep = Inl e \<longleftrightarrow>
     ARGS_LEN < unat (data_size rep) \<and> e = DataSizeTooLarge (data_size rep)"
  by (auto simp: check_data_size_def)

lemma check_request_ok [simp]:
  "check_request rep = Inr u \<longleftrightarrow>
     unat (data_size rep) \<le> ARGS_LEN \<and> protocol_type rep = 0 \<and> reserved rep = 0"
  by (auto simp: check_request_def check_data_size_def)

lemma check_request_cong:
  "data_size rep = data_size rep' \<Longrightarrow> protocol_type rep = protocol_type rep' \<Longrightarrow>
    reserved rep = reserved rep' \<Longrightarrow> check_request rep = check_request rep'"
  by (simp add: check_request_def check_data_size_def)

lemma constructed_check_request:
  "constructed rep \<Longrightarrow> check_request rep = Inr ()"
  by (auto simp: clean_request_def dest: constructed_is_clean)

lemma constructed_wf: "constructed rep \<Longrightarrow> wf_report rep"
  by (auto simp: clean_request_def dest: constructed_is_clean)

text \<open>The outbound guard accepts exactly the reports whose data size fits the 80-byte argument
  array and whose protocol type and reserved byte are zero; it does not look at the transaction id,
  the status, the routing fields or the arguments.\<close>

theorem check_request_iff:
  "(check_request rep = Inr () \<longleftrightarrow>
     unat (data_size rep) \<le> 80 \<and> protocol_type rep = 0 \<and> reserved rep = 0) \<and>
   check_request (rep\<lparr>status := st, transaction_id := tid, remaining_packets := rp,
     command_class := c, command_id := i, arguments := xs, crc_byte := v\<rparr>) = check_request rep"
  by (auto simp: ARGS_LEN_def intro: check_request_cong)

lemma check_response_ok:
  "check_response request response = Inr u \<longleftrightarrow>
     unat (data_size request) \<le> ARGS_LEN \<and> unat (data_size response) \<le> ARGS_LEN \<and>
     remaining_packets response = remaining_packets request \<and>
     command_class response = command_class request \<and>
     command_id response = command_id request \<and> is_ok (status response)"
  by (auto simp: check_response_def check_data_size_def)

text \<open>C8: a response is accepted exactly when both data sizes fit, the three routing fields echo the
  request and the status is Successful or Busy; it is rejected with the device's status exactly when
  everything but the status is right; and neither the transaction id, nor the checksum, nor the
  payload of the response plays any part.\<close>

theorem check_response_iff:
  "(check_response request response = Inr () \<longleftrightarrow>
     unat (data_size request) \<le> 80 \<and> unat (data_size response) \<le> 80 \<and>
     remaining_packets response = remaining_packets request \<and>
     command_class response = command_class request \<and>
     command_id response = command_id request \<and>
     status response \<in> {Successful, Busy}) \<and>
   (check_response request response = Inl (DeviceStatus st) \<longleftrightarrow>
     unat (data_size request) \<le> 80 \<and> unat (data_size response) \<le> 80 \<and>
     remaining_packets response = remaining_packets request \<and>
     command_class response = command_class request \<and>
     command_id response = command_id request \<and>
     status response = st \<and> st \<notin> {Successful, Busy}) \<and>
   check_response request (response\<lparr>transaction_id := t, crc_byte := c, arguments := xs\<rparr>)
     = check_response request response"
  by (auto simp: check_response_def check_data_size_def ARGS_LEN_def is_ok_iff)

subsection \<open>The serial\<close>

lemma serial_eq:
  "parse_serial response =
     (let chars = takeWhile (\<lambda>b. b \<noteq> 0) (take 22 (arguments response))
      in if list_all (\<lambda>b. unat b < 128) chars then Inr (trim_end (map char_of_byte chars))
         else Inl (Malformed ''serial is not ASCII''))"
  unfolding parse_serial_def Let_def takeWhile_eq_take [symmetric] by simp

lemma ascii_map_char: "list_all is_ascii (map char_of_byte bs) \<longleftrightarrow> list_all (\<lambda>b. unat b < 128) bs"
  by (simp add: list_all_iff is_ascii_def)

lemma last_dropWhile_rev:
  "rev (dropWhile P (rev s)) \<noteq> [] \<Longrightarrow> \<not> P (last (rev (dropWhile P (rev s))))"
  by (simp add: last_rev hd_dropWhile)

text \<open>A serial that is returned is at most 22 characters of ASCII, contains no NUL and does not
  end in white space, and it depends on the first 22 argument bytes alone.\<close>

theorem serial_shape:
  assumes "parse_serial response = Inr s"
    and "take 22 (arguments response') = take 22 (arguments response)"
  shows "length s \<le> 22 \<and> list_all (\<lambda>c. 0 < ord c \<and> ord c < 128) s \<and>
    (s = [] \<or> last s \<notin> set ascii_whitespace) \<and> parse_serial response' = Inr s"
proof -
  define chars where "chars = takeWhile (\<lambda>b. b \<noteq> 0) (take 22 (arguments response))"
  from assms(1) have ascii: "list_all (\<lambda>b. unat b < 128) chars"
    and s: "s = trim_end (map char_of_byte chars)"
    by (auto simp: serial_eq chars_def Let_def split: if_splits)
  obtain suf where suf: "map char_of_byte chars = s @ suf"
    using trim_end_prefix s by blast
  have "length chars \<le> 22"
    unfolding chars_def by (metis length_take length_takeWhile_le min.bounded_iff order.trans)
  moreover have "length s \<le> length chars"
    using arg_cong [OF suf, of length] by simp
  moreover have "list_all (\<lambda>c. 0 < ord c \<and> ord c < 128) s"
    unfolding list_all_iff
  proof
    fix c assume "c \<in> set s"
    then have "c \<in> char_of_byte ` set chars" using suf by (metis Un_iff set_append set_map)
    then obtain v where v: "v \<in> set chars" "c = char_of_byte v" by blast
    then have "v \<noteq> 0" unfolding chars_def by (auto dest: set_takeWhileD)
    then have "unat v \<noteq> 0" by (simp add: unat_eq_0)
    with v ascii show "0 < ord c \<and> ord c < 128" by (simp add: list_all_iff)
  qed
  moreover have "s = [] \<or> last s \<notin> set ascii_whitespace"
    using last_dropWhile_rev [of "\<lambda>c. c \<in> set ascii_whitespace" "map char_of_byte chars"]
    by (auto simp add: s trim_end_ascii ascii_map_char ascii)
  moreover have "parse_serial response' = Inr s"
    using assms by (simp add: serial_eq)
  ultimately show ?thesis by linarith
qed

text \<open>
  A serial as firmware stores it: printable text, padding white space, then a NUL or the end of the
  22-byte field.
\<close>

definition serial_field :: "bytes \<Rightarrow> bytes \<Rightarrow> bytes \<Rightarrow> bool" where
  "serial_field bs pad rest \<longleftrightarrow>
     list_all (\<lambda>v. 0 < unat v \<and> unat v < 128) bs \<and>
     (bs \<noteq> [] \<longrightarrow> char_of_byte (last bs) \<notin> set ascii_whitespace) \<and>
     list_all (\<lambda>v. v \<in> {0x09, 0x0A, 0x0B, 0x0C, 0x0D, 0x20}) pad \<and>
     length (bs @ pad) \<le> 22 \<and> (length (bs @ pad) = 22 \<or> (rest \<noteq> [] \<and> hd rest = 0))"

lemma pad_whitespace:
  "v \<in> {0x09, 0x0A, 0x0B, 0x0C, 0x0D, 0x20} \<Longrightarrow>
    char_of_byte v \<in> set ascii_whitespace \<and> 0 < unat v \<and> unat v < 128"
  by (auto simp: char_of_byte_eq ascii_whitespace_def)

lemma serial_field_prefix:
  assumes "serial_field bs pad rest"
  shows "takeWhile (\<lambda>v. v \<noteq> 0) (take 22 (bs @ pad @ rest)) = bs @ pad"
proof -
  have nz: "\<forall>v \<in> set (bs @ pad). v \<noteq> 0"
    using assms pad_whitespace by (fastforce simp: serial_field_def list_all_iff)
  show ?thesis
  proof (cases "length (bs @ pad) = 22")
    case True
    then have "take 22 (bs @ pad @ rest) = bs @ pad" by simp
    with nz show ?thesis by (simp add: takeWhile_eq_all_conv)
  next
    case False
    with assms obtain rest' where rest: "rest = 0 # rest'" and len: "length (bs @ pad) < 22"
      by (cases rest) (auto simp: serial_field_def)
    then have "take 22 (bs @ pad @ rest) = (bs @ pad) @ 0 # take (21 - length (bs @ pad)) rest'"
      by (simp add: take_Cons' diff_diff_left)
    with nz show ?thesis by (simp add: takeWhile_append)
  qed
qed

lemma parse_serial_field:
  assumes "serial_field bs pad rest" and "arguments response = bs @ pad @ rest"
  shows "parse_serial response = Inr (map char_of_byte bs)"
proof -
  let ?ws = "\<lambda>c. c \<in> set ascii_whitespace"
  have ascii: "list_all (\<lambda>v. unat v < 128) (bs @ pad)"
    using assms(1) pad_whitespace by (fastforce simp: serial_field_def list_all_iff)
  have "\<forall>c \<in> set (map char_of_byte (rev pad)). ?ws c"
    using assms(1) pad_whitespace by (fastforce simp: serial_field_def list_all_iff)
  then have "dropWhile ?ws (rev (map char_of_byte (bs @ pad)))
      = dropWhile ?ws (map char_of_byte (rev bs))"
    by (auto simp: rev_map intro!: dropWhile_append2)
  also have "\<dots> = map char_of_byte (rev bs)"
    using assms(1) by (cases bs rule: rev_cases) (auto simp: serial_field_def)
  finally have "trim_end (map char_of_byte (bs @ pad)) = map char_of_byte bs"
    using ascii by (simp add: trim_end_ascii ascii_map_char rev_map del: map_append)
  then show ?thesis
    using ascii unfolding serial_eq assms(2) serial_field_prefix [OF assms(1)] Let_def by simp
qed

text \<open>Reading back a serial: when the argument array holds a text of ASCII bytes followed by
  optional white space and a NUL (or exactly fills the 22 bytes), the reader returns that text
  without the padding, whatever follows.\<close>

theorem serial_roundtrip:
  assumes "serial_field bs pad rest" and "arguments response = bs @ pad @ rest"
  shows "parse_serial response = Inr (map char_of_byte bs)"
  using assms by (rule parse_serial_field)

theorem serial_roundtrip_witness:
  "parse_serial (fill_args (new_report 0x00 0x82 0x16) [0x50, 0x4D, 0x31, 0x20, 0x20]) = Inr ''PM1''"
proof -
  have "parse_serial (fill_args (new_report 0x00 0x82 0x16) [0x50, 0x4D, 0x31, 0x20, 0x20])
      = Inr (map char_of_byte [0x50, 0x4D, 0x31])"
    by (rule serial_roundtrip [of _ "[0x20, 0x20]" "replicate 75 0"])
      (simp_all add: serial_field_def fill_args_new ARGS_LEN_def char_of_byte_eq ascii_whitespace_def)
  then show ?thesis by (simp add: char_of_byte_eq)
qed

theorem serial_shape_witness:
  "parse_serial (fill_args (new_report 0x02 0x82 0x16) [0x50, 0x4D, 0x31]) = Inr ''PM1''"
proof -
  have ascii: "list_all is_ascii ''PM1''" by (simp add: is_ascii_def)
  have chars: "map char_of_byte [0x50, 0x4D, 0x31] = ''PM1''" by (simp add: char_of_byte_eq)
  have "parse_serial (fill_args (new_report 0x00 0x82 0x16) [0x50, 0x4D, 0x31]) = Inr ''PM1''"
    using trim_end_ascii [OF ascii] chars
    by (simp add: serial_eq fill_args_new ARGS_LEN_def takeWhile_append ascii_whitespace_def)
  moreover have "take 22 (arguments (fill_args (new_report 0x02 0x82 0x16) [0x50, 0x4D, 0x31]))
      = take 22 (arguments (fill_args (new_report 0x00 0x82 0x16) [0x50, 0x4D, 0x31]))"
    by (simp add: fill_args_new ARGS_LEN_def)
  ultimately show ?thesis by (blast dest: serial_shape)
qed

end
