(* ===== verification/Devices.thy ===== *)
theory Devices
  imports Prelude
begin

text \<open>
  The device table, \<open>crates/razer-devices/src/capabilities.rs\<close> and \<open>table.rs\<close>: the capability
  bitset, the three entries and the lookup by product id. Durations are natural numbers of
  microseconds.
\<close>

subsection \<open>Capabilities\<close>

datatype capabilities = Capabilities (bits: u32)

definition CAP_NONE :: capabilities where "CAP_NONE = Capabilities 0"
definition CAP_DEVICE_MODE :: capabilities where "CAP_DEVICE_MODE = Capabilities (push_bit 0 1)"
definition CAP_FIRMWARE_VERSION :: capabilities where
  "CAP_FIRMWARE_VERSION = Capabilities (push_bit 1 1)"
definition CAP_SERIAL :: capabilities where "CAP_SERIAL = Capabilities (push_bit 2 1)"
definition CAP_BRIGHTNESS :: capabilities where "CAP_BRIGHTNESS = Capabilities (push_bit 3 1)"
definition CAP_STATIC_EFFECT :: capabilities where
  "CAP_STATIC_EFFECT = Capabilities (push_bit 4 1)"
definition CAP_POLL_RATE :: capabilities where "CAP_POLL_RATE = Capabilities (push_bit 5 1)"

definition contains :: "capabilities \<Rightarrow> capabilities \<Rightarrow> bool" where
  "contains self other \<longleftrightarrow> bits self AND bits other = bits other"

definition cap_union :: "capabilities \<Rightarrow> capabilities \<Rightarrow> capabilities" where
  "cap_union self other = Capabilities (bits self OR bits other)"

text \<open>The operator \<open>|\<close>.\<close>

definition cap_bitor :: "capabilities \<Rightarrow> capabilities \<Rightarrow> capabilities" where
  "cap_bitor self rhs = cap_union self rhs"

subsection \<open>The table\<close>

definition VENDOR_ID :: u16 where "VENDOR_ID = 0x1532"

datatype device_kind = Keyboard | Mouse

datatype poll_rate_kind = Legacy | V2

record device_entry =
  pid :: u16
  dev_name :: string
  kind :: device_kind
  dev_transaction_id :: u8
  report_index :: u8
  response_index :: u8
  wait :: nat
  capabilities :: capabilities
  default_led :: u8
  poll_rate_kind :: poll_rate_kind

definition COMMON_CAPS :: capabilities where
  "COMMON_CAPS = Capabilities
     (bits CAP_DEVICE_MODE OR bits CAP_FIRMWARE_VERSION OR bits CAP_SERIAL OR
      bits CAP_BRIGHTNESS OR bits CAP_STATIC_EFFECT OR bits CAP_POLL_RATE)"

definition ZERO_LED :: u8 where "ZERO_LED = 0x00"
definition BACKLIGHT_LED :: u8 where "BACKLIGHT_LED = 0x05"

definition basilisk_v3_pro_wired :: device_entry where
  "basilisk_v3_pro_wired =
     \<lparr>pid = 0x00AA, dev_name = ''Razer Basilisk V3 Pro (Wired)'', kind = Mouse,
      dev_transaction_id = 0x1F, report_index = 0x00, response_index = 0x00, wait = 31000,
      capabilities = COMMON_CAPS, default_led = ZERO_LED, poll_rate_kind = Legacy\<rparr>"

definition basilisk_v3_pro_wireless :: device_entry where
  "basilisk_v3_pro_wireless =
     \<lparr>pid = 0x00AB, dev_name = ''Razer Basilisk V3 Pro (Wireless)'', kind = Mouse,
      dev_transaction_id = 0x1F, report_index = 0x00, response_index = 0x00, wait = 31000,
      capabilities = COMMON_CAPS, default_led = ZERO_LED, poll_rate_kind = Legacy\<rparr>"

definition blackwidow_v4_pro :: device_entry where
  "blackwidow_v4_pro =
     \<lparr>pid = 0x028D, dev_name = ''Razer BlackWidow V4 Pro'', kind = Keyboard,
      dev_transaction_id = 0x1F, report_index = 0x03, response_index = 0x03, wait = 600,
      capabilities = COMMON_CAPS, default_led = BACKLIGHT_LED, poll_rate_kind = V2\<rparr>"

definition TABLE :: "device_entry list" where
  "TABLE = [basilisk_v3_pro_wired, basilisk_v3_pro_wireless, blackwidow_v4_pro]"

definition all_devices :: "device_entry list" where
  "all_devices = TABLE"

definition lookup :: "u16 \<Rightarrow> device_entry option" where
  "lookup p = List.find (\<lambda>e. pid e = p) TABLE"

subsection \<open>The capability set\<close>

lemmas cap_defs =
  CAP_NONE_def CAP_DEVICE_MODE_def CAP_FIRMWARE_VERSION_def CAP_SERIAL_def CAP_BRIGHTNESS_def
  CAP_STATIC_EFFECT_def CAP_POLL_RATE_def

text \<open>As sets of bit positions: containment is the subset relation and union is union.\<close>

definition cap_set :: "capabilities \<Rightarrow> nat set" where
  "cap_set c = {n. bit (bits c) n}"

lemma cap_set_inject: "cap_set a = cap_set b \<longleftrightarrow> a = b"
  by (cases a; cases b) (auto simp: cap_set_def set_eq_iff word_eq_bits)

text \<open>The capability word behaves as a finite set: \<open>contains\<close> is the superset relation on the set
  of its bits and \<open>union\<close> is the union, so a union contains exactly what either side contributes.\<close>

theorem capabilities_as_sets:
  "(contains a b \<longleftrightarrow> cap_set b \<subseteq> cap_set a) \<and>
   cap_set (cap_union a b) = cap_set a \<union> cap_set b \<and>
   (contains c (cap_union a b) \<longleftrightarrow> contains c a \<and> contains c b) \<and>
   contains (cap_union a b) a \<and> contains a CAP_NONE"
proof -
  have sub: "contains x y \<longleftrightarrow> cap_set y \<subseteq> cap_set x" for x y
    by (auto simp: contains_def cap_set_def word_eq_bits bit_and_iff subset_eq)
  moreover have un: "cap_set (cap_union x y) = cap_set x \<union> cap_set y" for x y
    by (auto simp: cap_union_def cap_set_def bit_or_iff)
  moreover have "cap_set CAP_NONE = {}" by (simp add: cap_set_def CAP_NONE_def)
  ultimately show ?thesis by auto
qed

subsection \<open>The table\<close>

lemmas device_defs =
  basilisk_v3_pro_wired_def basilisk_v3_pro_wireless_def blackwidow_v4_pro_def

lemma set_TABLE:
  "e \<in> set TABLE \<longleftrightarrow>
     e = basilisk_v3_pro_wired \<or> e = basilisk_v3_pro_wireless \<or> e = blackwidow_v4_pro"
  by (auto simp: TABLE_def)

lemma table_pids: "map pid TABLE = [0x00AA, 0x00AB, 0x028D]"
  by (simp add: TABLE_def device_defs)

lemma distinct_pids: "distinct (map pid TABLE)"
  by (simp add: table_pids)

lemma lookup_Some: "lookup p = Some e \<longleftrightarrow> e \<in> set TABLE \<and> pid e = p"
  unfolding lookup_def by (rule find_Some_distinct [OF distinct_pids])

lemma table_capability:
  assumes "e \<in> set TABLE"
    and "c \<in> {CAP_DEVICE_MODE, CAP_FIRMWARE_VERSION, CAP_SERIAL, CAP_BRIGHTNESS,
      CAP_STATIC_EFFECT, CAP_POLL_RATE}"
  shows "contains (capabilities e) c"
proof -
  have "capabilities e = COMMON_CAPS" using assms(1) by (auto simp: set_TABLE device_defs)
  with assms(2) show ?thesis by (auto simp: contains_def COMMON_CAPS_def cap_defs)
qed

text \<open>Looking a product id up returns an entry exactly for the three ids in the table, it is the
  one entry with that id, and every entry has the transaction id 0x1F (never 0xFF), equal report and
  response indices, all six capabilities and an LED the command constructors know.\<close>

theorem lookup_spec:
  "(lookup p = Some e \<longleftrightarrow> e \<in> set all_devices \<and> pid e = p) \<and>
   (lookup p \<noteq> None \<longleftrightarrow> p \<in> {0x00AA, 0x00AB, 0x028D}) \<and>
   sorted_wrt (\<lambda>x y. pid x < pid y) all_devices \<and>
   list_all (\<lambda>d. dev_transaction_id d = 0x1F \<and> report_index d = response_index d \<and>
      contains (capabilities d) COMMON_CAPS \<and> default_led d \<in> {0x00, 0x05} \<and>
      (poll_rate_kind d = V2 \<longleftrightarrow> kind d = Keyboard)) all_devices"
proof (intro conjI)
  show "lookup p = Some e \<longleftrightarrow> e \<in> set all_devices \<and> pid e = p"
    by (simp add: lookup_Some all_devices_def)
  have "lookup p = None \<longleftrightarrow> p \<notin> set (map pid TABLE)"
    by (simp add: lookup_def find_None_key)
  then show "lookup p \<noteq> None \<longleftrightarrow> p \<in> {0x00AA, 0x00AB, 0x028D}"
    by (simp add: table_pids)
  show "sorted_wrt (\<lambda>x y. pid x < pid y) all_devices"
    by (simp add: all_devices_def TABLE_def device_defs)
  show "list_all (\<lambda>d. dev_transaction_id d = 0x1F \<and> report_index d = response_index d \<and>
      contains (capabilities d) COMMON_CAPS \<and> default_led d \<in> {0x00, 0x05} \<and>
      (poll_rate_kind d = V2 \<longleftrightarrow> kind d = Keyboard)) all_devices"
    by (auto simp: list_all_iff all_devices_def set_TABLE device_defs contains_def ZERO_LED_def BACKLIGHT_LED_def)
qed

end
