(* ===== verification/Session.thy ===== *)
theory Session
  imports Transport Parse Devices
begin

text \<open>
  The session, \<open>crates/razer-hid/src/session.rs\<close>: a device table entry bound to a transport and a
  clock, the one function that stamps the transaction id, the transaction with its retry policy and
  the nine typed operations. The two borrowed objects are the field \<open>io\<close>, the world that the
  \<open>hid_io\<close> argument \<open>E\<close> acts on. Durations are microseconds.
\<close>

definition MAX_ATTEMPTS :: nat where "MAX_ATTEMPTS = 5"
definition RETRY_DELAY :: nat where "RETRY_DELAY = 10000"

record 'w session =
  entry :: device_entry
  io :: 'w
  sess_tid :: u8
  last_attempts :: u32
  last_response_tid :: "u8 option"

definition session_new :: "device_entry \<Rightarrow> 'w \<Rightarrow> 'w session" where
  "session_new e w =
     \<lparr>entry = e, io = w, sess_tid = dev_transaction_id e, last_attempts = 0,
      last_response_tid = None\<rparr>"

definition with_transaction_id_override :: "'w session \<Rightarrow> u8 \<Rightarrow> 'w session" where
  "with_transaction_id_override s tid = s\<lparr>sess_tid := tid\<rparr>"

text \<open>What a session reports of itself.\<close>

definition session_entry :: "'w session \<Rightarrow> device_entry" where "session_entry s = entry s"
definition session_transaction_id :: "'w session \<Rightarrow> u8" where "session_transaction_id s = sess_tid s"
definition attempts_consumed :: "'w session \<Rightarrow> u32" where "attempts_consumed s = last_attempts s"

definition last_response_transaction_id :: "'w session \<Rightarrow> u8 option" where
  "last_response_transaction_id s = last_response_tid s"

subsection \<open>One transaction\<close>

definition send :: "'w hid_io \<Rightarrow> razer_report \<Rightarrow> 'w session \<Rightarrow> (hid_error + unit) \<times> 'w session" where
  "send E request s =
     (case map_err Proto (check_request request) of
        Inl e \<Rightarrow> (Inl e, s)
      | Inr _ \<Rightarrow>
          let report = request\<lparr>transaction_id := sess_tid s\<rparr>;
              buf = replicate HIDRAW_BUF_LEN 0;
              buf = buf[0 := 0x00];
              buf = copy_slice 1 (to_bytes report) buf
          in case set_feature E buf (io s) of
               (Inl e, w) \<Rightarrow> (Inl e, s\<lparr>io := w\<rparr>)
             | (Inr _, w) \<Rightarrow> (Inr (), s\<lparr>io := clock_sleep E (wait (entry s)) w\<rparr>))"

definition receive :: "'w hid_io \<Rightarrow> 'w session \<Rightarrow> (hid_error + razer_report) \<times> 'w session" where
  "receive E s =
     (let buf = replicate HIDRAW_BUF_LEN 0 in
      case get_feature E buf (io s) of
        ((Inl e, buf), w) \<Rightarrow> (Inl e, s\<lparr>io := w\<rparr>)
      | ((Inr got, buf), w) \<Rightarrow>
          let s = s\<lparr>io := w\<rparr> in
          if got < HIDRAW_BUF_LEN then (Inl (ShortRead got), s)
          else (Inr (from_bytes (copy_slice 0 (drop 1 buf) (replicate (HIDRAW_BUF_LEN - 1) 0))), s))"

definition transact_raw ::
  "'w hid_io \<Rightarrow> razer_report \<Rightarrow> 'w session \<Rightarrow> (hid_error + razer_report) \<times> 'w session" where
  "transact_raw E request s = and_then (send E request s) (\<lambda>_ s. receive E s)"

text \<open>\<open>u32::try_from(attempt).unwrap_or(u32::MAX).saturating_add(1)\<close>\<close>

definition attempt_number :: "nat \<Rightarrow> u32" where
  "attempt_number attempt =
     (let n = (if attempt < 2 ^ 32 then of_nat attempt else - 1) in if n = - 1 then - 1 else n + 1)"

fun transact_loop ::
  "'w hid_io \<Rightarrow> razer_report \<Rightarrow> nat list \<Rightarrow> proto_error option \<Rightarrow> 'w session
     \<Rightarrow> (hid_error + razer_report) \<times> 'w session" where
  "transact_loop E request [] last_error s =
     (Inl (RetriesExhausted
        (case last_error of
           None \<Rightarrow> Malformed ''retry loop ended without a validated response''
         | Some e \<Rightarrow> e)), s)"
| "transact_loop E request (attempt # attempts) last_error s =
     (let s = (if 0 < attempt then s\<lparr>io := clock_sleep E RETRY_DELAY (io s)\<rparr> else s);
          s = s\<lparr>last_attempts := attempt_number attempt\<rparr>
      in and_then (transact_raw E request s) (\<lambda>response s.
           let s = s\<lparr>last_response_tid := Some (transaction_id response)\<rparr> in
           case check_response request response of
             Inr _ \<Rightarrow> (Inr response, s)
           | Inl e \<Rightarrow> transact_loop E request attempts (Some e) s))"

definition transact ::
  "'w hid_io \<Rightarrow> razer_report \<Rightarrow> 'w session \<Rightarrow> (hid_error + razer_report) \<times> 'w session" where
  "transact E request s = transact_loop E request [0..<MAX_ATTEMPTS] None s"

subsection \<open>Guards of the typed operations\<close>

definition require :: "'w session \<Rightarrow> capabilities \<Rightarrow> string \<Rightarrow> hid_error + unit" where
  "require s cap what =
     (if contains (capabilities (entry s)) cap then Inr ()
      else Inl (Unsupported (pid (entry s)) what))"

definition led :: "'w session \<Rightarrow> hid_error + led_id" where
  "led s =
     (let v = default_led (entry s) in
      if v = 0x00 then Inr Zero
      else if v = 0x01 then Inr ScrollWheel
      else if v = 0x04 then Inr Logo
      else if v = 0x05 then Inr Backlight
      else Inl (Unsupported (pid (entry s)) ''this LED id''))"

subsection \<open>Typed operations\<close>

definition set_device_mode ::
  "'w hid_io \<Rightarrow> device_mode \<Rightarrow> 'w session \<Rightarrow> (hid_error + unit) \<times> 'w session" where [session_defs]:
  "set_device_mode E mode s =
     and_then (require s CAP_DEVICE_MODE ''device mode'', s) (\<lambda>_ s.
     and_then (transact E (cmd_set_device_mode mode) s) (\<lambda>_ s. (Inr (), s)))"

definition get_device_mode ::
  "'w hid_io \<Rightarrow> 'w session \<Rightarrow> (hid_error + u8 \<times> u8) \<times> 'w session" where [session_defs]:
  "get_device_mode E s =
     and_then (require s CAP_DEVICE_MODE ''device mode'', s) (\<lambda>_ s.
     and_then (transact E cmd_get_device_mode s) (\<lambda>response s.
       (map_err Proto (parse_device_mode response), s)))"

definition firmware_version ::
  "'w hid_io \<Rightarrow> 'w session \<Rightarrow> (hid_error + u8 \<times> u8) \<times> 'w session" where [session_defs]:
  "firmware_version E s =
     and_then (require s CAP_FIRMWARE_VERSION ''firmware version'', s) (\<lambda>_ s.
     and_then (transact E cmd_get_firmware_version s) (\<lambda>response s.
       (map_err Proto (parse_firmware_version response), s)))"

definition serial :: "'w hid_io \<Rightarrow> 'w session \<Rightarrow> (hid_error + string) \<times> 'w session" where [session_defs]:
  "serial E s =
     and_then (require s CAP_SERIAL ''serial'', s) (\<lambda>_ s.
     and_then (transact E cmd_get_serial s) (\<lambda>response s.
       (map_err Proto (parse_serial response), s)))"

definition set_brightness ::
  "'w hid_io \<Rightarrow> u8 \<Rightarrow> 'w session \<Rightarrow> (hid_error + unit) \<times> 'w session" where [session_defs]:
  "set_brightness E brightness s =
     and_then (require s CAP_BRIGHTNESS ''brightness'', s) (\<lambda>_ s.
     and_then (led s, s) (\<lambda>l s.
     and_then (transact E (cmd_set_brightness VarStore l brightness) s) (\<lambda>_ s. (Inr (), s))))"

definition get_brightness :: "'w hid_io \<Rightarrow> 'w session \<Rightarrow> (hid_error + u8) \<times> 'w session" where [session_defs]:
  "get_brightness E s =
     and_then (require s CAP_BRIGHTNESS ''brightness'', s) (\<lambda>_ s.
     and_then (led s, s) (\<lambda>l s.
     and_then (transact E (cmd_get_brightness VarStore l) s) (\<lambda>response s.
       (map_err Proto (parse_brightness response), s))))"

definition set_static_effect ::
  "'w hid_io \<Rightarrow> rgb \<Rightarrow> 'w session \<Rightarrow> (hid_error + unit) \<times> 'w session" where [session_defs]:
  "set_static_effect E colour s =
     and_then (require s CAP_STATIC_EFFECT ''static effect'', s) (\<lambda>_ s.
     and_then (led s, s) (\<lambda>l s.
     and_then (transact E (cmd_set_static_effect VarStore l colour) s) (\<lambda>_ s. (Inr (), s))))"

definition set_poll_rate ::
  "'w hid_io \<Rightarrow> poll_rate \<Rightarrow> 'w session \<Rightarrow> (hid_error + unit) \<times> 'w session" where [session_defs]:
  "set_poll_rate E rate s =
     and_then (require s CAP_POLL_RATE ''poll rate'', s) (\<lambda>_ s.
     and_then
       (case poll_rate_kind (entry s) of
          V2 \<Rightarrow> Inr (cmd_set_poll_rate_v2 rate 0x00)
        | Legacy \<Rightarrow> map_err Proto (cmd_set_poll_rate_legacy rate), s) (\<lambda>request s.
     and_then (transact E request s) (\<lambda>_ s. (Inr (), s))))"

definition get_poll_rate ::
  "'w hid_io \<Rightarrow> 'w session \<Rightarrow> (hid_error + poll_rate) \<times> 'w session" where [session_defs]:
  "get_poll_rate E s =
     and_then (require s CAP_POLL_RATE ''poll rate'', s) (\<lambda>_ s.
       (case poll_rate_kind (entry s) of
          V2 \<Rightarrow>
            and_then (transact E cmd_get_poll_rate_v2 s) (\<lambda>response s.
              (map_err Proto (parse_poll_rate_v2 response), s))
        | Legacy \<Rightarrow>
            and_then (transact E cmd_get_poll_rate_legacy s) (\<lambda>response s.
              (map_err Proto (parse_poll_rate_legacy response), s))))"

subsection \<open>The frame on the wire\<close>

text \<open>The report id 0, then the encoded report with the session's id stamped.\<close>

definition frame :: "u8 \<Rightarrow> razer_report \<Rightarrow> bytes" where
  "frame tid request = 0x00 # to_bytes (with_transaction_id request tid)"

lemma wf_with_transaction_id [simp]: "wf_report (with_transaction_id rep tid) = wf_report rep"
  by (simp add: wf_report_def with_transaction_id_def)

lemma length_frame [simp]: "wf_report request \<Longrightarrow> length (frame tid request) = HIDRAW_BUF_LEN"
  by (simp add: frame_def HIDRAW_BUF_LEN_def REPORT_LEN_def)

lemma send_eq:
  assumes "wf_report request"
  shows "send E request s =
    (case map_err Proto (check_request request) of
       Inl e \<Rightarrow> (Inl e, s)
     | Inr _ \<Rightarrow>
         (case set_feature E (frame (sess_tid s) request) (io s) of
            (Inl e, w) \<Rightarrow> (Inl e, s\<lparr>io := w\<rparr>)
          | (Inr _, w) \<Rightarrow> (Inr (), s\<lparr>io := clock_sleep E (wait (entry s)) w\<rparr>)))"
proof -
  have "length (to_bytes (with_transaction_id request (sess_tid s))) = 90"
    using assms by (simp add: REPORT_LEN_def)
  then have "copy_slice 1 (to_bytes (with_transaction_id request (sess_tid s)))
      ((replicate HIDRAW_BUF_LEN 0)[0 := 0]) = frame (sess_tid s) request"
    by (simp add: copy_slice_def frame_def HIDRAW_BUF_LEN_def take_Suc_conv_app_nth)
  then show ?thesis
    unfolding send_def with_transaction_id_def Let_def by (simp only:)
qed

subsection \<open>Relations that every operation respects\<close>

text \<open>
  What holds across one send, one receive, one pause and the bookkeeping between them, and is
  reflexive and transitive, holds across every method of the session. \<open>Q\<close> restricts the requests;
  the typed operations only build requests with the command constructors.
\<close>

lemma and_then_snd:
  "R s (snd p) \<Longrightarrow> (\<And>v t. p = (Inr v, t) \<Longrightarrow> R t (snd (k v t))) \<Longrightarrow>
    (\<And>t u. R s t \<Longrightarrow> R t u \<Longrightarrow> R s u) \<Longrightarrow> R s (snd (and_then p k))"
  by (cases p rule: prod.exhaust, rename_tac r t, case_tac r) auto

lemma and_then_pure:
  "R s s \<Longrightarrow> (\<And>v. x = Inr v \<Longrightarrow> R s (snd (k v s))) \<Longrightarrow> R s (snd (and_then (x, s) k))"
  by (cases x) auto

lemma constructed_legacy: "cmd_set_poll_rate_legacy rate = Inr request \<Longrightarrow> constructed request"
  by (rule constructed.intros)

inductive typed_step :: "'w hid_io \<Rightarrow> 'w session \<Rightarrow> 'w session \<Rightarrow> bool" for E where
  "typed_step E s (snd (set_device_mode E mode s))"
| "typed_step E s (snd (get_device_mode E s))"
| "typed_step E s (snd (firmware_version E s))"
| "typed_step E s (snd (serial E s))"
| "typed_step E s (snd (set_brightness E v s))"
| "typed_step E s (snd (get_brightness E s))"
| "typed_step E s (snd (set_static_effect E colour s))"
| "typed_step E s (snd (set_poll_rate E rate s))"
| "typed_step E s (snd (get_poll_rate E s))"

text \<open>The public methods that take any report.\<close>

inductive raw_step :: "'w hid_io \<Rightarrow> 'w session \<Rightarrow> 'w session \<Rightarrow> bool" for E where
  "wf_report request \<Longrightarrow> raw_step E s (snd (send E request s))"
| "wf_report request \<Longrightarrow> raw_step E s (snd (transact_raw E request s))"
| "wf_report request \<Longrightarrow> raw_step E s (snd (transact E request s))"

text \<open>A run of all public methods, with the ids it overrides the transaction id with, in order.\<close>

inductive session_run :: "'w hid_io \<Rightarrow> 'w session \<Rightarrow> u8 list \<Rightarrow> 'w session \<Rightarrow> bool" for E s where
  start: "session_run E s [] s"
| typed: "session_run E s tids t \<Longrightarrow> typed_step E t u \<Longrightarrow> session_run E s tids u"
| raw: "session_run E s tids t \<Longrightarrow> raw_step E t u \<Longrightarrow> session_run E s tids u"
| override: "session_run E s tids t \<Longrightarrow> session_run E s (tids @ [tid]) (with_transaction_id_override t tid)"

inductive typed_run :: "'w hid_io \<Rightarrow> 'w session \<Rightarrow> 'w session \<Rightarrow> bool" for E s where
  start: "typed_run E s s"
| typed: "typed_run E s t \<Longrightarrow> typed_step E t u \<Longrightarrow> typed_run E s u"

locale session_relation =
  fixes E :: "'w hid_io" and Q :: "razer_report \<Rightarrow> bool" and R :: "'w session \<Rightarrow> 'w session \<Rightarrow> bool"
  assumes R_refl: "R s s"
    and R_trans: "R s t \<Longrightarrow> R t u \<Longrightarrow> R s u"
    and send_R: "Q request \<Longrightarrow> R s (snd (send E request s))"
    and receive_R: "R s (snd (receive E s))"
    and pause_R: "R s (s\<lparr>io := clock_sleep E RETRY_DELAY (io s)\<rparr>)"
    and attempts_R: "R s (s\<lparr>last_attempts := n\<rparr>)"
    and response_R: "R s (s\<lparr>last_response_tid := x\<rparr>)"
begin

lemma transact_raw_R: "Q request \<Longrightarrow> R s (snd (transact_raw E request s))"
  unfolding transact_raw_def
  by (rule and_then_snd [of R]) (auto intro: send_R receive_R R_trans)

lemma transact_loop_R: "Q request \<Longrightarrow> R s (snd (transact_loop E request attempts last_error s))"
proof (induction attempts arbitrary: last_error s)
  case Nil
  then show ?case by (simp add: R_refl)
next
  case (Cons attempt attempts)
  define s1 where "s1 = (if 0 < attempt then s\<lparr>io := clock_sleep E RETRY_DELAY (io s)\<rparr> else s)"
  define s2 where "s2 = s1\<lparr>last_attempts := attempt_number attempt\<rparr>"
  have "R s s1" by (simp add: s1_def R_refl pause_R)
  moreover have "R s1 s2" unfolding s2_def by (rule attempts_R)
  moreover have "R s2 (snd (and_then (transact_raw E request s2) (\<lambda>response s.
      let s = s\<lparr>last_response_tid := Some (transaction_id response)\<rparr> in
      case check_response request response of
        Inr _ \<Rightarrow> (Inr response, s)
      | Inl e \<Rightarrow> transact_loop E request attempts (Some e) s)))"
  proof (rule and_then_snd [of R])
    show "R s2 (snd (transact_raw E request s2))" using Cons.prems by (rule transact_raw_R)
  next
    fix response :: razer_report and t
    have "R t (t\<lparr>last_response_tid := Some (transaction_id response)\<rparr>)" by (rule response_R)
    with Cons show "R t (snd (let s = t\<lparr>last_response_tid := Some (transaction_id response)\<rparr> in
        case check_response request response of
          Inr _ \<Rightarrow> (Inr response, s)
        | Inl e \<Rightarrow> transact_loop E request attempts (Some e) s))"
      by (auto simp: Let_def split: sum.splits intro: R_trans)
  qed (rule R_trans)
  ultimately have "R s (snd (and_then (transact_raw E request s2) (\<lambda>response s.
      let s = s\<lparr>last_response_tid := Some (transaction_id response)\<rparr> in
      case check_response request response of
        Inr _ \<Rightarrow> (Inr response, s)
      | Inl e \<Rightarrow> transact_loop E request attempts (Some e) s)))"
    by (blast intro: R_trans)
  then show ?case by (simp add: s1_def s2_def Let_def)
qed

lemma transact_R: "Q request \<Longrightarrow> R s (snd (transact E request s))"
  unfolding transact_def by (rule transact_loop_R)

lemma transact_then_R:
  "Q request \<Longrightarrow> (\<And>v t. R t (snd (k v t))) \<Longrightarrow> R s (snd (and_then (transact E request s) k))"
  by (rule and_then_snd [of R]) (auto intro: transact_R R_trans)

lemma raw_step_R: "(\<And>request. wf_report request \<Longrightarrow> Q request) \<Longrightarrow> raw_step E s t \<Longrightarrow> R s t"
  by (erule raw_step.cases) (auto intro: send_R transact_raw_R transact_R)

end

text \<open>Relations that the reading operations respect, and relations that all operations respect.\<close>

locale read_relation = session_relation +
  assumes get_Q: "constructed request \<Longrightarrow> is_get request \<Longrightarrow> Q request"
begin

lemma get_then_R:
  "constructed request \<Longrightarrow> is_get request \<Longrightarrow> (\<And>v t. R t (snd (k v t))) \<Longrightarrow>
    R s (snd (and_then (transact E request s) k))"
  by (auto intro: transact_then_R get_Q)

lemma reading_R:
  "R s (snd (firmware_version E s))" "R s (snd (serial E s))" "R s (snd (get_device_mode E s))"
  "R s (snd (get_brightness E s))" "R s (snd (get_poll_rate E s))"
  by (auto simp: session_defs is_get_cmd split: poll_rate_kind.splits
      intro!: and_then_pure [of R] get_then_R R_refl)

end

locale typed_relation = session_relation +
  assumes constructed_Q: "constructed request \<Longrightarrow> Q request"
begin

lemma constructed_then_R:
  "constructed request \<Longrightarrow> (\<And>v t. R t (snd (k v t))) \<Longrightarrow>
    R s (snd (and_then (transact E request s) k))"
  by (auto intro: transact_then_R constructed_Q)

lemma typed_step_R:
  assumes "typed_step E s t"
  shows "R s t"
  using assms
  by cases
    (auto simp: session_defs split: poll_rate_kind.splits
      intro!: and_then_pure [of R] constructed_then_R R_refl intro: constructed_legacy)

lemma typed_run_R: "typed_run E s t \<Longrightarrow> R s t"
  by (induction rule: typed_run.induct) (blast intro: R_refl R_trans typed_step_R)+

end

sublocale typed_relation \<subseteq> read_relation
  by unfold_locales (rule constructed_Q)

subsection \<open>The identity of a session is fixed\<close>

definition keeps_identity :: "'w session \<Rightarrow> 'w session \<Rightarrow> bool" where
  "keeps_identity s s' \<longleftrightarrow> entry s' = entry s \<and> sess_tid s' = sess_tid s"

interpretation identity: typed_relation E "\<lambda>_. True" keeps_identity for E :: "'w hid_io"
  by unfold_locales
    (auto simp: keeps_identity_def send_def receive_def Let_def split: sum.splits prod.splits)

end
