(* ===== verification/Session_Trace.thy ===== *)
theory Session_Trace
  imports Session
begin

text \<open>
  What a session does to its transport and its clock, as the sequence of calls it makes. \<open>traced E\<close>
  is \<open>E\<close> with every call recorded; the locale \<open>io_refinement\<close> shows once that a session over a
  refinement behaves as over what it refines, and its interpretation on \<open>traced\<close> says that
  recording changes nothing. On the recorded calls: the exact shape of a transaction with its
  retries, the time it can take, and what every frame of every sequence of calls looks like.
\<close>

subsection \<open>Recording the calls\<close>

datatype hid_event =
    SetEv bytes
  | GetEv
  | SleepEv nat

definition traced :: "'w hid_io \<Rightarrow> ('w \<times> hid_event list) hid_io" where
  "traced E =
     \<lparr>set_feature = (\<lambda>buf (w, tr). case set_feature E buf w of (x, w') \<Rightarrow> (x, w', tr @ [SetEv buf])),
      get_feature = (\<lambda>buf (w, tr). case get_feature E buf w of (x, w') \<Rightarrow> (x, w', tr @ [GetEv])),
      clock_sleep = (\<lambda>d (w, tr). (clock_sleep E d w, tr @ [SleepEv d]))\<rparr>"

lemma traced_simps [simp]:
  "set_feature (traced E) buf w =
     (fst (set_feature E buf (fst w)), snd (set_feature E buf (fst w)), snd w @ [SetEv buf])"
  "get_feature (traced E) buf w =
     (fst (get_feature E buf (fst w)), snd (get_feature E buf (fst w)), snd w @ [GetEv])"
  "clock_sleep (traced E) d w = (clock_sleep E d (fst w), snd w @ [SleepEv d])"
  by (simp_all add: traced_def split_beta)

subsection \<open>Refinement of a session's surroundings\<close>

definition map_session :: "('v \<Rightarrow> 'w) \<Rightarrow> 'v session \<Rightarrow> 'w session" where
  "map_session f s =
     \<lparr>entry = entry s, io = f (io s), sess_tid = sess_tid s, last_attempts = last_attempts s,
      last_response_tid = last_response_tid s\<rparr>"

lemma map_session_simps [simp]:
  "entry (map_session f s) = entry s" "io (map_session f s) = f (io s)"
  "sess_tid (map_session f s) = sess_tid s" "last_attempts (map_session f s) = last_attempts s"
  "last_response_tid (map_session f s) = last_response_tid s"
  "(map_session f s)\<lparr>last_attempts := n\<rparr> = map_session f (s\<lparr>last_attempts := n\<rparr>)"
  "(map_session f s)\<lparr>last_response_tid := x\<rparr> = map_session f (s\<lparr>last_response_tid := x\<rparr>)"
  "(map_session f s)\<lparr>io := f w\<rparr> = map_session f (s\<lparr>io := w\<rparr>)"
  "require (map_session f s) = require s" "led (map_session f s) = led s"
  by (simp_all add: map_session_def fun_eq_iff require_def led_def Let_def)

lemma map_session_new: "map_session f (session_new e w) = session_new e (f w)"
  by (simp add: map_session_def session_new_def)

fun map_out :: "('v \<Rightarrow> 'w) \<Rightarrow> 'r \<times> 'v session \<Rightarrow> 'r \<times> 'w session" where
  "map_out f (r, s) = (r, map_session f s)"

lemma and_then_map:
  assumes "map_out f p = q" and "\<And>v s. map_out f (k v s) = k' v (map_session f s)"
  shows "map_out f (and_then p k) = and_then q k'"
  using assms by (cases p rule: prod.exhaust, rename_tac r s, case_tac r) auto

locale io_refinement =
  fixes C :: "'v hid_io" and A :: "'w hid_io" and abst :: "'v \<Rightarrow> 'w"
  assumes set_feature_abst: "map_prod id abst (set_feature C buf w) = set_feature A buf (abst w)"
    and get_feature_abst: "map_prod id abst (get_feature C (replicate HIDRAW_BUF_LEN 0) w)
      = get_feature A (replicate HIDRAW_BUF_LEN 0) (abst w)"
    and clock_sleep_abst: "abst (clock_sleep C d w) = clock_sleep A d (abst w)"
begin

lemma send_abst: "map_out abst (send C request s) = send A request (map_session abst s)"
  unfolding send_def
  by (auto simp: Let_def clock_sleep_abst simp flip: set_feature_abst split: sum.split prod.split
      simp del: check_request_ok)

lemma receive_abst: "map_out abst (receive C s) = receive A (map_session abst s)"
proof -
  obtain x buf w where "get_feature C (replicate HIDRAW_BUF_LEN 0) (io s) = ((x, buf), w)"
    by (metis prod.exhaust)
  then show ?thesis
    by (cases x) (simp_all add: receive_def Let_def flip: get_feature_abst)
qed

lemma transact_raw_abst:
  "map_out abst (transact_raw C request s) = transact_raw A request (map_session abst s)"
  unfolding transact_raw_def by (rule and_then_map) (simp_all add: send_abst receive_abst)

lemma transact_loop_abst:
  "map_out abst (transact_loop C request attempts last_error s)
     = transact_loop A request attempts last_error (map_session abst s)"
proof (induction attempts arbitrary: last_error s)
  case Nil
  then show ?case by simp
next
  case (Cons attempt attempts)
  define s1 where "s1 = (if 0 < attempt then s\<lparr>io := clock_sleep C RETRY_DELAY (io s)\<rparr> else s)"
  have pause: "map_session abst s1 = (if 0 < attempt
      then (map_session abst s)\<lparr>io := clock_sleep A RETRY_DELAY (io (map_session abst s))\<rparr>
      else map_session abst s)"
    by (simp add: s1_def flip: clock_sleep_abst)
  show ?case
    unfolding transact_loop.simps Let_def s1_def [symmetric] pause [symmetric]
    by (rule and_then_map) (simp_all add: transact_raw_abst Cons.IH split: sum.splits)
qed

lemma transact_abst:
  "map_out abst (transact C request s) = transact A request (map_session abst s)"
  unfolding transact_def by (rule transact_loop_abst)

lemmas typed_abst_rules = and_then_map transact_abst

lemma set_device_mode_abst:
  "map_out abst (set_device_mode C mode s) = set_device_mode A mode (map_session abst s)"
  unfolding session_defs by (auto intro!: typed_abst_rules)

lemma get_device_mode_abst:
  "map_out abst (get_device_mode C s) = get_device_mode A (map_session abst s)"
  unfolding session_defs by (auto intro!: typed_abst_rules)

lemma firmware_version_abst:
  "map_out abst (firmware_version C s) = firmware_version A (map_session abst s)"
  unfolding session_defs by (auto intro!: typed_abst_rules)

lemma serial_abst: "map_out abst (serial C s) = serial A (map_session abst s)"
  unfolding session_defs by (auto intro!: typed_abst_rules)

lemma set_brightness_abst:
  "map_out abst (set_brightness C v s) = set_brightness A v (map_session abst s)"
  unfolding session_defs by (auto intro!: typed_abst_rules)

lemma get_brightness_abst:
  "map_out abst (get_brightness C s) = get_brightness A (map_session abst s)"
  unfolding session_defs by (auto intro!: typed_abst_rules)

lemma set_static_effect_abst:
  "map_out abst (set_static_effect C colour s) = set_static_effect A colour (map_session abst s)"
  unfolding session_defs by (auto intro!: typed_abst_rules)

lemma set_poll_rate_abst:
  "map_out abst (set_poll_rate C rate s) = set_poll_rate A rate (map_session abst s)"
  unfolding session_defs by (auto intro!: typed_abst_rules split: poll_rate_kind.splits)

lemma get_poll_rate_abst:
  "map_out abst (get_poll_rate C s) = get_poll_rate A (map_session abst s)"
  unfolding session_defs by (auto intro!: typed_abst_rules split: poll_rate_kind.splits)

end

interpretation erase: io_refinement "traced E" E fst for E :: "'w hid_io"
  by unfold_locales (simp_all add: map_prod_def split_beta)

subsection \<open>The calls of a transaction\<close>

definition pause_events :: "nat \<Rightarrow> hid_event list" where
  "pause_events attempt = (if 0 < attempt then [SleepEv RETRY_DELAY] else [])"

definition exchange_events :: "bytes \<Rightarrow> nat \<Rightarrow> hid_event list" where
  "exchange_events f d = [SetEv f, SleepEv d, GetEv]"

definition retry_trace :: "bytes \<Rightarrow> nat \<Rightarrow> nat \<Rightarrow> nat \<Rightarrow> hid_event list" where
  "retry_trace f d k n = concat (map (\<lambda>i. pause_events i @ exchange_events f d) [k..<n])"

lemma retry_trace_Cons:
  "k < n \<Longrightarrow> retry_trace f d k n = pause_events k @ exchange_events f d @ retry_trace f d (Suc k) n"
  by (simp add: retry_trace_def upt_conv_Cons)

lemma retry_trace_empty [simp]: "retry_trace f d n n = []"
  by (simp add: retry_trace_def)

text \<open>How one exchange can end, and after which calls.\<close>

fun exchange_ends :: "bytes \<Rightarrow> nat \<Rightarrow> hid_error + razer_report \<Rightarrow> hid_event list \<Rightarrow> bool" where
  "exchange_ends f d (Inr _) evs = (evs = exchange_events f d)"
| "exchange_ends f d (Inl (ShortRead got)) evs = (got < HIDRAW_BUF_LEN \<and> evs = exchange_events f d)"
| "exchange_ends f d (Inl (Io oper errno)) evs =
     (oper = ''HIDIOCGFEATURE'' \<and> evs = exchange_events f d \<or>
      oper = ''HIDIOCSFEATURE'' \<and> evs = [SetEv f])"
| "exchange_ends f d (Inl _) evs = False"

text \<open>How a transaction can end at its attempt number \<open>n\<close>, the attempts from \<open>k\<close> on counted.\<close>

definition transact_ends ::
  "razer_report \<Rightarrow> bytes \<Rightarrow> nat \<Rightarrow> nat \<Rightarrow> nat \<Rightarrow> u8 option \<Rightarrow> hid_error + razer_report
     \<Rightarrow> hid_event list \<Rightarrow> bool" where
  "transact_ends request f d k n tid res evs =
     (case res of
        Inr response \<Rightarrow>
          evs = retry_trace f d k n \<and> check_response request response = Inr () \<and>
          tid = Some (transaction_id response)
      | Inl (RetriesExhausted e) \<Rightarrow>
          n = MAX_ATTEMPTS \<and> evs = retry_trace f d k n \<and>
          (\<exists>response. check_response request response = Inl e \<and> tid = Some (transaction_id response))
      | Inl (ShortRead got) \<Rightarrow> got < HIDRAW_BUF_LEN \<and> evs = retry_trace f d k n
      | Inl (Io oper errno) \<Rightarrow>
          oper = ''HIDIOCGFEATURE'' \<and> evs = retry_trace f d k n \<or>
          oper = ''HIDIOCSFEATURE'' \<and>
            evs = retry_trace f d k (n - 1) @ pause_events (n - 1) @ [SetEv f]
      | Inl _ \<Rightarrow> False)"

lemma transact_ends_Cons:
  assumes "Suc k \<le> n" and "Suc k = n \<longrightarrow> (\<exists>e. res = Inl (RetriesExhausted e))"
    and "transact_ends request f d (Suc k) n tid res evs"
  shows "transact_ends request f d k n tid res (pause_events k @ exchange_events f d @ evs)"
proof -
  have full: "retry_trace f d k n = pause_events k @ exchange_events f d @ retry_trace f d (Suc k) n"
    using assms(1) by (simp add: retry_trace_Cons)
  show ?thesis
  proof (cases res)
    case (Inr response)
    with assms(3) full show ?thesis by (simp add: transact_ends_def)
  next
    case (Inl e)
    show ?thesis
    proof (cases "Suc k = n")
      case True
      with assms(2,3) full show ?thesis by (auto simp: transact_ends_def)
    next
      case False
      then have "retry_trace f d k (n - 1)
          = pause_events k @ exchange_events f d @ retry_trace f d (Suc k) (n - 1)"
        using assms(1) by (intro retry_trace_Cons) simp
      with Inl assms(3) full show ?thesis by (cases e) (auto simp: transact_ends_def)
    qed
  qed
qed

lemma attempt_number_small: "attempt < MAX_ATTEMPTS \<Longrightarrow> attempt_number attempt = of_nat (Suc attempt)"
proof -
  assume "attempt < MAX_ATTEMPTS"
  then consider "attempt = 0" | "attempt = 1" | "attempt = 2" | "attempt = 3" | "attempt = 4"
    unfolding MAX_ATTEMPTS_def by linarith
  then show ?thesis by cases (simp_all add: attempt_number_def)
qed

lemma send_frame:
  assumes "wf_report request" and "check_request request = Inr ()"
  shows "send E request s =
    (case set_feature E (frame (sess_tid s) request) (io s) of
       (Inl e, w) \<Rightarrow> (Inl e, s\<lparr>io := w\<rparr>)
     | (Inr _, w) \<Rightarrow> (Inr (), s\<lparr>io := clock_sleep E (wait (entry s)) w\<rparr>))"
  by (simp only: send_eq [OF assms(1)] assms(2) map_err.simps sum.case)

definition same_settings :: "'w session \<Rightarrow> 'w session \<Rightarrow> bool" where
  "same_settings s s' \<longleftrightarrow> keeps_identity s s' \<and> last_attempts s' = last_attempts s \<and>
     last_response_tid s' = last_response_tid s"

context feature_transport begin

lemma transact_raw_calls:
  assumes "wf_report request" and "check_request request = Inr ()"
    and "transact_raw (traced E) request s = (res, s')"
  shows "same_settings s s' \<and> (\<exists>evs. snd (io s') = snd (io s) @ evs \<and>
    exchange_ends (frame (sess_tid s) request) (wait (entry s)) res evs)"
proof -
  obtain x w where set: "set_feature E (frame (sess_tid s) request) (fst (io s)) = (x, w)" by fastforce
  obtain got buf w' where get: "get_feature E (replicate HIDRAW_BUF_LEN 0) (clock_sleep E (wait (entry s)) w)
      = ((got, buf), w')" by (metis prod.exhaust)
  show ?thesis
  proof (cases x)
    case (Inl e)
    with set set_feature_err obtain errno where "e = Io ''HIDIOCSFEATURE'' errno" by blast
    with Inl set assms(3) show ?thesis
      by (auto simp: transact_raw_def send_frame [OF assms(1,2)] same_settings_def keeps_identity_def)
  next
    case (Inr u)
    show ?thesis
    proof (cases got)
      case (Inl e)
      with get get_feature_err obtain errno where "e = Io ''HIDIOCGFEATURE'' errno" by blast
      with Inl Inr set get assms(3) show ?thesis
        by (auto simp: transact_raw_def send_frame [OF assms(1,2)] receive_def same_settings_def
            keeps_identity_def exchange_events_def)
    next
      case (Inr n)
      with \<open>x = Inr u\<close> set get assms(3) show ?thesis
        by (auto simp: transact_raw_def send_frame [OF assms(1,2)] receive_def same_settings_def
            keeps_identity_def exchange_events_def Let_def split: if_splits)
    qed
  qed
qed

lemma transact_loop_calls:
  assumes "wf_report request" and "check_request request = Inr ()" and "k \<le> MAX_ATTEMPTS"
    and "transact_loop (traced E) request [k..<MAX_ATTEMPTS] last_error s = (res, s')"
    and "k = 0 \<and> last_error = None \<or> 0 < k \<and> last_attempts s = of_nat k \<and>
      (\<exists>e response. last_error = Some e \<and> check_response request response = Inl e \<and>
        last_response_tid s = Some (transaction_id response))"
  shows "keeps_identity s s' \<and> (\<exists>n evs. 0 < n \<and> k \<le> n \<and> n \<le> MAX_ATTEMPTS \<and>
    last_attempts s' = of_nat n \<and> snd (io s') = snd (io s) @ evs \<and>
    transact_ends request (frame (sess_tid s) request) (wait (entry s)) k n
      (last_response_tid s') res evs \<and> (k = n \<longrightarrow> (\<exists>e. res = Inl (RetriesExhausted e))))"
  using assms(3-)
proof (induction "MAX_ATTEMPTS - k" arbitrary: k last_error s)
  case 0
  then show ?case
    by (auto simp: keeps_identity_def transact_ends_def MAX_ATTEMPTS_def)
next
  case (Suc m)
  let ?f = "frame (sess_tid s) request" and ?d = "wait (entry s)"
  have k: "k < MAX_ATTEMPTS" using Suc.hyps(2) by simp
  define s1 where "s1 = (if 0 < k then s\<lparr>io := clock_sleep (traced E) RETRY_DELAY (io s)\<rparr> else s)
    \<lparr>last_attempts := of_nat (Suc k)\<rparr>"
  have s1: "entry s1 = entry s" "sess_tid s1 = sess_tid s" "last_attempts s1 = of_nat (Suc k)"
    "snd (io s1) = snd (io s) @ pause_events k"
    by (simp_all add: s1_def pause_events_def)
  obtain r t where raw: "transact_raw (traced E) request s1 = (r, t)" by fastforce
  from transact_raw_calls [OF assms(1,2) raw] obtain evs where
    t: "entry t = entry s" "sess_tid t = sess_tid s" "last_attempts t = of_nat (Suc k)" and
    evs: "snd (io t) = snd (io s) @ pause_events k @ evs" "exchange_ends ?f ?d r evs"
    by (auto simp: same_settings_def keeps_identity_def s1)
  have loop: "(res, s') = and_then (r, t) (\<lambda>response s.
      let s = s\<lparr>last_response_tid := Some (transaction_id response)\<rparr> in
      case check_response request response of
        Inr _ \<Rightarrow> (Inr response, s)
      | Inl e \<Rightarrow> transact_loop (traced E) request [Suc k..<MAX_ATTEMPTS] (Some e) s)"
    using Suc.prems(2) k raw attempt_number_small [of k]
    by (simp add: upt_conv_Cons s1_def Let_def)
  show ?case
  proof (cases r)
    case (Inl e)
    with loop have "res = Inl e" "s' = t" by simp_all
    with t evs Inl k show ?thesis
      by (intro conjI exI [of _ "Suc k"] exI [of _ "pause_events k @ evs"])
        (cases e; auto simp: keeps_identity_def transact_ends_def retry_trace_Cons)+
  next
    case (Inr response)
    define t' where "t' = t\<lparr>last_response_tid := Some (transaction_id response)\<rparr>"
    show ?thesis
    proof (cases "check_response request response")
      case (Inr u)
      with loop \<open>r = Inr response\<close> have "res = Inr response" "s' = t'" by (simp_all add: t'_def)
      with t evs Inr \<open>r = Inr response\<close> k show ?thesis
        by (intro conjI exI [of _ "Suc k"] exI [of _ "pause_events k @ evs"])
          (auto simp: keeps_identity_def transact_ends_def retry_trace_Cons t'_def)
    next
      case (Inl e)
      with loop \<open>r = Inr response\<close>
      have "transact_loop (traced E) request [Suc k..<MAX_ATTEMPTS] (Some e) t' = (res, s')"
        by (simp add: t'_def)
      moreover have "m = MAX_ATTEMPTS - Suc k" "Suc k \<le> MAX_ATTEMPTS" using Suc.hyps(2) k by simp_all
      ultimately obtain n evs' where ih: "keeps_identity t' s'" "0 < n" "Suc k \<le> n" "n \<le> MAX_ATTEMPTS"
        "last_attempts s' = of_nat n" "snd (io s') = snd (io t') @ evs'"
        "transact_ends request (frame (sess_tid t') request) (wait (entry t')) (Suc k) n
          (last_response_tid s') res evs'" "Suc k = n \<longrightarrow> (\<exists>e. res = Inl (RetriesExhausted e))"
        using Suc.hyps(1) [of "Suc k" "Some e" t'] Inl t by (auto simp: t'_def)
      have "transact_ends request ?f ?d k n (last_response_tid s') res
          (pause_events k @ exchange_events ?f ?d @ evs')"
        using ih(3,7,8) t unfolding t'_def by (intro transact_ends_Cons) simp_all
      with ih t evs \<open>r = Inr response\<close> show ?thesis
        by (intro conjI exI [of _ n] exI [of _ "pause_events k @ evs @ evs'"])
          (auto simp: keeps_identity_def t'_def)
    qed
  qed
qed

end

end
