(* ===== verification/Mock.thy ===== *)
theory Mock
  imports Transport
begin

text \<open>
  The in-memory transport and clock, \<open>crates/razer-hid/src/mock.rs\<close>: a transport that records every
  successful SET and replays a queue of responses, and a clock that records the sleeps.
\<close>

record mock_transport =
  sent :: "bytes list"
  responses :: "bytes list"
  fail_next_set :: "int option"

record mock_clock =
  sleeps :: "nat list"

definition mock_transport_new :: mock_transport where
  "mock_transport_new = \<lparr>sent = [], responses = [], fail_next_set = None\<rparr>"

definition push_raw :: "bytes \<Rightarrow> mock_transport \<Rightarrow> mock_transport" where
  "push_raw buf t = t\<lparr>responses := responses t @ [buf]\<rparr>"

definition push_response :: "razer_report \<Rightarrow> mock_transport \<Rightarrow> mock_transport" where
  "push_response rep t =
     (let buf = copy_slice 1 (to_bytes rep) (replicate HIDRAW_BUF_LEN 0)
      in t\<lparr>responses := responses t @ [buf]\<rparr>)"

definition sent_reports :: "mock_transport \<Rightarrow> razer_report list" where
  "sent_reports t = map (\<lambda>buf. from_bytes (copy_slice 0 (drop 1 buf) (replicate 90 0))) (sent t)"

definition set_fail_next :: "int \<Rightarrow> mock_transport \<Rightarrow> mock_transport" where
  "set_fail_next errno t = t\<lparr>fail_next_set := Some errno\<rparr>"

definition pending_responses :: "mock_transport \<Rightarrow> nat" where
  "pending_responses t = length (responses t)"

definition mock_set_feature :: "bytes \<Rightarrow> mock_transport \<Rightarrow> (hid_error + unit) \<times> mock_transport" where
  "mock_set_feature buf t =
     (case fail_next_set t of
        Some errno \<Rightarrow> (Inl (Io ''HIDIOCSFEATURE'' errno), t\<lparr>fail_next_set := None\<rparr>)
      | None \<Rightarrow> (Inr (), t\<lparr>sent := sent t @ [buf]\<rparr>))"

definition mock_get_feature ::
  "bytes \<Rightarrow> mock_transport \<Rightarrow> ((hid_error + nat) \<times> bytes) \<times> mock_transport" where
  "mock_get_feature buf t =
     (case responses t of
        response # rest \<Rightarrow> ((Inr HIDRAW_BUF_LEN, response), t\<lparr>responses := rest\<rparr>)
      | [] \<Rightarrow> ((Inr 0, buf), t))"

definition mock_clock_new :: mock_clock where
  "mock_clock_new = \<lparr>sleeps = []\<rparr>"

definition mock_total :: "mock_clock \<Rightarrow> nat" where
  "mock_total c = sum_list (sleeps c)"

definition mock_sleep :: "nat \<Rightarrow> mock_clock \<Rightarrow> mock_clock" where
  "mock_sleep d c = c\<lparr>sleeps := sleeps c @ [d]\<rparr>"

text \<open>Both together, as the tests hand them to a session.\<close>

definition mock_io :: "(mock_transport \<times> mock_clock) hid_io" where
  "mock_io =
     \<lparr>set_feature = (\<lambda>buf (t, c). case mock_set_feature buf t of (x, t') \<Rightarrow> (x, t', c)),
      get_feature = (\<lambda>buf (t, c). case mock_get_feature buf t of (x, t') \<Rightarrow> (x, t', c)),
      clock_sleep = (\<lambda>d (t, c). (t, mock_sleep d c))\<rparr>"

text \<open>Every buffer in the transport is a \<open>[u8; HIDRAW_BUF_LEN]\<close>.\<close>

definition mock_inv :: "mock_transport \<times> mock_clock \<Rightarrow> bool" where
  "mock_inv w \<longleftrightarrow>
     list_all (\<lambda>buf. length buf = HIDRAW_BUF_LEN) (sent (fst w)) \<and>
     list_all (\<lambda>buf. length buf = HIDRAW_BUF_LEN) (responses (fst w))"

interpretation mock: feature_transport mock_io mock_inv
  by unfold_locales
    (auto simp: mock_io_def mock_inv_def mock_set_feature_def mock_get_feature_def mock_sleep_def
      split: option.splits list.splits)

lemma push_response_inv:
  "mock_inv (t, c) \<Longrightarrow> wf_report rep \<Longrightarrow> mock_inv (push_response rep t, c)"
  by (simp add: mock_inv_def push_response_def HIDRAW_BUF_LEN_def REPORT_LEN_def)

end
