(* ===== verification/Session_Safety.thy ===== *)
theory Session_Safety
  imports Session_Trace Mock
begin

text \<open>
  What every session guarantees about its calls, whatever is behind the transport: how a transaction
  runs and ends, that a malformed report touches nothing, which id every frame carries, and which
  commands the typed operations can put on the wire. The statements are over \<open>traced\<close>, whose recording is transparent.
\<close>

subsection \<open>Recording is transparent\<close>

text \<open>Recording the calls changes neither a result nor the state: each method run over the
  recording transport and clock, with the record then dropped, is the method run over the transport
  and clock themselves. Statements about recorded calls are statements about the program's runs.\<close>

theorem recording_is_transparent:
  "map_out fst (send (traced E) request s) = send E request (map_session fst s) \<and>
   map_out fst (transact_raw (traced E) request s) = transact_raw E request (map_session fst s) \<and>
   map_out fst (transact (traced E) request s) = transact E request (map_session fst s) \<and>
   map_out fst (set_device_mode (traced E) mode s) = set_device_mode E mode (map_session fst s) \<and>
   map_out fst (get_device_mode (traced E) s) = get_device_mode E (map_session fst s) \<and>
   map_out fst (firmware_version (traced E) s) = firmware_version E (map_session fst s) \<and>
   map_out fst (serial (traced E) s) = serial E (map_session fst s) \<and>
   map_out fst (set_brightness (traced E) v s) = set_brightness E v (map_session fst s) \<and>
   map_out fst (get_brightness (traced E) s) = get_brightness E (map_session fst s) \<and>
   map_out fst (set_static_effect (traced E) colour s) = set_static_effect E colour (map_session fst s) \<and>
   map_out fst (set_poll_rate (traced E) rate s) = set_poll_rate E rate (map_session fst s) \<and>
   map_out fst (get_poll_rate (traced E) s) = get_poll_rate E (map_session fst s)"
  by (intro conjI erase.send_abst erase.transact_raw_abst erase.transact_abst
      erase.set_device_mode_abst erase.get_device_mode_abst erase.firmware_version_abst
      erase.serial_abst erase.set_brightness_abst erase.get_brightness_abst
      erase.set_static_effect_abst erase.set_poll_rate_abst erase.get_poll_rate_abst)

subsection \<open>A transaction\<close>

lemma hidraw_transact:
  assumes "wf_report request" and "check_request request = Inr ()"
    and "transact (traced (hidraw_io os)) request s = (res, s')"
  shows "keeps_identity s s' \<and> (\<exists>n evs. 0 < n \<and> n \<le> MAX_ATTEMPTS \<and>
    last_attempts s' = of_nat n \<and> snd (io s') = snd (io s) @ evs \<and>
    transact_ends request (frame (sess_tid s) request) (wait (entry s)) 0 n
      (last_response_tid s') res evs)"
  using hidraw.transact_loop_calls [OF assms(1,2), of 0 os None s res s'] assms(3)
  unfolding transact_def by auto

text \<open>C2: a transaction over any kernel makes between one and five attempts and records how many.
  Every attempt is one frame with the session's id, the device's wait and one read, and attempts are
  10 ms apart. What it returns is a response that the acceptance test passes, it gives up only at the
  fifth attempt and then reports a rejection, and a failed call or a short read ends it at once,
  without another attempt.\<close>

theorem transact_calls:
  assumes "wf_report request" and "check_request request = Inr ()"
  shows "case transact (traced (hidraw_io os)) request s of (res, s') \<Rightarrow>
    entry s' = entry s \<and> sess_tid s' = sess_tid s \<and>
    (\<exists>n evs. n \<in> {1..5} \<and> last_attempts s' = of_nat n \<and> snd (io s') = snd (io s) @ evs \<and>
      transact_ends request (frame (sess_tid s) request) (wait (entry s)) 0 n
        (last_response_tid s') res evs)"
proof -
  obtain res s' where run: "transact (traced (hidraw_io os)) request s = (res, s')" by fastforce
  from hidraw_transact [OF assms run] show ?thesis
    by (auto simp: run keeps_identity_def MAX_ATTEMPTS_def Suc_le_eq)
qed

definition silent_session :: "((hidraw_device \<times> unit) \<times> hid_event list) session" where
  "silent_session =
     session_new basilisk_v3_pro_wired ((\<lparr>dev_file = 3, dev_path = ''/dev/hidraw3''\<rparr>, ()), [])"

lemma silent_tid: "sess_tid silent_session = 0x1F" "wait (entry silent_session) = 31000"
  by (simp_all add: silent_session_def session_new_def basilisk_v3_pro_wired_def)

theorem transact_calls_witness:
  "\<exists>n evs. n \<in> {1..5} \<and>
     last_attempts (snd (transact (traced (hidraw_io silent_os)) cmd_get_serial silent_session)) = of_nat n \<and>
     snd (io (snd (transact (traced (hidraw_io silent_os)) cmd_get_serial silent_session))) = evs \<and>
     transact_ends cmd_get_serial (frame 0x1F cmd_get_serial) 31000 0 n
       (last_response_tid (snd (transact (traced (hidraw_io silent_os)) cmd_get_serial silent_session)))
       (fst (transact (traced (hidraw_io silent_os)) cmd_get_serial silent_session)) evs"
proof -
  have "wf_report cmd_get_serial" "check_request cmd_get_serial = Inr ()"
    by (simp_all only: constructed_wf constructed_check_request constructed_cmd)
  from transact_calls [OF this, where os = silent_os and s = silent_session] show ?thesis
    unfolding split_beta silent_tid by (auto simp: silent_session_def session_new_def)
qed

text \<open>The time the calls of a trace block, in microseconds.\<close>

fun slept :: "hid_event list \<Rightarrow> nat" where
  "slept [] = 0"
| "slept (SleepEv d # evs) = d + slept evs"
| "slept (_ # evs) = slept evs"

lemma slept_append [simp]: "slept (xs @ ys) = slept xs + slept ys"
  by (induction xs rule: slept.induct) simp_all

lemma slept_retry_trace: "slept (retry_trace f d 0 n) = n * d + (n - 1) * RETRY_DELAY"
proof (induction n)
  case (Suc n)
  have "retry_trace f d 0 (Suc n) = retry_trace f d 0 n @ pause_events n @ exchange_events f d"
    by (simp add: retry_trace_def)
  with Suc show ?case
    by (cases n) (simp_all add: pause_events_def exchange_events_def)
qed simp

lemma slept_transact_ends:
  assumes "transact_ends request f d 0 n tid res evs" and "0 < n"
  shows "slept evs \<le> n * d + (n - 1) * RETRY_DELAY"
proof -
  have "slept (retry_trace f d 0 (n - 1) @ pause_events (n - 1) @ [SetEv f])
      \<le> n * d + (n - 1) * RETRY_DELAY"
  proof (cases "n - 1")
    case (Suc m)
    with assms(2) have "n = Suc (Suc m)" by simp
    then show ?thesis by (simp add: slept_retry_trace pause_events_def)
  qed (use assms(2) in \<open>simp add: pause_events_def\<close>)
  moreover have "slept (retry_trace f d 0 n) \<le> n * d + (n - 1) * RETRY_DELAY"
    by (simp add: slept_retry_trace)
  ultimately show ?thesis
    using assms(1) by (auto simp: transact_ends_def split: sum.splits hid_error.splits)
qed

text \<open>A transaction with a device of the table never blocks its caller for more than 195 ms of
  sleeping (five times the longest wait, 31 ms, and four pauses of 10 ms).\<close>

theorem transact_time_bound:
  assumes "wf_report request" and "check_request request = Inr ()" and "entry s \<in> set all_devices"
    and "snd (io s) = []"
  shows "slept (snd (io (snd (transact (traced (hidraw_io os)) request s)))) \<le> 195000"
proof -
  obtain res s' where run: "transact (traced (hidraw_io os)) request s = (res, s')" by fastforce
  from hidraw_transact [OF assms(1,2) run] assms(4) obtain n where n: "0 < n" "n \<le> 5"
    "transact_ends request (frame (sess_tid s) request) (wait (entry s)) 0 n (last_response_tid s')
      res (snd (io s'))"
    by (auto simp: MAX_ATTEMPTS_def)
  then have "slept (snd (io s')) \<le> n * wait (entry s) + (n - 1) * RETRY_DELAY"
    using slept_transact_ends by blast
  also have "\<dots> \<le> 5 * 31000 + 4 * 10000"
    using n(2) assms(3)
    by (intro add_mono mult_le_mono)
      (auto simp: RETRY_DELAY_def all_devices_def set_TABLE device_defs)
  finally show ?thesis by (simp add: run)
qed

theorem transact_time_bound_witness:
  "slept (snd (io (snd (transact (traced (hidraw_io silent_os)) cmd_get_serial silent_session)))) \<le> 195000"
  by (rule transact_time_bound)
    (simp_all only: constructed_wf constructed_check_request constructed_cmd,
      simp_all add: silent_session_def session_new_def all_devices_def set_TABLE)

subsection \<open>Nothing malformed leaves\<close>

text \<open>A report the outbound guard rejects reaches neither the transport nor the clock: \<open>send\<close> and
  \<open>transact_raw\<close> leave the session as it was, \<open>transact\<close> only counts its first attempt, and all three
  report the guard's error without a retry.\<close>

theorem malformed_never_sent:
  assumes "check_request request = Inl e"
  shows "send E request s = (Inl (Proto e), s) \<and> transact_raw E request s = (Inl (Proto e), s) \<and>
    transact E request s = (Inl (Proto e), s\<lparr>last_attempts := 1\<rparr>)"
proof -
  have send: "send E request s = (Inl (Proto e), s)" for s :: "'a session"
    unfolding send_def assms by simp
  then have raw: "transact_raw E request s = (Inl (Proto e), s)" for s :: "'a session"
    by (simp add: transact_raw_def)
  then have "transact E request s = (Inl (Proto e), s\<lparr>last_attempts := 1\<rparr>)"
    by (simp add: transact_def MAX_ATTEMPTS_def upt_conv_Cons attempt_number_def)
  with send raw show ?thesis by blast
qed

theorem malformed_never_sent_witness:
  "transact mock_io (new_report 0x00 0x82 81) (session_new blackwidow_v4_pro (mock_transport_new, mock_clock_new))
     = (Inl (Proto (DataSizeTooLarge 81)),
        (session_new blackwidow_v4_pro (mock_transport_new, mock_clock_new))\<lparr>last_attempts := 1\<rparr>)"
  by (rule malformed_never_sent [THEN conjunct2, THEN conjunct2])
    (simp add: check_request_def check_data_size_def ARGS_LEN_def)

text \<open>The polling-rate family of the table decides the command: on a device of the newer family
  every rate is one transaction with its 0x40 command, on the older family the three rates 1000, 500
  and 125 Hz are one transaction with the 0x05 command, and every other rate is refused with no call
  to the transport or the clock at all.\<close>

theorem set_poll_rate_family:
  assumes "entry s \<in> set all_devices"
  shows "set_poll_rate E rate s =
    (case poll_rate_kind (entry s) of
       V2 \<Rightarrow> and_then (transact E (cmd_set_poll_rate_v2 rate 0x00) s) (\<lambda>_ s. (Inr (), s))
     | Legacy \<Rightarrow>
         if hz rate \<in> {1000, 500, 125} then
           and_then (transact E
             (fill_args (new_report 0x00 0x05 0x01) [of_nat (1000 div unat (hz rate))]) s)
             (\<lambda>_ s. (Inr (), s))
         else (Inl (Proto (Malformed ''poll rate has no legacy encoding'')), s))"
proof -
  have "require s CAP_POLL_RATE ''poll rate'' = Inr ()"
    using assms by (simp add: require_def table_capability all_devices_def)
  then show ?thesis
    by (cases rate) (auto simp: set_poll_rate_def cmd_set_poll_rate_legacy_def split: poll_rate_kind.split)
qed

theorem set_poll_rate_family_witness:
  "set_poll_rate mock_io Hz8000 (session_new basilisk_v3_pro_wired (mock_transport_new, mock_clock_new))
    = (Inl (Proto (Malformed ''poll rate has no legacy encoding'')),
        session_new basilisk_v3_pro_wired (mock_transport_new, mock_clock_new))"
  by (subst set_poll_rate_family)
    (simp_all add: session_new_def basilisk_v3_pro_wired_def all_devices_def TABLE_def)

subsection \<open>Every frame of every run\<close>

text \<open>A sequence of calls whose writes all satisfy a predicate, between states of one identity.\<close>

definition writes_only :: "(bytes \<Rightarrow> bool) \<Rightarrow> hid_event list \<Rightarrow> bool" where
  "writes_only P = list_all (\<lambda>ev. case ev of SetEv buf \<Rightarrow> P buf | _ \<Rightarrow> True)"

lemma writes_only_simps [simp]:
  "writes_only P []" "writes_only P (SetEv buf # evs) \<longleftrightarrow> P buf \<and> writes_only P evs"
  "writes_only P (GetEv # evs) = writes_only P evs"
  "writes_only P (SleepEv d # evs) = writes_only P evs"
  "writes_only P (xs @ ys) \<longleftrightarrow> writes_only P xs \<and> writes_only P ys"
  by (simp_all add: writes_only_def)

definition sends :: "(u8 \<Rightarrow> bytes \<Rightarrow> bool) \<Rightarrow> ('w \<times> hid_event list) session
    \<Rightarrow> ('w \<times> hid_event list) session \<Rightarrow> bool" where
  "sends P s s' \<longleftrightarrow> keeps_identity s s' \<and>
     (\<exists>evs. snd (io s') = snd (io s) @ evs \<and> writes_only (P (sess_tid s)) evs)"

lemma sends_step:
  "keeps_identity s s' \<Longrightarrow> snd (io s') = snd (io s) @ evs \<Longrightarrow> writes_only (P (sess_tid s)) evs \<Longrightarrow>
    sends P s s'"
  unfolding sends_def by blast

lemma sends_refl: "sends P s s"
  by (rule sends_step [of _ _ "[]"]) (simp_all add: keeps_identity_def)

lemma sends_trans: "sends P s t \<Longrightarrow> sends P t u \<Longrightarrow> sends P s u"
  unfolding sends_def keeps_identity_def by (auto intro: exI)

lemma sends_send:
  assumes "wf_report request"
    and "check_request request = Inr () \<Longrightarrow> P (sess_tid s) (frame (sess_tid s) request)"
  shows "sends P s (snd (send (traced E) request s))"
proof (cases "check_request request")
  case (Inl e)
  then show ?thesis by (simp add: send_def sends_refl)
next
  case (Inr u)
  then have ok: "check_request request = Inr ()" by simp
  obtain x w where set: "set_feature E (frame (sess_tid s) request) (fst (io s)) = (x, w)" by fastforce
  show ?thesis
  proof (cases x)
    case Inl
    with set assms(2) [OF ok] show ?thesis
      unfolding send_frame [OF assms(1) ok]
      by (intro sends_step [of _ _ "[SetEv (frame (sess_tid s) request)]"]) (simp_all add: keeps_identity_def)
  next
    case Inr
    with set assms(2) [OF ok] show ?thesis
      unfolding send_frame [OF assms(1) ok]
      by (intro sends_step [of _ _ "[SetEv (frame (sess_tid s) request), SleepEv (wait (entry s))]"])
        (simp_all add: keeps_identity_def)
  qed
qed

lemma sends_receive: "sends P s (snd (receive (traced E) s))"
proof -
  obtain x buf w where "get_feature E (replicate HIDRAW_BUF_LEN 0) (fst (io s)) = ((x, buf), w)"
    by (metis prod.exhaust)
  then show ?thesis
    by (intro sends_step [of _ _ "[GetEv]"]) (cases x; simp add: receive_def keeps_identity_def Let_def)+
qed

lemma sends_pause: "sends P s (s\<lparr>io := clock_sleep (traced E) RETRY_DELAY (io s)\<rparr>)"
  by (rule sends_step [of _ _ "[SleepEv RETRY_DELAY]"]) (simp_all add: keeps_identity_def)

lemma sends_bookkeeping:
  "sends P s (s\<lparr>last_attempts := n\<rparr>)" "sends P s (s\<lparr>last_response_tid := x\<rparr>)"
  by (rule sends_step [of _ _ "[]"]; simp add: keeps_identity_def)+

text \<open>A frame as the session writes it: 91 bytes, the report id, the session's id in its place, the
  fields the outbound guard checks, and a checksum that verifies.\<close>

definition stamped :: "u8 \<Rightarrow> bytes \<Rightarrow> bool" where
  "stamped tid buf \<longleftrightarrow>
     length buf = 91 \<and> buf ! 0 = 0 \<and> buf ! 2 = tid \<and> buf ! 5 = 0 \<and> unat (buf ! 6) \<le> 80 \<and>
     buf ! 90 = 0 \<and> verify_crc (tl buf)"

lemma frame_nth_Suc: "frame tid request ! Suc n = to_bytes (with_transaction_id request tid) ! n"
  by (simp add: frame_def)

lemma stamped_frame:
  assumes "wf_report request" and "check_request request = Inr ()"
  shows "stamped tid (frame tid request)"
proof -
  have "wf_report (with_transaction_id request tid)" using assms(1) by simp
  note fields = to_bytes_fields [OF this]
  have "length (frame tid request) = 91" using assms(1) by (simp add: HIDRAW_BUF_LEN_def)
  moreover have "frame tid request ! 2 = tid"
    using frame_nth_Suc [of tid request 1] fields(2) by (simp add: with_transaction_id_def numeral_2_eq_2)
  moreover have "frame tid request ! 5 = 0" "unat (frame tid request ! 6) \<le> 80"
    using frame_nth_Suc [of tid request 4] frame_nth_Suc [of tid request 5] fields(5,6) assms(2)
    by (simp_all add: with_transaction_id_def ARGS_LEN_def)
  moreover have "frame tid request ! 90 = 0"
    using frame_nth_Suc [of tid request 89] fields(11) assms(2) by (simp add: with_transaction_id_def)
  moreover have "verify_crc (tl (frame tid request))"
    using assms(1) by (simp add: frame_def)
  ultimately show ?thesis by (simp add: stamped_def frame_def)
qed

interpretation stamps: typed_relation "traced E" wf_report "sends stamped" for E :: "'w hid_io"
  by unfold_locales
    (auto intro: sends_refl sends_trans sends_send sends_receive sends_pause sends_bookkeeping
      stamped_frame constructed_wf simp del: traced_simps)

text \<open>The trace of a run in phases: the frames of each phase carry its id.\<close>

definition phases :: "u8 list \<Rightarrow> hid_event list list \<Rightarrow> bool" where
  "phases tids = list_all2 (\<lambda>tid evs. writes_only (stamped tid) evs) tids"

lemma phases_extend:
  assumes "phases tids evss" and "tids \<noteq> []" and "writes_only (stamped (last tids)) evs"
  shows "\<exists>evss'. phases tids evss' \<and> concat evss' = concat evss @ evs"
proof -
  from assms(1) have len: "length tids = length evss" by (auto simp: phases_def dest: list_all2_lengthD)
  with assms(2) obtain init final where evss: "evss = init @ [final]" by (cases evss rule: rev_cases) auto
  obtain ids tid where tids: "tids = ids @ [tid]" using assms(2) by (cases tids rule: rev_cases) auto
  have "phases tids (init @ [final @ evs])"
    using assms(1,3) len by (simp add: phases_def evss tids list_all2_append)
  then show ?thesis by (intro exI [of _ "init @ [final @ evs]"]) (simp add: evss)
qed

lemma phases_sends:
  assumes "sends stamped t u" and "sess_tid t = last ids" and "ids \<noteq> []"
    and "\<exists>evss. phases ids evss \<and> snd (io t) = tr @ concat evss"
  shows "sess_tid u = last ids \<and> (\<exists>evss. phases ids evss \<and> snd (io u) = tr @ concat evss)"
proof -
  obtain evs where u: "sess_tid u = sess_tid t" "snd (io u) = snd (io t) @ evs" "writes_only (stamped (last ids)) evs"
    using assms(1,2) by (auto simp: sends_def keeps_identity_def)
  obtain evss where evss: "phases ids evss" "snd (io t) = tr @ concat evss" using assms(4) by blast
  from phases_extend [OF evss(1) assms(3) u(3)] obtain evss' where "phases ids evss'" "concat evss' = concat evss @ evs"
    by blast
  with u evss(2) assms(2) show ?thesis by auto
qed

lemma session_run_phases:
  assumes "session_run (traced E) s tids t"
  shows "sess_tid t = last (sess_tid s # tids) \<and>
    (\<exists>evss. phases (sess_tid s # tids) evss \<and> snd (io t) = snd (io s) @ concat evss)"
  using assms
proof (induction rule: session_run.induct)
  case start
  show ?case by (simp add: phases_def exI [of _ "[[]]"])
next
  case (typed tids t u)
  have "sends stamped t u" using typed.hyps(2) by (rule stamps.typed_step_R)
  with typed.IH show ?case by (intro phases_sends) blast+
next
  case (raw tids t u)
  have "sends stamped t u" using raw.hyps(2) by (rule stamps.raw_step_R [rotated])
  with raw.IH show ?case by (intro phases_sends) blast+
next
  case (override tids t tid)
  then obtain evss where "phases (sess_tid s # tids) evss" "snd (io t) = snd (io s) @ concat evss" by blast
  then have "phases (sess_tid s # tids @ [tid]) (evss @ [[]])"
    by (simp add: phases_def list_all2_appendI [of _ "sess_tid s # tids", simplified])
  then show ?case
    using \<open>snd (io t) = _\<close> by (auto simp: with_transaction_id_override_def intro!: exI [of _ "evss @ [[]]"])
qed


lemma two_phases:
  assumes "list_all2 (\<lambda>tid evs. P tid evs) [a, b] evss"
  shows "\<exists>before after. concat evss = before @ after \<and> P a before \<and> P b after"
proof -
  obtain before after where "evss = [before, after]" "P a before" "P b after"
    using assms by (auto simp: list_all2_Cons1)
  then show ?thesis by auto
qed


text \<open>The commands of the typed operations, as the class and id bytes of a frame.\<close>

definition typed_commands :: "(u8 \<times> u8) list" where
  "typed_commands =
     [(0x00, 0x04), (0x00, 0x84), (0x00, 0x81), (0x00, 0x82), (0x00, 0x05), (0x00, 0x85),
      (0x00, 0x40), (0x00, 0xC0), (0x0F, 0x02), (0x0F, 0x04), (0x0F, 0x84)]"

definition typed_frame :: "u8 \<Rightarrow> bytes \<Rightarrow> bool" where
  "typed_frame tid buf \<longleftrightarrow>
     stamped tid buf \<and> buf ! 1 = 0 \<and> (buf ! 7, buf ! 8) \<in> set typed_commands \<and>
     ((buf ! 7, buf ! 8) \<noteq> (0x00, 0x04) \<or> buf ! 9 \<in> {0x00, 0x03} \<and> buf ! 10 = 0)"

lemma frame_bytes:
  assumes "wf_report request"
  shows "frame tid request ! 1 = status_to_u8 (status request)"
    and "frame tid request ! 7 = command_class request"
    and "frame tid request ! 8 = command_id request"
    and "i < 80 \<Longrightarrow> frame tid request ! (9 + i) = arguments request ! i"
proof -
  have wf: "wf_report (with_transaction_id request tid)" using assms by simp
  note fields = to_bytes_fields [OF wf]
  show "frame tid request ! 1 = status_to_u8 (status request)"
    using frame_nth_Suc [of tid request 0] fields(1) by (simp add: with_transaction_id_def)
  show "frame tid request ! 7 = command_class request" "frame tid request ! 8 = command_id request"
    using frame_nth_Suc [of tid request 6] frame_nth_Suc [of tid request 7] fields(7,8)
    by (simp_all add: with_transaction_id_def)
  assume i: "i < 80"
  have "arguments request ! i = take 80 (drop 8 (to_bytes (with_transaction_id request tid))) ! i"
    using fields(9) by (simp add: with_transaction_id_def)
  also have "\<dots> = to_bytes (with_transaction_id request tid) ! (8 + i)"
    using i wf by (simp add: REPORT_LEN_def)
  finally show "frame tid request ! (9 + i) = arguments request ! i"
    using frame_nth_Suc [of tid request "8 + i"] by simp
qed

lemma constructed_command:
  assumes "constructed request"
  shows "(command_class request, command_id request) \<in> set typed_commands"
    and "command_class request = 0x00 \<Longrightarrow> command_id request = 0x04 \<Longrightarrow>
      \<exists>mode. request = cmd_set_device_mode mode"
proof -
  have "(command_class request, command_id request) \<in> set typed_commands \<and>
      (command_class request = 0x00 \<and> command_id request = 0x04 \<longrightarrow>
        (\<exists>mode. request = cmd_set_device_mode mode))"
    using assms
  proof cases
    case (9 rate)
    then have "command_class request = 0x00 \<and> command_id request = 0x05"
      by (auto simp: cmd_set_poll_rate_legacy_def split: sum.splits)
    then show ?thesis by (simp add: typed_commands_def)
  next
    case (1 mode)
    then show ?thesis by (auto simp: typed_commands_def cmd_set_device_mode_def)
  qed (simp_all add: typed_commands_def cmd_defs)
  then show "(command_class request, command_id request) \<in> set typed_commands"
    and "command_class request = 0x00 \<Longrightarrow> command_id request = 0x04 \<Longrightarrow>
      \<exists>mode. request = cmd_set_device_mode mode" by blast+
qed

lemma device_mode_arguments:
  "arguments (cmd_set_device_mode mode) ! 0 \<in> {0x00, 0x03} \<and> arguments (cmd_set_device_mode mode) ! 1 = 0"
  by (cases mode) (simp_all add: cmd_set_device_mode_def fill_args_new ARGS_LEN_def)

lemma typed_frame_constructed:
  assumes "constructed request"
  shows "typed_frame tid (frame tid request)"
proof -
  have wf: "wf_report request" using assms by (rule constructed_wf)
  note bytes = frame_bytes [OF wf]
  have "frame tid request ! 1 = 0"
    using constructed_is_clean [OF assms] by (simp add: clean_request_def bytes(1) del: One_nat_def)
  moreover have "stamped tid (frame tid request)"
    using wf constructed_check_request [OF assms] by (rule stamped_frame)
  moreover have "frame tid request ! 9 \<in> {0x00, 0x03} \<and> frame tid request ! 10 = 0"
    if "command_class request = 0x00" "command_id request = 0x04"
    using constructed_command(2) [OF assms that] bytes(4) [of 0] bytes(4) [of 1] device_mode_arguments
    by auto
  ultimately show ?thesis
    using constructed_command(1) [OF assms] by (auto simp: typed_frame_def bytes(2,3))
qed

interpretation types: typed_relation "traced E" constructed "sends typed_frame" for E :: "'w hid_io"
  by unfold_locales
    (auto intro: sends_refl sends_trans sends_send sends_receive sends_pause sends_bookkeeping
      typed_frame_constructed constructed_wf simp del: traced_simps)

text \<open>C5: in every run of typed operations on a table entry, over any transport, each frame is a new
  host command stamped 0x1F whose class and id are one of eleven commands, and a device-mode write
  selects mode 0x00 or 0x03 and nothing else: the factory and bootloader modes cannot be requested.\<close>

theorem typed_frames_only:
  assumes "typed_run (traced E) (session_new e (w, [])) t" and "e \<in> set all_devices"
  shows "writes_only (typed_frame 0x1F) (snd (io t))"
proof -
  have "sends typed_frame (session_new e (w, [])) t"
    using assms(1) by (rule types.typed_run_R)
  moreover have "dev_transaction_id e = 0x1F"
    using assms(2) by (auto simp: all_devices_def set_TABLE device_defs)
  ultimately show ?thesis by (auto simp: sends_def session_new_def)
qed

theorem typed_frames_only_witness:
  "writes_only (typed_frame 0x1F) (snd (io (snd (set_device_mode (traced mock_io) Driver
     (session_new blackwidow_v4_pro ((mock_transport_new, mock_clock_new), []))))))"
  by (rule typed_frames_only [OF typed_run.typed [OF typed_run.start typed_step.intros(1)]])
    (simp add: all_devices_def TABLE_def)

lemma override_frame_nth:
  assumes "wf_report request" and "n < 91" and "n \<noteq> 2"
  shows "frame tid request ! n = frame tid' request ! n"
proof (cases n)
  case 0
  then show ?thesis by (simp add: frame_def)
next
  case (Suc m)
  have split: "to_bytes (with_transaction_id request i) =
      [status_to_u8 (status request)] @ i # drop 2 (to_bytes (with_transaction_id request 0))" for i
    using assms(1) by (simp add: to_bytes_eq with_transaction_id_def wf_report_def Let_def)
  from Suc assms(3) have "m \<noteq> 1" by simp
  then show ?thesis
    unfolding Suc frame_nth_Suc split [of tid] split [of tid']
    by (cases m; cases "m - 1") simp_all
qed

lemma stamped_byte: "wf_report request \<Longrightarrow> frame tid request ! 2 = tid"
  using frame_nth_Suc [of tid request 1] to_bytes_fields(2) [of "with_transaction_id request tid"]
  by (simp add: numeral_2_eq_2) (simp add: with_transaction_id_def)

text \<open>The diagnostic override changes one byte: the frame a session would write with another id
  differs from its own in byte 2 and nowhere else, not even in the checksum, and the entry, the
  surroundings and the records of the session stay as they are.\<close>

theorem override_changes_one_byte:
  assumes "wf_report request"
  shows "frame (sess_tid (with_transaction_id_override s tid)) request
      = (frame (sess_tid s) request)[2 := tid] \<and>
    with_transaction_id_override s tid = s\<lparr>sess_tid := tid\<rparr> \<and>
    sess_tid (session_new e w) = dev_transaction_id e"
proof -
  have "frame tid request = (frame (sess_tid s) request)[2 := tid]"
  proof (rule list_eq_iff_nth_less [of _ 91])
    show "length (frame tid request) = 91" "length ((frame (sess_tid s) request)[2 := tid]) = 91"
      using assms by (simp_all add: HIDRAW_BUF_LEN_def)
    fix i :: nat assume "i < 91"
    with assms show "frame tid request ! i = (frame (sess_tid s) request)[2 := tid] ! i"
      using override_frame_nth [OF assms, of i tid "sess_tid s"] stamped_byte [OF assms]
      by (cases "i = 2") (simp_all add: assms HIDRAW_BUF_LEN_def)
  qed
  then show ?thesis by (simp add: with_transaction_id_override_def session_new_def)
qed

theorem override_changes_one_byte_witness:
  "frame 0xFF (cmd_set_device_mode Normal) = (frame 0x1F (cmd_set_device_mode Normal))[2 := 0xFF]"
  using override_changes_one_byte [OF constructed_wf [OF constructed_cmd(1) [of Normal]],
      where s = silent_session and tid = "0xFF", THEN conjunct1]
  by (simp add: silent_tid with_transaction_id_override_def)

end
