(* ===== verification/Sysfs.thy ===== *)
theory Sysfs
  imports Hid_Error
begin

text \<open>
  Reading the USB interface behind a \<open>hidraw\<close> node, \<open>crates/razer-hid/src/sysfs.rs\<close>, and the
  in-memory tree of \<open>crates/razer-hid/src/mock.rs\<close>.

  The file system is the parameter \<open>files\<close> of the definitions: what listing, resolving and reading
  return during one enumeration, with the texts the operating system's errors print as and the
  \<open>Debug\<close> form of a string. A path is its text. \<open>sysfs_source\<close> is the trait of the same name, its
  documented error contract is the locale \<open>sysfs_contract\<close>, and both implementations are
  interpretations of it.
\<close>

subsection \<open>Paths\<close>

definition path_join :: "string \<Rightarrow> string \<Rightarrow> string" where
  "path_join p q =
     (if q \<noteq> [] \<and> hd q = CHR ''/'' then q
      else if p = [] \<or> last p = CHR ''/'' then p @ q
      else p @ ''/'' @ q)"

definition strip_slashes :: "string \<Rightarrow> string" where
  "strip_slashes p = rev (dropWhile (\<lambda>c. c = CHR ''/'') (rev p))"

text \<open>\<open>Path::parent\<close> on a resolved path, which has no dot components.\<close>

definition path_parent :: "string \<Rightarrow> string option" where
  "path_parent p =
     (let q = strip_slashes p in
      if q = [] then None
      else
        let r = rev (dropWhile (\<lambda>c. c \<noteq> CHR ''/'') (rev q)) in
        Some (if r \<noteq> [] \<and> strip_slashes r = [] then ''/'' else strip_slashes r))"

text \<open>\<open>Path::ancestors\<close>, cut off after \<open>n\<close>.\<close>

fun ancestors_take :: "nat \<Rightarrow> string \<Rightarrow> string list" where
  "ancestors_take 0 p = []"
| "ancestors_take (Suc n) p =
     p # (case path_parent p of None \<Rightarrow> [] | Some q \<Rightarrow> ancestors_take n q)"

subsection \<open>The file system and the source of metadata\<close>

record files =
  read_dir :: "string \<Rightarrow> int option + (int option + string option) list"
  canonicalize :: "string \<Rightarrow> string option"
  is_file :: "string \<Rightarrow> bool"
  read_to_string :: "string \<Rightarrow> string + string"
  debug_str :: "string \<Rightarrow> string"

definition MAX_ANCESTOR_WALK :: nat where "MAX_ANCESTOR_WALK = 12"

record usb_interface_info =
  info_vendor_id :: u16
  info_product_id :: u16
  interface_number :: u8
  interface_protocol :: u8

record sysfs_source =
  hidraw_names :: "hid_error + string list"
  interface_info :: "string \<Rightarrow> hid_error + usb_interface_info option"
  device_path :: "string \<Rightarrow> string"

locale sysfs_contract =
  fixes S :: sysfs_source
  assumes names_err: "hidraw_names S = Inl e \<Longrightarrow> \<exists>oper errno. e = Io oper errno"
    and info_err: "interface_info S n = Inl e \<Longrightarrow> \<exists>msg. e = Sysfs msg"
    and path_dev: "device_path S n = path_join ''/dev'' n"

subsection \<open>RealSysfs\<close>

text \<open>\<open>lim\<close> is 2 to the width of the type the caller asks for.\<close>

definition read_hex :: "nat \<Rightarrow> files \<Rightarrow> string \<Rightarrow> hid_error + nat" where
  "read_hex lim fs p =
     (case read_to_string fs p of
        Inl e \<Rightarrow> Inl (Sysfs (p @ '': '' @ e))
      | Inr raw \<Rightarrow>
          let content = trim raw in
          (case from_str_radix (2 ^ 32) 16 content of
             Inl e \<Rightarrow> Inl (Sysfs (p @ '': '' @ debug_str fs content @ '' is not hex: '' @ show_int_error e))
           | Inr v \<Rightarrow>
               if v < lim then Inr v
               else Inl (Sysfs (p @ '': '' @ fmt_hex_alt 0 v @ '' does not fit the expected width''))))"

definition class_dir :: "string \<Rightarrow> string" where
  "class_dir root = path_join (path_join root ''class'') ''hidraw''"

definition errno_or_0 :: "int option \<Rightarrow> int" where
  "errno_or_0 e = (case e of None \<Rightarrow> 0 | Some n \<Rightarrow> n)"

text \<open>The loop over the directory entries: it stops at the first that cannot be read and skips names
  that are not UTF-8.\<close>

fun collect_names :: "(int option + string option) list \<Rightarrow> hid_error + string list" where
  "collect_names [] = Inr []"
| "collect_names (Inl e # es) = Inl (Io ''read_dir(/sys/class/hidraw)'' (errno_or_0 e))"
| "collect_names (Inr None # es) = collect_names es"
| "collect_names (Inr (Some n) # es) =
     (case collect_names es of Inl e \<Rightarrow> Inl e | Inr ns \<Rightarrow> Inr (n # ns))"

definition real_hidraw_names :: "files \<Rightarrow> string \<Rightarrow> hid_error + string list" where
  "real_hidraw_names fs root =
     (case read_dir fs (class_dir root) of
        Inl e \<Rightarrow> Inl (Io ''read_dir(/sys/class/hidraw)'' (errno_or_0 e))
      | Inr es \<Rightarrow> collect_names es)"

definition real_interface_info ::
  "files \<Rightarrow> string \<Rightarrow> string \<Rightarrow> hid_error + usb_interface_info option" where
  "real_interface_info fs root n =
     (let link = path_join (path_join (class_dir root) n) ''device'' in
      case canonicalize fs link of
        None \<Rightarrow> Inr None
      | Some resolved \<Rightarrow>
          (case List.find (\<lambda>dir. is_file fs (path_join dir ''bInterfaceNumber''))
                  (ancestors_take MAX_ANCESTOR_WALK resolved) of
             None \<Rightarrow> Inr None
           | Some iface \<Rightarrow>
               (case path_parent iface of
                  None \<Rightarrow> Inr None
                | Some usb \<Rightarrow>
                    if \<not> is_file fs (path_join usb ''idVendor'') then Inr None
                    else
                      (case read_hex (2 ^ 16) fs (path_join usb ''idVendor'') of
                         Inl e \<Rightarrow> Inl e
                       | Inr vid \<Rightarrow>
                           (case read_hex (2 ^ 16) fs (path_join usb ''idProduct'') of
                              Inl e \<Rightarrow> Inl e
                            | Inr prd \<Rightarrow>
                                (case read_hex (2 ^ 8) fs (path_join iface ''bInterfaceNumber'') of
                                   Inl e \<Rightarrow> Inl e
                                 | Inr num \<Rightarrow>
                                     (case read_hex (2 ^ 8) fs (path_join iface ''bInterfaceProtocol'') of
                                        Inl e \<Rightarrow> Inl e
                                      | Inr prot \<Rightarrow>
                                          Inr (Some \<lparr>info_vendor_id = of_nat vid,
                                            info_product_id = of_nat prd,
                                            interface_number = of_nat num,
                                            interface_protocol = of_nat prot\<rparr>))))))))"

definition real_device_path :: "string \<Rightarrow> string" where [simp]:
  "real_device_path n = path_join ''/dev'' n"

definition real_sysfs :: "files \<Rightarrow> string \<Rightarrow> sysfs_source" where
  "real_sysfs fs root =
     \<lparr>hidraw_names = real_hidraw_names fs root,
      interface_info = real_interface_info fs root,
      device_path = real_device_path\<rparr>"

definition real_sysfs_new :: "files \<Rightarrow> sysfs_source" where
  "real_sysfs_new fs = real_sysfs fs ''/sys''"

lemma read_hex_err: "read_hex lim fs p = Inl e \<Longrightarrow> \<exists>msg. e = Sysfs msg"
  by (auto simp: read_hex_def Let_def split: sum.splits if_splits)

lemma collect_names_err: "collect_names es = Inl e \<Longrightarrow> \<exists>oper errno. e = Io oper errno"
  by (induction es rule: collect_names.induct) (auto split: sum.splits)

interpretation real: sysfs_contract "real_sysfs fs root" for fs root
proof unfold_locales
  fix e assume "hidraw_names (real_sysfs fs root) = Inl e"
  then show "\<exists>oper errno. e = Io oper errno"
    by (auto simp: real_sysfs_def real_hidraw_names_def split: sum.splits dest: collect_names_err)
next
  fix n e assume "interface_info (real_sysfs fs root) n = Inl e"
  then show "\<exists>msg. e = Sysfs msg"
    by (auto simp: real_sysfs_def real_interface_info_def Let_def dest: read_hex_err
        split: sum.splits option.splits if_splits)
qed (simp add: real_sysfs_def)

subsection \<open>Reading what the kernel prints\<close>

text \<open>An attribute file: the number in lower-case hexadecimal with leading zeros, and a line feed.\<close>

definition attribute :: "nat \<Rightarrow> nat \<Rightarrow> string" where
  "attribute w v = fmt_hex w v @ [CHR 0x0A]"

lemma read_hex_attribute:
  assumes "read_to_string fs p = Inr (attribute w v)" and "v < lim" and "lim \<le> 2 ^ 32"
  shows "read_hex lim fs p = Inr v"
proof -
  have "trim (attribute w v) = fmt_hex w v"
    unfolding attribute_def by (rule trim_fmt_hex) (simp add: ascii_whitespace_def)
  moreover have "from_str_radix (2 ^ 32) 16 (fmt_hex w v) = Inr v"
    unfolding fmt_hex_def using assms(2,3) by (intro from_str_radix_fmt) simp_all
  ultimately show ?thesis using assms(1,2) by (simp add: read_hex_def)
qed

definition usb_tree :: "files \<Rightarrow> string \<Rightarrow> string \<Rightarrow> usb_interface_info \<Rightarrow> bool" where
  "usb_tree fs iface usb info \<longleftrightarrow>
     is_file fs (path_join usb ''idVendor'') \<and>
     read_to_string fs (path_join usb ''idVendor'') = Inr (attribute 4 (unat (info_vendor_id info))) \<and>
     read_to_string fs (path_join usb ''idProduct'') = Inr (attribute 4 (unat (info_product_id info))) \<and>
     read_to_string fs (path_join iface ''bInterfaceNumber'') = Inr (attribute 2 (unat (interface_number info))) \<and>
     read_to_string fs (path_join iface ''bInterfaceProtocol'') = Inr (attribute 2 (unat (interface_protocol info)))"

lemma interface_info_tree:
  assumes "canonicalize fs (path_join (path_join (class_dir root) n) ''device'') = Some resolved"
    and "List.find (\<lambda>dir. is_file fs (path_join dir ''bInterfaceNumber'')) (ancestors_take 12 resolved)
      = Some iface"
    and "path_parent iface = Some usb" and "usb_tree fs iface usb info"
  shows "interface_info (real_sysfs fs root) n = Inr (Some info)"
proof -
  have bounds: "unat v < 2 ^ 16" "unat u < 2 ^ 8" for v :: u16 and u :: u8
    using unat_less_65536 [of v] unat_less_256 [of u] by simp_all
  have "read_hex (2 ^ 16) fs (path_join usb ''idVendor'') = Inr (unat (info_vendor_id info))"
    and "read_hex (2 ^ 16) fs (path_join usb ''idProduct'') = Inr (unat (info_product_id info))"
    and "read_hex (2 ^ 8) fs (path_join iface ''bInterfaceNumber'') = Inr (unat (interface_number info))"
    and "read_hex (2 ^ 8) fs (path_join iface ''bInterfaceProtocol'') = Inr (unat (interface_protocol info))"
    using assms(4) bounds by (auto simp: usb_tree_def intro!: read_hex_attribute)
  then show ?thesis
    using assms by (simp add: real_sysfs_def real_interface_info_def MAX_ANCESTOR_WALK_def usb_tree_def)
qed

text \<open>C25: reading a node's metadata back from the tree: when the resolved device link has, within
  twelve levels, a first ancestor that carries an interface number, and the attribute files there and
  in its parent hold the four numbers the way the kernel prints them, then these four numbers are
  what the walker returns.\<close>

theorem interface_info_reads_tree:
  assumes "canonicalize fs (path_join (path_join (class_dir root) n) ''device'') = Some resolved"
    and "List.find (\<lambda>dir. is_file fs (path_join dir ''bInterfaceNumber'')) (ancestors_take 12 resolved)
      = Some iface"
    and "path_parent iface = Some usb" and "usb_tree fs iface usb info"
  shows "interface_info (real_sysfs fs root) n = Inr (Some info)"
  using assms by (rule interface_info_tree)

text \<open>A tree with one keyboard.\<close>

definition sample_files :: files where
  "sample_files =
     \<lparr>read_dir = (\<lambda>_. Inr [Inr (Some ''hidraw3'')]),
      canonicalize = (\<lambda>_. Some ''/d/1-2:1.3/h''),
      is_file = (\<lambda>p. p \<in> {''/d/1-2:1.3/bInterfaceNumber'', ''/d/idVendor''}),
      read_to_string = (\<lambda>p.
        if p = ''/d/idVendor'' then Inr (attribute 4 0x1532)
        else if p = ''/d/idProduct'' then Inr (attribute 4 0x028D)
        else if p = ''/d/1-2:1.3/bInterfaceNumber'' then Inr (attribute 2 3)
        else Inr (attribute 2 2)),
      debug_str = (\<lambda>t. t)\<rparr>"

definition sample_info :: usb_interface_info where
  "sample_info = \<lparr>info_vendor_id = 0x1532, info_product_id = 0x028D, interface_number = 3, interface_protocol = 2\<rparr>"

lemma sample_tree:
  "canonicalize sample_files (path_join (path_join (class_dir ''/sys'') n) ''device'') = Some ''/d/1-2:1.3/h''"
  "List.find (\<lambda>dir. is_file sample_files (path_join dir ''bInterfaceNumber''))
    (ancestors_take 12 ''/d/1-2:1.3/h'') = Some ''/d/1-2:1.3''"
  "path_parent ''/d/1-2:1.3'' = Some ''/d''"
  "usb_tree sample_files ''/d/1-2:1.3'' ''/d'' sample_info"
proof -
  have "ancestors_take (Suc (Suc 10)) ''/d/1-2:1.3/h'' = [''/d/1-2:1.3/h'', ''/d/1-2:1.3'']
      @ (case path_parent ''/d/1-2:1.3'' of None \<Rightarrow> [] | Some q \<Rightarrow> ancestors_take 10 q)"
    unfolding ancestors_take.simps by (simp add: path_parent_def strip_slashes_def Let_def)
  moreover have "(12 :: nat) = Suc (Suc 10)" by simp
  ultimately have "ancestors_take 12 ''/d/1-2:1.3/h'' = [''/d/1-2:1.3/h'', ''/d/1-2:1.3'']
      @ (case path_parent ''/d/1-2:1.3'' of None \<Rightarrow> [] | Some q \<Rightarrow> ancestors_take 10 q)"
    by (simp only:)
  then show "List.find (\<lambda>dir. is_file sample_files (path_join dir ''bInterfaceNumber''))
      (ancestors_take 12 ''/d/1-2:1.3/h'') = Some ''/d/1-2:1.3''"
    by (simp add: sample_files_def path_join_def)
qed (simp_all add: sample_files_def path_parent_def strip_slashes_def path_join_def usb_tree_def sample_info_def)

theorem interface_info_reads_tree_witness:
  "interface_info (real_sysfs sample_files ''/sys'') ''hidraw3'' = Inr (Some sample_info)"
  by (rule interface_info_reads_tree [OF sample_tree])

subsection \<open>MockSysfs\<close>

definition PROTO_CONTROL :: u8 where [simp]: "PROTO_CONTROL = 0x02"
definition PROTO_KEYBOARD :: u8 where [simp]: "PROTO_KEYBOARD = 0x01"
definition PROTO_NONE :: u8 where [simp]: "PROTO_NONE = 0x00"
definition RAZER :: u16 where [simp]: "RAZER = 0x1532"

type_synonym mock_sysfs = "(string \<times> usb_interface_info option) list"

definition mock_sysfs_new :: mock_sysfs where "mock_sysfs_new = []"

definition with_node :: "mock_sysfs \<Rightarrow> string \<Rightarrow> usb_interface_info \<Rightarrow> mock_sysfs" where
  "with_node nodes n info = nodes @ [(n, Some info)]"

definition without_usb_parent :: "mock_sysfs \<Rightarrow> string \<Rightarrow> mock_sysfs" where
  "without_usb_parent nodes n = nodes @ [(n, None)]"

definition usb :: "u16 \<Rightarrow> u8 \<Rightarrow> u8 \<Rightarrow> usb_interface_info" where
  "usb p num prot =
     \<lparr>info_vendor_id = RAZER, info_product_id = p, interface_number = num, interface_protocol = prot\<rparr>"

definition mock_blackwidow_v4_pro :: mock_sysfs where
  "mock_blackwidow_v4_pro =
     with_node (with_node (with_node (with_node mock_sysfs_new
       ''hidraw0'' (usb 0x028D 0 PROTO_KEYBOARD))
       ''hidraw1'' (usb 0x028D 1 PROTO_NONE))
       ''hidraw2'' (usb 0x028D 2 PROTO_NONE))
       ''hidraw3'' (usb 0x028D 3 PROTO_CONTROL)"

definition mock_basilisk_v3_pro_wireless :: mock_sysfs where
  "mock_basilisk_v3_pro_wireless =
     with_node (with_node (with_node mock_sysfs_new
       ''hidraw4'' (usb 0x00AB 0 PROTO_CONTROL))
       ''hidraw5'' (usb 0x00AB 1 PROTO_KEYBOARD))
       ''hidraw6'' (usb 0x00AB 2 PROTO_NONE)"

definition mock_source :: "mock_sysfs \<Rightarrow> sysfs_source" where
  "mock_source nodes =
     \<lparr>hidraw_names = Inr (map fst nodes),
      interface_info = (\<lambda>n. Inr (case List.find (\<lambda>p. fst p = n) nodes of None \<Rightarrow> None | Some p \<Rightarrow> snd p)),
      device_path = path_join ''/dev''\<rparr>"

interpretation mock_tree: sysfs_contract "mock_source nodes" for nodes
  by unfold_locales (simp_all add: mock_source_def)

end
