(* ===== verification/Enumerate.thy ===== *)
theory Enumerate
  imports Sysfs Devices "HOL-Library.Product_Lexorder" "HOL-Library.List_Lexorder" "HOL-Library.Multiset"
begin

text \<open>
  Picking the node of a device, \<open>crates/razer-hid/src/enumerate.rs\<close>: the numeric order of the names,
  the search and the listing, each a loop over the sorted names with the error of the first node
  that cannot be read. The lemmas describe both loops completely and show that the order in which
  the source lists the names does not matter.
\<close>

subsection \<open>Order\<close>

definition hidraw_index :: "string \<Rightarrow> nat option" where
  "hidraw_index n =
     (if take 6 n = ''hidraw'' then
        (case from_str_radix (2 ^ 32) 10 (drop 6 n) of Inl _ \<Rightarrow> None | Inr i \<Rightarrow> Some i)
      else None)"

definition index_key :: "string \<Rightarrow> nat \<times> string" where
  "index_key n = ((case hidraw_index n of None \<Rightarrow> 2 ^ 32 - 1 | Some i \<Rightarrow> i), n)"

definition sort_by_index :: "string list \<Rightarrow> string list" where
  "sort_by_index names = sort_key index_key names"

subsection \<open>The two loops\<close>

record hidraw_node =
  node_name :: string
  node_path :: string
  node_info :: usb_interface_info

fun find_loop ::
  "sysfs_source \<Rightarrow> u16 \<Rightarrow> u16 \<Rightarrow> u8 \<Rightarrow> string list \<Rightarrow> hid_error + hidraw_node" where
  "find_loop S vid p itf [] = Inl (DeviceNotFound vid p itf)"
| "find_loop S vid p itf (n # names) =
     (case interface_info S n of
        Inl e \<Rightarrow> Inl e
      | Inr None \<Rightarrow> find_loop S vid p itf names
      | Inr (Some info) \<Rightarrow>
          if info_vendor_id info = vid \<and> info_product_id info = p \<and> interface_number info = itf then
            Inr \<lparr>node_name = n, node_path = device_path S n, node_info = info\<rparr>
          else find_loop S vid p itf names)"

definition find_device :: "sysfs_source \<Rightarrow> u16 \<Rightarrow> u16 \<Rightarrow> u8 \<Rightarrow> hid_error + hidraw_node" where
  "find_device S vid p itf =
     (case hidraw_names S of
        Inl e \<Rightarrow> Inl e
      | Inr names \<Rightarrow> find_loop S vid p itf (sort_by_index names))"

fun list_loop :: "sysfs_source \<Rightarrow> string list \<Rightarrow> hidraw_node list \<Rightarrow> hid_error + hidraw_node list" where
  "list_loop S [] out = Inr out"
| "list_loop S (n # names) out =
     (case interface_info S n of
        Inl e \<Rightarrow> Inl e
      | Inr None \<Rightarrow> list_loop S names out
      | Inr (Some info) \<Rightarrow>
          if info_vendor_id info = VENDOR_ID then
            list_loop S names (out @ [\<lparr>node_name = n, node_path = device_path S n, node_info = info\<rparr>])
          else list_loop S names out)"

definition list_razer_nodes :: "sysfs_source \<Rightarrow> hid_error + hidraw_node list" where
  "list_razer_nodes S =
     (case hidraw_names S of
        Inl e \<Rightarrow> Inl e
      | Inr names \<Rightarrow> list_loop S (sort_by_index names) [])"

subsection \<open>Sorting\<close>

lemma inj_index_key: "inj index_key"
  by (auto simp: inj_def index_key_def)

lemma sort_by_index_mset [simp]: "mset (sort_by_index names) = mset names"
  by (simp add: sort_by_index_def)

lemma sort_by_index_set [simp]: "set (sort_by_index names) = set names"
  by (simp add: sort_by_index_def)

lemma sort_by_index_cong:
  assumes "mset names = mset names'"
  shows "sort_by_index names = sort_by_index names'"
  unfolding sort_by_index_def
proof (rule properties_for_sort_key)
  show "mset (sort_key index_key names') = mset names" using assms by simp
next
  fix k
  have "filter (\<lambda>x. index_key k = index_key x) xs = replicate (count (mset xs) k) k" for xs
    by (induction xs) (auto simp: inj_eq [OF inj_index_key])
  then show "filter (\<lambda>x. index_key k = index_key x) (sort_key index_key names')
      = filter (\<lambda>x. index_key k = index_key x) names"
    using assms by simp
qed simp

text \<open>The names the kernel gives.\<close>

definition hidraw_name :: "nat \<Rightarrow> string" where
  "hidraw_name i = ''hidraw'' @ fmt_dec i"

lemma hidraw_index_name [simp]: "i < 2 ^ 32 \<Longrightarrow> hidraw_index (hidraw_name i) = Some i"
  using from_str_radix_fmt [of 10 i "2 ^ 32" 0 False]
  by (simp add: hidraw_index_def hidraw_name_def fmt_dec_def pad_zero_def)

lemma index_key_name: "i < 2 ^ 32 \<Longrightarrow> index_key (hidraw_name i) = (i, hidraw_name i)"
  by (simp add: index_key_def)

lemma sort_names:
  assumes "mset names = mset (map hidraw_name is)" and "\<forall>i \<in> set is. i < 2 ^ 32"
  shows "sort_by_index names = map hidraw_name (sort is)"
proof -
  have "index_key (hidraw_name i) \<le> index_key (hidraw_name j)" if "i \<in> set is" "j \<in> set is" "i \<le> j" for i j
    using that assms(2) by (auto simp: index_key_name less_eq_prod_def le_less)
  then have "sorted (map index_key (map hidraw_name (sort is)))"
    unfolding sorted_map map_map
    by (auto simp: sorted_wrt_map intro: sorted_wrt_mono_rel [of _ "(\<le>)"])
  then have "sort_by_index (map hidraw_name (sort is)) = map hidraw_name (sort is)"
    unfolding sort_by_index_def by (rule sort_key_id_if_sorted)
  moreover have "sort_by_index names = sort_by_index (map hidraw_name (sort is))"
    using assms(1) by (intro sort_by_index_cong) simp
  ultimately show ?thesis by simp
qed

text \<open>The names are put in order without losing or repeating one; names of the kernel's form
  \<open>hidraw<N>\<close> come in the numeric order of their numbers (so \<open>hidraw10\<close> after \<open>hidraw9\<close>), and the
  outcome does not depend on the order they were listed in.\<close>

theorem sort_by_index_spec:
  assumes "mset names = mset (map hidraw_name is)" and "\<forall>i \<in> set is. i < 2 ^ 32"
  shows "sort_by_index names = map hidraw_name (sort is)"
  using assms by (rule sort_names)

lemma hidraw_literals:
  "hidraw_name 0 = ''hidraw0''" "hidraw_name 1 = ''hidraw1''" "hidraw_name 2 = ''hidraw2''"
  "hidraw_name 3 = ''hidraw3''" "hidraw_name 4 = ''hidraw4''" "hidraw_name 5 = ''hidraw5''"
  "hidraw_name 6 = ''hidraw6''" "hidraw_name 9 = ''hidraw9''" "hidraw_name 10 = ''hidraw10''"
  by (simp_all add: hidraw_name_def fmt_dec_def fmt_radix.simps digit_char_def char_of_def bit_0)

theorem sort_by_index_spec_witness:
  "sort_by_index [''hidraw10'', ''hidraw9''] = [''hidraw9'', ''hidraw10'']"
proof -
  note hidraw_literals
  then show ?thesis using sort_by_index_spec [of "[''hidraw10'', ''hidraw9'']" "[10, 9]"] by simp
qed

subsection \<open>The search\<close>

definition matches :: "u16 \<Rightarrow> u16 \<Rightarrow> u8 \<Rightarrow> usb_interface_info \<Rightarrow> bool" where
  "matches vid p itf info \<longleftrightarrow>
     info_vendor_id info = vid \<and> info_product_id info = p \<and> interface_number info = itf"

text \<open>A node the search passes over: it is readable and is not the one.\<close>

definition passed_over :: "sysfs_source \<Rightarrow> u16 \<Rightarrow> u16 \<Rightarrow> u8 \<Rightarrow> string \<Rightarrow> bool" where
  "passed_over S vid p itf n \<longleftrightarrow>
     (case interface_info S n of
        Inl _ \<Rightarrow> False | Inr None \<Rightarrow> True | Inr (Some info) \<Rightarrow> \<not> matches vid p itf info)"

lemma find_loop_append:
  assumes "list_all (passed_over S vid p itf) pre"
  shows "find_loop S vid p itf (pre @ names) = find_loop S vid p itf names"
  using assms
  by (induction pre) (auto simp: passed_over_def matches_def split: sum.splits option.splits)

text \<open>The loop stops at the first name it does not pass over.\<close>

lemma find_loop_dropWhile:
  "find_loop S vid p itf names = find_loop S vid p itf (dropWhile (passed_over S vid p itf) names)"
proof -
  have "find_loop S vid p itf (takeWhile (passed_over S vid p itf) names
      @ dropWhile (passed_over S vid p itf) names)
    = find_loop S vid p itf (dropWhile (passed_over S vid p itf) names)"
    by (rule find_loop_append) (auto simp: list_all_iff dest: set_takeWhileD)
  then show ?thesis by simp
qed

lemma find_loop_spec:
  "find_loop S vid p itf names =
    (case dropWhile (passed_over S vid p itf) names of
       [] \<Rightarrow> Inl (DeviceNotFound vid p itf)
     | n # _ \<Rightarrow>
         (case interface_info S n of
            Inl e \<Rightarrow> Inl e
          | Inr info \<Rightarrow> Inr \<lparr>node_name = n, node_path = device_path S n, node_info = the info\<rparr>))"
proof (cases "dropWhile (passed_over S vid p itf) names")
  case Nil
  then show ?thesis using find_loop_dropWhile [of S vid p itf names] by (simp only: find_loop.simps list.case)
next
  case (Cons n rest)
  then have "\<not> passed_over S vid p itf n"
    using hd_dropWhile [of "passed_over S vid p itf" names] by simp
  with Cons show ?thesis
    by (subst find_loop_dropWhile)
      (auto simp: passed_over_def matches_def split: sum.splits option.splits)
qed

lemma find_loop_Inr:
  "find_loop S vid p itf names = Inr node \<longleftrightarrow>
    (\<exists>rest. dropWhile (passed_over S vid p itf) names = node_name node # rest) \<and>
    node_path node = device_path S (node_name node) \<and>
    interface_info S (node_name node) = Inr (Some (node_info node))"
proof (cases "dropWhile (passed_over S vid p itf) names")
  case Nil
  then show ?thesis unfolding find_loop_spec by (simp only: list.case) simp
next
  case (Cons n rest)
  then have "\<not> passed_over S vid p itf n"
    using hd_dropWhile [of "passed_over S vid p itf" names] by simp
  with Cons show ?thesis
    by (cases node) (auto simp: find_loop_spec passed_over_def split: sum.splits option.splits)
qed

text \<open>C7: the search goes through the nodes by number and stops at the first that matches or cannot be
  read. A node is returned exactly when it matches the vendor, the product and the interface, carries
  the path of its name and what the source says of it, and every name ordered before it was readable
  and did not match; an unreadable node after only such names ends the search with its error, even if
  a later node would match; and the device is reported absent when every name is readable and none
  matches.\<close>

theorem find_device_spec:
  assumes "hidraw_names S = Inr names"
  shows "(find_device S vid p itf = Inr node \<longleftrightarrow>
      node_name node \<in> set names \<and> node_path node = device_path S (node_name node) \<and>
      interface_info S (node_name node) = Inr (Some (node_info node)) \<and>
      matches vid p itf (node_info node) \<and>
      list_all (passed_over S vid p itf) [n \<leftarrow> names. index_key n < index_key (node_name node)]) \<and>
    (n \<in> set names \<and> interface_info S n = Inl err \<and>
      list_all (passed_over S vid p itf) [m \<leftarrow> names. index_key m < index_key n] \<longrightarrow>
      find_device S vid p itf = Inl err) \<and>
    (list_all (passed_over S vid p itf) names \<longrightarrow>
      find_device S vid p itf = Inl (DeviceNotFound vid p itf))"
proof (intro conjI)
  let ?P = "passed_over S vid p itf" and ?n = "node_name node"
  have sorted: "sorted (map index_key (sort_by_index names))" by (simp add: sort_by_index_def)
  have hd: "(\<exists>rest. dropWhile ?P (sort_by_index names) = n # rest) \<longleftrightarrow>
      n \<in> set names \<and> \<not> ?P n \<and> list_all ?P [m \<leftarrow> names. index_key m < index_key n]" for n
    using dropWhile_sorted_key [OF sorted inj_index_key, of ?P n] by (auto simp: list_all_iff)
  show "find_device S vid p itf = Inr node \<longleftrightarrow>
      ?n \<in> set names \<and> node_path node = device_path S ?n \<and>
      interface_info S ?n = Inr (Some (node_info node)) \<and> matches vid p itf (node_info node) \<and>
      list_all ?P [n \<leftarrow> names. index_key n < index_key ?n]"
    unfolding find_device_def assms sum.case find_loop_Inr hd
    by (auto simp: passed_over_def)
  show "n \<in> set names \<and> interface_info S n = Inl err \<and> list_all ?P [m \<leftarrow> names. index_key m < index_key n] \<longrightarrow>
      find_device S vid p itf = Inl err"
  proof
    assume unreadable: "n \<in> set names \<and> interface_info S n = Inl err \<and>
      list_all ?P [m \<leftarrow> names. index_key m < index_key n]"
    then have "\<not> ?P n" by (simp add: passed_over_def)
    with unreadable obtain rest where "dropWhile ?P (sort_by_index names) = n # rest" using hd by blast
    then show "find_device S vid p itf = Inl err"
      using unreadable by (simp add: find_device_def assms find_loop_spec del: find_loop.simps)
  qed
  show "list_all ?P names \<longrightarrow> find_device S vid p itf = Inl (DeviceNotFound vid p itf)"
    using find_loop_append [of S vid p itf "sort_by_index names" "[]"]
    by (simp add: find_device_def assms list_all_iff)
qed

text \<open>The order in which a source lists the names has no influence on the search or the listing.\<close>

theorem listing_order_irrelevant:
  assumes "mset names = mset names'"
  shows "find_device (S\<lparr>hidraw_names := Inr names\<rparr>) vid p itf
      = find_device (S\<lparr>hidraw_names := Inr names'\<rparr>) vid p itf \<and>
    list_razer_nodes (S\<lparr>hidraw_names := Inr names\<rparr>) = list_razer_nodes (S\<lparr>hidraw_names := Inr names'\<rparr>)"
proof -
  have loop: "find_loop (S\<lparr>hidraw_names := x\<rparr>) vid p itf ns = find_loop S vid p itf ns" for x ns
    by (induction ns) (auto split: sum.splits option.splits)
  have lst: "list_loop (S\<lparr>hidraw_names := x\<rparr>) ns out = list_loop S ns out" for x ns out
    by (induction ns arbitrary: out) (auto split: sum.splits option.splits)
  show ?thesis
    by (simp add: find_device_def list_razer_nodes_def loop lst sort_by_index_cong [OF assms])
qed

theorem listing_order_irrelevant_witness:
  "find_device ((mock_source mock_blackwidow_v4_pro)\<lparr>hidraw_names := Inr [''hidraw3'', ''hidraw10'', ''x'']\<rparr>) 0x1532 0x028D 3
    = find_device ((mock_source mock_blackwidow_v4_pro)\<lparr>hidraw_names := Inr [''x'', ''hidraw10'', ''hidraw3'']\<rparr>) 0x1532 0x028D 3"
  by (rule listing_order_irrelevant [THEN conjunct1]) simp

theorem find_device_spec_witness:
  "find_device (mock_source (without_usb_parent mock_sysfs_new ''hidraw0'')) 0x1532 0x028D 3
    = Inl (DeviceNotFound 0x1532 0x028D 3)"
  using find_device_spec [of "mock_source (without_usb_parent mock_sysfs_new ''hidraw0'')" "[''hidraw0'']" "0x1532" "0x028D" 3]
  by (simp add: mock_source_def without_usb_parent_def mock_sysfs_new_def passed_over_def)

lemma list_loop_find:
  assumes "list_loop S names out = Inr nodes"
  shows "\<exists>found. nodes = out @ found \<and>
    list_all (\<lambda>x. info_vendor_id (node_info x) = VENDOR_ID \<and> node_name x \<in> set names) found \<and>
    find_loop S VENDOR_ID p itf names =
      (case List.find (\<lambda>x. matches VENDOR_ID p itf (node_info x)) found of
         Some x \<Rightarrow> Inr x | None \<Rightarrow> Inl (DeviceNotFound VENDOR_ID p itf))"
  using assms
proof (induction names arbitrary: out)
  case Nil
  then show ?case by simp
next
  case (Cons n names)
  consider (skip) "list_loop S names out = Inr nodes"
      "find_loop S VENDOR_ID p itf (n # names) = find_loop S VENDOR_ID p itf names"
    | (keep) info x where "x = \<lparr>node_name = n, node_path = device_path S n, node_info = info\<rparr>"
      "info_vendor_id info = VENDOR_ID" "list_loop S names (out @ [x]) = Inr nodes"
      "find_loop S VENDOR_ID p itf (n # names) =
        (if matches VENDOR_ID p itf info then Inr x else find_loop S VENDOR_ID p itf names)"
    using Cons.prems by (auto simp: matches_def split: sum.splits option.splits if_splits)
  then show ?case
  proof cases
    case skip
    from Cons.IH [OF skip(1)] skip(2) show ?thesis by (auto simp: list_all_iff)
  next
    case keep
    from Cons.IH [OF keep(3)] obtain found where "nodes = (out @ [x]) @ found"
      "list_all (\<lambda>x. info_vendor_id (node_info x) = VENDOR_ID \<and> node_name x \<in> set names) found"
      "find_loop S VENDOR_ID p itf names =
        (case List.find (\<lambda>x. matches VENDOR_ID p itf (node_info x)) found of
           Some x \<Rightarrow> Inr x | None \<Rightarrow> Inl (DeviceNotFound VENDOR_ID p itf))" by blast
    with keep show ?thesis
      by (intro exI [of _ "x # found"]) (auto simp: list_all_iff)
  qed
qed

text \<open>C24: the listing and the search agree: every listed node belongs to Razer, and searching for a
  Razer product on an interface returns the first listed node with that product and interface, or
  reports it absent when the listing has none.\<close>

theorem search_agrees_with_listing:
  assumes "list_razer_nodes S = Inr nodes"
  shows "list_all (\<lambda>x. info_vendor_id (node_info x) = 0x1532) nodes \<and>
    find_device S 0x1532 p itf =
      (case List.find (\<lambda>x. matches 0x1532 p itf (node_info x)) nodes of
         Some x \<Rightarrow> Inr x | None \<Rightarrow> Inl (DeviceNotFound 0x1532 p itf))"
proof -
  obtain names where names: "hidraw_names S = Inr names"
    "list_loop S (sort_by_index names) [] = Inr nodes"
    using assms by (auto simp: list_razer_nodes_def split: sum.splits)
  from list_loop_find [OF names(2), of p itf, unfolded VENDOR_ID_def] show ?thesis
    by (auto simp: find_device_def names(1) VENDOR_ID_def list_all_iff)
qed

theorem search_agrees_with_listing_witness:
  "find_device (mock_source mock_sysfs_new) 0x1532 0x00AB 0 = Inl (DeviceNotFound 0x1532 0x00AB 0)"
  using search_agrees_with_listing [of "mock_source mock_sysfs_new" "[]" "0x00AB" 0]
  by (simp add: list_razer_nodes_def mock_source_def mock_sysfs_new_def sort_by_index_def)

definition sysfs_errors :: "hid_error \<Rightarrow> bool" where
  "sysfs_errors e \<longleftrightarrow> (\<exists>oper errno. e = Io oper errno) \<or> (\<exists>msg. e = Sysfs msg)"

context sysfs_contract begin

lemma find_device_error:
  "find_device S vid p itf = Inl e \<Longrightarrow> e = DeviceNotFound vid p itf \<or> sysfs_errors e"
proof -
  have "find_loop S vid p itf names = Inl e \<Longrightarrow> e = DeviceNotFound vid p itf \<or> sysfs_errors e" for names
    by (induction names)
      (auto simp: sysfs_errors_def split: sum.splits option.splits if_splits dest: info_err)
  then show "find_device S vid p itf = Inl e \<Longrightarrow> ?thesis"
    by (auto simp: find_device_def sysfs_errors_def split: sum.splits dest: names_err)
qed

lemma find_device_path:
  "find_device S vid p itf = Inr node \<Longrightarrow> node_path node = path_join ''/dev'' (node_name node)"
  by (auto simp: find_device_def find_loop_Inr path_dev split: sum.splits)

end

text \<open>On the real file system an enumeration that fails says so with the kernel's error number for
  the listing, the text of the attribute it could not read, or that the device is absent, and
  nothing else; and a node it returns is opened under \<open>/dev\<close> by the name it was listed with.\<close>

theorem enumeration_outcomes:
  "case find_device (real_sysfs fs root) vid p itf of
     Inl e \<Rightarrow> e = DeviceNotFound vid p itf \<or> (\<exists>oper errno. e = Io oper errno) \<or> (\<exists>msg. e = Sysfs msg)
   | Inr node \<Rightarrow> node_path node = path_join ''/dev'' (node_name node)"
  using real.find_device_error real.find_device_path
  by (auto simp: sysfs_errors_def split: sum.split)

lemma find_device_sorted:
  "hidraw_names S = Inr names \<Longrightarrow> sort_by_index names = names' \<Longrightarrow>
    find_device S vid p itf = find_loop S vid p itf names'"
  by (simp add: find_device_def)

text \<open>On the interface layouts recorded from the two devices, the product id and report index of
  the table select the control interface: \<open>/dev/hidraw3\<close> for the keyboard and \<open>/dev/hidraw4\<close> for the
  mouse, both with protocol 0x02.\<close>

theorem table_selects_control_interface:
  "find_device (mock_source mock_blackwidow_v4_pro) VENDOR_ID (pid blackwidow_v4_pro)
      (report_index blackwidow_v4_pro)
    = Inr \<lparr>node_name = ''hidraw3'', node_path = ''/dev/hidraw3'', node_info = usb 0x028D 3 0x02\<rparr> \<and>
   find_device (mock_source mock_basilisk_v3_pro_wireless) VENDOR_ID (pid basilisk_v3_pro_wireless)
      (report_index basilisk_v3_pro_wireless)
    = Inr \<lparr>node_name = ''hidraw4'', node_path = ''/dev/hidraw4'', node_info = usb 0x00AB 0 0x02\<rparr>"
proof
  have names: "hidraw_names (mock_source mock_blackwidow_v4_pro)
      = Inr [''hidraw0'', ''hidraw1'', ''hidraw2'', ''hidraw3'']"
    by (simp add: mock_source_def mock_blackwidow_v4_pro_def with_node_def mock_sysfs_new_def)
  have sorted: "sort_by_index [''hidraw0'', ''hidraw1'', ''hidraw2'', ''hidraw3'']
      = [''hidraw0'', ''hidraw1'', ''hidraw2'', ''hidraw3'']"
    using sort_names [of "[''hidraw0'', ''hidraw1'', ''hidraw2'', ''hidraw3'']" "[0, 1, 2, 3]"]
    by (simp add: hidraw_literals del: One_nat_def)
  show "find_device (mock_source mock_blackwidow_v4_pro) VENDOR_ID (pid blackwidow_v4_pro)
      (report_index blackwidow_v4_pro)
    = Inr \<lparr>node_name = ''hidraw3'', node_path = ''/dev/hidraw3'', node_info = usb 0x028D 3 0x02\<rparr>"
    unfolding find_device_sorted [OF names sorted]
    by (simp add: mock_source_def mock_blackwidow_v4_pro_def with_node_def mock_sysfs_new_def usb_def
        blackwidow_v4_pro_def VENDOR_ID_def path_join_def)
next
  have names: "hidraw_names (mock_source mock_basilisk_v3_pro_wireless)
      = Inr [''hidraw4'', ''hidraw5'', ''hidraw6'']"
    by (simp add: mock_source_def mock_basilisk_v3_pro_wireless_def with_node_def mock_sysfs_new_def)
  have sorted: "sort_by_index [''hidraw4'', ''hidraw5'', ''hidraw6''] = [''hidraw4'', ''hidraw5'', ''hidraw6'']"
    using sort_names [of "[''hidraw4'', ''hidraw5'', ''hidraw6'']" "[4, 5, 6]"]
    by (simp add: hidraw_literals)
  show "find_device (mock_source mock_basilisk_v3_pro_wireless) VENDOR_ID (pid basilisk_v3_pro_wireless)
      (report_index basilisk_v3_pro_wireless)
    = Inr \<lparr>node_name = ''hidraw4'', node_path = ''/dev/hidraw4'', node_info = usb 0x00AB 0 0x02\<rparr>"
    unfolding find_device_sorted [OF names sorted]
    by (simp add: mock_source_def mock_basilisk_v3_pro_wireless_def with_node_def mock_sysfs_new_def
        usb_def basilisk_v3_pro_wireless_def VENDOR_ID_def path_join_def)
qed

text \<open>A name that is not the kernel's can still come before one that is: the integer parser takes an
  explicit plus sign.\<close>

lemma plus_sign_displaces:
  "hidraw_index ''hidraw+3'' = Some 3 \<and> sort_by_index [''hidraw3'', ''hidraw+3''] = [''hidraw+3'', ''hidraw3'']"
proof -
  have three: "hidraw_index ''hidraw3'' = Some 3"
    using hidraw_index_name [of 3] by (simp add: hidraw_literals)
  then have "from_str_radix (2 ^ 32) 10 ''3'' = Inr 3"
    by (auto simp: hidraw_index_def split: sum.splits)
  then have "hidraw_index ''hidraw+3'' = Some 3"
    by (simp add: hidraw_index_def from_str_radix_def)
  moreover from this three have "index_key ''hidraw+3'' < index_key ''hidraw3''"
    by (simp add: index_key_def less_prod_def' less_char_def)
  ultimately show ?thesis by (simp add: sort_by_index_def)
qed

end
