(* ===== verification/Razerd_Base.thy ===== *)
theory Razerd_Base
  imports Session_Safety Enumerate
begin

text \<open>
  What the binary \<open>crates/razerd\<close> runs in: its environment of system calls, file system snapshots,
  commands and stopwatch, the lines it has printed, and the two formatting helpers it uses. A session
  over the kernel is related to the system calls it makes by \<open>os_sends\<close>, an instance of the
  relations of the session theory.

  \<open>env_files\<close> is the file system as one enumeration sees it, \<open>env_command\<close> runs a program and gives
  its standard output if it could be started, and \<open>env_stopwatch\<close> is the printed time since the
  previous call (a floating-point number of milliseconds with three decimals).
\<close>

record 'k env =
  env_os :: "'k os"
  env_files :: "'k \<Rightarrow> files"
  env_command :: "string \<Rightarrow> string list \<Rightarrow> 'k \<Rightarrow> string option \<times> 'k"
  env_stopwatch :: "'k \<Rightarrow> string \<times> 'k"

record 'k run =
  world :: 'k
  printed :: "string list"

definition println :: "string \<Rightarrow> 'k run \<Rightarrow> 'k run" where
  "println line r = r\<lparr>printed := printed r @ [line]\<rparr>"

definition env_sysfs :: "'k env \<Rightarrow> 'k run \<Rightarrow> sysfs_source" where
  "env_sysfs env r = real_sysfs_new (env_files env (world r))"

lemma println_simps [simp]:
  "world (println line r) = world r" "printed (println line r) = printed r @ [line]"
  by (simp_all add: println_def)

definition RAZER_VID :: u16 where "RAZER_VID = 0x1532"

text \<open>\<open>{:<w}\<close> and \<open>{:>w}\<close> count characters, not bytes: continuation bytes take no room.\<close>

definition char_count :: "string \<Rightarrow> nat" where
  "char_count s = length [c \<leftarrow> s. ord c < 128 \<or> 192 \<le> ord c]"

definition pad_right :: "nat \<Rightarrow> string \<Rightarrow> string" where
  "pad_right w s = s @ replicate (w - char_count s) (CHR '' '')"

definition pad_left :: "nat \<Rightarrow> string \<Rightarrow> string" where
  "pad_left w s = replicate (w - char_count s) (CHR '' '') @ s"

definition hex_bytes :: "bytes \<Rightarrow> string" where
  "hex_bytes b = concat (map (\<lambda>x. fmt_hex 2 (unat x)) b)"

definition em_dash :: string where "em_dash = [CHR 0xE2, CHR 0x80, CHR 0x94]"

subsection \<open>The system calls of a session\<close>

text \<open>A sequence of system calls that uses one descriptor, only for feature reports and sleeping, and
  whose SET requests all carry a buffer satisfying \<open>P\<close>.\<close>

definition device_call :: "nat \<Rightarrow> (bytes \<Rightarrow> bool) \<Rightarrow> os_event \<Rightarrow> bool" where
  "device_call fd P ev =
     (case ev of
        FeatureEv f req buf \<Rightarrow> f = fd \<and>
          (req = HIDIOCGFEATURE_91 \<or> req = HIDIOCSFEATURE_91 \<and> P buf)
      | OsSleepEv _ \<Rightarrow> True
      | _ \<Rightarrow> False)"

definition os_sends :: "(u8 \<Rightarrow> bytes \<Rightarrow> bool) \<Rightarrow> (hidraw_device \<times> 'k \<times> os_event list) session
    \<Rightarrow> (hidraw_device \<times> 'k \<times> os_event list) session \<Rightarrow> bool" where
  "os_sends P s s' \<longleftrightarrow> keeps_identity s s' \<and> fst (io s') = fst (io s) \<and>
     (\<exists>evs. snd (snd (io s')) = snd (snd (io s)) @ evs \<and>
        list_all (device_call (dev_file (fst (io s))) (P (sess_tid s))) evs)"

lemma os_sends_step:
  "keeps_identity s s' \<Longrightarrow> fst (io s') = fst (io s) \<Longrightarrow> snd (snd (io s')) = snd (snd (io s)) @ evs \<Longrightarrow>
    list_all (device_call (dev_file (fst (io s))) (P (sess_tid s))) evs \<Longrightarrow> os_sends P s s'"
  unfolding os_sends_def by blast

lemma os_sends_refl: "os_sends P s s"
  by (rule os_sends_step [of _ _ "[]"]) (simp_all add: keeps_identity_def)

lemma os_sends_trans: "os_sends P s t \<Longrightarrow> os_sends P t u \<Longrightarrow> os_sends P s u"
  unfolding os_sends_def keeps_identity_def by (auto intro: exI)

lemma os_sends_pure:
  "os_sends P s (s\<lparr>last_attempts := n\<rparr>)" "os_sends P s (s\<lparr>last_response_tid := x\<rparr>)"
  by (rule os_sends_step [of _ _ "[]"]; simp add: keeps_identity_def)+

lemma os_sends_pause:
  "os_sends P s (s\<lparr>io := clock_sleep (hidraw_io (traced_os os)) d (io s)\<rparr>)"
  by (rule os_sends_step [of _ _ "[OsSleepEv d]"])
    (simp_all add: keeps_identity_def hidraw_io_def traced_os_def split_beta device_call_def)

lemma os_sends_send:
  assumes "wf_report request"
    and "check_request request = Inr () \<Longrightarrow> P (sess_tid s) (frame (sess_tid s) request)"
  shows "os_sends P s (snd (send (hidraw_io (traced_os os)) request s))"
proof (cases "check_request request")
  case (Inl e)
  then show ?thesis by (simp add: send_def os_sends_refl)
next
  case (Inr u)
  then have ok: "check_request request = Inr ()" by simp
  obtain dev k tr where io: "io s = (dev, k, tr)" by (cases "io s") auto
  obtain rc errno new k' where call: "os_feature os (dev_file dev) HIDIOCSFEATURE_91
      (frame (sess_tid s) request) k = ((rc, errno, new), k')" by (metis prod.exhaust)
  let ?ev = "FeatureEv (dev_file dev) HIDIOCSFEATURE_91 (frame (sess_tid s) request)"
  show ?thesis
  proof (cases "rc < 0")
    case True
    with call io assms(2) [OF ok] show ?thesis
      unfolding send_frame [OF assms(1) ok]
      by (intro os_sends_step [of _ _ "[?ev]"])
        (simp_all add: keeps_identity_def hidraw_io_def hidraw_set_feature_def traced_os_def device_call_def)
  next
    case False
    with call io assms(2) [OF ok] show ?thesis
      unfolding send_frame [OF assms(1) ok]
      by (intro os_sends_step [of _ _ "[?ev, OsSleepEv (wait (entry s))]"])
        (simp_all add: keeps_identity_def hidraw_io_def hidraw_set_feature_def traced_os_def device_call_def)
  qed
qed

lemma os_sends_receive: "os_sends P s (snd (receive (hidraw_io (traced_os os)) s))"
proof -
  obtain dev k tr where io: "io s = (dev, k, tr)" by (cases "io s") auto
  obtain rc errno new k' where call: "os_feature os (dev_file dev) HIDIOCGFEATURE_91
      ((replicate HIDRAW_BUF_LEN 0)[0 := 0x00]) k = ((rc, errno, new), k')" by (metis prod.exhaust)
  let ?ev = "FeatureEv (dev_file dev) HIDIOCGFEATURE_91 ((replicate HIDRAW_BUF_LEN 0)[0 := 0x00])"
  show ?thesis
    using io call
    by (intro os_sends_step [of _ _ "[?ev]"])
      (cases "rc < 0"; simp add: receive_def keeps_identity_def hidraw_io_def hidraw_get_feature_def
        traced_os_def device_call_def Let_def)+
qed

text \<open>A frame that reads: typed, with the read bit set in its command id.\<close>

definition reading_frame :: "u8 \<Rightarrow> bytes \<Rightarrow> bool" where
  "reading_frame tid buf \<longleftrightarrow> typed_frame tid buf \<and> buf ! 8 AND 0x80 \<noteq> 0"

lemma reading_frame_get:
  assumes "constructed request" and "is_get request"
  shows "reading_frame tid (frame tid request)"
  using typed_frame_constructed [OF assms(1)] assms(2) frame_bytes(3) [OF constructed_wf [OF assms(1)]]
  by (simp add: reading_frame_def is_get_def)

interpretation reads: read_relation "hidraw_io (traced_os os)" "\<lambda>request. constructed request \<and> is_get request"
    "os_sends reading_frame" for os :: "'k os"
  by unfold_locales
    (auto intro: os_sends_refl os_sends_trans os_sends_pure os_sends_pause os_sends_send os_sends_receive
      reading_frame_get constructed_wf)

interpretation writes: session_relation "hidraw_io (traced_os os)" "\<lambda>request. request = cmd_set_device_mode mode"
    "os_sends (\<lambda>tid buf. buf = frame tid (cmd_set_device_mode mode))" for os :: "'k os" and mode
  by unfold_locales
    (auto intro: os_sends_refl os_sends_trans os_sends_pure os_sends_pause os_sends_receive
      intro!: os_sends_send constructed_wf)

end
