(* ===== verification/Session_Operations.thy ===== *)
theory Session_Operations
  imports Session_Safety
begin

text \<open>
  The nine typed operations of \<open>crates/razer-hid/src/session.rs\<close> as one datatype with an executor, and
  their common contract: an operation is either refused with nothing touched, or it is exactly one
  transaction whose response is read by the reader of that operation. \<open>request_for\<close> says which, as a
  function of the table entry alone.
\<close>

subsection \<open>Operations and sequences of them\<close>

datatype operation =
    SetMode device_mode | GetMode | GetFirmware | GetSerial
  | SetLevel u8 | GetLevel | SetEffect rgb | SetRate poll_rate | GetRate

datatype outcome = Done | Two u8 u8 | Content string | Level u8 | Rate poll_rate

definition outcome_of ::
  "('a \<Rightarrow> outcome) \<Rightarrow> (hid_error + 'a) \<times> 's \<Rightarrow> (hid_error + outcome) \<times> 's" where
  "outcome_of f p = and_then p (\<lambda>v s. (Inr (f v), s))"

fun perform :: "'w hid_io \<Rightarrow> operation \<Rightarrow> 'w session \<Rightarrow> (hid_error + outcome) \<times> 'w session" where
  "perform E (SetMode mode) s = outcome_of (\<lambda>_. Done) (set_device_mode E mode s)"
| "perform E GetMode s = outcome_of (\<lambda>(m, p). Two m p) (get_device_mode E s)"
| "perform E GetFirmware s = outcome_of (\<lambda>(major, minor). Two major minor) (firmware_version E s)"
| "perform E GetSerial s = outcome_of Content (serial E s)"
| "perform E (SetLevel v) s = outcome_of (\<lambda>_. Done) (set_brightness E v s)"
| "perform E GetLevel s = outcome_of Level (get_brightness E s)"
| "perform E (SetEffect colour) s = outcome_of (\<lambda>_. Done) (set_static_effect E colour s)"
| "perform E (SetRate rate) s = outcome_of (\<lambda>_. Done) (set_poll_rate E rate s)"
| "perform E GetRate s = outcome_of Rate (get_poll_rate E s)"

fun performs :: "'w hid_io \<Rightarrow> operation list \<Rightarrow> 'w session \<Rightarrow> 'w session" where
  "performs E [] s = s"
| "performs E (op # ops) s = performs E ops (snd (perform E op s))"

lemma snd_outcome_of [simp]: "snd (outcome_of f p) = snd p"
  by (cases p rule: prod.exhaust, rename_tac r t, case_tac r) (simp_all add: outcome_of_def)

lemma outcome_of_Inr: "outcome_of f p = (Inr x, t) \<longleftrightarrow> (\<exists>v. p = (Inr v, t) \<and> x = f v)"
  by (auto simp: outcome_of_def and_then_Inr)

lemma perform_step: "typed_step E s (snd (perform E op s))"
  by (cases op) (simp_all add: typed_step.intros)

lemma perform_entry: "entry (snd (perform E op s)) = entry s"
  using identity.typed_step_R [OF perform_step [of E s op]] by (simp only: keeps_identity_def)

lemma performs_entry [simp]: "entry (performs E ops s) = entry s"
  by (induction ops arbitrary: s) (simp_all add: perform_entry del: perform.simps)

subsection \<open>The contract\<close>

text \<open>The capability an operation needs, and how its refusal names it.\<close>

fun needs :: "operation \<Rightarrow> capabilities \<times> string" where
  "needs (SetMode _) = (CAP_DEVICE_MODE, ''device mode'')"
| "needs GetMode = (CAP_DEVICE_MODE, ''device mode'')"
| "needs GetFirmware = (CAP_FIRMWARE_VERSION, ''firmware version'')"
| "needs GetSerial = (CAP_SERIAL, ''serial'')"
| "needs (SetLevel _) = (CAP_BRIGHTNESS, ''brightness'')"
| "needs GetLevel = (CAP_BRIGHTNESS, ''brightness'')"
| "needs (SetEffect _) = (CAP_STATIC_EFFECT, ''static effect'')"
| "needs (SetRate _) = (CAP_POLL_RATE, ''poll rate'')"
| "needs GetRate = (CAP_POLL_RATE, ''poll rate'')"

text \<open>The lamp of an entry: the four known codes, or a refusal.\<close>

definition lamp :: "device_entry \<Rightarrow> hid_error + led_id" where
  "lamp e =
     (case map_of [(0x00, Zero), (0x01, ScrollWheel), (0x04, Logo), (0x05, Backlight)] (default_led e) of
        None \<Rightarrow> Inl (Unsupported (pid e) ''this LED id'')
      | Some l \<Rightarrow> Inr l)"

fun request_of :: "device_entry \<Rightarrow> operation \<Rightarrow> hid_error + razer_report" where
  "request_of e (SetMode mode) = Inr (cmd_set_device_mode mode)"
| "request_of e GetMode = Inr cmd_get_device_mode"
| "request_of e GetFirmware = Inr cmd_get_firmware_version"
| "request_of e GetSerial = Inr cmd_get_serial"
| "request_of e (SetLevel v) = map_sum id (\<lambda>l. cmd_set_brightness VarStore l v) (lamp e)"
| "request_of e GetLevel = map_sum id (cmd_get_brightness VarStore) (lamp e)"
| "request_of e (SetEffect colour) = map_sum id (\<lambda>l. cmd_set_static_effect VarStore l colour) (lamp e)"
| "request_of e (SetRate rate) =
     (if poll_rate_kind e = V2 then Inr (cmd_set_poll_rate_v2 rate 0x00)
      else map_sum Proto id (cmd_set_poll_rate_legacy rate))"
| "request_of e GetRate =
     Inr (if poll_rate_kind e = V2 then cmd_get_poll_rate_v2 else cmd_get_poll_rate_legacy)"

definition request_for :: "device_entry \<Rightarrow> operation \<Rightarrow> hid_error + razer_report" where
  "request_for e op =
     (if contains (capabilities e) (fst (needs op)) then request_of e op
      else Inl (Unsupported (pid e) (snd (needs op))))"

fun reading_of :: "device_entry \<Rightarrow> operation \<Rightarrow> razer_report \<Rightarrow> proto_error + outcome" where
  "reading_of e GetMode rep = map_sum id (\<lambda>(m, p). Two m p) (parse_device_mode rep)"
| "reading_of e GetFirmware rep = map_sum id (\<lambda>(major, minor). Two major minor) (parse_firmware_version rep)"
| "reading_of e GetSerial rep = map_sum id Content (parse_serial rep)"
| "reading_of e GetLevel rep = map_sum id Level (parse_brightness rep)"
| "reading_of e GetRate rep = map_sum id Rate
     (if poll_rate_kind e = V2 then parse_poll_rate_v2 rep else parse_poll_rate_legacy rep)"
| "reading_of e _ rep = Inr Done"

lemma led_lamp: "led s = lamp (entry s)"
  by (simp add: led_def lamp_def Let_def)

lemma outcome_of_and_then:
  "outcome_of f (and_then p k) = and_then p (\<lambda>v s. outcome_of f (k v s))"
  by (cases p rule: prod.exhaust, rename_tac r t, case_tac r) (simp_all add: outcome_of_def)

lemma outcome_of_pair [simp]:
  "outcome_of f (Inr v, s) = (Inr (f v), s)" "outcome_of f (Inl e, s) = (Inl e, s)"
  by (simp_all add: outcome_of_def)

lemma outcome_of_map_err [simp]: "outcome_of f (map_err g x, s) = (map_err g (map_sum id f x), s)"
  by (cases x) (simp_all add: outcome_of_def)

lemma map_sum_eq:
  "map_sum f g x = Inr y \<longleftrightarrow> (\<exists>v. x = Inr v \<and> y = g v)"
  "map_sum f g x = Inl e \<longleftrightarrow> (\<exists>d. x = Inl d \<and> e = f d)"
  by (cases x; auto)+

lemma and_then_value:
  "and_then (x, s) k = (case x of Inl e \<Rightarrow> (Inl e, s) | Inr v \<Rightarrow> k v s)"
  "and_then (map_err g y, s) k = (case y of Inl e \<Rightarrow> (Inl (g e), s) | Inr v \<Rightarrow> k v s)"
  by (cases x; simp) (cases y; simp)

lemma perform_request:
  "perform E op s =
     (case request_for (entry s) op of
        Inl err \<Rightarrow> (Inl err, s)
      | Inr request \<Rightarrow> and_then (transact E request s) (\<lambda>rep s'. (map_err Proto (reading_of (entry s) op rep), s')))"
  by (cases op)
    (auto simp: session_defs require_def request_for_def led_lamp outcome_of_and_then and_then_value map_sum_eq
      split: sum.split poll_rate_kind.split)

lemma request_for_constructed:
  "request_for e op = Inr request \<Longrightarrow> constructed request"
  by (cases op) (auto simp: request_for_def map_sum_eq constructed_legacy split: if_splits)

lemma request_for_table:
  assumes "e \<in> set all_devices"
  shows "(\<exists>err. request_for e op = Inl err) \<longleftrightarrow>
    (\<exists>rate. op = SetRate rate \<and> poll_rate_kind e = Legacy \<and> hz rate \<notin> {1000, 500, 125})"
proof -
  have cap: "contains (capabilities e) (fst (needs op))" for op
    using assms by (cases op) (simp_all add: all_devices_def table_capability)
  have "\<exists>l. lamp e = Inr l"
    using assms by (auto simp: all_devices_def set_TABLE device_defs lamp_def ZERO_LED_def BACKLIGHT_LED_def)
  then obtain l where lamp: "lamp e = Inr l" by blast
  have "(\<exists>err. cmd_set_poll_rate_legacy rate = Inl err) \<longleftrightarrow> hz rate \<notin> {1000, 500, 125}" for rate
    by (cases rate) (simp_all add: cmd_set_poll_rate_legacy_def)
  then show ?thesis
    using cap [of op] by (cases op; cases "poll_rate_kind e") (auto simp: request_for_def lamp map_sum_eq)
qed

text \<open>C39: every operation, over every transport and for every table entry, is either refused, with the
  session, its transport and its clock untouched, or it is one transaction of a request built by the
  constructors, whose response the reader of the operation decodes. A missing capability refuses it
  with the product id and the name of the feature; on the devices of the table the only operations
  refused are the polling rates other than 1000, 500 and 125 Hz on a device of the older family.\<close>

theorem operations_guarded:
  "perform E op s =
     (case request_for (entry s) op of
        Inl err \<Rightarrow> (Inl err, s)
      | Inr request \<Rightarrow> and_then (transact E request s) (\<lambda>rep s'. (map_err Proto (reading_of (entry s) op rep), s'))) \<and>
   (request_for (entry s) op = Inr request \<longrightarrow> constructed request) \<and>
   (\<not> contains (capabilities (entry s)) (fst (needs op)) \<longrightarrow>
      request_for (entry s) op = Inl (Unsupported (pid (entry s)) (snd (needs op)))) \<and>
   (entry s \<in> set all_devices \<longrightarrow>
      ((\<exists>err. request_for (entry s) op = Inl err) \<longleftrightarrow>
       (\<exists>rate. op = SetRate rate \<and> poll_rate_kind (entry s) = Legacy \<and> hz rate \<notin> {1000, 500, 125})))"
  using request_for_constructed request_for_table by (simp add: perform_request) (simp add: request_for_def)

theorem operations_guarded_witness:
  "perform mock_io (SetRate Hz8000) (session_new basilisk_v3_pro_wired (mock_transport_new, mock_clock_new))
     = (Inl (Proto (Malformed ''poll rate has no legacy encoding'')),
         session_new basilisk_v3_pro_wired (mock_transport_new, mock_clock_new)) \<and>
   perform mock_io GetSerial (session_new (basilisk_v3_pro_wired\<lparr>capabilities := CAP_NONE\<rparr>) (mock_transport_new, mock_clock_new))
     = (Inl (Unsupported 0xAA ''serial''),
         session_new (basilisk_v3_pro_wired\<lparr>capabilities := CAP_NONE\<rparr>) (mock_transport_new, mock_clock_new))"
proof -
  let ?w = "(mock_transport_new, mock_clock_new)"
  have "request_for basilisk_v3_pro_wired (SetRate Hz8000) = Inl (Proto (Malformed ''poll rate has no legacy encoding''))"
    using table_capability [of basilisk_v3_pro_wired CAP_POLL_RATE]
    by (simp add: request_for_def TABLE_def cmd_set_poll_rate_legacy_def) (simp add: basilisk_v3_pro_wired_def)
  then have rate: "request_for (entry (session_new basilisk_v3_pro_wired ?w)) (SetRate Hz8000)
      = Inl (Proto (Malformed ''poll rate has no legacy encoding''))"
    by (simp add: session_new_def)
  have bare: "request_for (entry (session_new (basilisk_v3_pro_wired\<lparr>capabilities := CAP_NONE\<rparr>) ?w)) GetSerial
      = Inl (Unsupported 0xAA ''serial'')"
    using operations_guarded [of mock_io GetSerial "session_new (basilisk_v3_pro_wired\<lparr>capabilities := CAP_NONE\<rparr>) ?w"]
    by (simp add: session_new_def basilisk_v3_pro_wired_def cap_defs contains_def)
  show ?thesis
    unfolding operations_guarded [THEN conjunct1] rate bare by simp
qed

end
