(* ===== verification/Razerd_Calls.thy ===== *)
theory Razerd_Calls
  imports Razerd_Base Session_Operations
begin

text \<open>
  The system calls of a session over \<open>HidrawDevice\<close> and the real clock, read as calls of the transport
  and the clock: the session over recorded system calls refines the session over recorded transport
  calls, so what is proved of transactions in the session theories holds of the system calls that the
  binary makes. From it, the writes a transaction issues and the time it sleeps.
\<close>

subsection \<open>System calls as transport calls\<close>

fun call_of :: "os_event \<Rightarrow> hid_event option" where
  "call_of (FeatureEv fd req buf) = Some (if req = HIDIOCSFEATURE_91 then SetEv buf else GetEv)"
| "call_of (OsSleepEv d) = Some (SleepEv d)"
| "call_of _ = None"

definition calls_of :: "os_event list \<Rightarrow> hid_event list" where
  "calls_of evs = List.map_filter call_of evs"

lemma calls_of_simps [simp]:
  "calls_of [] = []" "calls_of (xs @ ys) = calls_of xs @ calls_of ys"
  "calls_of (OpenEv p # evs) = calls_of evs" "calls_of (RawInfoEv fd # evs) = calls_of evs"
  "calls_of (CloseEv fd # evs) = calls_of evs" "calls_of (OsSleepEv d # evs) = SleepEv d # calls_of evs"
  "calls_of (FeatureEv fd HIDIOCSFEATURE_91 buf # evs) = SetEv buf # calls_of evs"
  "calls_of (FeatureEv fd HIDIOCGFEATURE_91 buf # evs) = GetEv # calls_of evs"
  by (simp_all add: calls_of_def List.map_filter_def HIDIOCSFEATURE_91_def HIDIOCGFEATURE_91_def)

definition transport_view ::
  "hidraw_device \<times> 'k \<times> os_event list \<Rightarrow> (hidraw_device \<times> 'k) \<times> hid_event list" where
  "transport_view w = (case w of (dev, k, tr) \<Rightarrow> ((dev, k), calls_of tr))"

interpretation system_calls: io_refinement "hidraw_io (traced_os os)" "traced (hidraw_io os)" transport_view
  for os :: "'k os"
  by unfold_locales
    (auto simp: hidraw_io_def hidraw_set_feature_def hidraw_get_feature_def traced_os_def transport_view_def Let_def
      split: prod.splits)

lemma snd_transport_view [simp]: "snd (transport_view w) = calls_of (snd (snd w))"
  by (simp add: transport_view_def split_beta)

subsection \<open>A transaction\<close>

definition device_calls :: "(hidraw_device \<times> 'k \<times> os_event list) session \<Rightarrow> os_event list" where
  "device_calls s = snd (snd (io s))"

interpretation any_calls: session_relation "hidraw_io (traced_os os)" wf_report "os_sends (\<lambda>_ _. True)"
  for os :: "'k os"
  by unfold_locales
    (auto intro: os_sends_refl os_sends_trans os_sends_pure os_sends_pause os_sends_receive intro!: os_sends_send)

lemma os_transact:
  assumes "wf_report request" and "check_request request = Inr ()"
    and "transact (hidraw_io (traced_os os)) request s = (res, s')"
  obtains n evs where "0 < n" "n \<le> MAX_ATTEMPTS" "last_attempts s' = of_nat n"
    "entry s' = entry s" "device_calls s' = device_calls s @ evs"
    "transact_ends request (frame (sess_tid s) request) (wait (entry s)) 0 n (last_response_tid s') res (calls_of evs)"
proof -
  have "os_sends (\<lambda>_ _. True) s s'"
    using any_calls.transact_R [OF assms(1), of s os] by (simp only: assms(3) snd_conv)
  then obtain evs where evs: "device_calls s' = device_calls s @ evs"
    by (auto simp: os_sends_def device_calls_def)
  have "transact (traced (hidraw_io os)) request (map_session transport_view s) = (res, map_session transport_view s')"
    using system_calls.transact_abst [of os request s] by (simp add: assms(3))
  from hidraw_transact [OF assms(1,2) this] obtain n evs' where "0 < n" "n \<le> MAX_ATTEMPTS" "last_attempts s' = of_nat n"
    "entry s' = entry s" "calls_of (device_calls s') = calls_of (device_calls s) @ evs'"
    "transact_ends request (frame (sess_tid s) request) (wait (entry s)) 0 n (last_response_tid s') res evs'"
    by (auto simp: keeps_identity_def device_calls_def)
  with evs show thesis by (intro that [of n evs]) simp_all
qed

subsection \<open>Frames issued and time slept\<close>

fun is_set :: "hid_event \<Rightarrow> bool" where
  "is_set (SetEv buf) = True"
| "is_set _ = False"

definition sets :: "hid_event list \<Rightarrow> nat" where
  "sets evs = length [ev \<leftarrow> evs. is_set ev]"

lemma sets_simps [simp]:
  "sets [] = 0" "sets (xs @ ys) = sets xs + sets ys" "sets (SetEv buf # evs) = Suc (sets evs)"
  "sets (GetEv # evs) = sets evs" "sets (SleepEv d # evs) = sets evs"
  by (simp_all add: sets_def)

lemma sets_retry_trace [simp]: "sets (retry_trace f d 0 n) = n"
  by (induction n) (simp_all add: retry_trace_def pause_events_def exchange_events_def)

lemma sets_transact_ends:
  "transact_ends request f d 0 n tid res evs \<Longrightarrow> 0 < n \<Longrightarrow> sets evs = n"
  by (auto simp: transact_ends_def pause_events_def split: sum.splits hid_error.splits if_splits)

text \<open>The feature writes a run issues, whether or not the kernel accepts them, and for how long, in microseconds, it sleeps.\<close>

definition issued :: "os_event list \<Rightarrow> nat" where
  "issued evs = sets (calls_of evs)"

definition paused :: "os_event list \<Rightarrow> nat" where
  "paused evs = slept (calls_of evs)"

lemma issued_simps [simp]:
  "issued [] = 0" "issued (xs @ ys) = issued xs + issued ys"
  "issued (OpenEv p # evs) = issued evs" "issued (RawInfoEv fd # evs) = issued evs"
  "issued (CloseEv fd # evs) = issued evs" "issued (OsSleepEv d # evs) = issued evs"
  by (simp_all add: issued_def)

lemma paused_simps [simp]:
  "paused [] = 0" "paused (xs @ ys) = paused xs + paused ys"
  "paused (OpenEv p # evs) = paused evs" "paused (RawInfoEv fd # evs) = paused evs"
  "paused (CloseEv fd # evs) = paused evs" "paused (OsSleepEv d # evs) = d + paused evs"
  by (simp_all add: paused_def)

lemma sleeps_simps [simp]: "issued (replicate n (OsSleepEv d)) = 0" "paused (replicate n (OsSleepEv d)) = n * d"
  by (induction n) simp_all

text \<open>The most a transaction with a device sleeps.\<close>

definition transact_limit :: "device_entry \<Rightarrow> nat" where
  "transact_limit e = MAX_ATTEMPTS * wait e + (MAX_ATTEMPTS - 1) * RETRY_DELAY"

lemma paused_transact_ends:
  assumes "transact_ends request f (wait e) 0 n tid res (calls_of evs)" and "0 < n" and "n \<le> MAX_ATTEMPTS"
  shows "paused evs \<le> transact_limit e"
proof -
  have "paused evs \<le> n * wait e + (n - 1) * RETRY_DELAY"
    using slept_transact_ends [OF assms(1,2)] by (simp add: paused_def)
  also have "\<dots> \<le> transact_limit e"
    unfolding transact_limit_def using assms(3) by (intro add_mono mult_le_mono) simp_all
  finally show ?thesis .
qed

text \<open>A typed operation is one transaction or none.\<close>

lemma perform_calls:
  assumes "perform (hidraw_io (traced_os os)) op s = (res, s')"
  obtains evs where "entry s' = entry s" "device_calls s' = device_calls s @ evs" "paused evs \<le> transact_limit (entry s)"
    "\<And>request. request_for (entry s) op = Inr request \<Longrightarrow>
       \<exists>n. 0 < n \<and> n \<le> MAX_ATTEMPTS \<and> last_attempts s' = of_nat n \<and> issued evs = n"
proof (cases "request_for (entry s) op")
  case (Inl err)
  with assms show thesis by (intro that [of "[]"]) (simp_all add: perform_request)
next
  case (Inr request)
  note con = request_for_constructed [OF Inr]
  obtain got t where run: "transact (hidraw_io (traced_os os)) request s = (got, t)" by (rule prod.exhaust)
  have "s' = t" using assms run by (cases got) (auto simp: perform_request Inr)
  from os_transact [OF constructed_wf [OF con] constructed_check_request [OF con] run]
  obtain n evs where n: "0 < n" "n \<le> MAX_ATTEMPTS" "last_attempts t = of_nat n" "entry t = entry s"
    "device_calls t = device_calls s @ evs"
    "transact_ends request (frame (sess_tid s) request) (wait (entry s)) 0 n (last_response_tid t) got (calls_of evs)" .
  have "issued evs = n" using sets_transact_ends [OF n(6,1)] by (simp add: issued_def)
  with n paused_transact_ends [OF n(6,1,2)] \<open>s' = t\<close> show thesis by (intro that [of evs]) auto
qed

end
