(* ===== verification/Razerd_Info.thy ===== *)
theory Razerd_Info
  imports Razerd_Calls
begin

text \<open>
  The reading subcommands of \<open>crates/razerd/src/main.rs\<close>: \<open>list\<close>, which only walks sysfs, and \<open>info\<close>,
  which asks every supported device for its firmware version, serial and device mode. A panic is
  \<open>None\<close>. A run is its world and the lines printed so far; the transport of a device is dropped, and
  its descriptor closed, where the loop body that opened it ends.
\<close>

subsection \<open>Readings\<close>

datatype 'a reading = Value 'a | ReceiverIdle | Failed string

definition classify :: "hid_error + 'a \<Rightarrow> 'a reading" where
  "classify result =
     (case result of
        Inr v \<Rightarrow> Value v
      | Inl e \<Rightarrow> if is_receiver_idle e then ReceiverIdle else Failed (hid_error_display e))"

record device_report =
  rep_firmware :: "(u8 \<times> u8) reading"
  rep_serial :: "string reading option"
  rep_device_mode :: "(u8 \<times> u8) reading option"

fun is_idle :: "'a reading \<Rightarrow> bool" where
  "is_idle ReceiverIdle = True"
| "is_idle _ = False"

definition receiver_idle :: "device_report \<Rightarrow> bool" where
  "receiver_idle rep \<longleftrightarrow>
     is_idle (rep_firmware rep) \<or>
     (case rep_serial rep of Some x \<Rightarrow> is_idle x | None \<Rightarrow> False) \<or>
     (case rep_device_mode rep of Some x \<Rightarrow> is_idle x | None \<Rightarrow> False)"

definition read_device :: "'w hid_io \<Rightarrow> 'w session \<Rightarrow> device_report \<times> 'w session" where
  "read_device E s =
     (case firmware_version E s of (r, s) \<Rightarrow>
        let fw = classify r in
        if is_idle fw then
          (\<lparr>rep_firmware = fw, rep_serial = None, rep_device_mode = None\<rparr>, s)
        else
          (case serial E s of (r, s) \<Rightarrow>
             let ser = classify r in
             if is_idle ser then
               (\<lparr>rep_firmware = fw, rep_serial = Some ser, rep_device_mode = None\<rparr>, s)
             else
               (case get_device_mode E s of (r, s) \<Rightarrow>
                  (\<lparr>rep_firmware = fw, rep_serial = Some ser, rep_device_mode = Some (classify r)\<rparr>, s))))"

subsection \<open>list\<close>

definition list_line :: "hidraw_node \<Rightarrow> string" where
  "list_line n =
     (let supported = (case lookup (info_product_id (node_info n)) of None \<Rightarrow> ''-'' | Some e \<Rightarrow> dev_name e)
      in pad_right 10 (node_name n) @ '' '' @ pad_right 16 (node_path n) @ '' 0x''
         @ fmt_HEX 4 (unat (info_product_id (node_info n))) @ '' ''
         @ pad_left 6 (fmt_dec (unat (interface_number (node_info n)))) @ ''  '' @ supported)"

definition list_nodes :: "'k env \<Rightarrow> 'k run \<Rightarrow> (string + unit) \<times> 'k run" where
  "list_nodes env r =
     (case list_razer_nodes (env_sysfs env r) of
        Inl e \<Rightarrow> (Inl (hid_error_display e), r)
      | Inr nodes \<Rightarrow>
          if nodes = [] then (Inr (), println ''No Razer hidraw nodes found.'' r)
          else
            (let r = println (pad_right 10 ''NODE'' @ '' '' @ pad_right 16 ''PATH'' @ '' ''
                       @ pad_left 6 ''PID'' @ '' '' @ pad_left 6 ''IFACE'' @ ''  SUPPORTED'') r
             in (Inr (), fold (\<lambda>n. println (list_line n)) nodes r)))"

subsection \<open>info\<close>

fun supported_pids :: "hidraw_node list \<Rightarrow> u16 list \<Rightarrow> u16 list" where
  "supported_pids [] pids = pids"
| "supported_pids (n # nodes) pids =
     (let p = info_product_id (node_info n) in
      if lookup p \<noteq> None \<and> p \<notin> set pids then supported_pids nodes (pids @ [p])
      else supported_pids nodes pids)"

definition firmware_lines :: "(u8 \<times> u8) reading \<Rightarrow> string list" where
  "firmware_lines x =
     (case x of
        Value v \<Rightarrow> [''  firmware        v'' @ fmt_dec (unat (fst v)) @ ''.'' @ fmt_dec (unat (snd v))]
      | ReceiverIdle \<Rightarrow> []
      | Failed msg \<Rightarrow> [''  firmware        ERROR: '' @ msg])"

definition serial_lines :: "string reading option \<Rightarrow> string list" where
  "serial_lines x =
     (case x of
        Some (Value v) \<Rightarrow> [''  serial          '' @ v]
      | Some (Failed msg) \<Rightarrow> [''  serial          ERROR: '' @ msg]
      | _ \<Rightarrow> [])"

definition mode_label :: "u8 \<Rightarrow> string" where
  "mode_label mode =
     (if mode = 0x00 then ''normal (device)'' else if mode = 0x03 then ''driver'' else ''unknown'')"

definition mode_lines :: "(u8 \<times> u8) reading option \<Rightarrow> string list" where
  "mode_lines x =
     (case x of
        Some (Value v) \<Rightarrow>
          [''  device mode     0x'' @ fmt_HEX 2 (unat (fst v)) @ '' '' @ mode_label (fst v)
             @ '' (param 0x'' @ fmt_HEX 2 (unat (snd v)) @ '')'']
      | Some (Failed msg) \<Rightarrow> [''  device mode     ERROR: '' @ msg]
      | _ \<Rightarrow> [])"

definition idle_lines :: "string list" where
  "idle_lines =
     [''  state           no device connected (receiver idle)'',
      ''                  dongle answered 0x04 TIMEOUT; the mouse is'',
      ''                  elsewhere '' @ em_dash @ '' on its cable, or powered off'']"

record 'k info_state = "'k run" +
  opened :: nat
  failed :: nat
  idle :: nat

definition say :: "string list \<Rightarrow> 'k info_state \<Rightarrow> 'k info_state" where
  "say ls st = st\<lparr>printed := printed st @ ls\<rparr>"

text \<open>One turn of the loop; the unwrapped table lookup is the only place that could panic.\<close>

definition info_device :: "'k env \<Rightarrow> u16 \<Rightarrow> 'k info_state \<Rightarrow> 'k info_state option" where
  "info_device env p st =
     (case lookup p of
        None \<Rightarrow> None
      | Some e \<Rightarrow> Some
          (let st = say [[CHR 0x0A] @ dev_name e @ '' (0x'' @ fmt_HEX 4 (unat (pid e)) @ '')''] st in
           case find_device (real_sysfs_new (env_files env (world st))) RAZER_VID p (report_index e) of
             Inl err \<Rightarrow>
               (say [''  ERROR locating the control interface: '' @ hid_error_display err,
                     ''  (unplugged mid-run? try again)''] st)\<lparr>failed := failed st + 1\<rparr>
           | Inr node \<Rightarrow>
               let st = say [''  node            '' @ node_path node,
                   ''  usb interface   '' @ fmt_dec (unat (interface_number (node_info node))),
                   ''  transaction id  0x'' @ fmt_HEX 2 (unat (dev_transaction_id e))] st in
               (case hidraw_open_expecting (env_os env) (node_path node) RAZER_VID p (world st) of
                  (Inl err, k) \<Rightarrow>
                    (say [''  ERROR opening '' @ node_path node @ '': '' @ hid_error_display err,
                          ''  (permissions? install udev/60-razer-rust.rules '' @ em_dash
                             @ '' see `razerd` usage)''] (st\<lparr>world := k\<rparr>))\<lparr>failed := failed st + 1\<rparr>
                | (Inr dev, k) \<Rightarrow>
                    let st = st\<lparr>opened := opened st + 1\<rparr> in
                    (case read_device (hidraw_io (env_os env)) (session_new e (dev, k)) of
                       (report, s) \<Rightarrow>
                         let st = say (firmware_lines (rep_firmware report)
                               @ serial_lines (rep_serial report)
                               @ mode_lines (rep_device_mode report)) st;
                             st = (if receiver_idle report then (say idle_lines st)\<lparr>idle := idle st + 1\<rparr>
                                   else st)
                         in st\<lparr>world := hidraw_drop (env_os env) dev (snd (io s))\<rparr>))))"

fun info_loop :: "'k env \<Rightarrow> u16 list \<Rightarrow> 'k info_state \<Rightarrow> 'k info_state option" where
  "info_loop env [] st = Some st"
| "info_loop env (p # ps) st =
     (case info_device env p st of None \<Rightarrow> None | Some st \<Rightarrow> info_loop env ps st)"

definition info :: "'k env \<Rightarrow> 'k run \<Rightarrow> ((string + unit) \<times> 'k run) option" where
  "info env r =
     (case list_razer_nodes (env_sysfs env r) of
        Inl e \<Rightarrow> Some (Inl (hid_error_display e), r)
      | Inr nodes \<Rightarrow>
          let pids = supported_pids nodes [] in
          if pids = [] then
            Some (Inr (), println ''(`razerd list` shows every Razer hidraw node, supported or not.)''
              (println ''No supported Razer devices found.'' r))
          else
            (case info_loop env pids (run.extend r \<lparr>opened = 0, failed = 0, idle = 0\<rparr>) of
               None \<Rightarrow> None
             | Some st \<Rightarrow>
                 let st = say [[CHR 0x0A] @ ''All commands above were GET-class reads. Nothing was written.''] st;
                     st = (if 0 < idle st then
                             say [fmt_dec (idle st) @ '' receiver(s) had no device connected; that is a state, not an error.''] st
                           else st)
                 in Some
                      (if opened st = 0 \<and> 0 < failed st then
                         Inl (''could not open any of the '' @ fmt_dec (failed st) @ '' supported device(s)'')
                       else Inr (), run.truncate st)))"

subsection \<open>Only reads\<close>

lemma read_device_reads:
  "os_sends reading_frame s (snd (read_device (hidraw_io (traced_os os)) s))"
proof -
  let ?E = "hidraw_io (traced_os os)"
  obtain r1 s1 where f: "firmware_version ?E s = (r1, s1)" by fastforce
  obtain r2 s2 where ser: "serial ?E s1 = (r2, s2)" by fastforce
  obtain r3 s3 where m: "get_device_mode ?E s2 = (r3, s3)" by fastforce
  have steps: "os_sends reading_frame s s1" "os_sends reading_frame s1 s2" "os_sends reading_frame s2 s3"
    using reads.reading_R(1) [of s os] reads.reading_R(2) [of s1 os] reads.reading_R(3) [of s2 os] f ser m
    by simp_all
  then have "os_sends reading_frame s s2" "os_sends reading_frame s s3"
    by (blast intro: os_sends_trans)+
  with steps(1) show ?thesis
    by (simp add: read_device_def f ser m Let_def)
qed

text \<open>Three typed operations at most, each at most one transaction.\<close>

lemma reading_paused:
  assumes "op \<in> {GetFirmware, GetSerial, GetMode}"
    and "(op = GetFirmware \<longrightarrow> s' = snd (firmware_version (hidraw_io (traced_os os)) s)) \<and>
      (op = GetSerial \<longrightarrow> s' = snd (serial (hidraw_io (traced_os os)) s)) \<and>
      (op = GetMode \<longrightarrow> s' = snd (get_device_mode (hidraw_io (traced_os os)) s))"
  obtains evs where "entry s' = entry s" "device_calls s' = device_calls s @ evs" "paused evs \<le> transact_limit (entry s)"
proof -
  obtain x where "perform (hidraw_io (traced_os os)) op s = (x, s')"
    using assms by (cases "perform (hidraw_io (traced_os os)) op s") (auto dest: arg_cong [of _ _ snd])
  from perform_calls [OF this] that show thesis by metis
qed

lemma read_device_paused:
  assumes "read_device (hidraw_io (traced_os os)) s = (report, s')"
  shows "\<exists>evs. device_calls s' = device_calls s @ evs \<and> paused evs \<le> 3 * transact_limit (entry s)"
proof -
  let ?E = "hidraw_io (traced_os os)"
  obtain r1 s1 where f: "firmware_version ?E s = (r1, s1)" by fastforce
  obtain r2 s2 where ser: "serial ?E s1 = (r2, s2)" by fastforce
  obtain r3 s3 where m: "get_device_mode ?E s2 = (r3, s3)" by fastforce
  obtain evs1 where 1: "entry s1 = entry s" "device_calls s1 = device_calls s @ evs1" "paused evs1 \<le> transact_limit (entry s)"
    by (rule reading_paused [of GetFirmware s1 os s]) (simp_all add: f)
  obtain evs2 where 2: "entry s2 = entry s1" "device_calls s2 = device_calls s1 @ evs2" "paused evs2 \<le> transact_limit (entry s1)"
    by (rule reading_paused [of GetSerial s2 os s1]) (simp_all add: ser)
  obtain evs3 where 3: "device_calls s3 = device_calls s2 @ evs3" "paused evs3 \<le> transact_limit (entry s2)"
    by (rule reading_paused [of GetMode s3 os s2]) (simp_all add: m)
  have "s' = s1 \<or> s' = s2 \<or> s' = s3"
    using assms by (auto simp: read_device_def f ser m Let_def split: if_splits)
  moreover have "device_calls s2 = device_calls s @ evs1 @ evs2" "device_calls s3 = device_calls s @ evs1 @ evs2 @ evs3"
    by (simp_all add: 1(2) 2(2) 3(1))
  moreover have "paused evs1 + paused evs2 + paused evs3 \<le> 3 * transact_limit (entry s)"
    using 1(3) 2(3) 3(2) by (simp add: 1(1) 2(1))
  ultimately show ?thesis
    using 1(2) by (elim disjE) (force intro: exI [of _ "evs1 @ evs2"] exI [of _ "evs1 @ evs2 @ evs3"])+
qed

text \<open>A call that changes nothing on the device, and the descriptors a trace asks about and closes.\<close>

definition read_call :: "os_event \<Rightarrow> bool" where
  "read_call ev =
     (case ev of
        FeatureEv fd req buf \<Rightarrow>
          req = HIDIOCGFEATURE_91 \<or> req = HIDIOCSFEATURE_91 \<and> reading_frame 0x1F buf
      | _ \<Rightarrow> True)"

fun opened_fds :: "os_event list \<Rightarrow> nat list" where
  "opened_fds [] = []"
| "opened_fds (RawInfoEv fd # evs) = fd # opened_fds evs"
| "opened_fds (_ # evs) = opened_fds evs"

fun closed_fds :: "os_event list \<Rightarrow> nat list" where
  "closed_fds [] = []"
| "closed_fds (CloseEv fd # evs) = fd # closed_fds evs"
| "closed_fds (_ # evs) = closed_fds evs"

lemma fds_append [simp]:
  "opened_fds (xs @ ys) = opened_fds xs @ opened_fds ys"
  "closed_fds (xs @ ys) = closed_fds xs @ closed_fds ys"
  by (induction xs rule: opened_fds.induct) simp_all

definition reads_only :: "os_event list \<Rightarrow> bool" where
  "reads_only evs \<longleftrightarrow> list_all read_call evs \<and> opened_fds evs = closed_fds evs"

lemma reads_only_append: "reads_only xs \<Longrightarrow> reads_only ys \<Longrightarrow> reads_only (xs @ ys)"
  by (simp add: reads_only_def)

lemma device_calls_read:
  assumes "list_all (device_call fd (reading_frame 0x1F)) evs"
  shows "list_all read_call evs" "opened_fds evs = []" "closed_fds evs = []"
proof -
  show "list_all read_call evs"
    using assms by (rule list.pred_mono_strong) (auto simp: device_call_def read_call_def split: os_event.splits)
  show "opened_fds evs = []" using assms
    by (induction evs rule: opened_fds.induct) (simp_all add: device_call_def)
  show "closed_fds evs = []" using assms
    by (induction evs rule: closed_fds.induct) (simp_all add: device_call_def)
qed

lemma open_outcome_reads:
  assumes "open_outcome os p vid prd res evs"
  shows "list_all read_call evs \<and> paused evs = 0 \<and>
    (case res of Inl _ \<Rightarrow> opened_fds evs = closed_fds evs
     | Inr dev \<Rightarrow> opened_fds evs = [dev_file dev] \<and> closed_fds evs = [])"
  using assms by (auto simp: open_outcome_def read_call_def split: sum.splits)

definition counted :: "nat \<Rightarrow> 'k info_state \<Rightarrow> 'k info_state \<Rightarrow> bool" where
  "counted n st st' \<longleftrightarrow> opened st' + failed st' = opened st + failed st + n \<and>
     opened st \<le> opened st' \<and> idle st' + opened st \<le> idle st + opened st'"

lemma say_simps [simp]:
  "world (say ls st) = world st" "opened (say ls st) = opened st" "failed (say ls st) = failed st"
  "idle (say ls st) = idle st"
  by (simp_all add: say_def)

text \<open>The most the turn of a product sleeps.\<close>

definition info_limit :: "u16 \<Rightarrow> nat" where
  "info_limit p = (case lookup p of None \<Rightarrow> 0 | Some e \<Rightarrow> 3 * transact_limit e)"

lemma info_device_step:
  assumes "env_os env = traced_os os" and "lookup p \<noteq> None"
  shows "\<exists>st' evs. info_device env p st = Some st' \<and> counted 1 st st' \<and>
    snd (world st') = snd (world st) @ evs \<and> reads_only evs \<and> paused evs \<le> info_limit p"
proof -
  obtain e where e: "lookup p = Some e" using assms(2) by blast
  then have tid: "dev_transaction_id e = 0x1F" by (auto simp: lookup_Some set_TABLE device_defs)
  have limit: "info_limit p = 3 * transact_limit e" using e by (simp add: info_limit_def)
  let ?found = "find_device (real_sysfs_new (env_files env (world st))) RAZER_VID p (report_index e)"
  show ?thesis
  proof (cases ?found)
    case (Inl err)
    then show ?thesis
      by (simp add: info_device_def e Let_def counted_def reads_only_def)
  next
    case (Inr node)
    obtain k tr where w: "world st = (k, tr)" by fastforce
    obtain res k' tr' where op: "hidraw_open_expecting (traced_os os) (node_path node) RAZER_VID p (k, tr)
        = (res, k', tr')" by (metis prod.exhaust)
    from open_expecting_outcome [OF op] obtain evs where
      evs: "tr' = tr @ evs" "open_outcome os (node_path node) RAZER_VID p res evs" by blast
    note opens = open_outcome_reads [OF evs(2)]
    show ?thesis
    proof (cases res)
      case (Inl err)
      with \<open>?found = Inr node\<close> op evs opens w show ?thesis
        by (simp add: info_device_def e Let_def counted_def assms(1) reads_only_def)
    next
      case (Inr dev)
      obtain report s where rd: "read_device (hidraw_io (traced_os os)) (session_new e (dev, k', tr'))
          = (report, s)" by fastforce
      have "os_sends reading_frame (session_new e (dev, k', tr')) s"
        using read_device_reads [of "session_new e (dev, k', tr')" os] by (simp only: rd snd_conv)
      then obtain evs' where
        calls: "snd (snd (io s)) = tr' @ evs'" "list_all (device_call (dev_file dev) (reading_frame 0x1F)) evs'"
        by (auto simp: os_sends_def session_new_def tid)
      have "\<exists>xs. device_calls s = tr' @ xs \<and> paused xs \<le> 3 * transact_limit e"
        using read_device_paused [OF rd] by (simp add: session_new_def device_calls_def)
      with calls(1) have "paused evs' \<le> info_limit p" by (auto simp: device_calls_def limit)
      with opens have "paused (evs @ evs' @ [CloseEv (dev_file dev)]) \<le> info_limit p" by simp
      moreover have "reads_only (evs @ evs' @ [CloseEv (dev_file dev)])"
        using opens Inr device_calls_read [OF calls(2)] by (simp add: reads_only_def read_call_def)
      moreover have "snd (hidraw_drop (traced_os os) dev (snd (io s)))
          = tr @ evs @ evs' @ [CloseEv (dev_file dev)]"
        using calls(1) evs(1) by (simp add: hidraw_drop_def traced_os_def split_beta)
      ultimately show ?thesis
        using \<open>?found = Inr node\<close> Inr op rd w
        by (simp add: info_device_def e Let_def counted_def assms(1))
    qed
  qed
qed

lemma info_loop_steps:
  assumes "env_os env = traced_os os" and "list_all (\<lambda>p. lookup p \<noteq> None) ps"
  shows "\<exists>st' evs. info_loop env ps st = Some st' \<and> counted (length ps) st st' \<and>
    snd (world st') = snd (world st) @ evs \<and> reads_only evs \<and> paused evs \<le> sum_list (map info_limit ps)"
  using assms(2)
proof (induction ps arbitrary: st)
  case Nil
  then show ?case by (simp add: counted_def reads_only_def)
next
  case (Cons p ps)
  then obtain st1 evs1 where one: "info_device env p st = Some st1" "counted 1 st st1"
    "snd (world st1) = snd (world st) @ evs1" "reads_only evs1" "paused evs1 \<le> info_limit p"
    using info_device_step [OF assms(1), of p st] by auto
  have "list_all (\<lambda>p. lookup p \<noteq> None) ps" using Cons.prems by simp
  from Cons.IH [OF this, of st1] obtain st2 evs2 where two: "info_loop env ps st1 = Some st2" "counted (length ps) st1 st2"
    "snd (world st2) = snd (world st1) @ evs2" "reads_only evs2" "paused evs2 \<le> sum_list (map info_limit ps)"
    by blast
  have "counted (length (p # ps)) st st2" using one(2) two(2) by (simp add: counted_def)
  then show ?case
    using one two reads_only_append [OF one(4) two(4)] by (auto intro!: exI [of _ "evs1 @ evs2"])
qed

lemma supported_pids_known:
  "list_all (\<lambda>p. lookup p \<noteq> None) pids \<Longrightarrow> distinct pids \<Longrightarrow>
    list_all (\<lambda>p. lookup p \<noteq> None) (supported_pids nodes pids) \<and> distinct (supported_pids nodes pids)"
  by (induction nodes arbitrary: pids) (simp_all add: Let_def)

subsection \<open>The subcommand as a whole\<close>

lemma run_parts [simp]:
  "world (run.extend r x) = world r" "world (run.truncate st) = world st"
  by (simp_all add: run.extend_def run.truncate_def)

lemma info_limit_table:
  assumes "list_all (\<lambda>p. lookup p \<noteq> None) ps" and "distinct ps"
  shows "sum_list (map info_limit ps) \<le> 1299000"
proof -
  have "set ps \<subseteq> set (map pid TABLE)"
    using assms(1) by (force simp: list_all_iff lookup_Some)
  then have "sum info_limit (set ps) \<le> sum info_limit (set (map pid TABLE))"
    by (intro sum_mono2) simp_all
  also have "\<dots> = 1299000"
    by (simp add: info_limit_def transact_limit_def MAX_ATTEMPTS_def RETRY_DELAY_def lookup_def TABLE_def device_defs)
  finally show ?thesis by (simp only: sum_list_distinct_conv_sum_set [OF assms(2)])
qed

lemma info_run:
  assumes "env_os env = traced_os os"
  obtains res r' evs where "info env r = Some (res, r')" "snd (world r') = snd (world r) @ evs" "reads_only evs"
    "paused evs \<le> 1299000"
proof (cases "list_razer_nodes (env_sysfs env r)")
  case (Inl e)
  then show thesis by (intro that [of "Inl (hid_error_display e)" r "[]"]) (simp_all add: info_def reads_only_def)
next
  case (Inr nodes)
  have pids: "list_all (\<lambda>p. lookup p \<noteq> None) (supported_pids nodes [])" "distinct (supported_pids nodes [])"
    using supported_pids_known [of "[]" nodes] by simp_all
  from info_loop_steps [OF assms pids(1), of "run.extend r \<lparr>opened = 0, failed = 0, idle = 0\<rparr>"]
  obtain st evs where st: "info_loop env (supported_pids nodes []) (run.extend r \<lparr>opened = 0, failed = 0, idle = 0\<rparr>) = Some st"
    "snd (world st) = snd (world r) @ evs" "reads_only evs" "paused evs \<le> 1299000"
    using info_limit_table [OF pids] by force
  show thesis
  proof (cases "supported_pids nodes [] = []")
    case True
    with Inr obtain res r' where "info env r = Some (res, r')" "world r' = world r"
      by (simp add: info_def Let_def)
    then show ?thesis by (intro that [of res r' "[]"]) (simp_all add: reads_only_def)
  next
    case False
    with Inr st(1) obtain res r' where "info env r = Some (res, r')" "world r' = world st"
      by (simp add: info_def Let_def)
    with st show ?thesis by (intro that [of res r' evs]) simp_all
  qed
qed

text \<open>C4: \<open>razerd info\<close> only reads: over any kernel, file system and set of devices it returns (it does
  not panic), every frame it sends to any descriptor is a typed command with the read bit set, the
  transaction id 0x1F and a valid checksum, and every descriptor it obtained is closed again, in
  order, before it ends.\<close>

theorem info_reads_only:
  assumes "env_os env = traced_os os"
  shows "case info env r of
      None \<Rightarrow> False
    | Some (res, r') \<Rightarrow> \<exists>evs. snd (world r') = snd (world r) @ evs \<and>
        list_all read_call evs \<and> opened_fds evs = closed_fds evs"
  by (rule info_run [OF assms, of r]) (auto simp: reads_only_def)

text \<open>A machine with one keyboard, on which every call succeeds and no log can be read.\<close>

definition sample_env :: "(unit \<times> os_event list) env" where
  "sample_env =
     \<lparr>env_os = traced_os silent_os, env_files = (\<lambda>_. sample_files),
      env_command = (\<lambda>_ _ k. (None, k)), env_stopwatch = (\<lambda>k. (''1.000'', k))\<rparr>"

definition sample_run :: "(unit \<times> os_event list) run" where
  "sample_run = \<lparr>world = ((), []), printed = []\<rparr>"

theorem info_reads_only_witness:
  "case info sample_env sample_run of
     None \<Rightarrow> False
   | Some (res, r') \<Rightarrow> list_all read_call (snd (world r')) \<and>
       opened_fds (snd (world r')) = closed_fds (snd (world r'))"
proof -
  have "env_os sample_env = traced_os silent_os" by (simp add: sample_env_def)
  from info_reads_only [OF this, of sample_run] show ?thesis
    by (auto simp: sample_run_def split: option.splits)
qed

text \<open>C40: when \<open>info\<close> fails: with the error of the listing, before any call, when the nodes cannot be
  listed; and with "could not open any of the ... supported device(s)" when there were supported
  devices and none of them could be opened; in every other case it succeeds. An idle receiver counts as
  opened and is never the reason for a failure.\<close>

theorem info_exit_status:
  assumes "env_os env = traced_os os"
  shows "case list_razer_nodes (env_sysfs env r) of
      Inl e \<Rightarrow> info env r = Some (Inl (hid_error_display e), r)
    | Inr nodes \<Rightarrow>
        (case (info env r, info_loop env (supported_pids nodes []) (run.extend r \<lparr>opened = 0, failed = 0, idle = 0\<rparr>)) of
           (Some (res, _), Some st) \<Rightarrow>
             opened st + failed st = length (supported_pids nodes []) \<and> idle st \<le> opened st \<and>
             res = (if supported_pids nodes [] \<noteq> [] \<and> opened st = 0 then
                 Inl (''could not open any of the '' @ fmt_dec (length (supported_pids nodes [])) @ '' supported device(s)'')
               else Inr ())
         | _ \<Rightarrow> False)"
proof (cases "list_razer_nodes (env_sysfs env r)")
  case (Inl e)
  then show ?thesis by (simp add: info_def)
next
  case (Inr nodes)
  have "list_all (\<lambda>p. lookup p \<noteq> None) (supported_pids nodes [])"
    using supported_pids_known [of "[]" nodes] by simp
  from info_loop_steps [OF assms this, of "run.extend r \<lparr>opened = 0, failed = 0, idle = 0\<rparr>"]
  obtain st where st: "info_loop env (supported_pids nodes []) (run.extend r \<lparr>opened = 0, failed = 0, idle = 0\<rparr>) = Some st"
    "counted (length (supported_pids nodes [])) (run.extend r \<lparr>opened = 0, failed = 0, idle = 0\<rparr>) st"
    by blast
  then show ?thesis
    by (auto simp: Inr info_def Let_def counted_def run.extend_def)
qed

lemma sample_nodes:
  "list_razer_nodes (env_sysfs sample_env sample_run)
    = Inr [\<lparr>node_name = ''hidraw3'', node_path = ''/dev/hidraw3'', node_info = sample_info\<rparr>]"
proof -
  have "interface_info (real_sysfs sample_files ''/sys'') ''hidraw3'' = Inr (Some sample_info)"
    by (rule interface_info_tree [OF sample_tree])
  moreover have "hidraw_names (real_sysfs sample_files ''/sys'') = Inr [''hidraw3'']"
    by (simp add: real_sysfs_def real_hidraw_names_def sample_files_def)
  moreover have "device_path (real_sysfs sample_files ''/sys'') ''hidraw3'' = ''/dev/hidraw3''"
    by (simp add: real_sysfs_def path_join_def)
  ultimately show ?thesis
    by (simp add: list_razer_nodes_def env_sysfs_def real_sysfs_new_def sample_env_def sort_by_index_def
        sample_info_def VENDOR_ID_def)
qed

theorem info_exit_status_witness:
  "case info_loop sample_env [0x028D] (run.extend sample_run \<lparr>opened = 0, failed = 0, idle = 0\<rparr>) of
     Some st \<Rightarrow> opened st + failed st = 1
   | None \<Rightarrow> False"
proof -
  have env: "env_os sample_env = traced_os silent_os" by (simp add: sample_env_def)
  have "lookup 0x028D \<noteq> None"
    by (simp add: lookup_def TABLE_def device_defs)
  then have "supported_pids [\<lparr>node_name = ''hidraw3'', node_path = ''/dev/hidraw3'', node_info = sample_info\<rparr>] []
      = [0x028D]"
    by (simp add: sample_info_def Let_def)
  with info_exit_status [OF env, of sample_run] show ?thesis
    by (auto simp: sample_nodes split: option.splits prod.splits)
qed

end
