(* ===== verification/Rust_Text.thy ===== *)
theory Rust_Text
  imports Rust_Str
begin

text \<open>
  Strings read from outside the program: UTF-8 validation (\<open>String::from_utf8\<close>, \<open>read_line\<close>), lossy
  decoding (\<open>to_string_lossy\<close>), splitting at white space, searching, and the ASCII part of
  \<open>to_uppercase\<close>. All are functions of the bytes, as the standard library computes them.
\<close>

subsection \<open>UTF-8\<close>

text \<open>The ranges of the bytes that must follow a leading byte; \<open>None\<close> for a byte that cannot lead.\<close>

definition utf8_follow :: "char \<Rightarrow> (nat \<times> nat) list option" where
  "utf8_follow c =
     (let b = ord c in
      if b < 0x80 then Some []
      else if 0xC2 \<le> b \<and> b \<le> 0xDF then Some [(0x80, 0xBF)]
      else if b = 0xE0 then Some [(0xA0, 0xBF), (0x80, 0xBF)]
      else if b = 0xED then Some [(0x80, 0x9F), (0x80, 0xBF)]
      else if 0xE1 \<le> b \<and> b \<le> 0xEF then Some [(0x80, 0xBF), (0x80, 0xBF)]
      else if b = 0xF0 then Some [(0x90, 0xBF), (0x80, 0xBF), (0x80, 0xBF)]
      else if b = 0xF4 then Some [(0x80, 0x8F), (0x80, 0xBF), (0x80, 0xBF)]
      else if 0xF1 \<le> b \<and> b \<le> 0xF3 then Some [(0x80, 0xBF), (0x80, 0xBF), (0x80, 0xBF)]
      else None)"

text \<open>How many of the required bytes are there.\<close>

fun utf8_matched :: "(nat \<times> nat) list \<Rightarrow> string \<Rightarrow> nat" where
  "utf8_matched ((lo, hi) # rs) (c # cs) = (if lo \<le> ord c \<and> ord c \<le> hi then Suc (utf8_matched rs cs) else 0)"
| "utf8_matched _ _ = 0"

text \<open>The first character of a text: whether it is well formed and how many bytes it, or the
  maximal ill-formed piece in its place, takes after the first.\<close>

definition utf8_first :: "char \<Rightarrow> string \<Rightarrow> bool \<times> nat" where
  "utf8_first c cs =
     (case utf8_follow c of
        None \<Rightarrow> (False, 0)
      | Some rs \<Rightarrow> (utf8_matched rs cs = length rs, utf8_matched rs cs))"

function utf8_valid :: "string \<Rightarrow> bool" where
  "utf8_valid [] = True"
| "utf8_valid (c # cs) = (fst (utf8_first c cs) \<and> utf8_valid (drop (snd (utf8_first c cs)) cs))"
  by pat_completeness auto
termination by (relation "measure length") auto

definition replacement_character :: string where
  "replacement_character = [CHR 0xEF, CHR 0xBF, CHR 0xBD]"

function to_string_lossy :: "string \<Rightarrow> string" where
  "to_string_lossy [] = []"
| "to_string_lossy (c # cs) =
     (case utf8_first c cs of
        (ok, n) \<Rightarrow>
          (if ok then c # take n cs else replacement_character) @ to_string_lossy (drop n cs))"
  by pat_completeness auto
termination by (relation "measure length") auto

lemma utf8_first_ascii [simp]: "is_ascii c \<Longrightarrow> utf8_first c cs = (True, 0)"
  by (simp add: utf8_first_def utf8_follow_def is_ascii_def)

lemma utf8_valid_ascii: "list_all is_ascii s \<Longrightarrow> utf8_valid s"
  by (induction s) simp_all

text \<open>Lossy decoding changes nothing in a well-formed text and always yields one.\<close>

lemma to_string_lossy_valid: "utf8_valid s \<Longrightarrow> to_string_lossy s = s"
  by (induction s rule: utf8_valid.induct) (auto split: prod.split)

lemma utf8_matched_le: "utf8_matched rs cs \<le> length cs"
  by (induction rs cs rule: utf8_matched.induct) auto

lemma utf8_matched_append: "utf8_matched rs (take (utf8_matched rs cs) cs @ t) = length rs"
  if "utf8_matched rs cs = length rs"
  using that by (induction rs cs rule: utf8_matched.induct) (auto split: if_splits)

lemma utf8_first_take:
  assumes "utf8_first c cs = (True, n)"
  shows "utf8_first c (take n cs @ t) = (True, n)" and "n \<le> length cs"
proof -
  obtain rs where rs: "utf8_follow c = Some rs" "utf8_matched rs cs = length rs" "n = length rs"
    using assms by (auto simp: utf8_first_def split: option.splits)
  then show "utf8_first c (take n cs @ t) = (True, n)"
    using utf8_matched_append [of rs cs t] by (simp add: utf8_first_def)
  show "n \<le> length cs" using utf8_matched_le [of rs cs] rs by simp
qed

lemma utf8_valid_lossy: "utf8_valid (to_string_lossy s)"
proof (induction s rule: to_string_lossy.induct)
  case 1
  show ?case by simp
next
  case (2 c cs)
  obtain ok n where first: "utf8_first c cs = (ok, n)" by (rule prod.exhaust)
  have rest: "utf8_valid (to_string_lossy (drop n cs))" using 2 [OF first [symmetric]] by simp
  show ?case
  proof (cases ok)
    case True
    then show ?thesis
      using first rest utf8_first_take [of c cs n] by simp
  next
    case False
    have "utf8_first (CHR 0xEF) (CHR 0xBF # CHR 0xBD # t) = (True, 2)" for t
      by (simp add: utf8_first_def utf8_follow_def)
    then show ?thesis
      using first rest False by (simp add: replacement_character_def)
  qed
qed

subsection \<open>Words\<close>

text \<open>\<open>split_whitespace\<close>: a word ends where an encoded white-space character begins.\<close>

fun word_split :: "string \<Rightarrow> string \<times> string" where
  "word_split [] = ([], [])"
| "word_split (c # cs) =
     (if strip_one utf8_whitespace (c # cs) \<noteq> None then ([], c # cs)
      else apfst (Cons c) (word_split cs))"

lemma word_split_rest: "length (snd (word_split s)) \<le> length s"
  by (induction s) auto

lemma trim_start_at_word: "strip_one utf8_whitespace (trim_start s) = None"
  unfolding trim_start_def
  by (induction utf8_whitespace s rule: strip_all.induct) (subst strip_all.simps, auto split: option.split)

lemma trim_start_shorter: "length (trim_start s) \<le> length s"
  using strip_all_suffix [of s utf8_whitespace] by (metis le_add2 length_append trim_start_def)

function split_whitespace :: "string \<Rightarrow> string list" where
  "split_whitespace s =
     (let t = trim_start s in
      if t = [] then [] else fst (word_split t) # split_whitespace (snd (word_split t)))"
  by pat_completeness auto
termination
proof (relation "measure length")
  fix s t
  assume t: "t = trim_start s" "t \<noteq> []"
  then obtain c cs where cs: "t = c # cs" by (meson neq_Nil_conv)
  have "strip_one utf8_whitespace (c # cs) = None" using trim_start_at_word [of s] t cs by simp
  then have "length (snd (word_split t)) \<le> length cs" using word_split_rest [of cs] by (simp add: cs)
  moreover have "length cs < length s"
    using trim_start_shorter [of s] unfolding t(1) [symmetric] cs by simp
  ultimately show "(snd (word_split t), s) \<in> measure length" by simp
qed simp

declare split_whitespace.simps [simp del]

text \<open>A word of an ASCII text, and white space before one.\<close>

definition plain_word :: "string \<Rightarrow> bool" where
  "plain_word w \<longleftrightarrow> w \<noteq> [] \<and> list_all (\<lambda>c. is_ascii c \<and> c \<notin> set ascii_whitespace) w"

lemma word_split_word:
  "list_all is_ascii (w @ x # t) \<Longrightarrow> list_all (\<lambda>c. c \<notin> set ascii_whitespace) w \<Longrightarrow> x \<in> set ascii_whitespace \<Longrightarrow>
    word_split (w @ x # t) = (w, x # t)"
  by (induction w) (simp_all add: strip_one_ascii_front)

lemma split_whitespace_word:
  assumes "list_all is_ascii (w @ x # t)" and "plain_word w" and "x \<in> set ascii_whitespace"
  shows "split_whitespace (w @ x # t) = w # split_whitespace (x # t)"
proof -
  obtain c cs where w: "w = c # cs" "c \<notin> set ascii_whitespace"
    using assms(2) by (cases w) (simp_all add: plain_word_def)
  have "trim_start (w @ x # t) = w @ x # t"
    using trim_start_ascii [OF assms(1)] w by simp
  moreover have "word_split (w @ x # t) = (w, x # t)"
    using assms by (intro word_split_word) (simp_all add: plain_word_def list_all_iff)
  ultimately show ?thesis
    by (subst split_whitespace.simps) (simp add: w(1))
qed

lemma split_whitespace_space:
  assumes "list_all is_ascii (x # t)" and "x \<in> set ascii_whitespace"
  shows "split_whitespace (x # t) = split_whitespace t"
proof -
  have "trim_start (x # t) = trim_start t"
    using assms trim_start_ascii [of "x # t"] trim_start_ascii [of t] by simp
  then show ?thesis by (subst (1 2) split_whitespace.simps) simp
qed

lemma trim_not_blank:
  assumes "list_all is_ascii s" and "c \<in> set s" and "c \<notin> set ascii_whitespace"
  shows "trim s \<noteq> []"
proof -
  let ?d = "dropWhile (\<lambda>c. c \<in> set ascii_whitespace) s"
  have d: "c \<in> set ?d" "list_all is_ascii ?d"
    using assms by (metis UnE set_append set_takeWhileD takeWhile_dropWhile_id,
        metis list_all_append takeWhile_dropWhile_id)
  have "dropWhile (\<lambda>c. c \<in> set ascii_whitespace) (rev ?d) \<noteq> []"
    using d(1) assms(3) by auto
  then show ?thesis
    by (simp add: trim_def trim_start_ascii [OF assms(1)] trim_end_ascii [OF d(2)])
qed

subsection \<open>Searching\<close>

fun contains_str :: "string \<Rightarrow> string \<Rightarrow> bool" where
  "contains_str needle [] = (needle = [])"
| "contains_str needle (c # cs) =
     (take (length needle) (c # cs) = needle \<or> contains_str needle cs)"

lemma contains_str_iff: "contains_str needle s \<longleftrightarrow> (\<exists>pre suf. s = pre @ needle @ suf)"
proof
  show "contains_str needle s \<Longrightarrow> \<exists>pre suf. s = pre @ needle @ suf"
  proof (induction s)
    case Nil
    then show ?case by simp
  next
    case (Cons c cs)
    show ?case
    proof (cases "take (length needle) (c # cs) = needle")
      case True
      then have "c # cs = [] @ needle @ drop (length needle) (c # cs)"
        by (metis append_Nil append_take_drop_id)
      then show ?thesis by blast
    next
      case False
      with Cons obtain pre suf where "cs = pre @ needle @ suf" by auto
      then have "c # cs = (c # pre) @ needle @ suf" by simp
      then show ?thesis by blast
    qed
  qed
  have here: "contains_str needle (needle @ suf)" for suf
    by (metis append_eq_conv_conj append_is_Nil_conv contains_str.simps neq_Nil_conv)
  have "contains_str needle (pre @ needle @ suf)" for pre suf
    by (induction pre) (simp_all add: here)
  then show "\<exists>pre suf. s = pre @ needle @ suf \<Longrightarrow> contains_str needle s" by blast
qed

subsection \<open>Upper case\<close>

text \<open>The characters outside ASCII whose upper case holds ASCII letters, with it. The upper case of
  every other character outside ASCII is itself outside ASCII; such characters are left as they are,
  which decides the presence of any ASCII text as the full conversion does.\<close>

definition wide_uppercase :: "(string \<times> string) list" where
  "wide_uppercase =
     [([CHR 0xC3, CHR 0x9F], ''SS''), ([CHR 0xC4, CHR 0xB1], ''I''),
      ([CHR 0xC5, CHR 0x89], [CHR 0xCA, CHR 0xBC, CHR ''N'']), ([CHR 0xC5, CHR 0xBF], ''S''),
      ([CHR 0xC7, CHR 0xB0], [CHR ''J'', CHR 0xCC, CHR 0x8C]),
      ([CHR 0xE1, CHR 0xBA, CHR 0x96], [CHR ''H'', CHR 0xCC, CHR 0xB1]),
      ([CHR 0xE1, CHR 0xBA, CHR 0x97], [CHR ''T'', CHR 0xCC, CHR 0x88]),
      ([CHR 0xE1, CHR 0xBA, CHR 0x98], [CHR ''W'', CHR 0xCC, CHR 0x8A]),
      ([CHR 0xE1, CHR 0xBA, CHR 0x99], [CHR ''Y'', CHR 0xCC, CHR 0x8A]),
      ([CHR 0xE1, CHR 0xBA, CHR 0x9A], [CHR ''A'', CHR 0xCA, CHR 0xBE]),
      ([CHR 0xEF, CHR 0xAC, CHR 0x80], ''FF''), ([CHR 0xEF, CHR 0xAC, CHR 0x81], ''FI''),
      ([CHR 0xEF, CHR 0xAC, CHR 0x82], ''FL''), ([CHR 0xEF, CHR 0xAC, CHR 0x83], ''FFI''),
      ([CHR 0xEF, CHR 0xAC, CHR 0x84], ''FFL''), ([CHR 0xEF, CHR 0xAC, CHR 0x85], ''ST''),
      ([CHR 0xEF, CHR 0xAC, CHR 0x86], ''ST'')]"

definition ascii_upper :: "char \<Rightarrow> char" where
  "ascii_upper c = (if 97 \<le> ord c \<and> ord c \<le> 122 then char_of (ord c - 32) else c)"

function to_uppercase :: "string \<Rightarrow> string" where
  "to_uppercase [] = []"
| "to_uppercase (c # cs) =
     (case List.find (\<lambda>p. take (length (fst p)) (c # cs) = fst p) wide_uppercase of
        None \<Rightarrow> ascii_upper c # to_uppercase cs
      | Some p \<Rightarrow> snd p @ to_uppercase (drop (length (fst p) - 1) cs))"
  by pat_completeness auto
termination by (relation "measure length") auto

lemma to_uppercase_ascii: "list_all is_ascii s \<Longrightarrow> to_uppercase s = map ascii_upper s"
proof (induction s)
  case Nil
  show ?case by simp
next
  case (Cons c s)
  have "take (length (fst p)) (c # s) \<noteq> fst p" if "p \<in> set wide_uppercase" for p
  proof -
    have "\<forall>p \<in> set wide_uppercase. fst p \<noteq> [] \<and> \<not> is_ascii (hd (fst p))"
      by (simp add: wide_uppercase_def is_ascii_def)
    then obtain d w where "fst p = d # w" "\<not> is_ascii d"
      using \<open>p \<in> set wide_uppercase\<close> by (metis list.collapse)
    with Cons.prems show ?thesis by auto
  qed
  then have "List.find (\<lambda>p. take (length (fst p)) (c # s) = fst p) wide_uppercase = None"
    unfolding find_None_iff by blast
  with Cons show ?case by simp
qed

end
