(* ===== verification/Razerd_Mode.thy ===== *)
theory Razerd_Mode
  imports Razerd_Info Rust_Text
begin

text \<open>
  The writing subcommand of \<open>crates/razerd/src/main.rs\<close>, \<open>set-device-mode\<close>: its arguments, the write
  and the watch for a disconnect that follows it.
\<close>

subsection \<open>The arguments\<close>

definition confirm_flag :: string where "confirm_flag = ''--yes-i-am-at-the-desk''"
definition tid_flag :: string where "tid_flag = ''--transaction-id''"

definition refusal :: string where
  "refusal =
     ''refusing to write without --yes-i-am-at-the-desk.'' @ [CHR 0x0A]
       @ ''             This command can reset the keyboard's firmware and drop it off the USB'' @ [CHR 0x0A]
       @ ''             bus. Recovery is a physical replug, so a human needs to be present.''"

definition is_ascii_hexdigit :: "char \<Rightarrow> bool" where
  "is_ascii_hexdigit c \<longleftrightarrow> to_digit 16 c \<noteq> None"

fun position :: "string \<Rightarrow> string list \<Rightarrow> nat option" where
  "position a [] = None"
| "position a (x # xs) = (if x = a then Some 0 else map_option Suc (position a xs))"

definition strip_0x :: "string \<Rightarrow> string" where
  "strip_0x raw =
     (if take 2 raw = ''0x'' then drop 2 raw else if take 2 raw = ''0X'' then drop 2 raw else raw)"

definition parse_tid :: "string list \<Rightarrow> string + u8 option" where
  "parse_tid args =
     (case position tid_flag args of
        None \<Rightarrow> Inr None
      | Some i \<Rightarrow>
          if length args \<le> i + 1 then Inl ''--transaction-id needs a value, e.g. --transaction-id 1F''
          else
            (let raw = args ! (i + 1) in
             if take 1 raw = ''-'' then
               Inl (''--transaction-id needs a hex value, but got the flag `'' @ raw @ ''`'')
             else
               (let digits = strip_0x raw in
                if digits = [] \<or> \<not> list_all is_ascii_hexdigit digits then
                  Inl (''`'' @ raw @ ''` is not a hex byte, e.g. 1F or 0x1F'')
                else
                  (case from_str_radix (2 ^ 8) 16 digits of
                     Inl e \<Rightarrow> Inl (show_int_error e)
                   | Inr v \<Rightarrow> Inr (Some (of_nat v))))))"

definition parse_mode_args :: "string list \<Rightarrow> string + device_mode \<times> u8 option" where
  "parse_mode_args args =
     (case (case args of
              [] \<Rightarrow> None
            | a # _ \<Rightarrow> if a = ''normal'' then Some Normal else if a = ''driver'' then Some Driver else None) of
        None \<Rightarrow> Inl ''expected `normal` or `driver`''
      | Some mode \<Rightarrow>
          if confirm_flag \<notin> set args then Inl refusal
          else (case parse_tid args of Inl e \<Rightarrow> Inl e | Inr tid \<Rightarrow> Inr (mode, tid)))"

subsection \<open>Disconnects in the kernel log\<close>

definition JOURNALCTL :: "string list" where
  "JOURNALCTL = [''/usr/bin/journalctl'', ''/bin/journalctl'']"

definition count_disconnects :: "string \<Rightarrow> nat" where
  "count_disconnects log = length [l \<leftarrow> str_lines log. contains_str ''USB disconnect'' l]"

fun journal_loop :: "'k env \<Rightarrow> string list \<Rightarrow> 'k \<Rightarrow> nat option \<times> 'k" where
  "journal_loop env [] k = (None, k)"
| "journal_loop env (exe # exes) k =
     (case env_command env exe [''-k'', ''-b'', ''--no-pager''] k of
        (None, k) \<Rightarrow> journal_loop env exes k
      | (Some output, k) \<Rightarrow> (Some (count_disconnects output), k))"

definition disconnect_count :: "'k env \<Rightarrow> 'k \<Rightarrow> nat option \<times> 'k" where
  "disconnect_count env k = journal_loop env JOURNALCTL k"

subsection \<open>The watch\<close>

definition WATCH_SECONDS :: nat where "WATCH_SECONDS = 90"

text \<open>One turn per second; \<open>True\<close> when a disconnect was seen and the command returns.\<close>

fun watch_loop :: "'k env \<Rightarrow> nat option \<Rightarrow> nat list \<Rightarrow> 'k run \<Rightarrow> bool \<times> 'k run" where
  "watch_loop env before [] r = (False, r)"
| "watch_loop env before (i # is) r =
     (case disconnect_count env (os_sleep (env_os env) 1000000 (world r)) of
        (after, k) \<Rightarrow>
          let r = r\<lparr>world := k\<rparr> in
          (case (before, after) of
             (Some b, Some a) \<Rightarrow>
               if b < a then
                 (True,
                  println ''  *** replug the keyboard. This transaction id is NOT safe.''
                    (println (''  *** USB DISCONNECT after '' @ fmt_dec i @ '' s (count '' @ fmt_dec b
                       @ '' -> '' @ fmt_dec a @ '')'') r))
               else watch_loop env before is r
           | _ \<Rightarrow> watch_loop env before is r))"

definition watch :: "'k env \<Rightarrow> nat option \<Rightarrow> 'k run \<Rightarrow> 'k run" where
  "watch env before r =
     (let r = println ([CHR 0x0A] @ ''  watching for '' @ fmt_dec WATCH_SECONDS @ '' s ...'') r in
      case watch_loop env before [1..<WATCH_SECONDS + 1] r of
        (True, r) \<Rightarrow> r
      | (False, r) \<Rightarrow>
          (case disconnect_count env (world r) of
             (after, k) \<Rightarrow>
               let r = r\<lparr>world := k\<rparr>;
                   r = (case (before, after) of
                          (Some b, Some a) \<Rightarrow>
                            println (''  (the observed range is 4-73 s, so this window clears it '' @ em_dash @ '' but see below)'')
                              (println (''  disconnects after:  '' @ fmt_dec a @ '' (was '' @ fmt_dec b
                                @ '') '' @ em_dash @ '' no reset within '' @ fmt_dec WATCH_SECONDS @ '' s'') r)
                        | _ \<Rightarrow> r)
               in println ([CHR 0x0A] @ ''  NOTE: one trial is not the experiment. See docs/phase3-experiment.md.'') r))"

subsection \<open>set-device-mode\<close>

fun show_mode :: "device_mode \<Rightarrow> string" where
  "show_mode Normal = ''Normal''"
| "show_mode Driver = ''Driver''"

definition announce :: "device_entry \<Rightarrow> hidraw_node \<Rightarrow> device_mode \<Rightarrow> u8 option \<Rightarrow> string list" where
  "announce e node mode tid_override =
     (let tid = (case tid_override of None \<Rightarrow> dev_transaction_id e | Some t \<Rightarrow> t);
          request = with_transaction_id (cmd_set_device_mode mode) tid in
      [dev_name e @ '' ('' @ fmt_HEX_alt 6 (unat (pid e)) @ '')'',
       ''  node             '' @ node_path node,
       ''  mode             '' @ show_mode mode @ '' (0x'' @ fmt_HEX 2 (unat (device_mode_to_u8 mode)) @ '')'',
       ''  transaction id   0x'' @ fmt_HEX 2 (unat tid)
         @ (if tid_override \<noteq> None then ''   <-- OVERRIDDEN'' else ''   (from device table)'')]
      @ (if tid = 0xFF then
           [''  *** 0xFF is the value the upstream C driver sends and the value'',
            ''  *** this project exists to avoid. Expect a firmware reset.'']
         else [])
      @ [''  wire             '' @ hex_bytes (to_bytes request)])"

definition outcome_lines :: "'w session \<Rightarrow> u8 \<Rightarrow> string \<Rightarrow> hid_error + unit \<Rightarrow> string list" where
  "outcome_lines s tid elapsed result =
     [''  attempts         '' @ fmt_dec (unat (last_attempts s)),
      ''  elapsed          '' @ elapsed @ '' ms'']
     @ (case last_response_tid s of
          None \<Rightarrow> []
        | Some echoed \<Rightarrow>
            [''  echoed txn id    0x'' @ fmt_HEX 2 (unat echoed)
               @ (if echoed = tid then [] else ''   <-- DIFFERS'')])
     @ [case result of
          Inr _ \<Rightarrow> ''  result           OK''
        | Inl e \<Rightarrow> ''  result           ERROR: '' @ hid_error_display e]"

definition print_all :: "string list \<Rightarrow> 'k run \<Rightarrow> 'k run" where
  "print_all ls r = r\<lparr>printed := printed r @ ls\<rparr>"

text \<open>The device stays open during the watch and is closed where the function returns.\<close>

definition write_mode ::
  "'k env \<Rightarrow> device_entry \<Rightarrow> hidraw_node \<Rightarrow> device_mode \<Rightarrow> u8 option \<Rightarrow> 'k run \<Rightarrow> (string + unit) \<times> 'k run" where
  "write_mode env e node mode tid_override r =
     (case disconnect_count env (world r) of
        (before, k) \<Rightarrow>
          let r = (case before of
                None \<Rightarrow> r\<lparr>world := k\<rparr>
              | Some b \<Rightarrow> println (''  disconnects before: '' @ fmt_dec b) (r\<lparr>world := k\<rparr>)) in
          (case hidraw_open_expecting (env_os env) (node_path node) RAZER_VID 0x028D (world r) of
             (Inl err, k) \<Rightarrow> (Inl (hid_error_display err), r\<lparr>world := k\<rparr>)
           | (Inr dev, k) \<Rightarrow>
               let s = session_new e (dev, k);
                   s = (case tid_override of None \<Rightarrow> s | Some t \<Rightarrow> with_transaction_id_override s t);
                   tid = (case tid_override of None \<Rightarrow> dev_transaction_id e | Some t \<Rightarrow> t) in
               (case set_device_mode (hidraw_io (env_os env)) mode s of
                  (result, s) \<Rightarrow>
                    (case env_stopwatch env (snd (io s)) of
                       (elapsed, k) \<Rightarrow>
                         let r = watch env before (print_all (outcome_lines s tid elapsed result) (r\<lparr>world := k\<rparr>))
                         in (Inr (), r\<lparr>world := hidraw_drop (env_os env) (fst (io s)) (world r)\<rparr>)))))"

definition set_device_mode_command :: "'k env \<Rightarrow> string list \<Rightarrow> 'k run \<Rightarrow> (string + unit) \<times> 'k run" where
  "set_device_mode_command env args r =
     (case parse_mode_args args of
        Inl e \<Rightarrow> (Inl e, r)
      | Inr (mode, tid_override) \<Rightarrow>
          (case lookup 0x028D of
             None \<Rightarrow> (Inl ''BlackWidow V4 Pro not in device table'', r)
           | Some e \<Rightarrow>
               (case find_device (env_sysfs env r) RAZER_VID 0x028D (report_index e) of
                  Inl err \<Rightarrow> (Inl (hid_error_display err), r)
                | Inr node \<Rightarrow>
                    write_mode env e node mode tid_override
                      (print_all (announce e node mode tid_override) r))))"

subsection \<open>What the command does to the machine\<close>

text \<open>Programs and the stopwatch make no device calls of the process.\<close>

definition calls_only_os :: "('k \<times> os_event list) env \<Rightarrow> bool" where
  "calls_only_os env \<longleftrightarrow>
     (\<forall>exe args w. snd (snd (env_command env exe args w)) = snd w) \<and>
     (\<forall>w. snd (snd (env_stopwatch env w)) = snd w)"

lemma disconnect_count_calls:
  assumes "calls_only_os env"
  shows "snd (snd (disconnect_count env w)) = snd w"
proof -
  have "snd (snd (journal_loop env exes w)) = snd w" for exes
  proof (induction exes arbitrary: w)
    case Nil
    then show ?case by simp
  next
    case (Cons exe exes)
    obtain x w' where "env_command env exe [''-k'', ''-b'', ''--no-pager''] w = (x, w')" by (rule prod.exhaust)
    moreover from this have "snd w' = snd w" using assms by (metis calls_only_os_def snd_conv)
    ultimately show ?case using Cons.IH by (cases x) simp_all
  qed
  then show ?thesis by (simp add: disconnect_count_def)
qed

lemma watch_loop_calls:
  assumes "calls_only_os env" and "env_os env = traced_os os"
  shows "\<exists>n \<le> length is. snd (world (snd (watch_loop env before is r)))
    = snd (world r) @ replicate n (OsSleepEv 1000000)"
proof (induction "is" arbitrary: r)
  case Nil
  then show ?case by simp
next
  case (Cons i "is")
  obtain after k where dc: "disconnect_count env (os_sleep (env_os env) 1000000 (world r)) = (after, k)"
    by (rule prod.exhaust)
  with disconnect_count_calls [OF assms(1), of "os_sleep (env_os env) 1000000 (world r)"]
  have k: "snd k = snd (world r) @ [OsSleepEv 1000000]"
    by (simp add: assms(2) traced_os_def split_beta)
  from Cons.IH [of "r\<lparr>world := k\<rparr>"] obtain n where n: "n \<le> length is"
    "snd (world (snd (watch_loop env before is (r\<lparr>world := k\<rparr>))))
      = snd (world r) @ OsSleepEv 1000000 # replicate n (OsSleepEv 1000000)"
    by (auto simp: k)
  show ?case
  proof (cases "snd (world (snd (watch_loop env before (i # is) r))) = snd k")
    case True
    then show ?thesis by (intro exI [of _ 1]) (simp add: k)
  next
    case False
    then have "watch_loop env before (i # is) r = watch_loop env before is (r\<lparr>world := k\<rparr>)"
      by (auto simp: dc Let_def split: option.splits if_splits)
    with n show ?thesis by (intro exI [of _ "Suc n"]) simp
  qed
qed

lemma watch_calls:
  assumes "calls_only_os env" and "env_os env = traced_os os"
  shows "\<exists>n \<le> 90. snd (world (watch env before r)) = snd (world r) @ replicate n (OsSleepEv 1000000)"
proof -
  define r0 where "r0 = println ([CHR 0x0A] @ ''  watching for '' @ fmt_dec WATCH_SECONDS @ '' s ...'') r"
  obtain seen r1 where loop: "watch_loop env before [1..<WATCH_SECONDS + 1] r0 = (seen, r1)" by fastforce
  with watch_loop_calls [OF assms, of "[1..<WATCH_SECONDS + 1]" before r0]
  obtain n where n: "n \<le> 90" "snd (world r1) = snd (world r) @ replicate n (OsSleepEv 1000000)"
    by (auto simp: WATCH_SECONDS_def r0_def)
  obtain after k where dc: "disconnect_count env (world r1) = (after, k)" by (rule prod.exhaust)
  then have "snd k = snd (world r1)" using disconnect_count_calls [OF assms(1)] by (metis snd_conv)
  then have "snd (world (watch env before r)) = snd (world r1)"
    using loop dc unfolding watch_def r0_def [symmetric]
    by (cases seen) (simp_all add: Let_def split: option.split)
  with n show ?thesis by auto
qed

definition mode_call :: "device_mode \<Rightarrow> u8 \<Rightarrow> os_event \<Rightarrow> bool" where
  "mode_call mode tid ev =
     (case ev of
        FeatureEv fd req buf \<Rightarrow>
          req = HIDIOCGFEATURE_91 \<or> req = HIDIOCSFEATURE_91 \<and> buf = frame tid (cmd_set_device_mode mode)
      | _ \<Rightarrow> True)"

definition mode_calls :: "device_mode \<Rightarrow> u8 \<Rightarrow> os_event list \<Rightarrow> bool" where
  "mode_calls mode tid evs \<longleftrightarrow> list_all (mode_call mode tid) evs \<and> opened_fds evs = closed_fds evs"

lemma device_calls_mode:
  assumes "list_all (device_call fd (\<lambda>buf. buf = frame tid (cmd_set_device_mode mode))) evs"
  shows "list_all (mode_call mode tid) evs" "opened_fds evs = []" "closed_fds evs = []"
proof -
  show "list_all (mode_call mode tid) evs"
    using assms by (rule list.pred_mono_strong) (auto simp: device_call_def mode_call_def split: os_event.splits)
  show "opened_fds evs = []" using assms
    by (induction evs rule: opened_fds.induct) (simp_all add: device_call_def)
  show "closed_fds evs = []" using assms
    by (induction evs rule: closed_fds.induct) (simp_all add: device_call_def)
qed

lemma sleeps_calls:
  "list_all (mode_call mode tid) (replicate n (OsSleepEv d))"
  "opened_fds (replicate n (OsSleepEv d)) = []" "closed_fds (replicate n (OsSleepEv d)) = []"
  by (induction n) (simp_all add: mode_call_def)

lemma set_device_mode_calls:
  "os_sends (\<lambda>tid buf. buf = frame tid (cmd_set_device_mode mode)) s
     (snd (set_device_mode (hidraw_io (traced_os os)) mode s))"
  unfolding set_device_mode_def
  by (rule and_then_pure [where R = "os_sends _"]) (auto intro!: writes.transact_then_R os_sends_refl)

definition chosen_tid :: "device_entry \<Rightarrow> u8 option \<Rightarrow> u8" where
  "chosen_tid e tid_override = (case tid_override of None \<Rightarrow> dev_transaction_id e | Some t \<Rightarrow> t)"

lemma write_mode_calls:
  assumes "calls_only_os env" and "env_os env = traced_os os"
  shows "\<exists>evs. snd (world (snd (write_mode env e node mode o' r))) = snd (world r) @ evs \<and>
    mode_calls mode (chosen_tid e o') evs"
proof -
  obtain before w0 where dc: "disconnect_count env (world r) = (before, w0)" by (rule prod.exhaust)
  then have w0: "snd w0 = snd (world r)" using disconnect_count_calls [OF assms(1)] by (metis snd_conv)
  define r0 where "r0 = (case before of None \<Rightarrow> r\<lparr>world := w0\<rparr>
    | Some b \<Rightarrow> println (''  disconnects before: '' @ fmt_dec b) (r\<lparr>world := w0\<rparr>))"
  have world_r0: "world r0 = w0" by (simp add: r0_def split: option.split)
  obtain k tr where w0_parts: "w0 = (k, tr)" by fastforce
  obtain res k1 tr1 where op: "hidraw_open_expecting (traced_os os) (node_path node) RAZER_VID 0x028D (k, tr)
      = (res, k1, tr1)" by (metis prod.exhaust)
  from open_expecting_outcome [OF op] obtain evs where evs: "tr1 = tr @ evs"
    "open_outcome os (node_path node) RAZER_VID 0x028D res evs" by blast
  have quiet: "list_all (mode_call mode t) evs" for t
    using evs(2) by (auto simp: open_outcome_def mode_call_def split: sum.splits)
  note opens = open_outcome_reads [OF evs(2)]
  show ?thesis
  proof (cases res)
    case (Inl err)
    then have "snd (world (snd (write_mode env e node mode o' r))) = snd (world r) @ evs"
      unfolding write_mode_def dc prod.case Let_def r0_def [symmetric]
      unfolding assms(2) world_r0
      unfolding w0_parts op
      using evs(1) w0 by (simp add: w0_parts)
    with quiet opens Inl show ?thesis by (auto simp: mode_calls_def)
  next
    case (Inr dev)
    define s where "s = (case o' of None \<Rightarrow> session_new e (dev, k1, tr1)
      | Some t \<Rightarrow> with_transaction_id_override (session_new e (dev, k1, tr1)) t)"
    have s: "sess_tid s = chosen_tid e o'" "io s = (dev, k1, tr1)"
      by (simp_all add: s_def chosen_tid_def session_new_def with_transaction_id_override_def split: option.split)
    obtain result s' where run: "set_device_mode (hidraw_io (traced_os os)) mode s = (result, s')" by fastforce
    have "os_sends (\<lambda>tid buf. buf = frame tid (cmd_set_device_mode mode)) s s'"
      using set_device_mode_calls [of mode s os] by (simp only: run snd_conv)
    then obtain evs' where calls: "snd (snd (io s')) = tr1 @ evs'" "fst (io s') = dev"
      "list_all (device_call (dev_file dev) (\<lambda>buf. buf = frame (chosen_tid e o') (cmd_set_device_mode mode))) evs'"
      by (auto simp: os_sends_def s)
    obtain elapsed w2 where sw: "env_stopwatch env (snd (io s')) = (elapsed, w2)" by (rule prod.exhaust)
    then have w2: "snd w2 = tr1 @ evs'" using assms(1) calls(1) by (metis calls_only_os_def snd_conv)
    define r1 where "r1 = print_all (outcome_lines s' (chosen_tid e o') elapsed result) (r0\<lparr>world := w2\<rparr>)"
    obtain n where n: "snd (world (watch env before r1)) = tr1 @ evs' @ replicate n (OsSleepEv 1000000)"
      using watch_calls [OF assms, of before r1] w2 by (auto simp: r1_def print_all_def)
    have "snd (world (snd (write_mode env e node mode o' r)))
        = snd (world r) @ (evs @ evs' @ replicate n (OsSleepEv 1000000) @ [CloseEv (dev_file dev)])"
      unfolding write_mode_def dc prod.case Let_def r0_def [symmetric]
      unfolding assms(2) world_r0
      unfolding w0_parts op Inr prod.case sum.case
      unfolding s_def [symmetric] chosen_tid_def [symmetric]
      unfolding run prod.case sw r1_def [symmetric]
      using evs(1) w0 n calls(2) by (simp add: w0_parts hidraw_drop_def) (simp add: traced_os_def split_beta)
    moreover have "mode_calls mode (chosen_tid e o') (evs @ evs' @ replicate n (OsSleepEv 1000000) @ [CloseEv (dev_file dev)])"
      using quiet opens Inr device_calls_mode [OF calls(3)] sleeps_calls
      by (simp add: mode_calls_def mode_call_def)
    ultimately show ?thesis by blast
  qed
qed

lemma parse_mode_args_Inr:
  "parse_mode_args args = Inr (mode, o') \<Longrightarrow> confirm_flag \<in> set args \<and> parse_tid args = Inr o'"
  by (auto simp: parse_mode_args_def split: option.splits if_splits sum.splits)

text \<open>C3: \<open>set-device-mode\<close> writes what it was asked to and nothing else: when the arguments are not
  accepted it prints nothing and makes no call; when they are, the confirmation flag was among them,
  and over any kernel every frame it sends is the device-mode command of the requested mode, stamped
  0x1F or the id that was explicitly given, and every descriptor it obtains is closed again.\<close>

theorem mode_command_safe:
  assumes "calls_only_os env" and "env_os env = traced_os os"
  shows "case parse_mode_args args of
      Inl e \<Rightarrow> set_device_mode_command env args r = (Inl e, r)
    | Inr (mode, o') \<Rightarrow> confirm_flag \<in> set args \<and>
        (\<exists>evs. snd (world (snd (set_device_mode_command env args r))) = snd (world r) @ evs \<and>
          list_all (mode_call mode (case o' of None \<Rightarrow> 0x1F | Some t \<Rightarrow> t)) evs \<and>
          opened_fds evs = closed_fds evs)"
proof (cases "parse_mode_args args")
  case (Inl e)
  then show ?thesis by (simp add: set_device_mode_command_def)
next
  case (Inr p)
  obtain mode o' where p: "p = (mode, o')" by fastforce
  have lookup: "lookup 0x028D = Some blackwidow_v4_pro"
    by (simp add: lookup_def TABLE_def device_defs)
  have tid: "chosen_tid blackwidow_v4_pro o' = (case o' of None \<Rightarrow> 0x1F | Some t \<Rightarrow> t)"
    by (simp add: chosen_tid_def blackwidow_v4_pro_def split: option.split)
  have "\<exists>evs. snd (world (snd (set_device_mode_command env args r))) = snd (world r) @ evs \<and>
      mode_calls mode (chosen_tid blackwidow_v4_pro o') evs"
  proof (cases "find_device (env_sysfs env r) RAZER_VID 0x028D (report_index blackwidow_v4_pro)")
    case (Inl err)
    then show ?thesis
      by (simp add: set_device_mode_command_def Inr p lookup mode_calls_def)
  next
    case found: (Inr node)
    with write_mode_calls [OF assms, of blackwidow_v4_pro node mode o'
        "print_all (announce blackwidow_v4_pro node mode o') r"]
    show ?thesis
      by (simp add: set_device_mode_command_def Inr p lookup print_all_def)
  qed
  then show ?thesis
    using parse_mode_args_Inr [of args mode o'] Inr by (simp add: p tid mode_calls_def)
qed

theorem mode_command_safe_witness:
  "\<exists>evs. snd (world (snd (set_device_mode_command sample_env [''driver'', ''--yes-i-am-at-the-desk''] sample_run))) = evs \<and>
     list_all (mode_call Driver 0x1F) evs \<and> opened_fds evs = closed_fds evs"
proof -
  have env: "calls_only_os sample_env" "env_os sample_env = traced_os silent_os"
    by (simp_all add: calls_only_os_def sample_env_def)
  have "parse_mode_args [''driver'', ''--yes-i-am-at-the-desk''] = Inr (Driver, None)"
    by (simp add: parse_mode_args_def parse_tid_def confirm_flag_def tid_flag_def)
  with mode_command_safe [OF env, of "[''driver'', ''--yes-i-am-at-the-desk'']" sample_run]
  show ?thesis by (simp add: sample_run_def)
qed

lemma hex_digit_char:
  assumes "c \<in> set (pad_zero w (fmt_radix 16 upper n))"
  shows "to_digit 16 c \<noteq> None"
proof -
  have "c = digit_char upper 0 \<or> c \<in> set (fmt_radix 16 upper n)"
    using assms by (auto simp: pad_zero_def digit_char_def char_of_def bit_0)
  then obtain d where "d < 16" "c = digit_char upper d"
    using fmt_radix_chars [of 16 c upper n] by force
  then show ?thesis by (simp add: to_digit_digit_char)
qed

lemma no_hex_digit: "to_digit 16 (CHR ''-'') = None" "to_digit 16 (CHR ''x'') = None" "to_digit 16 (CHR ''X'') = None"
  by (simp_all add: to_digit_def digit_value_def)

text \<open>Every transaction id can be given, and is read as written: with or without one \<open>0x\<close> or \<open>0X\<close>
  prefix, in either case and with any number of leading zeros, the printed form of a byte is accepted
  as that byte, before or after the confirmation flag; without the option the table's id is used.\<close>

theorem transaction_id_argument:
  assumes "pre \<in> {[], ''0x'', ''0X''}"
    and "raw = pre @ pad_zero w (fmt_radix 16 upper (unat v))"
  shows "parse_mode_args [''normal'', ''--yes-i-am-at-the-desk'', ''--transaction-id'', raw] = Inr (Normal, Some v) \<and>
    parse_mode_args [''driver'', ''--transaction-id'', raw, ''--yes-i-am-at-the-desk''] = Inr (Driver, Some v) \<and>
    parse_mode_args [''normal'', ''--yes-i-am-at-the-desk''] = Inr (Normal, None)"
proof -
  let ?d = "pad_zero w (fmt_radix 16 upper (unat v))"
  have ne: "?d \<noteq> []" by (simp add: pad_zero_def)
  have hex: "list_all is_ascii_hexdigit ?d"
    using hex_digit_char by (simp add: list_all_iff is_ascii_hexdigit_def)
  have parse: "from_str_radix (2 ^ 8) 16 ?d = Inr (unat v)"
    using unat_less_256 [of v] by (intro from_str_radix_fmt) simp_all
  have no_prefix: "take 2 ?d \<noteq> ''0x''" "take 2 ?d \<noteq> ''0X''"
  proof -
    have "CHR ''x'' \<notin> set ?d" "CHR ''X'' \<notin> set ?d"
      using hex_digit_char no_hex_digit by blast+
    then show "take 2 ?d \<noteq> ''0x''" "take 2 ?d \<noteq> ''0X''"
      by (metis in_set_takeD list.set_intros(1,2))+
  qed
  then have digits: "strip_0x raw = ?d" using assms by (auto simp: strip_0x_def)
  have "hd raw \<noteq> CHR ''-''"
  proof (cases "pre = []")
    case True
    then have "hd raw \<in> set ?d" using assms(2) ne by simp
    then show ?thesis using hex_digit_char no_hex_digit(1) by metis
  qed (use assms in auto)
  moreover have "raw \<noteq> []" using assms(2) ne by simp
  ultimately have minus: "take 1 raw \<noteq> ''-''" by (cases raw) auto
  have tid: "parse_tid args = Inr (Some v)"
    if "position tid_flag args = Some i" "i + 1 < length args" "args ! (i + 1) = raw" for args i
    using that minus digits ne hex parse by (simp add: parse_tid_def Let_def)
  have "parse_tid [''normal'', ''--yes-i-am-at-the-desk'', ''--transaction-id'', raw] = Inr (Some v)"
    by (rule tid [where i = 2]) (simp_all add: tid_flag_def)
  moreover have "parse_tid [''driver'', ''--transaction-id'', raw, ''--yes-i-am-at-the-desk''] = Inr (Some v)"
    by (rule tid [where i = 1]) (simp_all add: tid_flag_def)
  moreover have "parse_tid [''normal'', ''--yes-i-am-at-the-desk''] = Inr None"
    by (simp add: parse_tid_def tid_flag_def)
  ultimately show ?thesis by (simp add: parse_mode_args_def confirm_flag_def)
qed

theorem transaction_id_argument_witness:
  "parse_mode_args [''normal'', ''--yes-i-am-at-the-desk'', ''--transaction-id'', ''0xFF''] = Inr (Normal, Some 0xFF)"
proof -
  have "''0xFF'' = ''0x'' @ pad_zero 0 (fmt_radix 16 True (unat (0xFF :: u8)))"
    by (simp add: pad_zero_def fmt_radix.simps digit_char_def char_of_def bit_0)
  from transaction_id_argument [OF _ this] show ?thesis by simp
qed

end
