(* ===== verification/Razerd_Main.thy ===== *)
theory Razerd_Main
  imports Razerd_Mode
begin

text \<open>
  The entry point of \<open>crates/razerd/src/main.rs\<close>: collecting the arguments, the dispatch on the first of
  them, the usage text, the exit status, and the panics of the standard library on the way: iterating
  over arguments that are not UTF-8, and printing to an output that refuses a line.
\<close>

subsection \<open>Usage\<close>

definition usage_lines :: "string \<Rightarrow> string list" where
  "usage_lines version =
     [''razerd '' @ version @ '' '' @ em_dash @ '' userspace Razer driver'',
      '''',
      ''USAGE:'',
      ''    razerd list      Enumerate Razer hidraw nodes (reads sysfs only, no device I/O)'',
      ''    razerd info      Read firmware version, serial and device mode from each'',
      ''                     supported device (READ-ONLY: GET commands only)'',
      '''',
      ''    razerd set-device-mode <normal|driver> --yes-i-am-at-the-desk'',
      ''                     WRITES to the device. Sets the operating mode.'',
      ''                     Optional: --transaction-id 0xNN to override the device'',
      ''                     table's value. Overriding it is how the upstream defect is'',
      ''                     reproduced deliberately; do not use it casually.'',
      '''',
      ''`list` and `info` are read-only. `set-device-mode` is not.'',
      '''',
      ''If you get a permission error, install the udev rule:'',
      ''    sudo cp udev/60-razer-rust.rules /etc/udev/rules.d/'',
      ''    sudo udevadm control --reload-rules && sudo udevadm trigger'']"

definition usage :: "string \<Rightarrow> string list" where
  "usage version = usage_lines version"

subsection \<open>Dispatch\<close>

text \<open>What \<open>main\<close> makes of the result of a subcommand: the exit status, \<open>True\<close> for success, and the
  lines on standard error.\<close>

definition finish :: "(string + unit) \<times> 'k run \<Rightarrow> (bool \<times> string list) \<times> 'k run" where
  "finish x =
     (case x of
        (Inr _, r) \<Rightarrow> ((True, []), r)
      | (Inl e, r) \<Rightarrow> ((False, [''error: '' @ e]), r))"

definition razerd_main ::
  "'k env \<Rightarrow> string \<Rightarrow> string list \<Rightarrow> 'k run \<Rightarrow> ((bool \<times> string list) \<times> 'k run) option" where
  "razerd_main env version args r =
     (case args of
        [] \<Rightarrow> Some ((False, usage version), r)
      | a # rest \<Rightarrow>
          if a = ''info'' then map_option finish (info env r)
          else if a = ''list'' then Some (finish (list_nodes env r))
          else if a = ''set-device-mode'' then Some (finish (set_device_mode_command env rest r))
          else if a = ''--version'' \<or> a = ''-V'' then Some ((True, []), println (''razerd '' @ version) r)
          else Some ((False, usage version), r))"

subsection \<open>The process\<close>

text \<open>\<open>std::env::args\<close> panics on an argument that is not UTF-8; \<open>skip(1)\<close> drops the name of the program.\<close>

definition env_args :: "string list \<Rightarrow> string list option" where
  "env_args argv = (if list_all utf8_valid argv then Some (tl argv) else None)"

text \<open>\<open>println!\<close> and \<open>eprintln!\<close> panic when their line is refused. An output takes every line (\<open>None\<close>), or a
  number of them before it refuses one, as a pipe does whose reader has gone. The program does the same
  up to the first refused line, so it panics on it if its lines are more than the output takes.\<close>

definition takes :: "nat option \<Rightarrow> string list \<Rightarrow> bool" where
  "takes out lines = (case out of None \<Rightarrow> True | Some n \<Rightarrow> length lines \<le> n)"

datatype 'k ending = Panics | Exits bool "string list" "'k run"

definition razerd_process ::
  "'k env \<Rightarrow> string \<Rightarrow> nat option \<Rightarrow> nat option \<Rightarrow> string list \<Rightarrow> 'k \<Rightarrow> 'k ending" where
  "razerd_process env version out err argv k =
     (case env_args argv of
        None \<Rightarrow> Panics
      | Some args \<Rightarrow>
          (case razerd_main env version args \<lparr>world = k, printed = []\<rparr> of
             None \<Rightarrow> Panics
           | Some ((ok, errors), r) \<Rightarrow>
               if takes out (printed r) \<and> takes err errors then Exits ok errors r else Panics))"

subsection \<open>Every invocation ends with a status\<close>

lemma info_loop_returns:
  "list_all (\<lambda>p. lookup p \<noteq> None) ps \<Longrightarrow> info_loop env ps st \<noteq> None"
proof (induction ps arbitrary: st)
  case Nil
  then show ?case by simp
next
  case (Cons p ps)
  then show ?case by (cases "info_device env p st") (auto simp: info_device_def split: option.splits)
qed

lemma info_returns: "info env r \<noteq> None"
proof (cases "list_razer_nodes (env_sysfs env r)")
  case (Inl e)
  then show ?thesis by (simp add: info_def)
next
  case (Inr nodes)
  have "list_all (\<lambda>p. lookup p \<noteq> None) (supported_pids nodes [])"
    using supported_pids_known [of "[]" nodes] by simp
  from info_loop_returns [OF this, of env "run.extend r \<lparr>opened = 0, failed = 0, idle = 0\<rparr>"] show ?thesis
    by (auto simp: info_def Inr Let_def)
qed

lemma list_world:
  fixes r :: "'k run"
  shows "world (snd (list_nodes env r)) = world r"
proof -
  have "world (fold (\<lambda>n. println (list_line n)) nodes x) = world x" for nodes and x :: "'k run"
    by (induction nodes arbitrary: x) simp_all
  then show ?thesis by (simp add: list_nodes_def Let_def split: sum.split)
qed

lemma main_returns:
  "case razerd_main env version args r of
     None \<Rightarrow> False
   | Some ((ok, errors), r') \<Rightarrow>
       (ok \<longleftrightarrow> errors = []) \<and>
       (world r' = world r \<or> (\<exists>rest. args = ''info'' # rest \<or> args = ''set-device-mode'' # rest))"
proof -
  have finish: "case finish x of ((ok, err), r') \<Rightarrow> (ok \<longleftrightarrow> err = []) \<and> r' = snd x" for x :: "(string + unit) \<times> 'k run"
    by (auto simp: finish_def split: prod.split sum.split)
  show ?thesis
  proof (cases args)
    case Nil
    then show ?thesis by (simp add: razerd_main_def usage_def usage_lines_def)
  next
    case (Cons a rest)
    obtain x where x: "info env r = Some x" using info_returns by blast
    show ?thesis
      using finish [of x] finish [of "list_nodes env r"] finish [of "set_device_mode_command env rest r"]
      by (auto simp: razerd_main_def Cons x list_world usage_def usage_lines_def split: prod.splits)
  qed
qed

text \<open>C19: over every system, a process of the binary ends, in one of two ways. It panics exactly when an
  argument is not UTF-8 or when standard output or standard error refuses one of its lines; neither
  the assertion of \<open>with_args\<close> nor the \<open>expect\<close> in \<open>info\<close> ever panics. Otherwise it exits with a status,
  which is failure exactly when it wrote to standard error; and only \<open>info\<close> and \<open>set-device-mode\<close> make a
  system call that could change anything: listing, the version and the usage leave the world as it was.\<close>

theorem process_ends:
  "\<exists>ok errors r. razerd_main env version (tl argv) \<lparr>world = k, printed = []\<rparr> = Some ((ok, errors), r) \<and>
     (razerd_process env version out err argv k = Panics \<longleftrightarrow>
        \<not> (list_all utf8_valid argv \<and> takes out (printed r) \<and> takes err errors)) \<and>
     (razerd_process env version out err argv k \<in> {Panics, Exits ok errors r}) \<and>
     (ok \<longleftrightarrow> errors = []) \<and>
     (world r = k \<or> (\<exists>rest. tl argv = ''info'' # rest \<or> tl argv = ''set-device-mode'' # rest))"
  using main_returns [where env = env and version = version and args = "tl argv" and r = "\<lparr>world = k, printed = []\<rparr>"]
  by (auto simp: razerd_process_def env_args_def split: option.splits)

end
