(* ===== verification/Session_Mock.thy ===== *)
theory Session_Mock
  imports Session_Safety
begin

text \<open>
  A session over the in-memory transport, where the answers of the device are known: the complete
  result of a transaction as a function of the queued responses, and what follows for the typed
  operations and for the test that tells an idle receiver from a broken one.
\<close>

subsection \<open>The queue, read as reports\<close>

definition mock_decode :: "bytes \<Rightarrow> razer_report" where
  "mock_decode buf = from_bytes (copy_slice 0 (drop 1 buf) (replicate 90 0))"

definition accepts :: "razer_report \<Rightarrow> bytes \<Rightarrow> bool" where
  "accepts request buf \<longleftrightarrow> check_response request (mock_decode buf) = Inr ()"

definition rejection :: "razer_report \<Rightarrow> bytes \<Rightarrow> proto_error" where
  "rejection request buf =
     (case check_response request (mock_decode buf) of
        Inl e \<Rightarrow> e
      | Inr _ \<Rightarrow> Malformed ''retry loop ended without a validated response'')"

lemma not_accepts: "\<not> accepts request buf \<Longrightarrow>
    check_response request (mock_decode buf) = Inl (rejection request buf)"
  unfolding accepts_def rejection_def by (cases "check_response request (mock_decode buf)") auto

text \<open>The rejected responses a transaction with \<open>n\<close> attempts reads before it ends.\<close>

definition rejected :: "razer_report \<Rightarrow> nat \<Rightarrow> bytes list \<Rightarrow> bytes list" where
  "rejected request n q = takeWhile (\<lambda>buf. \<not> accepts request buf) (take n q)"

lemma rejected_simps [simp]:
  "rejected request 0 q = []" "rejected request n [] = []"
  "rejected request (Suc n) (buf # q) =
     (if accepts request buf then [] else buf # rejected request n q)"
  by (simp_all add: rejected_def)

lemma length_rejected: "length (rejected request n q) \<le> n" "length (rejected request n q) \<le> length q"
  unfolding rejected_def
  by (metis length_take length_takeWhile_le min.bounded_iff)+

definition replay_result ::
  "razer_report \<Rightarrow> nat \<Rightarrow> proto_error \<Rightarrow> bytes list \<Rightarrow> hid_error + razer_report" where
  "replay_result request n e q =
     (let rej = rejected request n q; k = length rej in
      if k = n then Inl (RetriesExhausted (if rej = [] then e else rejection request (last rej)))
      else if k < length q then Inr (mock_decode (q ! k))
      else Inl (ShortRead 0))"

lemma replay_result_simps [simp]:
  "replay_result request 0 e q = Inl (RetriesExhausted e)"
  "replay_result request (Suc n) e [] = Inl (ShortRead 0)"
  "replay_result request (Suc n) e (buf # q) =
     (if accepts request buf then Inr (mock_decode buf)
      else replay_result request n (rejection request buf) q)"
  by (auto simp: replay_result_def Let_def)

definition replay_attempts :: "razer_report \<Rightarrow> nat \<Rightarrow> bytes list \<Rightarrow> nat" where
  "replay_attempts request n q = min n (Suc (length (rejected request n q)))"

lemma replay_attempts_simps [simp]:
  "replay_attempts request 0 q = 0"
  "replay_attempts request (Suc n) [] = 1"
  "replay_attempts request (Suc n) (buf # q) =
     (if accepts request buf then 1 else Suc (replay_attempts request n q))"
  by (auto simp: replay_attempts_def)

text \<open>The waits of \<open>n\<close> attempts, numbered from \<open>k\<close>: the device wait after each frame, the retry delay
  before each but the first.\<close>

definition attempt_sleeps :: "nat \<Rightarrow> nat \<Rightarrow> nat \<Rightarrow> nat list" where
  "attempt_sleeps d k n = concat (map (\<lambda>i. if 0 < i then [RETRY_DELAY, d] else [d]) [k..<k + n])"

lemma attempt_sleeps_simps [simp]:
  "attempt_sleeps d k 0 = []"
  "attempt_sleeps d k (Suc n) = (if 0 < k then [RETRY_DELAY, d] else [d]) @ attempt_sleeps d (Suc k) n"
  by (simp_all add: attempt_sleeps_def upt_conv_Cons)

text \<open>Byte 1 of the last response read, if one was.\<close>

definition echoed :: "u8 option \<Rightarrow> bytes list \<Rightarrow> u8 option" where
  "echoed before read = (if read = [] then before else Some (transaction_id (mock_decode (last read))))"

lemma echoed_simps [simp]:
  "echoed before [] = before"
  "echoed before (buf # read) = echoed (Some (transaction_id (mock_decode buf))) read"
  by (simp_all add: echoed_def)

subsection \<open>A transaction over the queue\<close>

lemma mock_exchange_empty:
  assumes "wf_report request" and "check_request request = Inr ()"
    and "io s = (t, c)" and "fail_next_set t = None" and "responses t = []"
  shows "transact_raw mock_io request s =
    (Inl (ShortRead 0), s\<lparr>io := (t\<lparr>sent := sent t @ [frame (sess_tid s) request]\<rparr>,
       mock_sleep (wait (entry s)) c)\<rparr>)"
  using assms(3-) unfolding transact_raw_def send_frame [OF assms(1,2)]
  by (simp add: mock_io_def mock_set_feature_def mock_get_feature_def receive_def HIDRAW_BUF_LEN_def)

lemma mock_exchange:
  assumes "wf_report request" and "check_request request = Inr ()"
    and "io s = (t, c)" and "fail_next_set t = None" and "responses t = buf # q"
  shows "transact_raw mock_io request s =
    (Inr (mock_decode buf), s\<lparr>io := (t\<lparr>sent := sent t @ [frame (sess_tid s) request], responses := q\<rparr>,
       mock_sleep (wait (entry s)) c)\<rparr>)"
  using assms(3-) unfolding transact_raw_def send_frame [OF assms(1,2)]
  by (simp add: mock_io_def mock_set_feature_def mock_get_feature_def receive_def HIDRAW_BUF_LEN_def
      mock_decode_def)

lemma mock_loop:
  assumes "wf_report request" and "check_request request = Inr ()"
    and "k \<le> MAX_ATTEMPTS" and "io s = (t, c)" and "fail_next_set t = None" and "responses t = q"
    and "last_attempts s = of_nat k"
    and "transact_loop mock_io request [k..<MAX_ATTEMPTS] last_error s = (res, s')"
    and "e = (case last_error of None \<Rightarrow> Malformed ''retry loop ended without a validated response'' | Some e \<Rightarrow> e)"
    and "n = replay_attempts request (MAX_ATTEMPTS - k) q"
  shows "res = replay_result request (MAX_ATTEMPTS - k) e q \<and>
    keeps_identity s s' \<and> last_attempts s' = of_nat (k + n) \<and>
    last_response_tid s' = echoed (last_response_tid s) (take n q) \<and>
    sent (fst (io s')) = sent t @ replicate n (frame (sess_tid s) request) \<and>
    responses (fst (io s')) = drop n q \<and> fail_next_set (fst (io s')) = None \<and>
    sleeps (snd (io s')) = sleeps c @ attempt_sleeps (wait (entry s)) k n"
  using assms(3-)
proof (induction "MAX_ATTEMPTS - k" arbitrary: k s t c q last_error e n)
  case 0
  then show ?case by (auto simp: keeps_identity_def)
next
  case (Suc m)
  have k: "k < MAX_ATTEMPTS" and m: "m = MAX_ATTEMPTS - Suc k" "MAX_ATTEMPTS - k = Suc m"
    using Suc.hyps(2) by simp_all
  define c1 where "c1 = (if 0 < k then mock_sleep RETRY_DELAY c else c)"
  define s1 where "s1 = s\<lparr>io := (t, c1), last_attempts := of_nat (Suc k)\<rparr>"
  have start: "(if 0 < k then s\<lparr>io := clock_sleep mock_io RETRY_DELAY (io s)\<rparr> else s)
      \<lparr>last_attempts := attempt_number k\<rparr> = s1"
    using Suc.prems(2) attempt_number_small [OF k] by (cases s) (simp add: s1_def c1_def mock_io_def)
  have s1: "io s1 = (t, c1)" "entry s1 = entry s" "sess_tid s1 = sess_tid s" by (simp_all add: s1_def)
  have run: "(res, s') = and_then (transact_raw mock_io request s1) (\<lambda>response s.
      let s = s\<lparr>last_response_tid := Some (transaction_id response)\<rparr> in
      case check_response request response of
        Inr _ \<Rightarrow> (Inr response, s)
      | Inl e \<Rightarrow> transact_loop mock_io request [Suc k..<MAX_ATTEMPTS] (Some e) s)"
    using Suc.prems(6) k by (simp add: upt_conv_Cons Let_def start)
  show ?case
  proof (cases q)
    case Nil
    with run Suc.prems(3,4) have "(res, s') = (Inl (ShortRead 0), s1\<lparr>io :=
        (t\<lparr>sent := sent t @ [frame (sess_tid s) request]\<rparr>, mock_sleep (wait (entry s)) c1)\<rparr>)"
      by (simp add: mock_exchange_empty [OF assms(1,2) s1(1)] s1)
    with Nil Suc.prems(3,4,8) show ?thesis
      by (simp add: m(2) s1_def keeps_identity_def c1_def mock_sleep_def)
  next
    case (Cons buf q')
    define t2 where "t2 = t\<lparr>sent := sent t @ [frame (sess_tid s) request], responses := q'\<rparr>"
    define s2 where "s2 = s1\<lparr>io := (t2, mock_sleep (wait (entry s)) c1),
      last_response_tid := Some (transaction_id (mock_decode buf))\<rparr>"
    have raw: "(res, s') = (case check_response request (mock_decode buf) of
        Inr _ \<Rightarrow> (Inr (mock_decode buf), s2)
      | Inl e \<Rightarrow> transact_loop mock_io request [Suc k..<MAX_ATTEMPTS] (Some e) s2)"
      using run Cons Suc.prems(3,4) unfolding s2_def t2_def
      by (simp add: mock_exchange [OF assms(1,2) s1(1), of buf q'] s1 Let_def)
    have s2: "io s2 = (t2, mock_sleep (wait (entry s)) c1)" "fail_next_set t2 = None"
      "responses t2 = q'" "last_attempts s2 = of_nat (Suc k)" "keeps_identity s s2"
      "last_response_tid s2 = Some (transaction_id (mock_decode buf))"
      using Suc.prems(3) by (simp_all add: s2_def t2_def s1_def keeps_identity_def)
    show ?thesis
    proof (cases "accepts request buf")
      case True
      with raw Suc.prems(8) s2 Cons m(2) show ?thesis
        by (simp add: accepts_def) (simp add: t2_def accepts_def c1_def mock_sleep_def)
    next
      case False
      then have loop: "transact_loop mock_io request [Suc k..<MAX_ATTEMPTS]
          (Some (rejection request buf)) s2 = (res, s')"
        using raw by (simp add: not_accepts)
      define n' where "n' = replay_attempts request (MAX_ATTEMPTS - Suc k) q'"
      have less: "Suc k \<le> MAX_ATTEMPTS" using k by simp
      have ih: "res = replay_result request (MAX_ATTEMPTS - Suc k) (rejection request buf) q'"
        "keeps_identity s2 s'" "last_attempts s' = of_nat (Suc k + n')"
        "last_response_tid s' = echoed (last_response_tid s2) (take n' q')"
        "sent (fst (io s')) = sent t2 @ replicate n' (frame (sess_tid s2) request)"
        "responses (fst (io s')) = drop n' q'" "fail_next_set (fst (io s')) = None"
        "sleeps (snd (io s')) = sleeps (mock_sleep (wait (entry s)) c1) @ attempt_sleeps (wait (entry s2)) (Suc k) n'"
        using Suc.hyps(1) [OF m(1) less s2(1-4) loop refl n'_def] by simp_all
      have step: "MAX_ATTEMPTS - k = Suc (MAX_ATTEMPTS - Suc k)" using k by simp
      have "n = Suc n'" using Suc.prems(8) False Cons by (simp add: step n'_def)
      moreover have "res = replay_result request (MAX_ATTEMPTS - k) e q"
        using ih(1) False Cons by (simp add: step)
      moreover have "sess_tid s2 = sess_tid s" "entry s2 = entry s" "keeps_identity s s'"
        using s2(5) ih(2) by (simp_all add: keeps_identity_def)
      ultimately show ?thesis using ih(3-) Cons s2(6) by (simp add: t2_def c1_def mock_sleep_def)
    qed
  qed
qed

text \<open>C6: over a transport with queued responses a transaction is a search: it returns the first of the
  first five responses that the acceptance test passes; if the queue ends before one is found it
  fails with a short read, and if five are rejected it fails with the reason for the fifth. It sends
  the request once for each attempt made, takes that many responses from the queue, and waits after
  each frame as the device asks and 10 ms before each repetition. The session then reports the number
  of attempts, and as the echoed transaction id byte 1 of the last response taken.\<close>

theorem transact_replays_queue:
  assumes "wf_report request" and "check_request request = Inr ()" and "fail_next_set t = None"
    and "n = min 5 (Suc (length (rejected request 5 (responses t))))"
    and "transact mock_io request (session_new e (t, c)) = (res, s')"
  shows "res = (let k = length (rejected request 5 (responses t)) in
      if k = 5 then Inl (RetriesExhausted (rejection request (responses t ! 4)))
      else if k < length (responses t) then Inr (mock_decode (responses t ! k))
      else Inl (ShortRead 0)) \<and>
    attempts_consumed s' = of_nat n \<and> responses (fst (io s')) = drop n (responses t) \<and>
    last_response_transaction_id s' = (if responses t = [] then None
      else Some (transaction_id (mock_decode (last (take n (responses t)))))) \<and>
    sent (fst (io s')) = sent t @ replicate n (frame (dev_transaction_id e) request) \<and>
    sleeps (snd (io s')) = sleeps c @ attempt_sleeps (wait e) 0 n"
proof -
  let ?rej = "rejected request 5 (responses t)"
  have last: "last ?rej = responses t ! 4" if "length ?rej = 5"
  proof -
    have "?rej \<noteq> []" using that by auto
    moreover have "?rej = take 5 (responses t)"
      using that length_rejected(2) [of request 5 "responses t"] unfolding rejected_def
      by (metis length_take min.absorb2 takeWhile_eq_take take_all_iff order.refl)
    ultimately show ?thesis
      using that by (simp add: last_conv_nth)
  qed
  have "transact_loop mock_io request [0..<MAX_ATTEMPTS] None (session_new e (t, c)) = (res, s')"
    using assms(5) by (simp add: transact_def)
  from mock_loop [OF assms(1,2) _ _ assms(3) refl _ this refl refl] assms(4) last
  show ?thesis
    by (auto simp: session_new_def MAX_ATTEMPTS_def replay_result_def replay_attempts_def Let_def
        attempts_consumed_def last_response_transaction_id_def echoed_def)
qed

lemma transact_restart: "transact E request s = transact E request (s\<lparr>last_attempts := 0\<rparr>)"
proof -
  have "[0..<MAX_ATTEMPTS] = 0 # [1..<MAX_ATTEMPTS]" by (simp add: MAX_ATTEMPTS_def upt_conv_Cons)
  then show ?thesis by (simp add: transact_def)
qed

text \<open>Over any transport, a first response that is accepted ends the transaction.\<close>

lemma transact_accepted:
  assumes "transact_raw E request (s\<lparr>last_attempts := 1\<rparr>) = (Inr rep, s')"
    and "check_response request rep = Inr ()"
  shows "transact E request s = (Inr rep, s'\<lparr>last_response_tid := Some (transaction_id rep)\<rparr>)"
proof -
  have "[0..<MAX_ATTEMPTS] = 0 # [1..<MAX_ATTEMPTS]" by (simp add: MAX_ATTEMPTS_def upt_conv_Cons)
  moreover have "attempt_number 0 = 1" by (simp add: attempt_number_def)
  ultimately show ?thesis using assms by (simp add: transact_def)
qed

text \<open>Over any transport, an error of the first exchange ends the transaction, with one attempt counted.\<close>

lemma transact_failed:
  assumes "transact_raw E request (s\<lparr>last_attempts := 1\<rparr>) = (Inl e, s')"
  shows "transact E request s = (Inl e, s')"
proof -
  have "[0..<MAX_ATTEMPTS] = 0 # [1..<MAX_ATTEMPTS]" by (simp add: MAX_ATTEMPTS_def upt_conv_Cons)
  moreover have "attempt_number 0 = 1" by (simp add: attempt_number_def)
  ultimately show ?thesis using assms by (simp add: transact_def)
qed

text \<open>A transaction of a constructed request anywhere in a run.\<close>

lemma mock_transact:
  assumes "constructed request" and "fail_next_set (fst (io s)) = None"
  shows "fst (transact mock_io request s) = replay_result request 5
      (Malformed ''retry loop ended without a validated response'') (responses (fst (io s)))"
    and "entry (snd (transact mock_io request s)) = entry s"
    and "sess_tid (snd (transact mock_io request s)) = sess_tid s"
    and "fail_next_set (fst (io (snd (transact mock_io request s)))) = None"
    and "last_response_tid (snd (transact mock_io request s)) = echoed (last_response_tid s)
      (take (replay_attempts request 5 (responses (fst (io s)))) (responses (fst (io s))))"
    and "responses (fst (io (snd (transact mock_io request s))))
      = drop (replay_attempts request 5 (responses (fst (io s)))) (responses (fst (io s)))"
    and "sent (fst (io (snd (transact mock_io request s)))) = sent (fst (io s))
      @ replicate (replay_attempts request 5 (responses (fst (io s)))) (frame (sess_tid s) request)"
    and "sleeps (snd (io (snd (transact mock_io request s)))) = sleeps (snd (io s))
      @ attempt_sleeps (wait (entry s)) 0 (replay_attempts request 5 (responses (fst (io s))))"
proof -
  let ?s = "s\<lparr>last_attempts := 0\<rparr>"
  obtain res s' where tr: "transact mock_io request s = (res, s')" by (rule prod.exhaust)
  then have run: "transact_loop mock_io request [0..<MAX_ATTEMPTS] None ?s = (res, s')"
    unfolding transact_restart [of mock_io request s] by (simp add: transact_def)
  obtain t c where io: "io ?s = (t, c)" by (rule prod.exhaust)
  have "fail_next_set t = None" "last_attempts ?s = of_nat 0" using assms(2) io by simp_all
  note mock_loop [OF constructed_wf [OF assms(1)] constructed_check_request [OF assms(1)] le0 io
      this(1) refl this(2) run refl refl]
  then show "fst (transact mock_io request s) = replay_result request 5
      (Malformed ''retry loop ended without a validated response'') (responses (fst (io s)))"
    and "entry (snd (transact mock_io request s)) = entry s"
    and "sess_tid (snd (transact mock_io request s)) = sess_tid s"
    and "fail_next_set (fst (io (snd (transact mock_io request s)))) = None"
    and "last_response_tid (snd (transact mock_io request s)) = echoed (last_response_tid s)
      (take (replay_attempts request 5 (responses (fst (io s)))) (responses (fst (io s))))"
    and "responses (fst (io (snd (transact mock_io request s))))
      = drop (replay_attempts request 5 (responses (fst (io s)))) (responses (fst (io s)))"
    and "sent (fst (io (snd (transact mock_io request s)))) = sent (fst (io s))
      @ replicate (replay_attempts request 5 (responses (fst (io s)))) (frame (sess_tid s) request)"
    and "sleeps (snd (io (snd (transact mock_io request s)))) = sleeps (snd (io s))
      @ attempt_sleeps (wait (entry s)) 0 (replay_attempts request 5 (responses (fst (io s))))"
    using io by (simp_all add: tr MAX_ATTEMPTS_def keeps_identity_def)
qed

definition answered :: "bytes list \<Rightarrow> mock_transport" where
  "answered q = mock_transport_new\<lparr>responses := q\<rparr>"

lemma answered_simps [simp]:
  "responses (answered q) = q" "sent (answered q) = []" "fail_next_set (answered q) = None"
  by (simp_all add: answered_def mock_transport_new_def)

definition fresh :: "device_entry \<Rightarrow> bytes list \<Rightarrow> (mock_transport \<times> mock_clock) session" where
  "fresh e q = session_new e (answered q, mock_clock_new)"

theorem transact_replays_queue_witness:
  "fst (transact mock_io cmd_get_serial (fresh basilisk_v3_pro_wired [])) = Inl (ShortRead 0) \<and>
   attempts_consumed (snd (transact mock_io cmd_get_serial (fresh basilisk_v3_pro_wired []))) = 1"
proof -
  obtain res s' where run: "transact mock_io cmd_get_serial (fresh basilisk_v3_pro_wired []) = (res, s')"
    by fastforce
  have "wf_report cmd_get_serial" "check_request cmd_get_serial = Inr ()"
    by (simp_all only: constructed_wf constructed_check_request constructed_cmd)
  from transact_replays_queue [OF this _ refl run [unfolded fresh_def]] show ?thesis
    by (simp add: run rejected_def)
qed

subsection \<open>Typed operations on an answering device\<close>

lemma mock_transact_first:
  assumes "constructed request" and "accepts request buf"
  shows "\<exists>s'. transact mock_io request (fresh e (buf # q)) = (Inr (mock_decode buf), s')"
proof -
  obtain res s' where run: "transact_loop mock_io request [0..<MAX_ATTEMPTS] None (fresh e (buf # q)) = (res, s')"
    by fastforce
  have "res = replay_result request (MAX_ATTEMPTS - 0) (Malformed ''retry loop ended without a validated response'') (buf # q)"
    using mock_loop [OF constructed_wf [OF assms(1)] constructed_check_request [OF assms(1)] _ _ _ _ _ run
        refl refl, of "answered (buf # q)" mock_clock_new]
    by (simp add: fresh_def session_new_def)
  also have "\<dots> = Inr (mock_decode buf)" using assms(2) by (simp add: MAX_ATTEMPTS_def numeral_eq_Suc)
  finally show ?thesis using run by (simp add: transact_def)
qed

text \<open>A session whose device has one answer ready.\<close>

definition answering :: "device_entry \<Rightarrow> razer_report \<Rightarrow> (mock_transport \<times> mock_clock) session" where
  "answering e rep = session_new e (push_response rep mock_transport_new, mock_clock_new)"

text \<open>The answer to a request: its header echoed, a status and a payload.\<close>

definition reply :: "razer_report \<Rightarrow> status \<Rightarrow> bytes \<Rightarrow> razer_report" where
  "reply request st payload = fill_args (request\<lparr>status := st, transaction_id := 0x1F\<rparr>) payload"

lemma pushed_buffer:
  "wf_report rep \<Longrightarrow> push_response rep mock_transport_new = answered [0x00 # to_bytes rep]"
  by (simp add: push_response_def answered_def mock_transport_new_def copy_slice_def REPORT_LEN_def
      HIDRAW_BUF_LEN_def take_Suc_conv_app_nth)

lemma decode_pushed:
  assumes "wf_report rep" and "canonical_status (status rep)"
  shows "mock_decode (0x00 # to_bytes rep) = rep\<lparr>crc_byte := crc (to_bytes rep)\<rparr>"
  using assms by (simp add: mock_decode_def copy_slice_def decode_encode REPORT_LEN_def)

lemma decode_frame:
  "wf_report request \<Longrightarrow> canonical_status (status request) \<Longrightarrow>
    mock_decode (frame tid request) = (with_transaction_id request tid)
      \<lparr>crc_byte := crc (to_bytes (with_transaction_id request tid))\<rparr>"
  unfolding frame_def by (rule decode_pushed) (simp_all add: with_transaction_id_def wf_report_def)

lemma constructed_status: "constructed request \<Longrightarrow> status request = New"
  using constructed_is_clean by (simp add: clean_request_def)

definition echoes :: "razer_report \<Rightarrow> razer_report \<Rightarrow> bool" where
  "echoes request rep \<longleftrightarrow>
     wf_report rep \<and> unat (data_size rep) \<le> 80 \<and> remaining_packets rep = remaining_packets request \<and>
     command_class rep = command_class request \<and> command_id rep = command_id request \<and>
     status rep \<in> {Successful, Busy}"

lemma transact_answering:
  assumes "constructed request" and "echoes request rep"
  shows "\<exists>s'. transact mock_io request (answering e rep) =
    (Inr (rep\<lparr>crc_byte := crc (to_bytes rep)\<rparr>), s')"
proof -
  have rep: "wf_report rep" "canonical_status (status rep)"
    using assms(2) by (auto simp: echoes_def canonical_status_def)
  have "unat (data_size request) \<le> ARGS_LEN"
    using constructed_is_clean [OF assms(1)] by (simp add: clean_request_def)
  with assms(2) have "accepts request (0x00 # to_bytes rep)"
    by (auto simp: accepts_def decode_pushed [OF rep] check_response_ok echoes_def ARGS_LEN_def is_ok_iff)
  from mock_transact_first [OF assms(1) this, of e "[]"] show ?thesis
    by (simp add: answering_def fresh_def pushed_buffer [OF rep(1)] decode_pushed [OF rep])
qed

lemma table_require:
  "e \<in> set all_devices \<Longrightarrow>
    c \<in> {CAP_DEVICE_MODE, CAP_FIRMWARE_VERSION, CAP_SERIAL, CAP_BRIGHTNESS, CAP_STATIC_EFFECT,
      CAP_POLL_RATE} \<Longrightarrow> require (answering e rep) c what = Inr ()"
  by (simp add: require_def answering_def session_new_def table_capability all_devices_def)

text \<open>Reading the serial of a table device end to end: when the device answers with a report that
  echoes the request and holds a text with optional padding and a NUL in its first 22 bytes, the
  operation returns that text.\<close>

lemma serial_answering:
  assumes "e \<in> set all_devices" and "echoes cmd_get_serial rep"
    and "serial_field bs pad rest" and "arguments rep = bs @ pad @ rest"
  shows "fst (serial mock_io (answering e rep)) = Inr (map char_of_byte bs)"
proof -
  obtain s' where "transact mock_io cmd_get_serial (answering e rep)
      = (Inr (rep\<lparr>crc_byte := crc (to_bytes rep)\<rparr>), s')"
    using transact_answering [OF _ assms(2), of e] by auto
  then show ?thesis
    using parse_serial_field [OF assms(3), of "rep\<lparr>crc_byte := crc (to_bytes rep)\<rparr>"] assms(4)
    by (simp add: serial_def table_require [OF assms(1)])
qed

lemma reply_echoes:
  assumes "constructed request" and "st \<in> {Successful, Busy}" and "length payload \<le> ARGS_LEN"
  shows "echoes request (reply request st payload)"
  using constructed_is_clean [OF assms(1)] assms(2,3)
  by (auto simp: echoes_def reply_def clean_request_def wf_report_def ARGS_LEN_def fill_args_def)

lemma transact_reply:
  assumes "constructed request" and "st \<in> {Successful, Busy}" and "length payload \<le> 80"
  shows "\<exists>response s' rest. transact mock_io request (answering e (reply request st payload))
      = (Inr response, s') \<and> arguments response = payload @ rest"
  using transact_answering [OF assms(1) reply_echoes [OF assms(1,2)], of payload e] assms(3)
  by (auto simp: ARGS_LEN_def reply_def fill_args_def copy_slice_def)

lemma led_answering:
  "e \<in> set all_devices \<Longrightarrow>
    led (answering e rep) = Inr (if default_led e = 0x00 then Zero else Backlight)"
  by (auto simp: all_devices_def set_TABLE device_defs led_def answering_def session_new_def
      ZERO_LED_def BACKLIGHT_LED_def)

lemma entry_answering [simp]: "entry (answering e rep) = e"
  by (simp add: answering_def session_new_def)

text \<open>C17: the readings of a table device end to end: whatever serial, mode, firmware version, brightness
  and polling rate the device puts into a Successful or Busy answer, the operation for it returns
  those values: the serial without the padding and NUL that may follow it in its 22 bytes, and the
  polling rate encoded in the family of the device.\<close>

theorem readings_end_to_end:
  assumes "e \<in> set all_devices" and "st \<in> {Successful, Busy}"
    and "serial_field bs pad rest" and "length (bs @ pad @ rest) = ARGS_LEN"
  shows "fst (serial mock_io (answering e (reply cmd_get_serial st (bs @ pad @ rest)))) = Inr (map char_of_byte bs) \<and>
    fst (get_device_mode mock_io (answering e (reply cmd_get_device_mode st [m, p]))) = Inr (m, p) \<and>
    fst (firmware_version mock_io (answering e (reply cmd_get_firmware_version st [major, minor])))
      = Inr (major, minor) \<and>
    fst (get_brightness mock_io (answering e (reply
      (cmd_get_brightness VarStore (if default_led e = 0x00 then Zero else Backlight)) st [x, y, v]))) = Inr v \<and>
    fst (get_poll_rate mock_io (answering e
      (case poll_rate_kind e of
         V2 \<Rightarrow> reply cmd_get_poll_rate_v2 st [x, v2_code rate]
       | Legacy \<Rightarrow> reply cmd_get_poll_rate_legacy st [c])))
      = (case poll_rate_kind e of
           V2 \<Rightarrow> Inr rate
         | Legacy \<Rightarrow> map_err Proto (ok_or (Malformed ''unknown legacy poll rate code'') (from_legacy_code c)))"
proof (intro conjI)
  note table = table_require [OF assms(1)]
  have "arguments (reply cmd_get_serial st (bs @ pad @ rest)) = bs @ pad @ rest"
    using assms(4) by (simp add: reply_def cmd_get_serial_def fill_args_def copy_slice_def ARGS_LEN_def new_report_def)
  with assms show "fst (serial mock_io (answering e (reply cmd_get_serial st (bs @ pad @ rest)))) = Inr (map char_of_byte bs)"
    by (intro serial_answering [OF assms(1) _ assms(3)] reply_echoes) simp_all
  show "fst (get_device_mode mock_io (answering e (reply cmd_get_device_mode st [m, p]))) = Inr (m, p)"
    using transact_reply [of cmd_get_device_mode st "[m, p]" e] assms(2)
    by (auto simp: get_device_mode_def table parse_device_mode_def)
  show "fst (firmware_version mock_io (answering e (reply cmd_get_firmware_version st [major, minor])))
      = Inr (major, minor)"
    using transact_reply [of cmd_get_firmware_version st "[major, minor]" e] assms(2)
    by (auto simp: firmware_version_def table parse_firmware_version_def)
  show "fst (get_brightness mock_io (answering e (reply
      (cmd_get_brightness VarStore (if default_led e = 0x00 then Zero else Backlight)) st [x, y, v]))) = Inr v"
    using transact_reply [of "cmd_get_brightness VarStore (if default_led e = 0x00 then Zero else Backlight)"
        st "[x, y, v]" e] assms(2)
    by (auto simp: get_brightness_def table parse_brightness_def led_answering [OF assms(1)])
  show "fst (get_poll_rate mock_io (answering e
      (case poll_rate_kind e of
         V2 \<Rightarrow> reply cmd_get_poll_rate_v2 st [x, v2_code rate]
       | Legacy \<Rightarrow> reply cmd_get_poll_rate_legacy st [c])))
      = (case poll_rate_kind e of
           V2 \<Rightarrow> Inr rate
         | Legacy \<Rightarrow> map_err Proto (ok_or (Malformed ''unknown legacy poll rate code'') (from_legacy_code c)))"
  proof (cases "poll_rate_kind e")
    case V2
    then show ?thesis
      using transact_reply [of cmd_get_poll_rate_v2 st "[x, v2_code rate]" e] assms(2)
      by (auto simp: get_poll_rate_def table parse_poll_rate_v2_def v2_code_inverse)
  next
    case Legacy
    then show ?thesis
      using transact_reply [of cmd_get_poll_rate_legacy st "[c]" e] assms(2)
      by (auto simp: get_poll_rate_def table parse_poll_rate_legacy_def)
  qed
qed

theorem readings_end_to_end_witness:
  "fst (serial mock_io (answering blackwidow_v4_pro
     (reply cmd_get_serial Busy ([0x50, 0x4D, 0x31] @ [0x20] @ replicate 76 0)))) = Inr ''PM1'' \<and>
   fst (get_poll_rate mock_io (answering blackwidow_v4_pro (reply cmd_get_poll_rate_v2 Busy [0, 0x01])))
     = Inr Hz8000"
proof -
  have table: "blackwidow_v4_pro \<in> set all_devices" by (simp add: all_devices_def TABLE_def)
  have "serial_field [0x50, 0x4D, 0x31] [0x20] (replicate 76 0)"
    by (simp add: serial_field_def char_of_byte_eq ascii_whitespace_def)
  from readings_end_to_end [OF table _ this, of Busy, where rate = Hz8000 and x = 0] show ?thesis
    by (simp add: ARGS_LEN_def blackwidow_v4_pro_def char_of_byte_eq)
qed

subsection \<open>An idle receiver\<close>

text \<open>C18: whether a failed transaction is read as an idle wireless receiver is decided by the fifth
  response alone: when five responses are rejected, the transaction fails, and the failure counts as
  idle exactly when the fifth was turned down for a Timeout status, whatever the first four were.\<close>

theorem idle_is_last_attempt:
  assumes "constructed request" and "length q = 5" and "list_all (\<lambda>buf. \<not> accepts request buf) q"
  shows "case fst (transact mock_io request (fresh e q)) of
      Inr _ \<Rightarrow> False
    | Inl err \<Rightarrow> is_receiver_idle err \<longleftrightarrow> check_response request (mock_decode (q ! 4)) = Inl (DeviceStatus Timeout)"
proof -
  obtain res s' where run: "transact_loop mock_io request [0..<MAX_ATTEMPTS] None (fresh e q) = (res, s')"
    by fastforce
  have rej: "rejected request MAX_ATTEMPTS q = q"
    using assms(2,3) by (simp add: rejected_def MAX_ATTEMPTS_def takeWhile_eq_all_conv list_all_iff)
  have res: "res = Inl (RetriesExhausted (rejection request (q ! 4)))"
    using mock_loop [OF constructed_wf [OF assms(1)] constructed_check_request [OF assms(1)] _ _ _ _ _ run
        refl refl, of "answered q" mock_clock_new] assms(2)
    by (auto simp: fresh_def session_new_def replay_result_def Let_def rej [unfolded MAX_ATTEMPTS_def]
        MAX_ATTEMPTS_def last_conv_nth)
  have "\<not> accepts request (q ! 4)" using assms(2,3) by (simp add: list_all_length)
  with run res show ?thesis
    by (auto simp: transact_def not_accepts is_receiver_idle_iff)
qed

lemma check_reply:
  assumes "constructed request" and "canonical_status st"
  shows "check_response request (mock_decode (0x00 # to_bytes (reply request st []))) =
    (if is_ok st then Inr () else Inl (DeviceStatus st))"
proof -
  have "wf_report (reply request st [])" "status (reply request st []) = st"
    using constructed_wf [OF assms(1)] by (simp_all add: reply_def wf_report_def fill_args_def copy_slice_def)
  moreover have "unat (data_size request) \<le> ARGS_LEN"
    using constructed_is_clean [OF assms(1)] by (simp add: clean_request_def)
  ultimately show ?thesis
    using assms(2) by (simp add: decode_pushed check_response_def check_data_size_def reply_def)
qed

theorem idle_is_last_attempt_witness:
  "is_receiver_idle (projl (fst (transact mock_io cmd_get_serial (fresh basilisk_v3_pro_wireless
     (replicate 4 (0x00 # to_bytes (reply cmd_get_serial Failure [])) @
      [0x00 # to_bytes (reply cmd_get_serial Timeout [])])))))"
proof -
  let ?q = "replicate 4 (0x00 # to_bytes (reply cmd_get_serial Failure [])) @
      [0x00 # to_bytes (reply cmd_get_serial Timeout [])]"
  have "list_all (\<lambda>buf. \<not> accepts cmd_get_serial buf) ?q"
    by (simp add: numeral_eq_Suc accepts_def check_reply canonical_status_def is_ok_def)
  moreover have "check_response cmd_get_serial (mock_decode (?q ! 4)) = Inl (DeviceStatus Timeout)"
    by (simp add: nth_append check_reply canonical_status_def is_ok_def)
  ultimately show ?thesis
    using idle_is_last_attempt [of cmd_get_serial ?q basilisk_v3_pro_wireless]
    by (simp split: sum.splits)
qed

end
