(* ===== verification/Razerd_Probe.thy ===== *)
theory Razerd_Probe
  imports Razerd_Info Session_Mock
begin

text \<open>
  What \<open>razerd info\<close> asks a device and what it makes of the answers: \<open>read_device\<close> over a transport with
  queued responses, against an abstract specification as a function of the queue. The point of the
  code is that a receiver without its mouse is asked one question and no more, since each costs five
  attempts.
\<close>

subsection \<open>The specification\<close>

text \<open>One question: the reading, the responses left, and how often the question was put.\<close>

definition ask :: "razer_report \<Rightarrow> (razer_report \<Rightarrow> proto_error + 'a) \<Rightarrow> bytes list \<Rightarrow> 'a reading \<times> bytes list \<times> nat" where
  "ask request parse q =
     (let n = replay_attempts request 5 q in
      (classify
         (case replay_result request 5 (Malformed ''retry loop ended without a validated response'') q of
            Inl e \<Rightarrow> Inl e
          | Inr response \<Rightarrow> map_err Proto (parse response)),
       drop n q, n))"

text \<open>The report and the questions put, in order: the next one only if the device was not found absent.\<close>

definition probe :: "bytes list \<Rightarrow> device_report \<times> razer_report list" where
  "probe q =
     (case ask cmd_get_firmware_version parse_firmware_version q of (fw, q, k) \<Rightarrow>
        if is_idle fw then
          (\<lparr>rep_firmware = fw, rep_serial = None, rep_device_mode = None\<rparr>, replicate k cmd_get_firmware_version)
        else
          (case ask cmd_get_serial parse_serial q of (ser, q, l) \<Rightarrow>
             if is_idle ser then
               (\<lparr>rep_firmware = fw, rep_serial = Some ser, rep_device_mode = None\<rparr>,
                replicate k cmd_get_firmware_version @ replicate l cmd_get_serial)
             else
               (case ask cmd_get_device_mode parse_device_mode q of (md, q, m) \<Rightarrow>
                  (\<lparr>rep_firmware = fw, rep_serial = Some ser, rep_device_mode = Some md\<rparr>,
                   replicate k cmd_get_firmware_version @ replicate l cmd_get_serial
                     @ replicate m cmd_get_device_mode))))"

subsection \<open>A transaction anywhere in a run\<close>

definition ready :: "device_entry \<Rightarrow> bytes list \<Rightarrow> bytes list \<Rightarrow> (mock_transport \<times> mock_clock) session \<Rightarrow> bool" where
  "ready e frames q s \<longleftrightarrow>
     entry s = e \<and> sess_tid s = dev_transaction_id e \<and> sent (fst (io s)) = frames \<and> responses (fst (io s)) = q \<and>
     fail_next_set (fst (io s)) = None"

lemma transact_ready:
  assumes "ready e frames q s" and "constructed request"
    and "transact mock_io request s = (res, s')"
  shows "res = replay_result request 5 (Malformed ''retry loop ended without a validated response'') q"
    and "ready e (frames @ replicate (replay_attempts request 5 q) (frame (dev_transaction_id e) request))
      (drop (replay_attempts request 5 q) q) s'"
proof -
  have "fail_next_set (fst (io s)) = None" using assms(1) by (simp add: ready_def)
  note mock_transact [OF assms(2) this, unfolded assms(3) fst_conv snd_conv]
  then show "res = replay_result request 5 (Malformed ''retry loop ended without a validated response'') q"
    and "ready e (frames @ replicate (replay_attempts request 5 q) (frame (dev_transaction_id e) request))
      (drop (replay_attempts request 5 q) q) s'"
    using assms(1) by (simp_all add: ready_def)
qed

lemma ask_ready:
  assumes "ready e frames q s" and "constructed request"
    and "and_then (transact mock_io request s) (\<lambda>response s. (map_err Proto (parse response), s)) = (res, s')"
    and "ask request parse q = (x, q', n)"
  shows "classify res = x \<and> ready e (frames @ replicate n (frame (dev_transaction_id e) request)) q' s'"
proof -
  obtain r t where step: "transact mock_io request s = (r, t)" by (rule prod.exhaust)
  note replay = transact_ready [OF assms(1,2) step]
  have "x = classify (case r of Inl e \<Rightarrow> Inl e | Inr response \<Rightarrow> map_err Proto (parse response))"
    and "q' = drop n q" and "n = replay_attempts request 5 q"
    using assms(4) by (auto simp: ask_def Let_def replay(1))
  moreover have "(res, s') = ((case r of Inl e \<Rightarrow> Inl e | Inr response \<Rightarrow> map_err Proto (parse response)), t)"
    using assms(3) by (cases r) (auto simp: step)
  ultimately show ?thesis using replay(2) by simp
qed

lemma ready_fresh: "ready e [] q (fresh e q)"
  by (simp add: ready_def fresh_def session_new_def)

lemma ready_require:
  "ready e frames q s \<Longrightarrow> e \<in> set TABLE \<Longrightarrow>
    c \<in> {CAP_DEVICE_MODE, CAP_FIRMWARE_VERSION, CAP_SERIAL, CAP_BRIGHTNESS, CAP_STATIC_EFFECT, CAP_POLL_RATE} \<Longrightarrow>
    require s c what = Inr ()"
  using table_capability [of e c] by (simp add: require_def ready_def)

lemma probe_implements:
  assumes "e \<in> set TABLE" and "ready e frames q s" and "read_device mock_io s = (rep, s')"
  shows "rep = fst (probe q) \<and> sent (fst (io s')) = frames @ map (frame (dev_transaction_id e)) (snd (probe q))"
proof -
  let ?fr = "\<lambda>n request. replicate n (frame (dev_transaction_id e) request)"
  obtain r1 s1 where step1: "firmware_version mock_io s = (r1, s1)" by (rule prod.exhaust)
  obtain x1 q1 n1 where ask1: "ask cmd_get_firmware_version parse_firmware_version q = (x1, q1, n1)" by (rule prod_cases3)
  have "and_then (transact mock_io cmd_get_firmware_version s)
      (\<lambda>response s. (map_err Proto (parse_firmware_version response), s)) = (r1, s1)"
    using step1 ready_require [OF assms(2) assms(1)] by (simp add: firmware_version_def)
  from ask_ready [OF assms(2) _ this ask1]
  have one: "classify r1 = x1" "ready e (frames @ ?fr n1 cmd_get_firmware_version) q1 s1" by simp_all
  show ?thesis
  proof (cases "is_idle x1")
    case True
    then show ?thesis
      using assms(3) one by (auto simp: read_device_def probe_def step1 ask1 ready_def)
  next
    case False
    obtain r2 s2 where step2: "serial mock_io s1 = (r2, s2)" by (rule prod.exhaust)
    obtain x2 q2 n2 where ask2: "ask cmd_get_serial parse_serial q1 = (x2, q2, n2)" by (rule prod_cases3)
    have "and_then (transact mock_io cmd_get_serial s1)
        (\<lambda>response s. (map_err Proto (parse_serial response), s)) = (r2, s2)"
      using step2 ready_require [OF one(2) assms(1)] by (simp add: serial_def)
    from ask_ready [OF one(2) _ this ask2]
    have two: "classify r2 = x2" "ready e ((frames @ ?fr n1 cmd_get_firmware_version) @ ?fr n2 cmd_get_serial) q2 s2"
      by simp_all
    show ?thesis
    proof (cases "is_idle x2")
      case True
      then show ?thesis
        using assms(3) one two \<open>\<not> is_idle x1\<close>
        by (auto simp: read_device_def probe_def step1 ask1 step2 ask2 ready_def)
    next
      case False
      obtain r3 s3 where step3: "get_device_mode mock_io s2 = (r3, s3)" by (rule prod.exhaust)
      obtain x3 q3 n3 where ask3: "ask cmd_get_device_mode parse_device_mode q2 = (x3, q3, n3)" by (rule prod_cases3)
      have "and_then (transact mock_io cmd_get_device_mode s2)
          (\<lambda>response s. (map_err Proto (parse_device_mode response), s)) = (r3, s3)"
        using step3 ready_require [OF two(2) assms(1)] by (simp add: get_device_mode_def)
      from ask_ready [OF two(2) _ this ask3]
      have "classify r3 = x3" "sent (fst (io s3)) = ((frames @ ?fr n1 cmd_get_firmware_version) @ ?fr n2 cmd_get_serial)
          @ ?fr n3 cmd_get_device_mode"
        by (simp_all add: ready_def)
      then show ?thesis
        using assms(3) one(1) two(1) False \<open>\<not> is_idle x1\<close>
        by (auto simp: read_device_def probe_def step1 ask1 step2 ask2 step3 ask3)
    qed
  qed
qed

text \<open>C21: probing a table device implements the specification: the report is that of the queue, and
  the frames sent are the questions of the specification, stamped with the id of the device table.\<close>

theorem probe_refines:
  assumes "e \<in> set TABLE" and "read_device mock_io (fresh e q) = (rep, s')"
  shows "rep = fst (probe q) \<and> sent (fst (io s')) = map (frame (dev_transaction_id e)) (snd (probe q))"
  using probe_implements [OF assms(1) ready_fresh assms(2)] by simp

subsection \<open>An absent device\<close>

lemma readers_not_timeout:
  "parse_firmware_version r \<noteq> Inl (DeviceStatus Timeout)" "parse_serial r \<noteq> Inl (DeviceStatus Timeout)"
  by (auto simp: parse_firmware_version_def parse_serial_def check_data_size_def Let_def split: if_splits option.splits sum.splits)

text \<open>Only five rejected answers make a reading idle.\<close>

lemma idle_reading:
  assumes "ask request parse q = (x, q', n)" and "is_idle x" and "\<And>r. parse r \<noteq> Inl (DeviceStatus Timeout)"
  shows "n = 5 \<and> q' = drop 5 q"
proof -
  let ?e = "Malformed ''retry loop ended without a validated response''"
  obtain err where "replay_result request 5 ?e q = Inl err" "is_receiver_idle err"
    using assms(1,2) assms(3)
    by (auto simp: ask_def Let_def classify_def is_receiver_idle_iff split: sum.splits if_splits elim: map_err.elims)
  then have "length (rejected request 5 q) = 5"
    by (auto simp: replay_result_def Let_def is_receiver_idle_iff split: if_splits)
  then have "replay_attempts request 5 q = 5" by (simp add: replay_attempts_def)
  then show ?thesis using assms(1) by (auto simp: ask_def Let_def)
qed

text \<open>C20: a device found absent is asked nothing more: if the reading of the firmware version is idle, the
  five attempts at it are all that is sent and no other reading is reported; if that of the serial is,
  the five attempts at it are the last frames sent and no device mode is reported. A hard failure does
  not stop the sequence.\<close>

theorem absent_device_left_alone:
  assumes "e \<in> set TABLE" and "read_device mock_io (fresh e q) = (rep, s')"
  shows "if is_idle (rep_firmware rep) then
      rep_serial rep = None \<and> rep_device_mode rep = None \<and>
      sent (fst (io s')) = replicate 5 (frame (dev_transaction_id e) cmd_get_firmware_version)
    else (case rep_serial rep of
        None \<Rightarrow> False
      | Some x \<Rightarrow>
          if is_idle x then
            rep_device_mode rep = None \<and>
            (\<exists>k. sent (fst (io s')) = replicate k (frame (dev_transaction_id e) cmd_get_firmware_version)
              @ replicate 5 (frame (dev_transaction_id e) cmd_get_serial))
          else rep_device_mode rep \<noteq> None)"
proof -
  obtain fw q1 k where ask1: "ask cmd_get_firmware_version parse_firmware_version q = (fw, q1, k)" by (rule prod_cases3)
  obtain ser q2 l where ask2: "ask cmd_get_serial parse_serial q1 = (ser, q2, l)" by (rule prod_cases3)
  obtain md q3 m where ask3: "ask cmd_get_device_mode parse_device_mode q2 = (md, q3, m)" by (rule prod_cases3)
  have "rep = fst (probe q)" and "sent (fst (io s')) = map (frame (dev_transaction_id e)) (snd (probe q))"
    using probe_implements [OF assms(1) ready_fresh assms(2)] by simp_all
  then show ?thesis
    using idle_reading [OF ask1 _ readers_not_timeout(1)] idle_reading [OF ask2 _ readers_not_timeout(2)]
    by (cases "is_idle fw"; cases "is_idle ser") (auto simp: probe_def ask1 ask2 ask3)
qed

text \<open>A receiver whose mouse is away.\<close>

definition away :: "bytes list" where
  "away = replicate 5 (0x00 # to_bytes (reply cmd_get_firmware_version Timeout []))"

lemma away_idle:
  "ask cmd_get_firmware_version parse_firmware_version away = (ReceiverIdle, [], 5)"
proof -
  have check: "check_response cmd_get_firmware_version
      (mock_decode (0x00 # to_bytes (reply cmd_get_firmware_version Timeout []))) = Inl (DeviceStatus Timeout)"
    by (simp add: check_reply canonical_status_def is_ok_def)
  then have "\<not> accepts cmd_get_firmware_version (0x00 # to_bytes (reply cmd_get_firmware_version Timeout []))"
    by (simp add: accepts_def)
  then have "rejected cmd_get_firmware_version 5 away = away"
    by (simp add: rejected_def away_def)
  then show ?thesis
    by (simp add: ask_def replay_result_def replay_attempts_def Let_def, simp add: away_def classify_def rejection_def
        check is_receiver_idle_iff)
qed

theorem absent_device_left_alone_witness:
  "let (rep, s') = read_device mock_io (fresh basilisk_v3_pro_wireless away)
   in rep_firmware rep = ReceiverIdle \<and> rep_serial rep = None \<and> length (sent (fst (io s'))) = 5"
proof -
  obtain rep s' where run: "read_device mock_io (fresh basilisk_v3_pro_wireless away) = (rep, s')" by (rule prod.exhaust)
  have table: "basilisk_v3_pro_wireless \<in> set TABLE" by (simp add: TABLE_def)
  have "rep = fst (probe away)" using probe_implements [OF table ready_fresh run] by simp
  then have "rep_firmware rep = ReceiverIdle" by (simp add: probe_def away_idle)
  then show ?thesis using absent_device_left_alone [OF table run] by (simp add: run)
qed

theorem probe_refines_witness:
  "rep_firmware (fst (read_device mock_io (fresh basilisk_v3_pro_wireless away))) = ReceiverIdle"
  using probe_refines [of basilisk_v3_pro_wireless away "fst (read_device mock_io (fresh basilisk_v3_pro_wireless away))"
      "snd (read_device mock_io (fresh basilisk_v3_pro_wireless away))"]
  by (simp add: TABLE_def probe_def away_idle)

end
