(* ===== verification/Razerd_Answers.thy ===== *)
theory Razerd_Answers
  imports Razerd_Probe
begin

text \<open>
  \<open>razerd info\<close> end to end, over a machine whose devices have their answers ready: the locale
  \<open>queue_kernel\<close> is the contract of a kernel that keeps, for each node, a queue of feature reports and
  hands them out in order. A session over such a kernel refines a session over the in-memory transport
  of the tests, with the recorded system calls as its history; so what the probe of the specification
  makes of a queue is what the binary prints of the device.
\<close>

subsection \<open>The history of a session as a state of the fixtures\<close>

fun sent_frames :: "hid_event list \<Rightarrow> bytes list" where
  "sent_frames [] = []"
| "sent_frames (SetEv buf # evs) = buf # sent_frames evs"
| "sent_frames (_ # evs) = sent_frames evs"

fun naps :: "hid_event list \<Rightarrow> nat list" where
  "naps [] = []"
| "naps (SleepEv d # evs) = d # naps evs"
| "naps (_ # evs) = naps evs"

lemma history_append [simp]:
  "sent_frames (xs @ ys) = sent_frames xs @ sent_frames ys" "naps (xs @ ys) = naps xs @ naps ys"
  by (induction xs rule: sent_frames.induct) simp_all

definition history :: "bytes list \<Rightarrow> os_event list \<Rightarrow> mock_transport \<times> mock_clock" where
  "history q tr =
     (\<lparr>sent = sent_frames (calls_of tr), responses = q, fail_next_set = None\<rparr>, \<lparr>sleeps = naps (calls_of tr)\<rparr>)"

definition fixture_view :: "('k \<Rightarrow> string \<Rightarrow> bytes list) \<Rightarrow> ('k \<Rightarrow> nat \<Rightarrow> string)
    \<Rightarrow> hidraw_device \<times> 'k \<times> os_event list \<Rightarrow> mock_transport \<times> mock_clock" where
  "fixture_view queue node_of w = (case w of (dev, k, tr) \<Rightarrow> history (queue k (node_of k (dev_file dev))) tr)"

text \<open>Nothing but the queue of the node of the open device has changed.\<close>

definition elsewhere :: "('k \<Rightarrow> string \<Rightarrow> bytes list) \<Rightarrow> ('k \<Rightarrow> nat \<Rightarrow> string)
    \<Rightarrow> hidraw_device \<times> 'k \<times> os_event list \<Rightarrow> hidraw_device \<times> 'k \<times> os_event list \<Rightarrow> bool" where
  "elsewhere queue node_of w w' \<longleftrightarrow>
     fst w' = fst w \<and> node_of (fst (snd w')) = node_of (fst (snd w)) \<and>
     (\<forall>p. p \<noteq> node_of (fst (snd w)) (dev_file (fst w)) \<longrightarrow> queue (fst (snd w')) p = queue (fst (snd w)) p)"

lemma elsewhere_refl [simp]: "elsewhere queue node_of w w"
  by (simp add: elsewhere_def)

lemma elsewhere_trans: "elsewhere queue node_of w w' \<Longrightarrow> elsewhere queue node_of w' w'' \<Longrightarrow> elsewhere queue node_of w w''"
  by (simp add: elsewhere_def)

context io_refinement begin

lemma read_device_abst:
  assumes "read_device C s = (report, s')"
  shows "read_device A (map_session abst s) = (report, map_session abst s')"
proof -
  obtain r1 s1 where f: "firmware_version C s = (r1, s1)" by fastforce
  obtain r2 s2 where ser: "serial C s1 = (r2, s2)" by fastforce
  obtain r3 s3 where m: "get_device_mode C s2 = (r3, s3)" by fastforce
  show ?thesis
    using assms firmware_version_abst [of s] serial_abst [of s1] get_device_mode_abst [of s2]
    by (auto simp: read_device_def f ser m Let_def split: prod.splits if_splits)
qed

end

subsection \<open>A kernel with queued answers\<close>

text \<open>\<open>queue k p\<close> are the answers waiting at node \<open>p\<close>, \<open>node_of k fd\<close> the node a descriptor stands for and
  \<open>identity p\<close> the vendor and product the kernel reports for it.\<close>

locale queue_kernel =
  fixes os :: "'k os" and queue :: "'k \<Rightarrow> string \<Rightarrow> bytes list" and node_of :: "'k \<Rightarrow> nat \<Rightarrow> string"
    and identity :: "string \<Rightarrow> u16 \<times> u16"
  assumes opens: "\<exists>fd k'. os_open os p k = (Inr fd, k') \<and> node_of k' fd = p \<and> queue k' = queue k"
    and identifies: "\<exists>rc errno info k'. os_rawinfo os fd HIDIOCGRAWINFO k = ((rc, errno, info), k') \<and> 0 \<le> rc \<and>
      (word_of_int (di_vendor info), word_of_int (di_product info)) = identity (node_of k fd) \<and>
      node_of k' = node_of k \<and> queue k' = queue k"
    and takes: "\<exists>rc errno new k'. os_feature os fd HIDIOCSFEATURE_91 buf k = ((rc, errno, new), k') \<and> 0 \<le> rc \<and>
      node_of k' = node_of k \<and> queue k' = queue k"
    and answers: "queue k (node_of k fd) = a # as \<Longrightarrow> \<exists>errno k'.
      os_feature os fd HIDIOCGFEATURE_91 buf k = ((int HIDRAW_BUF_LEN, errno, a), k') \<and> length a = HIDRAW_BUF_LEN \<and>
      node_of k' = node_of k \<and> queue k' = (queue k)(node_of k fd := as)"
    and silent: "queue k (node_of k fd) = [] \<Longrightarrow> \<exists>errno k'.
      os_feature os fd HIDIOCGFEATURE_91 buf k = ((0, errno, []), k') \<and> node_of k' = node_of k \<and> queue k' = queue k"
    and sleeps_on: "queue (os_sleep os d k) = queue k" "node_of (os_sleep os d k) = node_of k"
    and closes: "queue (os_close os fd k) = queue k"
begin

lemma fixture_set:
  "map_prod id (fixture_view queue node_of) (set_feature (hidraw_io (traced_os os)) buf w) = set_feature mock_io buf (fixture_view queue node_of w)"
proof -
  obtain dev k tr where w: "w = (dev, k, tr)" by (cases w) auto
  obtain rc errno new k' where "os_feature os (dev_file dev) HIDIOCSFEATURE_91 buf k = ((rc, errno, new), k')" "0 \<le> rc"
    "node_of k' = node_of k" "queue k' = queue k" using takes by blast
  then show ?thesis
    by (simp add: w hidraw_io_def hidraw_set_feature_def traced_os_def fixture_view_def history_def mock_io_def
        mock_set_feature_def)
qed

lemma fixture_get:
  "map_prod id (fixture_view queue node_of) (get_feature (hidraw_io (traced_os os)) (replicate HIDRAW_BUF_LEN 0) w)
     = get_feature mock_io (replicate HIDRAW_BUF_LEN 0) (fixture_view queue node_of w)"
proof -
  obtain dev k tr where w: "w = (dev, k, tr)" by (cases w) auto
  have zero: "(replicate HIDRAW_BUF_LEN 0)[0 := 0x00] = replicate HIDRAW_BUF_LEN (0 :: u8)"
    by (simp add: list_update_same_conv HIDRAW_BUF_LEN_def)
  show ?thesis
  proof (cases "queue k (node_of k (dev_file dev))")
    case Nil
    with silent obtain errno k' where "os_feature os (dev_file dev) HIDIOCGFEATURE_91 (replicate HIDRAW_BUF_LEN 0) k
        = ((0, errno, []), k')" "node_of k' = node_of k" "queue k' = queue k" by blast
    with Nil show ?thesis
      by (simp add: w zero hidraw_io_def hidraw_get_feature_def traced_os_def fixture_view_def history_def mock_io_def
          mock_get_feature_def write_back_def Let_def)
  next
    case (Cons a as)
    with answers obtain errno k' where "os_feature os (dev_file dev) HIDIOCGFEATURE_91 (replicate HIDRAW_BUF_LEN 0) k
        = ((int HIDRAW_BUF_LEN, errno, a), k')" "length a = HIDRAW_BUF_LEN" "node_of k' = node_of k"
      "queue k' = (queue k)(node_of k (dev_file dev) := as)" by blast
    with Cons show ?thesis
      by (simp add: w zero hidraw_io_def hidraw_get_feature_def traced_os_def fixture_view_def history_def mock_io_def
          mock_get_feature_def write_back_def Let_def)
  qed
qed

lemma fixture_refinement: "io_refinement (hidraw_io (traced_os os)) mock_io (fixture_view queue node_of)"
  by unfold_locales
    (simp_all only: fixture_set fixture_get, simp add: hidraw_io_def traced_os_def fixture_view_def history_def
      mock_io_def mock_sleep_def sleeps_on split: prod.split)

lemma calls_elsewhere:
  "elsewhere queue node_of w (snd (set_feature (hidraw_io (traced_os os)) buf w))"
  "elsewhere queue node_of w (snd (get_feature (hidraw_io (traced_os os)) buf w))"
  "elsewhere queue node_of w (clock_sleep (hidraw_io (traced_os os)) d w)"
proof -
  obtain dev k tr where w: "w = (dev, k, tr)" by (cases w) auto
  obtain rc errno new k' where "os_feature os (dev_file dev) HIDIOCSFEATURE_91 buf k = ((rc, errno, new), k')"
    "node_of k' = node_of k" "queue k' = queue k" using takes by blast
  then show "elsewhere queue node_of w (snd (set_feature (hidraw_io (traced_os os)) buf w))"
    by (simp add: w elsewhere_def hidraw_io_def hidraw_set_feature_def traced_os_def)
  let ?buf = "buf[0 := 0x00]"
  obtain x k' where "os_feature os (dev_file dev) HIDIOCGFEATURE_91 ?buf k = (x, k')"
    "node_of k' = node_of k" "\<forall>p. p \<noteq> node_of k (dev_file dev) \<longrightarrow> queue k' p = queue k p"
  proof (cases "queue k (node_of k (dev_file dev))")
    case Nil
    with silent [of k "dev_file dev" ?buf] that show ?thesis by auto
  next
    case (Cons a as)
    with answers [of k "dev_file dev" a as ?buf] that show ?thesis by auto
  qed
  then show "elsewhere queue node_of w (snd (get_feature (hidraw_io (traced_os os)) buf w))"
    by (cases x) (simp add: w elsewhere_def hidraw_io_def hidraw_get_feature_def traced_os_def Let_def)
  show "elsewhere queue node_of w (clock_sleep (hidraw_io (traced_os os)) d w)"
    by (simp add: w elsewhere_def hidraw_io_def traced_os_def sleeps_on)
qed

lemma session_elsewhere:
  "read_relation (hidraw_io (traced_os os)) (\<lambda>_. True) (\<lambda>s s'. elsewhere queue node_of (io s) (io s'))"
proof -
  let ?E = "hidraw_io (traced_os os)"
  have "elsewhere queue node_of (io s) (io (snd (send ?E request s)))" for request s
  proof -
    define buf where "buf = copy_slice 1 (to_bytes (request\<lparr>transaction_id := sess_tid s\<rparr>)) ((replicate HIDRAW_BUF_LEN 0)[0 := 0x00])"
    obtain x w where set: "set_feature ?E buf (io s) = (x, w)" by (rule prod.exhaust)
    have "elsewhere queue node_of (io s) w" using calls_elsewhere(1) [of "io s" buf] by (simp add: set)
    moreover from this have "elsewhere queue node_of (io s) (clock_sleep ?E d w)" for d
      by (rule elsewhere_trans) (rule calls_elsewhere(3))
    ultimately show ?thesis
      unfolding send_def Let_def buf_def [symmetric] set by (simp split: sum.split)
  qed
  moreover have "elsewhere queue node_of (io s) (io (snd (receive ?E s)))" for s
    using calls_elsewhere(2) [of "io s" "replicate HIDRAW_BUF_LEN 0"]
    by (auto simp: receive_def Let_def split: prod.splits sum.splits)
  ultimately show ?thesis
    by unfold_locales (auto simp: calls_elsewhere(3) intro: elsewhere_trans)
qed

lemma read_device_elsewhere:
  assumes "read_device (hidraw_io (traced_os os)) s = (report, s')"
  shows "elsewhere queue node_of (io s) (io s')"
proof -
  let ?E = "hidraw_io (traced_os os)"
  obtain r1 s1 where f: "firmware_version ?E s = (r1, s1)" by fastforce
  obtain r2 s2 where ser: "serial ?E s1 = (r2, s2)" by fastforce
  obtain r3 s3 where m: "get_device_mode ?E s2 = (r3, s3)" by fastforce
  note reading = read_relation.reading_R [OF session_elsewhere]
  have "elsewhere queue node_of (io s) (io s1)" "elsewhere queue node_of (io s1) (io s2)" "elsewhere queue node_of (io s2) (io s3)"
    using reading(1) [of s] reading(2) [of s1] reading(3) [of s2] by (simp_all add: f ser m)
  with assms show ?thesis
    by (auto simp: read_device_def f ser m Let_def split: if_splits intro: elsewhere_trans)
qed

lemma read_device_answers:
  assumes "e \<in> set TABLE" and "read_device (hidraw_io (traced_os os)) (session_new e (dev, k, tr)) = (report, s')"
  shows "report = fst (probe (queue k (node_of k (dev_file dev))))"
proof -
  let ?s = "session_new e (dev, k, tr)" and ?view = "fixture_view queue node_of"
  have "ready e (sent_frames (calls_of tr)) (queue k (node_of k (dev_file dev))) (map_session ?view ?s)"
    by (simp add: ready_def session_new_def map_session_def fixture_view_def history_def)
  moreover have "read_device mock_io (map_session ?view ?s) = (report, map_session ?view s')"
    by (rule io_refinement.read_device_abst [OF fixture_refinement assms(2)])
  ultimately show ?thesis using probe_implements [OF assms(1)] by blast
qed

lemma open_answers:
  obtains dev k' tr' where "hidraw_open_expecting (traced_os os) p (fst (identity p)) (snd (identity p)) (k, tr)
      = (Inr dev, k', tr')" "node_of k' (dev_file dev) = p" "queue k' = queue k"
proof -
  obtain fd k1 where o: "os_open os p k = (Inr fd, k1)" "node_of k1 fd = p" "queue k1 = queue k" using opens by blast
  obtain rc errno info k2 where i: "os_rawinfo os fd HIDIOCGRAWINFO k1 = ((rc, errno, info), k2)" "0 \<le> rc"
    "(word_of_int (di_vendor info), word_of_int (di_product info)) = identity (node_of k1 fd)"
    "node_of k2 = node_of k1" "queue k2 = queue k1" using identifies by blast
  have "(word_of_int (di_vendor info), word_of_int (di_product info)) = identity p" using i(3) o(2) by simp
  then have ids: "word_of_int (di_vendor info) = fst (identity p)" "word_of_int (di_product info) = snd (identity p)"
    by (metis fst_conv snd_conv)+
  show thesis
    by (rule that [of "\<lparr>dev_file = fd, dev_path = p\<rparr>" k2])
      (use o i(1,2,4,5) ids in \<open>simp_all add: hidraw_open_expecting_def hidraw_open_def hidraw_raw_info_def traced_os_def\<close>)
qed

end

subsection \<open>What is printed of a device\<close>

definition device_block :: "device_entry \<Rightarrow> hidraw_node \<Rightarrow> device_report \<Rightarrow> string list" where
  "device_block e node report =
     [[CHR 0x0A] @ dev_name e @ '' (0x'' @ fmt_HEX 4 (unat (pid e)) @ '')'',
      ''  node            '' @ node_path node,
      ''  usb interface   '' @ fmt_dec (unat (interface_number (node_info node))),
      ''  transaction id  0x'' @ fmt_HEX 2 (unat (dev_transaction_id e))]
     @ firmware_lines (rep_firmware report) @ serial_lines (rep_serial report) @ mode_lines (rep_device_mode report)
     @ (if receiver_idle report then idle_lines else [])"

text \<open>The report on a product: what the probe makes of the answers waiting at its node.\<close>

definition report_of :: "(string \<Rightarrow> bytes list) \<Rightarrow> hidraw_node \<Rightarrow> device_report" where
  "report_of q node = fst (probe (q (node_path node)))"

context queue_kernel begin

lemma info_device_answers:
  assumes "env_os env = traced_os os" and "lookup p = Some e"
    and "find_device (real_sysfs_new (env_files env (world st))) RAZER_VID p (report_index e) = Inr node"
    and "identity (node_path node) = (RAZER_VID, p)"
  obtains st' where "info_device env p st = Some st'"
    "printed st' = printed st @ device_block e node (report_of (queue (fst (world st))) node)"
    "opened st' = Suc (opened st)" "failed st' = failed st"
    "idle st' = idle st + (if receiver_idle (report_of (queue (fst (world st))) node) then 1 else 0)"
    "\<forall>q. q \<noteq> node_path node \<longrightarrow> queue (fst (world st')) q = queue (fst (world st)) q"
proof -
  obtain k tr where w: "world st = (k, tr)" by fastforce
  obtain dev k1 tr1 where op: "hidraw_open_expecting (traced_os os) (node_path node) RAZER_VID p (k, tr) = (Inr dev, k1, tr1)"
    and held: "node_of k1 (dev_file dev) = node_path node" "queue k1 = queue k"
    using open_answers [of "node_path node" k tr] assms(4) by auto
  obtain report s where rd: "read_device (hidraw_io (traced_os os)) (session_new e (dev, k1, tr1)) = (report, s)" by fastforce
  have "e \<in> set TABLE" using assms(2) by (simp add: lookup_Some)
  from read_device_answers [OF this rd] have report: "report = report_of (queue k) node"
    by (simp add: held report_of_def)
  obtain k2 tr2 where s: "io s = (dev, k2, tr2)" and others: "\<forall>q. q \<noteq> node_path node \<longrightarrow> queue k2 q = queue k q"
    using read_device_elsewhere [OF rd] held by (cases "io s") (auto simp: elsewhere_def session_new_def)
  have drop: "fst (hidraw_drop (traced_os os) dev (k2, tr2)) = os_close os (dev_file dev) k2"
    by (simp add: hidraw_drop_def traced_os_def)
  obtain st' where run: "info_device env p st = Some st'" using assms(2) by (simp add: info_device_def)
  note facts = run [unfolded info_device_def assms(2) option.case Let_def]
  have "world (say ls st) = (k, tr)" for ls by (simp add: w)
  note facts = facts [unfolded this, unfolded assms(1) assms(3) [unfolded w] sum.case]
  show thesis
    by (rule that [OF run]) (use facts others in
      \<open>auto simp: w op rd s say_def device_block_def report drop closes\<close>)
qed

lemma info_loop_answers:
  assumes "env_os env = traced_os os" and "env_files env = (\<lambda>_. fs)"
    and "\<forall>p \<in> set ps. \<exists>e. lookup p = Some e \<and>
      find_device (real_sysfs_new fs) RAZER_VID p (report_index e) = Inr (place p) \<and>
      identity (node_path (place p)) = (RAZER_VID, p)"
    and "distinct ps" and "\<forall>p \<in> set ps. queue (fst (world st)) (node_path (place p)) = q (node_path (place p))"
  shows "\<exists>st'. info_loop env ps st = Some st' \<and>
    printed st' = printed st @ concat (map (\<lambda>p. device_block (the (lookup p)) (place p) (report_of q (place p))) ps) \<and>
    opened st' = opened st + length ps \<and> failed st' = failed st \<and>
    idle st' = idle st + length [p \<leftarrow> ps. receiver_idle (report_of q (place p))]"
  using assms(3-)
proof (induction ps arbitrary: st)
  case (Cons p ps)
  from Cons.prems(1) obtain e where e: "lookup p = Some e"
    "find_device (real_sysfs_new (env_files env (world st))) RAZER_VID p (report_index e) = Inr (place p)"
    "identity (node_path (place p)) = (RAZER_VID, p)" by (auto simp: assms(2))
  have q: "report_of (queue (fst (world st))) (place p) = report_of q (place p)"
    using Cons.prems(3) by (simp add: report_of_def)
  obtain st1 where one: "info_device env p st = Some st1"
    "printed st1 = printed st @ device_block e (place p) (report_of q (place p))"
    "opened st1 = Suc (opened st)" "failed st1 = failed st"
    "idle st1 = idle st + (if receiver_idle (report_of q (place p)) then 1 else 0)"
    "\<forall>n. n \<noteq> node_path (place p) \<longrightarrow> queue (fst (world st1)) n = queue (fst (world st)) n"
    using info_device_answers [OF assms(1) e] unfolding q by metis
  have "node_path (place p') \<noteq> node_path (place p)" if "p' \<in> set ps" for p'
    using that Cons.prems(1,2) by (metis distinct.simps(2) list.set_intros(2) e(3) prod.inject)
  with one(6) Cons.prems(3) have "\<forall>p \<in> set ps. queue (fst (world st1)) (node_path (place p)) = q (node_path (place p))"
    by simp
  with Cons.IH [of st1] Cons.prems(1,2) obtain st2 where "info_loop env ps st1 = Some st2"
    "printed st2 = printed st1 @ concat (map (\<lambda>p. device_block (the (lookup p)) (place p) (report_of q (place p))) ps)"
    "opened st2 = opened st1 + length ps" "failed st2 = failed st1"
    "idle st2 = idle st1 + length [p \<leftarrow> ps. receiver_idle (report_of q (place p))]"
    by auto
  with one e(1) show ?case by simp
qed simp

end

subsection \<open>The subcommand\<close>

text \<open>The lines that close the listing.\<close>

definition closing_lines :: "nat \<Rightarrow> string list" where
  "closing_lines n =
     [[CHR 0x0A] @ ''All commands above were GET-class reads. Nothing was written.'']
     @ (if 0 < n then [fmt_dec n @ '' receiver(s) had no device connected; that is a state, not an error.''] else [])"

text \<open>C12: \<open>razerd info\<close> prints what the devices answer: on a kernel whose devices have their answers queued,
  with every supported device found at a node that has its identity, it succeeds and prints, for each
  supported product in enumeration order, its name, node, interface and transaction id, then what the
  specification of the probe makes of the answers waiting at that node (version, serial and mode, the
  error texts, or that the receiver has no device), and at the end how many receivers had none.\<close>

theorem info_prints_answers:
  assumes "queue_kernel os queue node_of identity" and "env_os env = traced_os os" and "env_files env = (\<lambda>_. fs)"
    and "list_razer_nodes (real_sysfs_new fs) = Inr nodes" and "supported_pids nodes [] = pids" and "pids \<noteq> []"
    and "\<forall>p \<in> set pids. find_device (real_sysfs_new fs) RAZER_VID p (report_index (the (lookup p))) = Inr (place p) \<and>
      identity (node_path (place p)) = (RAZER_VID, p)"
    and "q = queue (fst (world r))"
  shows "\<exists>r'. info env r = Some (Inr (), r') \<and>
    printed r' = printed r
      @ concat (map (\<lambda>p. device_block (the (lookup p)) (place p) (report_of q (place p))) pids)
      @ closing_lines (length [p \<leftarrow> pids. receiver_idle (report_of q (place p))])"
proof -
  let ?st = "run.extend r \<lparr>opened = 0, failed = 0, idle = 0\<rparr>"
  have pids: "list_all (\<lambda>p. lookup p \<noteq> None) pids" "distinct pids"
    using supported_pids_known [of "[]" nodes] assms(5) by simp_all
  have "\<forall>p \<in> set pids. \<exists>e. lookup p = Some e \<and>
      find_device (real_sysfs_new fs) RAZER_VID p (report_index e) = Inr (place p) \<and> identity (node_path (place p)) = (RAZER_VID, p)"
    using pids(1) assms(7) by (force simp: list_all_iff)
  from queue_kernel.info_loop_answers [OF assms(1-3) this pids(2), of ?st q] obtain st where
    st: "info_loop env pids ?st = Some st"
    "printed st = printed ?st @ concat (map (\<lambda>p. device_block (the (lookup p)) (place p) (report_of q (place p))) pids)"
    "opened st = length pids" "idle st = length [p \<leftarrow> pids. receiver_idle (report_of q (place p))]"
    by (auto simp: assms(8) run.extend_def)
  then show ?thesis
    using assms(4-6) by (simp add: info_def env_sysfs_def assms(3) Let_def closing_lines_def say_def run.extend_def run.truncate_def)
qed

subsection \<open>Such a kernel\<close>

record machine =
  waiting :: "string \<Rightarrow> bytes list"
  held :: string

definition full_buffer :: "bytes \<Rightarrow> bytes" where
  "full_buffer a = take HIDRAW_BUF_LEN (a @ replicate HIDRAW_BUF_LEN 0)"

lemma full_buffer_full: "length a = HIDRAW_BUF_LEN \<Longrightarrow> full_buffer a = a"
  by (simp add: full_buffer_def)

definition machine_queue :: "machine \<Rightarrow> string \<Rightarrow> bytes list" where
  "machine_queue m p = map full_buffer (waiting m p)"

definition machine_os :: "(string \<Rightarrow> u16 \<times> u16) \<Rightarrow> machine os" where
  "machine_os identity =
     \<lparr>os_open = (\<lambda>p m. (Inr 3, m\<lparr>held := p\<rparr>)),
      os_close = (\<lambda>_ m. m),
      os_feature = (\<lambda>_ req buf m.
        if req = HIDIOCGFEATURE_91 then
          (case waiting m (held m) of
             [] \<Rightarrow> ((0, None, []), m)
           | a # as \<Rightarrow> ((int HIDRAW_BUF_LEN, None, full_buffer a), m\<lparr>waiting := (waiting m)(held m := as)\<rparr>))
        else ((int HIDRAW_BUF_LEN, None, []), m)),
      os_rawinfo = (\<lambda>_ _ m. ((0, None, \<lparr>di_bustype = 3, di_vendor = sint (fst (identity (held m))),
        di_product = sint (snd (identity (held m)))\<rparr>), m)),
      os_sleep = (\<lambda>_ m. m)\<rparr>"

interpretation machine: queue_kernel "machine_os identity" machine_queue "\<lambda>m _. held m" identity
  for identity :: "string \<Rightarrow> u16 \<times> u16"
  by unfold_locales
    (auto simp: machine_os_def machine_queue_def full_buffer_def HIDIOCSFEATURE_91_def HIDIOCGFEATURE_91_def fun_eq_iff
      split: list.splits)

text \<open>A machine with the keyboard of the sample file system, whose answers are those of an absent device.\<close>

definition answering_env :: "(machine \<times> os_event list) env" where
  "answering_env =
     \<lparr>env_os = traced_os (machine_os (\<lambda>_. (RAZER_VID, 0x028D))), env_files = (\<lambda>_. sample_files),
      env_command = (\<lambda>_ _ k. (None, k)), env_stopwatch = (\<lambda>k. (''1.000'', k))\<rparr>"

definition answering_run :: "(machine \<times> os_event list) run" where
  "answering_run = \<lparr>world = (\<lparr>waiting = \<lambda>_. away, held = []\<rparr>, []), printed = []\<rparr>"

definition sample_node :: hidraw_node where
  "sample_node = \<lparr>node_name = ''hidraw3'', node_path = ''/dev/hidraw3'', node_info = sample_info\<rparr>"

lemma sample_listed: "list_razer_nodes (real_sysfs_new sample_files) = Inr [sample_node]"
  using sample_nodes by (simp add: env_sysfs_def sample_env_def sample_node_def)

lemma sample_found: "find_device (real_sysfs_new sample_files) RAZER_VID 0x028D 3 = Inr sample_node"
proof -
  have "interface_info (real_sysfs sample_files ''/sys'') ''hidraw3'' = Inr (Some sample_info)"
    by (rule interface_info_tree [OF sample_tree])
  moreover have "hidraw_names (real_sysfs sample_files ''/sys'') = Inr [''hidraw3'']"
    by (simp add: real_sysfs_def real_hidraw_names_def sample_files_def)
  moreover have "device_path (real_sysfs sample_files ''/sys'') ''hidraw3'' = ''/dev/hidraw3''"
    by (simp add: real_sysfs_def path_join_def)
  ultimately show ?thesis
    by (simp add: find_device_def real_sysfs_new_def sort_by_index_def sample_info_def RAZER_VID_def sample_node_def)
qed

lemma away_full: "map full_buffer away = away"
proof -
  have "wf_report (reply cmd_get_firmware_version Timeout [])"
    by (simp add: wf_report_def reply_def fill_args_def cmd_get_firmware_version_def new_report_def)
  then have "length (0x00 # to_bytes (reply cmd_get_firmware_version Timeout [])) = HIDRAW_BUF_LEN"
    by (simp add: HIDRAW_BUF_LEN_def REPORT_LEN_def)
  then show ?thesis unfolding away_def map_replicate by (simp only: full_buffer_full)
qed

theorem info_prints_answers_witness:
  "\<exists>r'. info answering_env answering_run = Some (Inr (), r') \<and>
     printed r' = device_block blackwidow_v4_pro sample_node
         \<lparr>rep_firmware = ReceiverIdle, rep_serial = None, rep_device_mode = None\<rparr> @ closing_lines 1"
proof -
  have lookup: "lookup 0x028D = Some blackwidow_v4_pro"
    by (simp add: lookup_def TABLE_def device_defs)
  then have pids: "supported_pids [sample_node] [] = [0x028D]"
    by (simp add: sample_node_def sample_info_def Let_def)
  have queue: "machine_queue (fst (world answering_run)) = (\<lambda>_. away)"
    by (simp add: machine_queue_def answering_run_def away_full fun_eq_iff)
  have report: "report_of (\<lambda>_. away) sample_node = \<lparr>rep_firmware = ReceiverIdle, rep_serial = None, rep_device_mode = None\<rparr>"
    by (simp add: report_of_def probe_def away_idle)
  have env: "env_os answering_env = traced_os (machine_os (\<lambda>_. (RAZER_VID, 0x028D)))"
    "env_files answering_env = (\<lambda>_. sample_files)" by (simp_all add: answering_env_def)
  have found: "\<forall>p \<in> set [0x028D :: u16]. find_device (real_sysfs_new sample_files) RAZER_VID p (report_index (the (lookup p)))
      = Inr sample_node \<and> (RAZER_VID, 0x028D) = (RAZER_VID, p)"
    using sample_found by (simp add: lookup blackwidow_v4_pro_def)
  show ?thesis
    using info_prints_answers [OF machine.queue_kernel_axioms env sample_listed pids _ found refl, where r = answering_run]
    unfolding queue by (simp add: lookup report receiver_idle_def) (simp add: answering_run_def)
qed

end
