(* ===== verification/Razerd_Status.thy ===== *)
theory Razerd_Status
  imports Razerd_Main Razerd_Calls
begin

text \<open>
  What the exit status and the printed lines of \<open>razerd set-device-mode\<close> say about the device: the
  writes a run issues, whether or not the kernel accepts them, are counted in the recorded system calls
  and compared with the number of attempts that \<open>main.rs\<close> prints and with the status it exits with.
\<close>

subsection \<open>The write\<close>

lemma set_device_mode_issued:
  assumes "entry s \<in> set TABLE"
    and "set_device_mode (hidraw_io (traced_os os)) mode s = (res, s')"
  obtains n evs where "n \<in> {1..5}" "last_attempts s' = of_nat n" "device_calls s' = device_calls s @ evs"
    "issued evs = n" "paused evs \<le> transact_limit (entry s)"
proof -
  have "perform (hidraw_io (traced_os os)) (SetMode mode) s = outcome_of (\<lambda>_. Done) (res, s')"
    by (simp add: assms(2))
  moreover have "snd (outcome_of (\<lambda>_. Done) (res, s')) = s'" by simp
  ultimately obtain x where run: "perform (hidraw_io (traced_os os)) (SetMode mode) s = (x, s')"
    by (metis prod.collapse)
  have "request_for (entry s) (SetMode mode) = Inr (cmd_set_device_mode mode)"
    using assms(1) by (simp add: request_for_def table_capability)
  with perform_calls [OF run] that show thesis
    by (metis MAX_ATTEMPTS_def Suc_le_eq One_nat_def atLeastAtMost_iff)
qed

subsection \<open>Around the write\<close>

lemma open_issues_none: "open_outcome os p vid prd res evs \<Longrightarrow> issued evs = 0 \<and> paused evs = 0"
  by (auto simp: open_outcome_def split: sum.splits)

lemma watch_loop_prints: "\<exists>ls. printed (snd (watch_loop env before is r)) = printed r @ ls"
proof (induction "is" arbitrary: r)
  case (Cons i "is")
  obtain after k where dc: "disconnect_count env (os_sleep (env_os env) 1000000 (world r)) = (after, k)"
    by (rule prod.exhaust)
  from Cons.IH [of "r\<lparr>world := k\<rparr>"] show ?case
    by (auto simp: dc Let_def split: option.split)
qed simp

lemma watch_prints: "\<exists>ls. printed (watch env before r) = printed r @ ls"
proof -
  define r0 where "r0 = println ([CHR 0x0A] @ ''  watching for '' @ fmt_dec WATCH_SECONDS @ '' s ...'') r"
  obtain seen r1 where loop: "watch_loop env before [1..<WATCH_SECONDS + 1] r0 = (seen, r1)" by fastforce
  with watch_loop_prints [of env before "[1..<WATCH_SECONDS + 1]" r0]
  obtain ls where "printed r1 = printed r @ ls" by (auto simp: r0_def)
  then show ?thesis
    using loop unfolding watch_def r0_def [symmetric]
    by (cases seen) (auto simp: Let_def split: prod.split option.split)
qed

definition attempts_line :: "nat \<Rightarrow> string" where
  "attempts_line n = ''  attempts         '' @ fmt_dec n"

lemma outcome_lines_attempts:
  assumes "last_attempts s = of_nat n" and "n \<le> 5"
  shows "attempts_line n \<in> set (outcome_lines s tid elapsed result)"
proof -
  have "unat (last_attempts s) = n" using assms by (simp add: unat_of_nat)
  then show ?thesis by (simp add: outcome_lines_def attempts_line_def)
qed

text \<open>The writing part of the command: it fails only before a write was issued, and otherwise prints
  how many were; it sleeps in the transaction and in the watch.\<close>

lemma write_mode_issued:
  assumes "calls_only_os env" and "env_os env = traced_os os" and "e \<in> set TABLE"
    and "write_mode env e node mode o' r = (res, r')"
  shows "\<exists>evs lines. snd (world r') = snd (world r) @ evs \<and> printed r' = printed r @ lines \<and>
    paused evs \<le> transact_limit e + 90 * 1000000 \<and>
    (case res of Inl _ \<Rightarrow> issued evs = 0
     | Inr _ \<Rightarrow> issued evs \<in> {1..5} \<and> attempts_line (issued evs) \<in> set lines)"
proof -
  obtain before w0 where dc: "disconnect_count env (world r) = (before, w0)" by (rule prod.exhaust)
  then have w0: "snd w0 = snd (world r)" using disconnect_count_calls [OF assms(1)] by (metis snd_conv)
  define r0 where "r0 = (case before of None \<Rightarrow> r\<lparr>world := w0\<rparr>
    | Some b \<Rightarrow> println (''  disconnects before: '' @ fmt_dec b) (r\<lparr>world := w0\<rparr>))"
  have r0: "world r0 = w0" "\<exists>ls. printed r0 = printed r @ ls" by (auto simp: r0_def split: option.split)
  obtain k tr where w0_parts: "w0 = (k, tr)" by fastforce
  obtain got k1 tr1 where op: "hidraw_open_expecting (traced_os os) (node_path node) RAZER_VID 0x028D (k, tr)
      = (got, k1, tr1)" by (metis prod.exhaust)
  from open_expecting_outcome [OF op] obtain evs where evs: "tr1 = tr @ evs" "issued evs = 0" "paused evs = 0"
    using open_issues_none by blast
  note run = assms(4) [unfolded write_mode_def dc prod.case Let_def r0_def [symmetric],
      unfolded assms(2) r0, unfolded w0_parts op]
  show ?thesis
  proof (cases got)
    case (Inl err)
    with run evs w0 r0(2) show ?thesis by (auto simp: w0_parts)
  next
    case (Inr dev)
    define s where "s = (case o' of None \<Rightarrow> session_new e (dev, k1, tr1)
      | Some t \<Rightarrow> with_transaction_id_override (session_new e (dev, k1, tr1)) t)"
    have s: "entry s = e" "device_calls s = tr1"
      by (simp_all add: s_def device_calls_def session_new_def with_transaction_id_override_def split: option.split)
    obtain result s' where set: "set_device_mode (hidraw_io (traced_os os)) mode s = (result, s')" by fastforce
    have "entry s \<in> set TABLE" using assms(3) by (simp add: s)
    from set_device_mode_issued [OF this set] obtain n evs' where n: "n \<in> {1..5}" "last_attempts s' = of_nat n"
      and evs': "device_calls s' = tr1 @ evs'" and count: "issued evs' = n" "paused evs' \<le> transact_limit e"
      unfolding s .
    obtain elapsed w2 where sw: "env_stopwatch env (snd (io s')) = (elapsed, w2)" by (rule prod.exhaust)
    then have w2: "snd w2 = tr1 @ evs'"
      using assms(1) evs' by (metis calls_only_os_def snd_conv device_calls_def)
    define r1 where "r1 = print_all (outcome_lines s' (chosen_tid e o') elapsed result) (r0\<lparr>world := w2\<rparr>)"
    obtain m where m: "m \<le> 90" "snd (world (watch env before r1)) = tr1 @ evs' @ replicate m (OsSleepEv 1000000)"
      using watch_calls [OF assms(1,2), of before r1] w2 by (auto simp: r1_def print_all_def)
    obtain ls where ls: "printed (watch env before r1) = printed r1 @ ls" using watch_prints by blast
    have fin: "res = Inr () \<and> r' = (watch env before r1)\<lparr>world :=
        hidraw_drop (traced_os os) (fst (io s')) (world (watch env before r1))\<rparr>"
      using run unfolding Inr sum.case prod.case s_def [symmetric] chosen_tid_def [symmetric]
      unfolding set prod.case sw r1_def [symmetric] by simp
    have "snd (world r') = snd (world r) @ (evs @ evs' @ replicate m (OsSleepEv 1000000) @ [CloseEv (dev_file (fst (io s')))])"
      using fin m(2) evs(1) w0 by (simp add: w0_parts hidraw_drop_def) (simp add: traced_os_def split_beta)
    moreover have "printed r' = printed r0 @ outcome_lines s' (chosen_tid e o') elapsed result @ ls"
      using fin ls by (simp add: r1_def print_all_def)
    moreover have "attempts_line n \<in> set (outcome_lines s' (chosen_tid e o') elapsed result)"
      using n by (intro outcome_lines_attempts) simp_all
    ultimately show ?thesis
      using fin evs(2,3) count n(1) r0(2) m(1)
      by (auto intro!: exI [of _ "evs @ evs' @ replicate m (OsSleepEv 1000000) @ [CloseEv (dev_file (fst (io s')))]"])
  qed
qed

text \<open>C16: the exit status of \<open>razerd set-device-mode\<close> tells whether a write was attempted, not whether it
  succeeded: over any kernel, when it is failure no feature write was issued at all, and when it is
  success between one and five were, as many as the printed line of attempts says, whether the kernel
  accepted or refused them and whatever the device answered.\<close>

theorem exit_status_tells_attempts:
  assumes "calls_only_os env" and "env_os env = traced_os os"
  shows "case razerd_main env version (''set-device-mode'' # args) r of
      None \<Rightarrow> False
    | Some ((ok, err), r') \<Rightarrow>
        \<exists>evs lines. snd (world r') = snd (world r) @ evs \<and> printed r' = printed r @ lines \<and>
          (if ok then issued evs \<in> {1..5} \<and> attempts_line (issued evs) \<in> set lines else issued evs = 0)"
proof -
  obtain res r' where run: "set_device_mode_command env args r = (res, r')" by (rule prod.exhaust)
  have "\<exists>evs lines. snd (world r') = snd (world r) @ evs \<and> printed r' = printed r @ lines \<and>
      (case res of Inl _ \<Rightarrow> issued evs = 0
       | Inr _ \<Rightarrow> issued evs \<in> {1..5} \<and> attempts_line (issued evs) \<in> set lines)"
  proof (cases "\<exists>err. res = Inl err \<and> world r' = world r \<and> printed r' = printed r")
    case True
    then show ?thesis by auto
  next
    case False
    with run obtain e node mode o' where "lookup 0x028D = Some e" and
      "write_mode env e node mode o' (print_all (announce e node mode o') r) = (res, r')"
      by (auto simp: set_device_mode_command_def split: sum.splits option.splits)
    with write_mode_issued [OF assms _ this(2)] show ?thesis
      by (cases res) (auto simp: lookup_Some print_all_def)
  qed
  then show ?thesis
    by (cases res) (auto simp: razerd_main_def run finish_def)
qed

theorem exit_status_tells_attempts_witness:
  "case razerd_main sample_env ''0.1.0'' [''set-device-mode'', ''driver'', ''--yes-i-am-at-the-desk''] sample_run of
      None \<Rightarrow> False
    | Some ((ok, err), r') \<Rightarrow> if ok then issued (snd (world r')) \<in> {1..5} else issued (snd (world r')) = 0"
proof -
  have env: "calls_only_os sample_env" "env_os sample_env = traced_os silent_os"
    by (simp_all add: calls_only_os_def sample_env_def)
  from exit_status_tells_attempts [OF env, where version = "''0.1.0''" and args = "[''driver'', ''--yes-i-am-at-the-desk'']" and r = sample_run]
  show ?thesis by (auto simp: sample_run_def split: option.splits prod.splits if_splits)
qed

end
