(* ===== verification/Razerd_Invocation.thy ===== *)
theory Razerd_Invocation
  imports Razerd_Status
begin

text \<open>
  The binary as a whole (\<open>crates/razerd/src/main.rs\<close>): what any invocation, with any arguments and over
  any kernel and file system, does to the devices and how long it sleeps. The theorems compose those
  of the subcommands through the dispatch of \<open>main\<close>.
\<close>

subsection \<open>The writing subcommand\<close>

lemma blackwidow_lookup: "lookup 0x028D = Some blackwidow_v4_pro"
  by (simp add: lookup_def TABLE_def device_defs)

lemma mode_command_run:
  assumes "calls_only_os env" and "env_os env = traced_os os"
    and "set_device_mode_command env args r = (res, r')"
  obtains evs where "snd (world r') = snd (world r) @ evs" "opened_fds evs = closed_fds evs" "paused evs \<le> 90043000"
    "evs = [] \<or> (\<exists>mode o'. parse_mode_args args = Inr (mode, o') \<and>
       list_all (mode_call mode (chosen_tid blackwidow_v4_pro o')) evs)"
proof (cases "world r' = world r")
  case True
  then show thesis by (intro that [of "[]"]) simp_all
next
  case False
  with assms(3) obtain node mode o' where parse: "parse_mode_args args = Inr (mode, o')"
    and run: "write_mode env blackwidow_v4_pro node mode o' (print_all (announce blackwidow_v4_pro node mode o') r) = (res, r')"
    by (auto simp: set_device_mode_command_def blackwidow_lookup split: sum.splits)
  have "blackwidow_v4_pro \<in> set TABLE" by (simp add: TABLE_def)
  from write_mode_issued [OF assms(1,2) this run]
  obtain evs where "snd (world r') = snd (world r) @ evs" "paused evs \<le> transact_limit blackwidow_v4_pro + 90 * 1000000"
    by (auto simp: print_all_def)
  moreover from write_mode_calls [OF assms(1,2), of blackwidow_v4_pro node mode o' "print_all (announce blackwidow_v4_pro node mode o') r", unfolded run snd_conv]
  obtain evs' where "snd (world r') = snd (world r) @ evs'" "mode_calls mode (chosen_tid blackwidow_v4_pro o') evs'"
    by (auto simp: print_all_def)
  moreover have "transact_limit blackwidow_v4_pro = 43000"
    by (simp add: transact_limit_def MAX_ATTEMPTS_def RETRY_DELAY_def blackwidow_v4_pro_def)
  ultimately show thesis using parse by (intro that [of evs]) (auto simp: mode_calls_def)
qed

subsection \<open>Any invocation\<close>

text \<open>A frame a run may write: a read stamped 0x1F, or the device-mode command that was asked for and
  confirmed.\<close>

definition permitted_frame :: "string list \<Rightarrow> bytes \<Rightarrow> bool" where
  "permitted_frame args buf \<longleftrightarrow>
     reading_frame 0x1F buf \<or>
     (\<exists>rest mode o'. args = ''set-device-mode'' # rest \<and> confirm_flag \<in> set rest \<and>
        parse_mode_args rest = Inr (mode, o') \<and>
        buf = frame (case o' of None \<Rightarrow> 0x1F | Some t \<Rightarrow> t) (cmd_set_device_mode mode))"

definition permitted_call :: "string list \<Rightarrow> os_event \<Rightarrow> bool" where
  "permitted_call args ev =
     (case ev of
        FeatureEv fd req buf \<Rightarrow>
          req = HIDIOCGFEATURE_91 \<or> req = HIDIOCSFEATURE_91 \<and> permitted_frame args buf
      | _ \<Rightarrow> True)"

lemma permitted_reads: "list_all read_call evs \<Longrightarrow> list_all (permitted_call args) evs"
  by (erule list.pred_mono_strong) (auto simp: read_call_def permitted_call_def permitted_frame_def split: os_event.splits)

lemma permitted_modes:
  assumes "parse_mode_args rest = Inr (mode, o')" and "list_all (mode_call mode (chosen_tid blackwidow_v4_pro o')) evs"
  shows "list_all (permitted_call (''set-device-mode'' # rest)) evs"
proof -
  have "chosen_tid blackwidow_v4_pro o' = (case o' of None \<Rightarrow> 0x1F | Some t \<Rightarrow> t)"
    by (simp add: chosen_tid_def blackwidow_v4_pro_def split: option.split)
  with assms(2) parse_mode_args_Inr [OF assms(1)] assms(1) show ?thesis
    by (elim list.pred_mono_strong) (auto simp: mode_call_def permitted_call_def permitted_frame_def split: os_event.splits)
qed

lemma frame_tid:
  assumes "wf_report request"
  shows "frame tid request ! 2 = tid"
  using frame_nth_Suc [of tid request 1] to_bytes_fields(2) [of "with_transaction_id request tid"] assms
  by (simp add: with_transaction_id_def wf_report_def numeral_2_eq_2)

lemma parse_tid_given: "parse_tid args = Inr (Some t) \<Longrightarrow> tid_flag \<in> set args"
proof -
  have "position a xs \<noteq> None \<Longrightarrow> a \<in> set xs" for a :: string and xs
    by (induction xs) (auto split: if_splits)
  then show "parse_tid args = Inr (Some t) \<Longrightarrow> ?thesis"
    by (auto simp: parse_tid_def split: option.splits)
qed

lemma permitted_frame_tid:
  assumes "permitted_frame args buf" and "buf ! 2 \<noteq> 0x1F"
  shows "tid_flag \<in> set args"
proof -
  have "constructed (cmd_set_device_mode mode)" for mode by simp
  note tid = frame_tid [OF constructed_wf [OF this]]
  have "\<not> reading_frame 0x1F buf"
    using assms(2) by (auto simp: reading_frame_def typed_frame_def stamped_def)
  with assms obtain rest mode o' where "args = ''set-device-mode'' # rest" "parse_mode_args rest = Inr (mode, o')"
    "buf = frame (case o' of None \<Rightarrow> 0x1F | Some t \<Rightarrow> t) (cmd_set_device_mode mode)"
    unfolding permitted_frame_def by blast
  moreover from this tid assms(2) obtain t where "o' = Some t" by (cases o') auto
  ultimately show ?thesis
    using parse_mode_args_Inr [of rest mode o'] parse_tid_given [of rest t] by simp
qed

definition pause_limit :: "string list \<Rightarrow> nat" where
  "pause_limit args =
     (case args of
        [] \<Rightarrow> 0
      | a # _ \<Rightarrow> if a = ''info'' then 1299000 else if a = ''set-device-mode'' then 90043000 else 0)"

lemma invocation_run:
  assumes "calls_only_os env" and "env_os env = traced_os os"
  obtains out r' evs where "razerd_main env version args r = Some (out, r')" "snd (world r') = snd (world r) @ evs"
    "list_all (permitted_call args) evs" "opened_fds evs = closed_fds evs" "paused evs \<le> pause_limit args"
proof -
  have finish: "\<exists>out. finish x = (out, snd x)" for x :: "(string + unit) \<times> ('a \<times> os_event list) run"
    by (auto simp: finish_def split: prod.split sum.split)
  note result = that
  have quiet: thesis if "razerd_main env version args r = Some (out, r')" "world r' = world r" for out r'
    using that by (intro result [of out r' "[]"]) simp_all
  show thesis
  proof (cases args)
    case Nil
    then show ?thesis by (intro quiet) (simp_all add: razerd_main_def)
  next
    case (Cons a rest)
    consider "a = ''info''" | "a = ''list''" | "a = ''set-device-mode''" | "a \<notin> {''info'', ''list'', ''set-device-mode''}"
      by auto
    then show ?thesis
    proof cases
      case 1
      obtain res r' evs where "info env r = Some (res, r')" and evs: "snd (world r') = snd (world r) @ evs"
        "reads_only evs" "paused evs \<le> 1299000" by (rule info_run [OF assms(2)])
      moreover obtain out where "finish (res, r') = (out, r')" using finish [of "(res, r')"] by auto
      ultimately have "razerd_main env version args r = Some (out, r')"
        by (simp add: razerd_main_def Cons 1)
      then show ?thesis
        using evs by (intro that [of out r' evs]) (simp_all add: permitted_reads reads_only_def pause_limit_def Cons 1)
    next
      case 2
      obtain out where "finish (list_nodes env r) = (out, snd (list_nodes env r))" using finish by blast
      then show ?thesis
        by (intro quiet [of out "snd (list_nodes env r)"]) (simp_all add: razerd_main_def Cons 2 list_world)
    next
      case 3
      obtain res r' where run: "set_device_mode_command env rest r = (res, r')" by (rule prod.exhaust)
      moreover obtain out where "finish (res, r') = (out, r')" using finish [of "(res, r')"] by auto
      ultimately have main: "razerd_main env version args r = Some (out, r')"
        by (simp add: razerd_main_def Cons 3)
      obtain evs where "snd (world r') = snd (world r) @ evs" "opened_fds evs = closed_fds evs" "paused evs \<le> 90043000"
        "evs = [] \<or> (\<exists>mode o'. parse_mode_args rest = Inr (mode, o') \<and>
           list_all (mode_call mode (chosen_tid blackwidow_v4_pro o')) evs)"
        by (rule mode_command_run [OF assms run])
      with main show ?thesis
        by (intro that [of out r' evs]) (auto simp: pause_limit_def Cons 3 intro: permitted_modes)
    next
      case 4
      then have "\<exists>out r'. razerd_main env version args r = Some (out, r') \<and> world r' = world r"
        by (simp add: razerd_main_def Cons) (intro conjI impI exI [of _ True] exI [of _ False]; simp)
      with quiet show ?thesis by blast
    qed
  qed
qed

text \<open>C10: whatever the arguments, the kernel and the file system, an invocation of the binary writes to a
  device only reads stamped 0x1F and, when \<open>set-device-mode\<close> was asked for and confirmed, the mode
  command with the requested mode and id; it closes every descriptor it obtained; and a frame with
  another transaction id than 0x1F leaves only if the arguments name one with \<open>--transaction-id\<close>.\<close>

theorem invocation_safe:
  assumes "calls_only_os env" and "env_os env = traced_os os"
  shows "case razerd_main env version args r of
      None \<Rightarrow> False
    | Some (out, r') \<Rightarrow> \<exists>evs. snd (world r') = snd (world r) @ evs \<and>
        list_all (permitted_call args) evs \<and> opened_fds evs = closed_fds evs \<and>
        (\<forall>fd buf. FeatureEv fd HIDIOCSFEATURE_91 buf \<in> set evs \<longrightarrow> buf ! 2 \<noteq> 0x1F \<longrightarrow> tid_flag \<in> set args)"
proof -
  obtain out r' evs where run: "razerd_main env version args r = Some (out, r')"
    and evs: "snd (world r') = snd (world r) @ evs" "list_all (permitted_call args) evs" "opened_fds evs = closed_fds evs"
    by (rule invocation_run [OF assms])
  have "tid_flag \<in> set args" if "FeatureEv fd HIDIOCSFEATURE_91 buf \<in> set evs" "buf ! 2 \<noteq> 0x1F" for fd buf
  proof -
    have "permitted_call args (FeatureEv fd HIDIOCSFEATURE_91 buf)"
      using evs(2) that(1) by (simp add: list_all_iff)
    then show ?thesis
      using that(2) by (auto simp: permitted_call_def HIDIOCSFEATURE_91_def HIDIOCGFEATURE_91_def dest: permitted_frame_tid)
  qed
  with run evs show ?thesis by auto
qed

theorem invocation_safe_witness:
  "case razerd_main sample_env ''0.1.0'' [''set-device-mode'', ''driver'', ''--yes-i-am-at-the-desk''] sample_run of
     None \<Rightarrow> False
   | Some (out, r') \<Rightarrow> \<forall>fd buf. FeatureEv fd HIDIOCSFEATURE_91 buf \<in> set (snd (world r')) \<longrightarrow> buf ! 2 = 0x1F"
proof -
  have env: "calls_only_os sample_env" "env_os sample_env = traced_os silent_os"
    by (simp_all add: calls_only_os_def sample_env_def)
  from invocation_safe [OF env, where version = "''0.1.0''"
      and args = "[''set-device-mode'', ''driver'', ''--yes-i-am-at-the-desk'']" and r = sample_run]
  show ?thesis by (auto simp: sample_run_def tid_flag_def split: option.splits prod.splits)
qed

text \<open>C23: no invocation blocks for long: \<open>info\<close> sleeps at most 1.299 s over all devices (three readings of
  each of the three devices of the table, five attempts each), \<open>set-device-mode\<close> at most 43 ms for its
  write and 90 s for the watch, and every other invocation not at all.\<close>

theorem invocation_time_bound:
  assumes "calls_only_os env" and "env_os env = traced_os os"
  shows "case razerd_main env version args r of
      None \<Rightarrow> False
    | Some (out, r') \<Rightarrow> \<exists>evs. snd (world r') = snd (world r) @ evs \<and>
        paused evs \<le> (case args of
            [] \<Rightarrow> 0
          | a # _ \<Rightarrow> if a = ''info'' then 1299000 else if a = ''set-device-mode'' then 90043000 else 0)"
  by (rule invocation_run [OF assms, of version args r]) (auto simp: pause_limit_def)

theorem invocation_time_bound_witness:
  "case razerd_main sample_env ''0.1.0'' [''info''] sample_run of
     None \<Rightarrow> False
   | Some (out, r') \<Rightarrow> paused (snd (world r')) \<le> 1299000"
proof -
  have env: "calls_only_os sample_env" "env_os sample_env = traced_os silent_os"
    by (simp_all add: calls_only_os_def sample_env_def)
  from invocation_time_bound [OF env, where version = "''0.1.0''" and args = "[''info'']" and r = sample_run]
  show ?thesis by (auto simp: sample_run_def split: option.splits prod.splits)
qed

end
