(* ===== verification/Razerd_Watch.thy ===== *)
theory Razerd_Watch
  imports Razerd_Mode
begin

text \<open>
  What the watch after a device-mode write (\<open>set_device_mode\<close> in \<open>crates/razerd/src/main.rs\<close>) reports,
  against a specification by the readings of the kernel log: one second of sleep and one count of
  disconnects make a reading, and the first of the ninety that exceeds the count before the write is
  the one reported.
\<close>

subsection \<open>The readings\<close>

definition log_step :: "'k env \<Rightarrow> 'k \<Rightarrow> nat option \<times> 'k" where
  "log_step env k = disconnect_count env (os_sleep (env_os env) 1000000 k)"

definition later :: "'k env \<Rightarrow> nat \<Rightarrow> 'k \<Rightarrow> 'k" where
  "later env n = ((\<lambda>k. snd (log_step env k)) ^^ n)"

text \<open>The reading after \<open>n\<close> others.\<close>

definition reading_at :: "'k env \<Rightarrow> 'k \<Rightarrow> nat \<Rightarrow> nat option" where
  "reading_at env k n = fst (log_step env (later env n k))"

fun risen :: "nat option \<Rightarrow> nat option \<Rightarrow> bool" where
  "risen (Some b) (Some a) = (b < a)"
| "risen _ _ = False"

lemma later_0 [simp]: "later env 0 k = k"
  by (simp add: later_def)

lemma later_Suc: "later env (Suc n) k = later env n (snd (log_step env k))"
  by (simp add: later_def funpow_Suc_right del: funpow.simps)

lemma reading_at_Suc: "reading_at env k (Suc n) = reading_at env (snd (log_step env k)) n"
  by (simp add: reading_at_def later_Suc)

subsection \<open>The lines\<close>

fun alarm_lines :: "nat \<Rightarrow> nat option \<Rightarrow> nat option \<Rightarrow> string list" where
  "alarm_lines i (Some b) (Some a) =
     [''  *** USB DISCONNECT after '' @ fmt_dec i @ '' s (count '' @ fmt_dec b @ '' -> '' @ fmt_dec a @ '')'',
      ''  *** replug the keyboard. This transaction id is NOT safe.'']"
| "alarm_lines i _ _ = []"

fun summary_lines :: "nat option \<Rightarrow> nat option \<Rightarrow> string list" where
  "summary_lines (Some b) (Some a) =
     [''  disconnects after:  '' @ fmt_dec a @ '' (was '' @ fmt_dec b @ '') '' @ em_dash
        @ '' no reset within '' @ fmt_dec WATCH_SECONDS @ '' s'',
      ''  (the observed range is 4-73 s, so this window clears it '' @ em_dash @ '' but see below)'']"
| "summary_lines _ _ = []"

definition watch_line :: string where
  "watch_line = [CHR 0x0A] @ ''  watching for '' @ fmt_dec WATCH_SECONDS @ '' s ...''"

definition note_line :: string where
  "note_line = [CHR 0x0A] @ ''  NOTE: one trial is not the experiment. See docs/phase3-experiment.md.''"

subsection \<open>The loop\<close>

lemma find_upt_Suc:
  "List.find P [0..<Suc n] = (if P 0 then Some 0 else map_option Suc (List.find (\<lambda>j. P (Suc j)) [0..<n]))"
proof -
  have find: "List.find P (map Suc xs) = map_option Suc (List.find (\<lambda>j. P (Suc j)) xs)" for xs
    by (induction xs) simp_all
  have "[0..<Suc n] = 0 # map Suc [0..<n]"
    by (simp only: map_Suc_upt upt_conv_Cons zero_less_Suc)
  then show ?thesis by (simp only: List.find.simps find if_cancel simp_thms)
qed

lemma watch_loop_readings:
  "watch_loop env before [i..<i + n] r =
     (case List.find (\<lambda>j. risen before (reading_at env (world r) j)) [0..<n] of
        None \<Rightarrow> (False, r\<lparr>world := later env n (world r)\<rparr>)
      | Some j \<Rightarrow> (True, print_all (alarm_lines (i + j) before (reading_at env (world r) j))
          (r\<lparr>world := later env (Suc j) (world r)\<rparr>)))"
proof (induction n arbitrary: i r)
  case 0
  then show ?case by simp
next
  case (Suc n)
  obtain after k where step: "log_step env (world r) = (after, k)" by (rule prod.exhaust)
  then have first: "reading_at env (world r) 0 = after" by (simp add: reading_at_def)
  note count = step [unfolded log_step_def]
  have loop: "watch_loop env before [i..<i + Suc n] r =
      (if risen before after then (True, print_all (alarm_lines i before after) (r\<lparr>world := k\<rparr>))
       else watch_loop env before [Suc i..<Suc i + n] (r\<lparr>world := k\<rparr>))"
    by (cases before; cases after)
      (simp_all add: upt_conv_Cons count Let_def println_def print_all_def del: upt_Suc)
  show ?case
    unfolding loop find_upt_Suc first Suc.IH
    by (simp add: first reading_at_Suc later_Suc step split: option.split)
qed

text \<open>C14: the watch reports a firmware reset exactly when it can be seen: over every system, if one of
  the ninety readings, a second apart, exceeds the count from before the write, it prints the alarm
  with the second and the counts of the first that does and nothing more; otherwise it prints no alarm
  but the final count, when the log could be read before and after, and the closing note.\<close>

theorem watch_reports_first_disconnect:
  "printed (watch env before r) = printed r @ watch_line #
     (case List.find (\<lambda>j. risen before (reading_at env (world r) j)) [0..<90] of
        Some j \<Rightarrow> alarm_lines (Suc j) before (reading_at env (world r) j)
      | None \<Rightarrow> summary_lines before (fst (disconnect_count env (later env 90 (world r)))) @ [note_line])"
proof -
  let ?found = "List.find (\<lambda>j. risen before (reading_at env (world r) j)) [0..<90]"
  define r0 where "r0 = println watch_line r"
  have r0: "world r0 = world r" "printed r0 = printed r @ [watch_line]" by (simp_all add: r0_def)
  have loop: "watch_loop env before [1..<WATCH_SECONDS + 1] r0 =
      (case ?found of
         None \<Rightarrow> (False, r0\<lparr>world := later env 90 (world r)\<rparr>)
       | Some j \<Rightarrow> (True, print_all (alarm_lines (Suc j) before (reading_at env (world r) j))
           (r0\<lparr>world := later env (Suc j) (world r)\<rparr>)))"
    using watch_loop_readings [of env before 1 90 r0] by (simp only: r0 WATCH_SECONDS_def) (simp del: upt_Suc upt_rec_numeral cong: option.case_cong)
  obtain after k where final: "disconnect_count env (later env 90 (world r)) = (after, k)" by (rule prod.exhaust)
  show ?thesis
  proof (cases ?found)
    case (Some j)
    then show ?thesis
      unfolding watch_def watch_line_def [symmetric] r0_def [symmetric] Let_def loop
      by (simp add: print_all_def r0)
  next
    case None
    then show ?thesis
      unfolding watch_def watch_line_def [symmetric] r0_def [symmetric] Let_def loop
      by (cases before; cases after) (simp_all add: final r0 note_line_def)
  qed
qed

end
