(* ===== verification/Session_Types.thy ===== *)
theory Session_Types
  imports Session_Safety
begin

text \<open>
  What the operations of a session return, whatever the kernel puts into the buffers: the fields of a
  response and the values read from it stay within the types and ranges the code declares for them.
\<close>

subsection \<open>Where a response comes from\<close>

lemma transact_loop_returns:
  "transact_loop E request attempts last_error s = (Inr response, s') \<Longrightarrow>
    check_response request response = Inr () \<and> (\<exists>t t'. receive E t = (Inr response, t'))"
proof (induction attempts arbitrary: last_error s)
  case (Cons attempt attempts)
  then obtain u t sa where got: "receive E sa = (Inr u, t)"
    and rest: "(case check_response request u of
        Inr _ \<Rightarrow> (Inr u, t\<lparr>last_response_tid := Some (transaction_id u)\<rparr>)
      | Inl e \<Rightarrow> transact_loop E request attempts (Some e) (t\<lparr>last_response_tid := Some (transaction_id u)\<rparr>))
      = (Inr response, s')"
    by (auto simp: Let_def and_then_Inr transact_raw_def)
  show ?case
  proof (cases "check_response request u")
    case (Inl e)
    with rest Cons.IH show ?thesis by auto
  next
    case (Inr v)
    with rest got show ?thesis by auto
  qed
qed simp

lemma transact_returns:
  "transact E request s = (Inr response, s') \<Longrightarrow>
    check_response request response = Inr () \<and> (\<exists>t t'. receive E t = (Inr response, t'))"
  unfolding transact_def by (rule transact_loop_returns)

context feature_transport begin

lemma receive_report:
  assumes "inv (io s)" and "receive E s = (Inr response, s')"
  shows "wf_report response \<and> canonical_status (status response)"
proof -
  obtain got buf w where get: "get_feature E (replicate HIDRAW_BUF_LEN 0) (io s) = ((Inr got, buf), w)"
    and resp: "response = from_bytes (copy_slice 0 (drop 1 buf) (replicate (HIDRAW_BUF_LEN - 1) 0))"
    using assms(2) by (auto simp: receive_def Let_def split: prod.splits sum.splits if_splits)
  have "length buf = HIDRAW_BUF_LEN" using get_feature_length [OF assms(1) _ get] by simp
  then have "length (copy_slice 0 (drop 1 buf) (replicate (HIDRAW_BUF_LEN - 1) 0)) = REPORT_LEN"
    by (simp add: HIDRAW_BUF_LEN_def REPORT_LEN_def)
  then show ?thesis by (simp add: resp) (simp add: from_bytes_def)
qed

end

subsection \<open>The values read\<close>

lemma read_value:
  assumes "fst (and_then (g, s) (\<lambda>u s. and_then (transact E request s) (\<lambda>response s. (map_err Proto (parse response), s))))
      = Inr v"
  shows "\<exists>response. parse response = Inr v"
proof -
  obtain res t where "transact E request s = (res, t)" by (rule prod.exhaust)
  with assms show ?thesis by (cases g; cases res) auto
qed

lemma serial_value: "fst (serial E s) = Inr sn \<Longrightarrow> \<exists>response. parse_serial response = Inr sn"
  unfolding serial_def by (rule read_value)

lemma poll_rate_value:
  "fst (get_poll_rate E s) = Inr rate \<Longrightarrow> poll_rate_kind (entry s) = Legacy \<Longrightarrow>
    \<exists>response. parse_poll_rate_legacy response = Inr rate"
  using read_value [of "require s CAP_POLL_RATE ''poll rate''" s E cmd_get_poll_rate_legacy parse_poll_rate_legacy rate]
  unfolding get_poll_rate_def by (cases "require s CAP_POLL_RATE ''poll rate''") auto

lemma transact_well_typed:
  "transact (hidraw_io os) request s = (Inr response, s') \<Longrightarrow>
    length (arguments response) = 80 \<and> status response \<in> {Successful, Busy} \<and>
    from_bytes (to_bytes response) = response\<lparr>crc_byte := crc (to_bytes response)\<rparr>"
proof -
  assume "transact (hidraw_io os) request s = (Inr response, s')"
  with transact_returns obtain t t' where "check_response request response = Inr ()"
    and "receive (hidraw_io os) t = (Inr response, t')" by blast
  with hidraw.receive_report [OF TrueI] have "wf_report response" "canonical_status (status response)"
    "is_ok (status response)" by (auto simp: check_response_ok)
  then show ?thesis
    by (simp add: decode_encode is_ok_iff) (simp add: wf_report_def ARGS_LEN_def)
qed

lemma serial_well_typed:
  assumes "fst (serial E s) = Inr sn"
  shows "length sn \<le> 22 \<and> list_all (\<lambda>c. 0 < ord c \<and> ord c < 128) sn \<and>
    list_all (\<lambda>c. c \<notin> set ascii_whitespace) (take 1 (rev sn))"
proof -
  obtain response where "parse_serial response = Inr sn" using serial_value [OF assms] by blast
  from serial_shape [OF this refl] show ?thesis by (cases sn rule: rev_cases) simp_all
qed

lemma poll_rate_well_typed:
  "fst (get_poll_rate E s) = Inr rate \<Longrightarrow> poll_rate_kind (entry s) = V2 \<or> rate \<in> {Hz125, Hz500, Hz1000}"
  by (cases "poll_rate_kind (entry s)")
    (fastforce simp: parse_poll_rate_legacy_def from_legacy_code_def split: if_splits dest: poll_rate_value)+

text \<open>C22: whatever the kernel puts into the buffers, what a session over \<open>hidraw\<close> hands out is of the shape
  its type declares: a response has exactly 80 argument bytes, a status that decodes to itself and is
  Successful or Busy; a serial is at most 22 ASCII characters, none of them NUL though other control characters may occur,
  without trailing white space; and a device of the legacy family never reports a rate that family cannot encode.\<close>

theorem readings_well_typed:
  "(case fst (transact (hidraw_io os) request s) of
      Inl _ \<Rightarrow> True
    | Inr response \<Rightarrow> length (arguments response) = 80 \<and> status response \<in> {Successful, Busy} \<and>
        from_bytes (to_bytes response) = response\<lparr>crc_byte := crc (to_bytes response)\<rparr>) \<and>
   (case fst (serial (hidraw_io os) s) of
      Inl _ \<Rightarrow> True
    | Inr sn \<Rightarrow> length sn \<le> 22 \<and> list_all (\<lambda>c. 0 < ord c \<and> ord c < 128) sn \<and>
        list_all (\<lambda>c. c \<notin> set ascii_whitespace) (take 1 (rev sn))) \<and>
   (case fst (get_poll_rate (hidraw_io os) s) of
      Inl _ \<Rightarrow> True
    | Inr rate \<Rightarrow> poll_rate_kind (entry s) = V2 \<or> rate \<in> {Hz125, Hz500, Hz1000})"
  using transact_well_typed [of os request s] serial_well_typed [of "hidraw_io os" s]
    poll_rate_well_typed [of "hidraw_io os" s]
  by (cases "transact (hidraw_io os) request s") (simp split: sum.split)

end
