(* ===== verification/Session_Device.thy ===== *)
theory Session_Device
  imports Session_Mock Session_Operations
begin

text \<open>
  The session against a device that keeps what it is told. The firmware is not part of the program;
  what the protocol says of it is the hypothesis \<open>keeps_registers\<close>, on a transport whose world holds
  one register for each command, with the direction bit of the command id cleared, and, for the
  extended matrix class, for each storage and lamp its first two arguments name. The transport may
  still fail, answer short, late or wrongly at any point.
\<close>

subsection \<open>Registers\<close>

type_synonym register = "u8 \<times> u8 \<times> bytes"

definition register_of :: "razer_report \<Rightarrow> register" where
  "register_of request =
     (command_class request, command_id request AND 0x7F,
      if command_class request = 0x0F then take 2 (arguments request) else [])"

definition store :: "razer_report \<Rightarrow> (register \<Rightarrow> bytes) \<Rightarrow> register \<Rightarrow> bytes" where
  "store request regs =
     (if is_get request then regs else regs(register_of request := arguments request))"

lemma store_idem [simp]: "store request (store request regs) = store request regs"
  by (simp add: store_def)

text \<open>
  A frame may or may not be carried out, whatever the call returns; reading and pausing change no
  register; and when the response read after a frame is one that the session accepts, the frame was
  carried out, and a reading command was answered with the content of its register.
\<close>

definition keeps_registers :: "'w hid_io \<Rightarrow> ('w \<Rightarrow> register \<Rightarrow> bytes) \<Rightarrow> bool" where
  "keeps_registers E regs \<longleftrightarrow>
     (\<forall>request tid w. constructed request \<longrightarrow>
        regs (snd (set_feature E (frame tid request) w)) \<in> {regs w, store request (regs w)}) \<and>
     (\<forall>buf w. regs (snd (get_feature E buf w)) = regs w) \<and>
     (\<forall>d w. regs (clock_sleep E d w) = regs w) \<and>
     (\<forall>request tid d w w1 n buf w2.
        constructed request \<longrightarrow> set_feature E (frame tid request) w = (Inr (), w1) \<longrightarrow>
        get_feature E (replicate HIDRAW_BUF_LEN 0) (clock_sleep E d w1) = ((Inr n, buf), w2) \<longrightarrow>
        HIDRAW_BUF_LEN \<le> n \<longrightarrow> accepts request buf \<longrightarrow>
        regs w1 = store request (regs w) \<and>
        (is_get request \<longrightarrow> arguments (mock_decode buf) = regs w (register_of request)))"

lemma keeps_registersD:
  assumes "keeps_registers E regs"
  shows "constructed request \<Longrightarrow>
      regs (snd (set_feature E (frame tid request) w)) \<in> {regs w, store request (regs w)}"
    and "regs (snd (get_feature E buf w)) = regs w"
    and "regs (clock_sleep E d w) = regs w"
    and "constructed request \<Longrightarrow> set_feature E (frame tid request) w = (Inr (), w1) \<Longrightarrow>
      get_feature E (replicate HIDRAW_BUF_LEN 0) (clock_sleep E d w1) = ((Inr n, buf), w2) \<Longrightarrow>
      HIDRAW_BUF_LEN \<le> n \<Longrightarrow> accepts request buf \<Longrightarrow>
      regs w1 = store request (regs w) \<and>
      (is_get request \<longrightarrow> arguments (mock_decode buf) = regs w (register_of request))"
  using assms unfolding keeps_registers_def by blast+

subsection \<open>One transaction\<close>

lemma received_decode:
  "from_bytes (copy_slice 0 (drop (Suc 0) buf) (replicate (HIDRAW_BUF_LEN - Suc 0) 0)) = mock_decode buf"
  by (simp add: mock_decode_def HIDRAW_BUF_LEN_def)

lemma exchange_registers:
  assumes "keeps_registers E regs" and "constructed request"
    and "transact_raw E request s = (res, s')"
  shows "regs (io s') \<in> {regs (io s), store request (regs (io s))}"
    and "res = Inr rep \<Longrightarrow> check_response request rep = Inr () \<Longrightarrow>
      regs (io s') = store request (regs (io s)) \<and>
      (is_get request \<longrightarrow> arguments rep = regs (io s) (register_of request))"
proof -
  note keeps = keeps_registersD [OF assms(1)]
  note run = assms(3) [unfolded transact_raw_def
      send_frame [OF constructed_wf [OF assms(2)] constructed_check_request [OF assms(2)]]]
  obtain sent w1 where set: "set_feature E (frame (sess_tid s) request) (io s) = (sent, w1)"
    by (rule prod.exhaust)
  have w1: "regs w1 \<in> {regs (io s), store request (regs (io s))}"
    using keeps(1) [OF assms(2), of "sess_tid s" "io s"] by (simp add: set)
  obtain got buf w2 where get: "get_feature E (replicate HIDRAW_BUF_LEN 0)
      (clock_sleep E (wait (entry s)) w1) = ((got, buf), w2)"
    by (metis prod.exhaust)
  have w2: "regs w2 = regs w1"
    using keeps(2) [of "replicate HIDRAW_BUF_LEN 0" "clock_sleep E (wait (entry s)) w1"] keeps(3)
    by (simp add: get)
  show "regs (io s') \<in> {regs (io s), store request (regs (io s))}"
    using run w1 w2
    by (auto simp: set receive_def get Let_def split: sum.splits if_splits)
  assume res: "res = Inr rep" and ok: "check_response request rep = Inr ()"
  show "regs (io s') = store request (regs (io s)) \<and>
      (is_get request \<longrightarrow> arguments rep = regs (io s) (register_of request))"
  proof -
    from run res obtain n where "sent = Inr ()" "got = Inr n" "HIDRAW_BUF_LEN \<le> n"
      and rep: "rep = mock_decode buf" "io s' = w2"
      by (auto simp: set receive_def get Let_def received_decode split: sum.splits if_splits)
    then show ?thesis
      using keeps(4) [OF assms(2), of "sess_tid s" "io s" w1 "wait (entry s)" n buf w2] set get ok w2
      by (simp add: accepts_def)
  qed
qed

lemma loop_registers:
  assumes "keeps_registers E regs" and "constructed request"
    and "transact_loop E request attempts last_error s = (res, s')"
  shows "regs (io s') \<in> {regs (io s), store request (regs (io s))} \<and>
    (case res of Inl _ \<Rightarrow> True
     | Inr rep \<Rightarrow> regs (io s') = store request (regs (io s)) \<and>
         (is_get request \<longrightarrow> arguments rep = regs (io s) (register_of request)))"
  using assms(3)
proof (induction attempts arbitrary: last_error s)
  case Nil
  then show ?case by auto
next
  case (Cons attempt attempts)
  define s1 where "s1 = (if 0 < attempt then s\<lparr>io := clock_sleep E RETRY_DELAY (io s)\<rparr> else s)
    \<lparr>last_attempts := attempt_number attempt\<rparr>"
  have s1: "regs (io s1) = regs (io s)"
    by (simp add: s1_def keeps_registersD(3) [OF assms(1)])
  obtain got s2 where raw: "transact_raw E request s1 = (got, s2)" by (rule prod.exhaust)
  note exch = exchange_registers [OF assms(1,2) raw, unfolded s1]
  have run: "(res, s') = and_then (got, s2) (\<lambda>response s.
      let s = s\<lparr>last_response_tid := Some (transaction_id response)\<rparr> in
      case check_response request response of
        Inr _ \<Rightarrow> (Inr response, s)
      | Inl e \<Rightarrow> transact_loop E request attempts (Some e) s)"
    using Cons.prems by (simp add: Let_def s1_def [symmetric] raw)
  show ?case
  proof (cases got)
    case (Inl e)
    with run exch(1) show ?thesis by simp
  next
    case (Inr rep)
    define s3 where "s3 = s2\<lparr>last_response_tid := Some (transaction_id rep)\<rparr>"
    show ?thesis
    proof (cases "check_response request rep")
      case (Inl e)
      then have "transact_loop E request attempts (Some e) s3 = (res, s')"
        using run Inr by (simp add: s3_def)
      from Cons.IH [OF this] exch(1) show ?thesis
        by (auto simp: s3_def store_def split: sum.splits if_splits)
    next
      case ok: (Inr u)
      with run Inr exch(2) [of rep] show ?thesis by simp
    qed
  qed
qed

lemmas transact_registers = loop_registers [where attempts = "[0..<MAX_ATTEMPTS]" and last_error = None,
    folded transact_def]

subsection \<open>Settings\<close>

text \<open>What an operation writes, the register of it on a device, and how it is read back.\<close>

datatype setting = Mode | Brightness | Effect | Polling

fun writes :: "operation \<Rightarrow> setting option" where
  "writes (SetMode _) = Some Mode"
| "writes (SetLevel _) = Some Brightness"
| "writes (SetEffect _) = Some Effect"
| "writes (SetRate _) = Some Polling"
| "writes _ = None"

fun reads_back :: "operation \<Rightarrow> (operation \<times> outcome) option" where
  "reads_back (SetMode mode) = Some (GetMode, Two (device_mode_to_u8 mode) 0x00)"
| "reads_back (SetLevel v) = Some (GetLevel, Level v)"
| "reads_back (SetRate rate) = Some (GetRate, Rate rate)"
| "reads_back _ = None"

fun setting_register :: "device_entry \<Rightarrow> setting \<Rightarrow> register" where
  "setting_register e Mode = (0x00, 0x04, [])"
| "setting_register e Brightness = (0x0F, 0x04, [0x01, default_led e])"
| "setting_register e Effect = (0x0F, 0x02, [0x01, default_led e])"
| "setting_register e Polling = (case poll_rate_kind e of V2 \<Rightarrow> (0x00, 0x40, []) | Legacy \<Rightarrow> (0x00, 0x05, []))"

lemma led_byte: "led s = Inr l \<Longrightarrow> led_id_as_u8 l = default_led (entry s)"
  by (auto simp: led_def Let_def split: if_splits)

lemma legacy_request:
  "cmd_set_poll_rate_legacy rate = Inr request \<longleftrightarrow>
    (\<exists>code. legacy_code rate = Some code \<and> request = fill_args (new_report 0x00 0x05 0x01) [code])"
  by (auto simp: cmd_set_poll_rate_legacy_def split: sum.splits)

lemma register_of_cmd [simp]:
  "register_of (cmd_set_device_mode mode) = (0x00, 0x04, [])"
  "register_of cmd_get_device_mode = (0x00, 0x04, [])"
  "register_of (cmd_set_brightness VarStore l v) = (0x0F, 0x04, [0x01, led_id_as_u8 l])"
  "register_of (cmd_get_brightness VarStore l) = (0x0F, 0x04, [0x01, led_id_as_u8 l])"
  "register_of (cmd_set_static_effect VarStore l colour) = (0x0F, 0x02, [0x01, led_id_as_u8 l])"
  "register_of (cmd_set_poll_rate_v2 rate argument) = (0x00, 0x40, [])"
  "register_of cmd_get_poll_rate_v2 = (0x00, 0x40, [])"
  "register_of (fill_args (new_report 0x00 0x05 0x01) xs) = (0x00, 0x05, [])"
  "register_of cmd_get_poll_rate_legacy = (0x00, 0x05, [])"
  by (simp_all add: register_of_def cmd_defs fill_args_new ARGS_LEN_def)

lemma legacy_is_set [simp]: "\<not> is_get (fill_args (new_report 0x00 0x05 0x01) xs)"
  by (simp add: is_get_def)

lemma legacy_code_inverse: "legacy_code rate = Some code \<Longrightarrow> from_legacy_code code = Some rate"
  by (cases rate) (auto simp: from_legacy_code_def)

text \<open>A register that an operation does not write stays.\<close>

definition kept :: "('w \<Rightarrow> register \<Rightarrow> bytes) \<Rightarrow> register \<Rightarrow> 'w session \<Rightarrow> 'w session \<Rightarrow> bool" where
  "kept regs k s t \<longleftrightarrow> regs (io t) k = regs (io s) k"

lemma register_relation:
  assumes "keeps_registers E regs"
  shows "read_relation E (\<lambda>request. constructed request \<and> (is_get request \<or> register_of request \<noteq> k))
    (kept regs k)"
proof -
  note keeps = keeps_registersD [OF assms]
  have send: "kept regs k s (snd (send E request s))"
    if "constructed request" "is_get request \<or> register_of request \<noteq> k" for request s
  proof -
    have "regs (snd (set_feature E (frame (sess_tid s) request) (io s))) k = regs (io s) k"
      using keeps(1) [OF that(1), of "sess_tid s" "io s"] that(2) by (auto simp: store_def)
    then show ?thesis
      unfolding send_frame [OF constructed_wf [OF that(1)] constructed_check_request [OF that(1)]]
      by (auto simp: kept_def keeps(3) split: prod.splits sum.splits)
  qed
  have "kept regs k s (snd (receive E s))" for s
    using keeps(2) [of "replicate HIDRAW_BUF_LEN 0" "io s"]
    by (auto simp: kept_def receive_def Let_def split: prod.splits sum.splits)
  with send show ?thesis by unfold_locales (simp_all add: kept_def keeps(3))
qed

lemma other_register_kept:
  assumes "keeps_registers E regs" and "writes op \<noteq> Some setting"
    and "k = setting_register (entry s) setting"
  shows "kept regs k s (snd (perform E op s))"
proof -
  note rel = register_relation [OF assms(1), of k]
  note reading = read_relation.reading_R [OF rel]
    and trans = session_relation.transact_then_R [OF read_relation.axioms(1) [OF rel]]
  have refl: "kept regs k s s" for s by (simp add: kept_def)
  show ?thesis
  proof (cases "writes op")
    case None
    then show ?thesis by (cases op) (simp_all add: reading)
  next
    case (Some other)
    then have other: "other \<noteq> setting" using assms(2) by simp
    then have "setting_register (entry s) other \<noteq> k"
      using assms(3) by (cases other; cases setting) (simp_all split: poll_rate_kind.splits)
    with Some show ?thesis
      by (cases op)
        (auto simp: session_defs led_byte legacy_request refl split: poll_rate_kind.splits
          intro!: and_then_pure [of "kept regs k"] trans intro: constructed.intros)
  qed
qed

subsection \<open>What is written is read back\<close>

lemma transact_writes:
  assumes "keeps_registers E regs" and "constructed request" and "\<not> is_get request"
    and "transact E request s = (Inr rep, s')"
  shows "regs (io s') (register_of request) = arguments request"
  using transact_registers [OF assms(1,2,4)] assms(3) by (simp add: store_def)

lemma transact_reads:
  assumes "keeps_registers E regs" and "constructed request" and "is_get request"
    and "transact E request s = (Inr rep, s')"
  shows "arguments rep = regs (io s) (register_of request)"
  using transact_registers [OF assms(1,2,4)] assms(3) by simp

text \<open>The content of a register after an operation wrote it.\<close>

fun holds :: "device_entry \<Rightarrow> operation \<Rightarrow> bytes \<Rightarrow> bool" where
  "holds e (SetMode mode) content \<longleftrightarrow> content ! 0 = device_mode_to_u8 mode \<and> content ! 1 = 0x00"
| "holds e (SetLevel v) content \<longleftrightarrow> content ! 2 = v"
| "holds e (SetRate rate) content \<longleftrightarrow>
     (case poll_rate_kind e of
        V2 \<Rightarrow> content ! 1 = v2_code rate
      | Legacy \<Rightarrow> from_legacy_code (content ! 0) = Some rate)"
| "holds e _ content \<longleftrightarrow> True"

lemma written_held:
  assumes "keeps_registers E regs" and "perform E w s = (Inr r, s1)" and "writes w = Some setting"
  shows "holds (entry s) w (regs (io s1) (setting_register (entry s) setting))"
proof -
  note wrote = transact_writes [OF assms(1)]
  show ?thesis
  proof (cases w)
    case (SetMode mode)
    with assms(2,3) wrote [of "cmd_set_device_mode mode" s] show ?thesis
      by (auto simp: outcome_of_Inr set_device_mode_def and_then_Inr)
        (simp_all add: cmd_set_device_mode_def fill_args_new ARGS_LEN_def)
  next
    case (SetLevel v)
    with assms(2) obtain l rep where "led s = Inr l"
      and "transact E (cmd_set_brightness VarStore l v) s = (Inr rep, s1)"
      by (auto simp: outcome_of_Inr set_brightness_def and_then_Inr)
    with wrote [of "cmd_set_brightness VarStore l v" s] SetLevel assms(3) show ?thesis
      by (simp add: led_byte) (simp add: cmd_set_brightness_def fill_args_new ARGS_LEN_def)
  next
    case (SetRate rate)
    show ?thesis
    proof (cases "poll_rate_kind (entry s)")
      case V2
      with SetRate assms(2,3) wrote [of "cmd_set_poll_rate_v2 rate 0x00" s] show ?thesis
        by (auto simp: outcome_of_Inr set_poll_rate_def and_then_Inr)
          (simp add: cmd_set_poll_rate_v2_def fill_args_new ARGS_LEN_def)
    next
      case Legacy
      with SetRate assms(2) obtain code rep where code: "legacy_code rate = Some code"
        and "transact E (fill_args (new_report 0x00 0x05 0x01) [code]) s = (Inr rep, s1)"
        by (auto simp: outcome_of_Inr set_poll_rate_def and_then_Inr legacy_request)
      moreover have "constructed (fill_args (new_report 0x00 0x05 0x01) [code])"
        using code by (intro constructed.intros(9) [of rate]) (simp add: legacy_request)
      ultimately show ?thesis
        using wrote [of "fill_args (new_report 0x00 0x05 0x01) [code]" s] SetRate Legacy assms(3) by (simp add: fill_args_new ARGS_LEN_def legacy_code_inverse [OF code])
    qed
  qed (use assms(3) in simp_all)
qed

lemma held_read:
  assumes "keeps_registers E regs" and "reads_back w = Some (get, x)" and "writes w = Some setting"
    and "holds (entry s) w (regs (io s) (setting_register (entry s) setting))"
    and "perform E get s = (Inr y, s')"
  shows "y = x"
proof -
  note reads = transact_reads [OF assms(1)]
  show ?thesis
  proof (cases w)
    case (SetMode mode)
    with assms(2-) reads [of cmd_get_device_mode s] show ?thesis
      by (auto simp: outcome_of_Inr get_device_mode_def and_then_Inr parse_device_mode_def)
  next
    case (SetLevel v)
    with assms(2,5) obtain l rep where "led s = Inr l"
      and "transact E (cmd_get_brightness VarStore l) s = (Inr rep, s')" and "y = Level (arguments rep ! 2)"
      by (auto simp: outcome_of_Inr get_brightness_def and_then_Inr parse_brightness_def)
    with reads [of "cmd_get_brightness VarStore l" s] SetLevel assms(2-4) show ?thesis
      by (simp add: led_byte)
  next
    case (SetRate rate)
    with assms(2-) reads [of cmd_get_poll_rate_v2 s] reads [of cmd_get_poll_rate_legacy s] show ?thesis
      by (auto simp: outcome_of_Inr get_poll_rate_def and_then_Inr parse_poll_rate_v2_def
          parse_poll_rate_legacy_def v2_code_inverse split: poll_rate_kind.splits)
  qed (use assms(2) in simp_all)
qed

lemma register_survives:
  assumes "keeps_registers E regs" and "list_all (\<lambda>op. writes op \<noteq> Some setting) ops"
    and "k = setting_register (entry s) setting"
  shows "regs (io (performs E ops s)) k = regs (io s) k"
  using assms(2,3)
proof (induction ops arbitrary: s)
  case (Cons op ops)
  note perform_entry [of E op s]
  with Cons.IH [of "snd (perform E op s)"] Cons.prems other_register_kept [OF assms(1), of op setting k s]
  show ?case by (simp add: kept_def)
qed simp

text \<open>C15: on a device that keeps its registers, over a transport that may fail, answer short or answer
  wrongly at any point and for any table entry, what a setting operation wrote is what the
  corresponding reading operation returns, if both were answered and none of the operations in between,
  whether they succeeded or failed, writes that setting: the setter and the getter name the same storage and lamp, the polling rate is
  encoded and decoded in the family of the device, and no other operation disturbs the setting.\<close>

theorem settings_read_back:
  assumes "keeps_registers E regs" and "reads_back w = Some (get, x)"
    and "perform E w s = (Inr Done, s1)"
    and "list_all (\<lambda>op. writes op \<noteq> writes w) ops"
    and "perform E get (performs E ops s1) = (Inr y, s2)"
  shows "y = x"
proof -
  obtain setting where setting: "writes w = Some setting" using assms(2) by (cases w) auto
  let ?k = "setting_register (entry s) setting"
  have entry: "entry s1 = entry s"
    using perform_entry [of E w s] assms(3) by simp
  have "holds (entry s) w (regs (io s1) ?k)"
    using assms(1,3) setting by (rule written_held)
  moreover have "regs (io (performs E ops s1)) ?k = regs (io s1) ?k"
    using assms(4) setting entry by (intro register_survives [OF assms(1)]) simp_all
  ultimately show ?thesis
    using held_read [OF assms(1,2) setting _ assms(5)] entry by simp
qed

subsection \<open>A device of this kind\<close>

record register_device =
  memory :: "register \<Rightarrow> bytes"
  pending :: "bytes option"

definition padded :: "bytes \<Rightarrow> bytes" where
  "padded content = take ARGS_LEN (content @ replicate ARGS_LEN 0)"

definition content :: "register_device \<Rightarrow> register \<Rightarrow> bytes" where
  "content w = (\<lambda>k. padded (memory w k))"

definition register_answer :: "razer_report \<Rightarrow> register_device \<Rightarrow> razer_report" where
  "register_answer request w = request\<lparr>status := Successful,
     arguments := if is_get request then content w (register_of request) else arguments request\<rparr>"

definition register_io :: "register_device hid_io" where
  "register_io =
     \<lparr>set_feature = (\<lambda>buf w. let request = mock_decode buf in
        (Inr (), \<lparr>memory = store request (memory w), pending = Some (0x00 # to_bytes (register_answer request w))\<rparr>)),
      get_feature = (\<lambda>buf w. case pending w of
          Some answer \<Rightarrow> ((Inr HIDRAW_BUF_LEN, answer), w\<lparr>pending := None\<rparr>)
        | None \<Rightarrow> ((Inr 0, buf), w)),
      clock_sleep = (\<lambda>_ w. w)\<rparr>"

lemma length_padded [simp]: "length (padded xs) = ARGS_LEN"
  by (simp add: padded_def)

lemma padded_full [simp]: "length xs = ARGS_LEN \<Longrightarrow> padded xs = xs"
  by (simp add: padded_def)

lemma length_arguments [simp]: "constructed request \<Longrightarrow> length (arguments request) = ARGS_LEN"
  using constructed_wf by (auto simp: wf_report_def)

lemma content_store:
  "constructed request \<Longrightarrow> content \<lparr>memory = store request (memory w), pending = p\<rparr> = store request (content w)"
  by (auto simp: content_def store_def)

lemma decoded_frame:
  assumes "constructed request"
  obtains c where "mock_decode (frame tid request) = request\<lparr>transaction_id := tid, crc_byte := c\<rparr>"
  using decode_frame [OF constructed_wf [OF assms], of tid] constructed_status [OF assms]
  by (auto simp: with_transaction_id_def canonical_status_def)

lemma ignored_fields [simp]:
  "register_of (request\<lparr>transaction_id := tid, crc_byte := c\<rparr>) = register_of request"
  "store (request\<lparr>transaction_id := tid, crc_byte := c\<rparr>) = store request"
  "is_get (request\<lparr>transaction_id := tid, crc_byte := c\<rparr>) = is_get request"
  by (simp_all add: register_of_def store_def is_get_def fun_eq_iff)

text \<open>What the device answers is accepted, and is the content of the register.\<close>

lemma register_set:
  assumes "constructed request"
  obtains answer where "set_feature register_io (frame tid request) w
      = (Inr (), \<lparr>memory = store request (memory w), pending = Some answer\<rparr>)"
    and "length answer = HIDRAW_BUF_LEN" and "accepts request answer"
    and "is_get request \<Longrightarrow> arguments (mock_decode answer) = content w (register_of request)"
proof -
  obtain c where dec: "mock_decode (frame tid request) = request\<lparr>transaction_id := tid, crc_byte := c\<rparr>"
    using assms by (rule decoded_frame)
  let ?rep = "register_answer (mock_decode (frame tid request)) w"
  have wf: "wf_report ?rep" "status ?rep = Successful" "arguments ?rep =
      (if is_get request then content w (register_of request) else arguments request)"
    using assms by (auto simp: register_answer_def dec wf_report_def content_def)
  then have ans: "mock_decode (0x00 # to_bytes ?rep) = ?rep\<lparr>crc_byte := crc (to_bytes ?rep)\<rparr>"
    by (simp add: decode_pushed canonical_status_def)
  have "unat (data_size request) \<le> ARGS_LEN"
    using constructed_is_clean [OF assms] by (simp add: clean_request_def)
  then have "accepts request (0x00 # to_bytes ?rep)"
    unfolding accepts_def ans by (simp add: check_response_ok register_answer_def dec is_ok_def)
  then show thesis
    using that [of "0x00 # to_bytes ?rep"] wf ans dec
    by (simp add: register_io_def Let_def HIDRAW_BUF_LEN_def REPORT_LEN_def)
qed

lemma register_io_keeps: "keeps_registers register_io content"
proof -
  have get: "content (snd (get_feature register_io buf w)) = content w" for buf w
    by (simp add: register_io_def content_def split: option.splits)
  have set: "content (snd (set_feature register_io (frame tid request) w)) = store request (content w)"
    if "constructed request" for request tid w
    by (rule register_set [OF that, of tid w]) (simp add: content_store that)
  show ?thesis
    unfolding keeps_registers_def
  proof (intro conjI allI impI)
    fix request tid d w w1 n buf w2
    assume con: "constructed request" and w1: "set_feature register_io (frame tid request) w = (Inr (), w1)"
      and g: "get_feature register_io (replicate HIDRAW_BUF_LEN 0) (clock_sleep register_io d w1) = ((Inr n, buf), w2)"
    show "content w1 = store request (content w)"
      using set [OF con, of tid w] by (simp add: w1)
    assume is_get: "is_get request"
    obtain answer where "set_feature register_io (frame tid request) w
        = (Inr (), \<lparr>memory = store request (memory w), pending = Some answer\<rparr>)"
      and ans: "is_get request \<Longrightarrow> arguments (mock_decode answer) = content w (register_of request)"
      by (rule register_set [OF con, of tid w]) blast
    with w1 have "pending w1 = Some answer" by auto
    with g have "buf = answer" by (simp add: register_io_def)
    with ans is_get show "arguments (mock_decode buf) = content w (register_of request)" by simp
  next
    fix request tid w
    assume "constructed request"
    then show "content (snd (set_feature register_io (frame tid request) w)) \<in> {content w, store request (content w)}"
      by (simp add: set)
  next
    fix d w show "content (clock_sleep register_io d w) = content w" by (simp add: register_io_def)
  qed (rule get)
qed

lemma register_io_answers:
  assumes "constructed request"
  obtains rep s' where "transact register_io request s = (Inr rep, s')"
proof -
  let ?s = "s\<lparr>last_attempts := 1\<rparr>"
  obtain answer where set: "set_feature register_io (frame (sess_tid ?s) request) (io ?s)
      = (Inr (), \<lparr>memory = store request (memory (io ?s)), pending = Some answer\<rparr>)"
    and "accepts request answer"
    using assms by (rule register_set)
  have "\<exists>s'. transact_raw register_io request ?s = (Inr (mock_decode answer), s')"
    unfolding transact_raw_def send_frame [OF constructed_wf [OF assms] constructed_check_request [OF assms]] set
    by (simp add: receive_def register_io_def received_decode)
  then show thesis
    using that transact_accepted [of register_io request s "mock_decode answer"] \<open>accepts request answer\<close>
    unfolding accepts_def by blast
qed

definition sample_device :: "register_device session" where
  "sample_device = session_new basilisk_v3_pro_wireless \<lparr>memory = \<lambda>_. [], pending = None\<rparr>"

lemma levels_answered:
  assumes "entry s = basilisk_v3_pro_wireless"
  shows "\<exists>s'. perform register_io (SetLevel v) s = (Inr Done, s')"
    and "\<exists>v s'. perform register_io GetLevel s = (Inr v, s')"
proof -
  have guards: "require s CAP_BRIGHTNESS ''brightness'' = Inr ()" "led s = Inr Zero"
    using assms table_capability [of basilisk_v3_pro_wireless CAP_BRIGHTNESS]
    by (simp_all add: require_def led_def TABLE_def device_defs ZERO_LED_def)
  show "\<exists>s'. perform register_io (SetLevel v) s = (Inr Done, s')"
    by (rule register_io_answers [of "cmd_set_brightness VarStore Zero v" s])
      (simp_all add: set_brightness_def guards outcome_of_def)
  show "\<exists>v s'. perform register_io GetLevel s = (Inr v, s')"
    by (rule register_io_answers [of "cmd_get_brightness VarStore Zero" s])
      (simp_all add: get_brightness_def guards outcome_of_def parse_brightness_def)
qed

theorem settings_read_back_witness:
  "fst (perform register_io GetLevel (performs register_io [SetMode Driver, SetRate Hz8000, GetSerial]
     (snd (perform register_io (SetLevel 0x42) sample_device)))) = Inr (Level 0x42)"
proof -
  have "entry sample_device = basilisk_v3_pro_wireless" by (simp add: sample_device_def session_new_def)
  from levels_answered(1) [OF this, of "0x42"] obtain s1
    where set: "perform register_io (SetLevel 0x42) sample_device = (Inr Done, s1)" by blast
  have "entry s1 = basilisk_v3_pro_wireless"
    using perform_entry [of register_io "SetLevel 0x42" sample_device] set \<open>entry sample_device = _\<close>
    by (simp del: perform.simps)
  then obtain v s2 where get: "perform register_io GetLevel
      (performs register_io [SetMode Driver, SetRate Hz8000, GetSerial] s1) = (Inr v, s2)"
    using levels_answered(2) [of "performs register_io [SetMode Driver, SetRate Hz8000, GetSerial] s1"]
    by (auto simp del: perform.simps performs.simps)
  have "v = Level 0x42"
    by (rule settings_read_back [OF register_io_keeps _ set _ get]) simp_all
  with get set show ?thesis by (simp del: perform.simps performs.simps)
qed

end
