(* ===== verification/Metrics.thy ===== *)
theory Metrics
  imports Rust_Str "HOL-Library.Product_Lexorder" "HOL-Library.List_Lexorder"
begin

text \<open>
  The metric registry of \<open>crates/razerd/src/metrics.rs\<close>: labels and their escaping, the latency
  histogram and the counters.

  A \<open>BTreeMap\<close> is an association list in ascending key order. Counters are 64-bit words, as an
  optimised build computes them. A \<open>Duration\<close> is a number of nanoseconds: comparing its value in
  seconds with a bucket bound as floating-point numbers gives the comparison of the nanoseconds, since
  both are the rounding of decimal fractions that lie at least a nanosecond apart unless equal. The
  floating-point sum of a histogram is kept as its summands in the order they were added, which
  determine it; adding them up and printing the sum is left to a parameter of the rendering.
\<close>

subsection \<open>Ordered maps\<close>

fun bt_upsert :: "'k::linorder \<Rightarrow> ('v option \<Rightarrow> 'v) \<Rightarrow> ('k \<times> 'v) list \<Rightarrow> ('k \<times> 'v) list" where
  "bt_upsert k f [] = [(k, f None)]"
| "bt_upsert k f ((k', v) # m) =
     (if k < k' then (k, f None) # (k', v) # m
      else if k = k' then (k, f (Some v)) # m
      else (k', v) # bt_upsert k f m)"

definition bt_sorted :: "('k::linorder \<times> 'v) list \<Rightarrow> bool" where
  "bt_sorted m \<longleftrightarrow> sorted_wrt (<) (map fst m)"

lemma bt_upsert_keys: "set (map fst (bt_upsert k f m)) = insert k (set (map fst m))"
  by (induction k f m rule: bt_upsert.induct) (simp_all add: insert_commute)

lemma bt_upsert_sorted: "bt_sorted m \<Longrightarrow> bt_sorted (bt_upsert k f m)"
proof (induction m)
  case Nil
  then show ?case by (simp add: bt_sorted_def)
next
  case (Cons kv m)
  obtain k' v where kv: "kv = (k', v)" by fastforce
  have tail: "bt_sorted (bt_upsert k f m)" and below: "\<forall>x \<in> set (map fst m). k' < x"
    using Cons by (simp_all add: bt_sorted_def kv)
  show ?case
  proof (cases "k' < k")
    case True
    have "\<forall>x \<in> set (map fst (bt_upsert k f m)). k' < x"
      unfolding bt_upsert_keys using below True by blast
    then have "bt_sorted ((k', v) # bt_upsert k f m)"
      using tail by (simp add: bt_sorted_def)
    with True kv show ?thesis by auto
  next
    case False
    then show ?thesis using Cons.prems kv by (auto simp: bt_sorted_def)
  qed
qed

lemma bt_upsert_lookup:
  "bt_sorted m \<Longrightarrow> map_of (bt_upsert k f m) = (map_of m)(k \<mapsto> f (map_of m k))"
proof (induction m)
  case Nil
  then show ?case by simp
next
  case (Cons kv m)
  obtain k' v where kv: "kv = (k', v)" by fastforce
  have below: "x \<in> set (map fst m) \<Longrightarrow> k' < x" for x
    using Cons.prems by (auto simp: bt_sorted_def kv)
  have ih: "map_of (bt_upsert k f m) = (map_of m)(k \<mapsto> f (map_of m k))"
    using Cons by (simp add: bt_sorted_def fun_upd_def)
  show ?case
  proof (cases "k < k'")
    case True
    then have "k \<notin> set (map fst m)" using below by force
    then have "map_of m k = None" by (simp add: map_of_eq_None_iff)
    with True kv show ?thesis by auto
  next
    case False
    with kv ih show ?thesis by (auto simp: fun_eq_iff)
  qed
qed

subsection \<open>Maps that show a log\<close>

text \<open>The value of a series: absent when nothing was recorded for it.\<close>

definition tally :: "('a list \<Rightarrow> 'b) \<Rightarrow> 'a list \<Rightarrow> 'b option" where
  "tally f xs = (if xs = [] then None else Some (f xs))"

definition shows_log ::
  "('k \<Rightarrow> 'v option) \<Rightarrow> ('a list \<Rightarrow> 'v) \<Rightarrow> ('k \<Rightarrow> 'e list \<Rightarrow> 'a list) \<Rightarrow> 'e list \<Rightarrow> bool" where
  "shows_log m f sel log \<longleftrightarrow> (\<forall>key. m key = tally f (sel key log))"

text \<open>What the registry needs of a \<open>BTreeMap\<close>: the entry API updates one key.\<close>

locale entry_map =
  fixes inv :: "'m \<Rightarrow> bool"
    and look :: "'m \<Rightarrow> 'k \<Rightarrow> 'v option"
    and upsert :: "'k \<Rightarrow> ('v option \<Rightarrow> 'v) \<Rightarrow> 'm \<Rightarrow> 'm"
    and none :: 'm
  assumes inv_none: "inv none"
    and look_none: "look none key = None"
    and inv_upsert: "inv m \<Longrightarrow> inv (upsert key f m)"
    and look_upsert: "inv m \<Longrightarrow> look (upsert key f m) = (look m)(key \<mapsto> f (look m key))"
begin

lemma starts_empty: "(\<And>key. sel key [] = []) \<Longrightarrow> shows_log (look none) f sel []"
  by (simp add: shows_log_def tally_def look_none)

lemma shows_step:
  assumes "inv m" and "shows_log (look m) f sel log"
    and "\<And>key. sel key (log @ [e]) = sel key log @ (if key = k then [t] else [])"
    and "\<And>xs. g (tally f xs) = f (xs @ [t])"
  shows "shows_log (look (upsert k g m)) f sel (log @ [e])"
  unfolding shows_log_def
proof
  fix key
  show "look (upsert k g m) key = tally f (sel key (log @ [e]))"
    using assms(2-4) look_upsert [OF assms(1)]
    by (cases "key = k") (simp_all add: shows_log_def, simp add: tally_def)
qed

lemma all_values_step:
  assumes "inv m" and "\<And>key v. look m key = Some v \<Longrightarrow> P v" and "\<And>old. (\<And>v. old = Some v \<Longrightarrow> P v) \<Longrightarrow> P (g old)"
    and "look (upsert k g m) key = Some v"
  shows "P v"
  using assms look_upsert [OF assms(1)] by (auto split: if_splits)

end

interpretation btree: entry_map bt_sorted map_of bt_upsert "[]"
  by unfold_locales (simp_all add: bt_upsert_sorted bt_upsert_lookup, simp add: bt_sorted_def)

lemma shows_log_skip:
  "shows_log m f sel log \<Longrightarrow> (\<And>key. sel key (log @ [e]) = sel key log) \<Longrightarrow> shows_log m f sel (log @ [e])"
  by (simp add: shows_log_def)

subsection \<open>Labels\<close>

datatype device_labels = DeviceLabels (lbl_device: string) (lbl_pid: string)

instantiation device_labels :: linorder
begin

definition less_eq_device_labels :: "device_labels \<Rightarrow> device_labels \<Rightarrow> bool" where
  "less_eq_device_labels a b \<longleftrightarrow> (lbl_device a, lbl_pid a) \<le> (lbl_device b, lbl_pid b)"

definition less_device_labels :: "device_labels \<Rightarrow> device_labels \<Rightarrow> bool" where
  "less_device_labels a b \<longleftrightarrow> (lbl_device a, lbl_pid a) < (lbl_device b, lbl_pid b)"

instance
proof
  fix a b c :: device_labels
  show "(a < b) = (a \<le> b \<and> \<not> b \<le> a)"
    unfolding less_eq_device_labels_def less_device_labels_def by (rule less_le_not_le)
  show "a \<le> a" unfolding less_eq_device_labels_def by (rule order.refl)
  show "a \<le> b \<Longrightarrow> b \<le> c \<Longrightarrow> a \<le> c"
    unfolding less_eq_device_labels_def by (rule order.trans)
  show "a \<le> b \<Longrightarrow> b \<le> a \<Longrightarrow> a = b"
    unfolding less_eq_device_labels_def by (cases a; cases b) (drule (1) order.antisym, simp)
  show "a \<le> b \<or> b \<le> a"
    unfolding less_eq_device_labels_def by (rule linear)
qed

end

definition replace_char :: "char \<Rightarrow> string \<Rightarrow> string \<Rightarrow> string" where
  "replace_char c by_what s = concat (map (\<lambda>x. if x = c then by_what else [x]) s)"

definition escape :: "string \<Rightarrow> string" where
  "escape s =
     (let s = replace_char (CHR 0x5C) [CHR 0x5C, CHR 0x5C] s;
          s = replace_char (CHR 0x22) [CHR 0x5C, CHR 0x22] s;
          s = replace_char (CHR 0x0A) [CHR 0x5C, CHR ''n''] s
      in replace_char (CHR 0x0D) [CHR 0x5C, CHR ''r''] s)"

text \<open>A label \<open>name="value"\<close>, without and with escaping of the value.\<close>

definition raw_label :: "string \<Rightarrow> string \<Rightarrow> string" where
  "raw_label name v = name @ ''='' @ [CHR 0x22] @ v @ [CHR 0x22]"

definition quoted :: "string \<Rightarrow> string \<Rightarrow> string" where
  "quoted name v = raw_label name (escape v)"

definition render_labels :: "device_labels \<Rightarrow> string" where
  "render_labels l = quoted ''device'' (lbl_device l) @ '','' @ quoted ''pid'' (lbl_pid l)"

subsection \<open>The histogram\<close>

text \<open>The bounds in nanoseconds with the text a bound prints as.\<close>

definition LATENCY_BUCKETS :: "(nat \<times> string) list" where
  "LATENCY_BUCKETS =
     [(500000, ''0.0005''), (1000000, ''0.001''), (2000000, ''0.002''), (5000000, ''0.005''),
      (10000000, ''0.01''), (25000000, ''0.025''), (50000000, ''0.05''), (100000000, ''0.1''),
      (250000000, ''0.25''), (500000000, ''0.5''), (1000000000, ''1'')]"

record histogram =
  counts :: "u64 list"
  hist_sum :: "nat list"
  hist_total :: u64

definition histogram_new :: histogram where
  "histogram_new = \<lparr>counts = replicate (length LATENCY_BUCKETS) 0, hist_sum = [], hist_total = 0\<rparr>"

definition observe :: "nat \<Rightarrow> histogram \<Rightarrow> histogram" where
  "observe v h =
     \<lparr>counts = map2 (\<lambda>b c. if v \<le> fst b then c + 1 else c) LATENCY_BUCKETS (counts h),
      hist_sum = hist_sum h @ [v], hist_total = hist_total h + 1\<rparr>"

subsection \<open>The registry\<close>

record device_state =
  present :: bool
  usb_devnum :: "u64 option"
  kernel_driver :: "string option"
  st_firmware :: "string option"
  st_serial :: "string option"
  st_device_mode :: "u8 option"
  poll_rate_hz :: "u32 option"
  st_brightness :: "u8 option"
  st_transaction_id :: "u8 option"

type_synonym series = "device_labels \<times> string"

record inner =
  devices :: "(device_labels \<times> device_state) list"
  transactions :: "(series \<times> u64) list"
  attempts :: "(series \<times> u64) list"
  errors :: "(series \<times> u64) list"
  latency :: "(series \<times> histogram) list"
  poll_failures :: u64
  last_poll_duration :: nat
  polls :: u64

text \<open>A poisoned lock is \<open>None\<close>.\<close>

record metrics =
  inner_lock :: "inner option"
  expose_serial :: bool

definition inner_new :: inner where
  "inner_new =
     \<lparr>devices = [], transactions = [], attempts = [], errors = [], latency = [], poll_failures = 0,
      last_poll_duration = 0, polls = 0\<rparr>"

definition metrics_new :: "bool \<Rightarrow> metrics" where
  "metrics_new expose = \<lparr>inner_lock = Some inner_new, expose_serial = expose\<rparr>"

definition bump :: "u64 \<Rightarrow> u64 option \<Rightarrow> u64" where
  "bump n old = (case old of None \<Rightarrow> 0 | Some v \<Rightarrow> v) + n"

definition record_transaction ::
  "device_labels \<Rightarrow> string \<Rightarrow> u32 \<Rightarrow> nat \<Rightarrow> string option \<Rightarrow> metrics \<Rightarrow> metrics" where
  "record_transaction l command n duration err m =
     (case inner_lock m of
        None \<Rightarrow> m
      | Some g \<Rightarrow>
          let key = (l, command);
              g = g\<lparr>transactions := bt_upsert key (bump 1) (transactions g)\<rparr>;
              g = g\<lparr>attempts := bt_upsert key (bump (ucast n)) (attempts g)\<rparr>;
              g = g\<lparr>latency := bt_upsert key
                (\<lambda>old. observe duration (case old of None \<Rightarrow> histogram_new | Some h \<Rightarrow> h)) (latency g)\<rparr>;
              g = (case err of
                     None \<Rightarrow> g
                   | Some reason \<Rightarrow> g\<lparr>errors := bt_upsert (l, reason) (bump 1) (errors g)\<rparr>)
          in m\<lparr>inner_lock := Some g\<rparr>)"

definition set_device_state :: "device_labels \<Rightarrow> device_state \<Rightarrow> metrics \<Rightarrow> metrics" where
  "set_device_state l st m =
     (case inner_lock m of
        None \<Rightarrow> m
      | Some g \<Rightarrow> m\<lparr>inner_lock := Some (g\<lparr>devices := bt_upsert l (\<lambda>_. st) (devices g)\<rparr>)\<rparr>)"

definition record_poll :: "nat \<Rightarrow> bool \<Rightarrow> metrics \<Rightarrow> metrics" where
  "record_poll duration failure m =
     (case inner_lock m of
        None \<Rightarrow> m
      | Some g \<Rightarrow> m\<lparr>inner_lock := Some (g\<lparr>polls := polls g + 1, last_poll_duration := duration,
          poll_failures := (if failure then poll_failures g + 1 else poll_failures g)\<rparr>)\<rparr>)"

subsection \<open>Escaping\<close>

fun escape_char :: "char \<Rightarrow> string" where
  "escape_char c =
     (if c = CHR 0x5C then [CHR 0x5C, CHR 0x5C] else if c = CHR 0x22 then [CHR 0x5C, CHR 0x22]
      else if c = CHR 0x0A then [CHR 0x5C, CHR ''n''] else if c = CHR 0x0D then [CHR 0x5C, CHR ''r'']
      else [c])"

lemma replace_char_simps [simp]:
  "replace_char c w [] = []"
  "replace_char c w (x # xs) = (if x = c then w else [x]) @ replace_char c w xs"
  "replace_char c w (xs @ ys) = replace_char c w xs @ replace_char c w ys"
  by (simp_all add: replace_char_def)

lemma escape_Nil: "escape [] = []"
  by (simp add: escape_def)

lemma escape_Cons: "escape (c # s) = escape_char c @ escape s"
  by (simp add: escape_def)

text \<open>How a reader of the exposition format takes a value up to its closing quote.\<close>

fun read_label :: "string \<Rightarrow> (string \<times> string) option" where
  "read_label [] = None"
| "read_label (c # cs) =
     (if c = CHR 0x22 then Some ([], cs)
      else if c = CHR 0x5C then
        (case cs of
           [] \<Rightarrow> None
         | d # ds \<Rightarrow>
             map_option (apfst (Cons (if d = CHR ''n'' then CHR 0x0A else if d = CHR ''r'' then CHR 0x0D else d)))
               (read_label ds))
      else map_option (apfst (Cons c)) (read_label cs))"

text \<open>C31: no label value can break out of its quotes or its line: a reader that unescapes takes exactly
  the original value and stops at the closing quote, whatever follows, and an escaped value holds no
  line feed and no carriage return.\<close>

theorem escape_contained:
  "read_label (escape s @ CHR 0x22 # rest) = Some (s, rest) \<and>
   CHR 0x0A \<notin> set (escape s) \<and> CHR 0x0D \<notin> set (escape s)"
  by (induction s) (auto simp: escape_Nil escape_Cons)

end
