(* ===== verification/Metrics_Log.thy ===== *)
theory Metrics_Log
  imports Metrics
begin

text \<open>
  The registry against its abstract specification, the log of everything that was recorded: each
  counter, histogram and cached state is a function of the log. The abstract state is the list of
  events; a registry that \<open>implements\<close> it shows exactly what it says, and every operation keeps it so.
\<close>

subsection \<open>The log\<close>

record transaction =
  tx_labels :: device_labels
  tx_command :: string
  tx_attempts :: u32
  tx_duration :: nat
  tx_error :: "string option"

datatype event =
    Transaction transaction
  | DeviceSeen device_labels device_state
  | Polled nat bool

fun apply_event :: "event \<Rightarrow> metrics \<Rightarrow> metrics" where
  "apply_event (Transaction t) m =
     record_transaction (tx_labels t) (tx_command t) (tx_attempts t) (tx_duration t) (tx_error t) m"
| "apply_event (DeviceSeen l st) m = set_device_state l st m"
| "apply_event (Polled d failure) m = record_poll d failure m"

definition transactions_in :: "event list \<Rightarrow> transaction list" where
  "transactions_in log = concat (map (\<lambda>e. case e of Transaction t \<Rightarrow> [t] | _ \<Rightarrow> []) log)"

definition polls_in :: "event list \<Rightarrow> (nat \<times> bool) list" where
  "polls_in log = concat (map (\<lambda>e. case e of Polled d failure \<Rightarrow> [(d, failure)] | _ \<Rightarrow> []) log)"

definition states_of :: "device_labels \<Rightarrow> event list \<Rightarrow> device_state list" where
  "states_of l log = concat (map (\<lambda>e. case e of DeviceSeen l' st \<Rightarrow> if l' = l then [st] else [] | _ \<Rightarrow> []) log)"

definition of_series :: "series \<Rightarrow> event list \<Rightarrow> transaction list" where
  "of_series key log = [t \<leftarrow> transactions_in log. (tx_labels t, tx_command t) = key]"

definition with_error :: "series \<Rightarrow> event list \<Rightarrow> transaction list" where
  "with_error key log = [t \<leftarrow> transactions_in log. tx_labels t = fst key \<and> tx_error t = Some (snd key)]"

definition total_count :: "transaction list \<Rightarrow> u64" where
  "total_count xs = of_nat (length xs)"

definition total_attempts :: "transaction list \<Rightarrow> u64" where
  "total_attempts xs = of_nat (sum_list (map (\<lambda>t. unat (tx_attempts t)) xs))"

definition histogram_of :: "transaction list \<Rightarrow> histogram" where
  "histogram_of xs =
     \<lparr>counts = map (\<lambda>b. of_nat (length [t \<leftarrow> xs. tx_duration t \<le> fst b])) LATENCY_BUCKETS,
      hist_sum = map tx_duration xs, hist_total = of_nat (length xs)\<rparr>"

definition implements :: "inner \<Rightarrow> event list \<Rightarrow> bool" where
  "implements g log \<longleftrightarrow>
     (bt_sorted (devices g) \<and> bt_sorted (transactions g) \<and> bt_sorted (attempts g) \<and> bt_sorted (errors g) \<and>
      bt_sorted (latency g)) \<and>
     shows_log (map_of (transactions g)) total_count of_series log \<and>
     shows_log (map_of (attempts g)) total_attempts of_series log \<and>
     shows_log (map_of (errors g)) total_count with_error log \<and>
     shows_log (map_of (latency g)) histogram_of of_series log \<and>
     shows_log (map_of (devices g)) last states_of log \<and>
     polls g = of_nat (length (polls_in log)) \<and>
     poll_failures g = of_nat (length [p \<leftarrow> polls_in log. snd p]) \<and>
     last_poll_duration g = (if polls_in log = [] then 0 else fst (last (polls_in log)))"

subsection \<open>One more event\<close>

lemma log_Nil [simp]:
  "of_series key [] = []" "with_error key [] = []" "states_of l [] = []" "polls_in [] = []"
  by (simp_all add: of_series_def with_error_def states_of_def polls_in_def transactions_in_def)

lemma log_transaction [simp]:
  "of_series key (log @ [Transaction t]) = of_series key log @ (if key = (tx_labels t, tx_command t) then [t] else [])"
  "with_error key (log @ [Transaction t])
     = with_error key log @ (if tx_labels t = fst key \<and> tx_error t = Some (snd key) then [t] else [])"
  "states_of l (log @ [Transaction t]) = states_of l log" "polls_in (log @ [Transaction t]) = polls_in log"
  by (auto simp: of_series_def with_error_def states_of_def polls_in_def transactions_in_def)

lemma log_seen [simp]:
  "of_series key (log @ [DeviceSeen l st]) = of_series key log"
  "with_error key (log @ [DeviceSeen l st]) = with_error key log"
  "states_of l' (log @ [DeviceSeen l st]) = states_of l' log @ (if l' = l then [st] else [])"
  "polls_in (log @ [DeviceSeen l st]) = polls_in log"
  by (auto simp: of_series_def with_error_def states_of_def polls_in_def transactions_in_def)

lemma log_polled [simp]:
  "of_series key (log @ [Polled d x]) = of_series key log"
  "with_error key (log @ [Polled d x]) = with_error key log"
  "states_of l (log @ [Polled d x]) = states_of l log"
  "polls_in (log @ [Polled d x]) = polls_in log @ [(d, x)]"
  by (simp_all add: of_series_def with_error_def states_of_def polls_in_def transactions_in_def)

lemma histogram_of_Nil: "histogram_of [] = histogram_new"
  by (simp add: histogram_of_def histogram_new_def map_replicate_const)

lemma observe_histogram_of: "observe (tx_duration t) (histogram_of xs) = histogram_of (xs @ [t])"
proof -
  have "map2 (\<lambda>b c. if tx_duration t \<le> fst b then c + 1 else c) bs
        (map (\<lambda>b. of_nat (length [x \<leftarrow> xs. tx_duration x \<le> fst b])) bs)
      = map (\<lambda>b. of_nat (length [x \<leftarrow> xs @ [t]. tx_duration x \<le> fst b]) :: u64) bs" for bs :: "(nat \<times> string) list"
    by (induction bs) simp_all
  then show ?thesis by (simp add: observe_def histogram_of_def)
qed

lemma implements_new: "implements inner_new []"
  by (simp add: implements_def inner_new_def btree.inv_none btree.starts_empty [simplified])

lemma entry_values:
  "bump 1 (tally total_count xs) = total_count (xs @ [t])"
  "bump (ucast (tx_attempts t)) (tally total_attempts xs) = total_attempts (xs @ [t])"
  "observe (tx_duration t) (case tally histogram_of xs of None \<Rightarrow> histogram_new | Some h \<Rightarrow> h) = histogram_of (xs @ [t])"
  using observe_histogram_of [of t xs] observe_histogram_of [of t "[]"]
  by (simp_all add: bump_def tally_def total_count_def total_attempts_def flip: histogram_of_Nil)

lemma implements_transaction:
  assumes "implements g log" and "inner_lock m = Some g"
  shows "\<exists>g'. inner_lock (apply_event (Transaction t) m) = Some g' \<and> implements g' (log @ [Transaction t])"
proof -
  let ?k = "(tx_labels t, tx_command t)"
  define g1 where "g1 = g\<lparr>transactions := bt_upsert ?k (bump 1) (transactions g),
    attempts := bt_upsert ?k (bump (ucast (tx_attempts t))) (attempts g),
    latency := bt_upsert ?k (\<lambda>old. observe (tx_duration t) (case old of None \<Rightarrow> histogram_new | Some h \<Rightarrow> h)) (latency g)\<rparr>"
  have sorted: "bt_sorted (devices g)" "bt_sorted (transactions g)" "bt_sorted (attempts g)" "bt_sorted (errors g)"
    "bt_sorted (latency g)"
    and logs: "shows_log (map_of (transactions g)) total_count of_series log"
    "shows_log (map_of (attempts g)) total_attempts of_series log"
    "shows_log (map_of (errors g)) total_count with_error log"
    "shows_log (map_of (latency g)) histogram_of of_series log"
    "shows_log (map_of (devices g)) last states_of log"
    using assms(1) unfolding implements_def by blast+
  have series: "shows_log (map_of (transactions g1)) total_count of_series (log @ [Transaction t])"
    "shows_log (map_of (attempts g1)) total_attempts of_series (log @ [Transaction t])"
    "shows_log (map_of (latency g1)) histogram_of of_series (log @ [Transaction t])"
    unfolding g1_def
    by (simp_all, (rule btree.shows_step, (fact sorted logs)+, simp, simp only: entry_values)+)
  have others: "shows_log (map_of (devices g)) last states_of (log @ [Transaction t])"
    by (rule shows_log_skip [OF logs(5)]) simp
  have kept: "bt_sorted (transactions g1)" "bt_sorted (attempts g1)" "bt_sorted (latency g1)"
    "devices g1 = devices g" "errors g1 = errors g" "polls g1 = polls g" "poll_failures g1 = poll_failures g"
    "last_poll_duration g1 = last_poll_duration g"
    by (simp_all add: g1_def btree.inv_upsert sorted)
  show ?thesis
  proof (cases "tx_error t")
    case None
    have "shows_log (map_of (errors g)) total_count with_error (log @ [Transaction t])"
      by (rule shows_log_skip [OF logs(3)]) (simp add: None)
    then have "implements g1 (log @ [Transaction t])"
      using assms(1) kept sorted series others by (simp add: implements_def)
    moreover have "inner_lock (apply_event (Transaction t) m) = Some g1"
      using assms(2) None by (simp add: record_transaction_def g1_def Let_def)
    ultimately show ?thesis by blast
  next
    case (Some reason)
    define g2 where "g2 = g1\<lparr>errors := bt_upsert (tx_labels t, reason) (bump 1) (errors g1)\<rparr>"
    have "with_error key (log @ [Transaction t])
        = with_error key log @ (if key = (tx_labels t, reason) then [t] else [])" for key
      by (auto simp: Some)
    then have "shows_log (map_of (errors g2)) total_count with_error (log @ [Transaction t])"
      unfolding g2_def
      by (simp add: kept, intro btree.shows_step) (simp_all add: sorted logs entry_values)
    then have "implements g2 (log @ [Transaction t])"
      using assms(1) kept sorted series others by (simp add: implements_def g2_def btree.inv_upsert)
    moreover have "inner_lock (apply_event (Transaction t) m) = Some g2"
      using assms(2) Some by (simp add: record_transaction_def g2_def g1_def Let_def)
    ultimately show ?thesis by blast
  qed
qed

lemma implements_seen:
  assumes "implements g log"
  shows "implements (g\<lparr>devices := bt_upsert l (\<lambda>_. st) (devices g)\<rparr>) (log @ [DeviceSeen l st])"
proof -
  have sorted: "bt_sorted (devices g)" and logs: "shows_log (map_of (devices g)) last states_of log"
    using assms unfolding implements_def by blast+
  have "shows_log (map_of (bt_upsert l (\<lambda>_. st) (devices g))) last states_of (log @ [DeviceSeen l st])"
    by (rule btree.shows_step [OF sorted logs, where t = st]) auto
  then show ?thesis
    using assms by (simp add: implements_def btree.inv_upsert shows_log_def)
qed

lemma implements_polled:
  "implements g log \<Longrightarrow>
    implements (g\<lparr>polls := polls g + 1, last_poll_duration := d,
      poll_failures := (if x then poll_failures g + 1 else poll_failures g)\<rparr>) (log @ [Polled d x])"
  by (simp add: implements_def shows_log_def)

lemma implements_event:
  assumes "implements g log" and "inner_lock m = Some g"
  shows "\<exists>g'. inner_lock (apply_event e m) = Some g' \<and> implements g' (log @ [e])"
proof (cases e)
  case (Transaction t)
  then show ?thesis using implements_transaction [OF assms] by simp
next
  case (DeviceSeen l st)
  then show ?thesis using implements_seen [OF assms(1)] assms(2) by (simp add: set_device_state_def)
next
  case (Polled d x)
  then show ?thesis using implements_polled [OF assms(1)] assms(2) by (simp add: record_poll_def)
qed

lemma registry_implements:
  "\<exists>g. inner_lock (fold apply_event log (metrics_new expose)) = Some g \<and> implements g log"
proof (induction log rule: rev_induct)
  case Nil
  show ?case using implements_new by (simp add: metrics_new_def)
next
  case (snoc e log)
  then obtain g where g: "inner_lock (fold apply_event log (metrics_new expose)) = Some g" "implements g log" by blast
  show ?case using implements_event [OF g(2) g(1), of e] by simp
qed

lemma apply_event_expose [simp]: "expose_serial (apply_event e m) = expose_serial m"
  by (cases e)
    (simp_all add: record_transaction_def set_device_state_def record_poll_def Let_def split: option.split)

lemma registry_expose [simp]: "expose_serial (fold apply_event log m) = expose_serial m"
  by (induction log arbitrary: m) simp_all

text \<open>C26: the registry implements its log: after any sequence of recorded transactions, device states
  and polls, a series counts the transactions with its labels and command, the attempts series adds
  up their attempts, the error series counts those that failed for its reason, each histogram bucket
  counts those that took at most its bound, a device shows the state recorded last, the poll counters
  count the polls and the failed ones, and an entry is present exactly when something was recorded for
  it (counters are modulo 2 to the 64, their width).\<close>

theorem registry_shows_log:
  "case inner_lock (fold apply_event log (metrics_new expose)) of
     None \<Rightarrow> False
   | Some g \<Rightarrow>
       map_of (transactions g) key = tally total_count (of_series key log) \<and>
       map_of (attempts g) key = tally total_attempts (of_series key log) \<and>
       map_of (errors g) key = tally total_count (with_error key log) \<and>
       map_of (latency g) key = tally histogram_of (of_series key log) \<and>
       map_of (devices g) l = tally last (states_of l log) \<and>
       polls g = of_nat (length (polls_in log)) \<and>
       poll_failures g = of_nat (length [p \<leftarrow> polls_in log. snd p]) \<and>
       last_poll_duration g = (if polls_in log = [] then 0 else fst (last (polls_in log)))"
proof -
  obtain g where g: "inner_lock (fold apply_event log (metrics_new expose)) = Some g" "implements g log"
    using registry_implements by blast
  show ?thesis using g(2) unfolding g(1) option.case implements_def shows_log_def by blast
qed

subsection \<open>Shape\<close>

text \<open>Keys in ascending order without repetition, and a count for every bucket of a histogram.\<close>

definition well_formed_registry :: "inner \<Rightarrow> bool" where
  "well_formed_registry g \<longleftrightarrow>
     bt_sorted (devices g) \<and> bt_sorted (transactions g) \<and> bt_sorted (attempts g) \<and> bt_sorted (errors g) \<and>
     bt_sorted (latency g) \<and> (\<forall>(key, h) \<in> set (latency g). length (counts h) = length LATENCY_BUCKETS)"

lemma implements_well_formed:
  assumes "implements g log"
  shows "well_formed_registry g"
proof -
  have sorted: "bt_sorted (latency g)" and logs: "shows_log (map_of (latency g)) histogram_of of_series log"
    using assms unfolding implements_def by blast+
  have "length (counts h) = length LATENCY_BUCKETS" if "(key, h) \<in> set (latency g)" for key h
  proof -
    have "distinct (map fst (latency g))"
      using sorted by (auto simp: bt_sorted_def strict_sorted_iff)
    then have "map_of (latency g) key = Some h" using that by simp
    then have "h = histogram_of (of_series key log)"
      using logs unfolding shows_log_def tally_def by (metis option.distinct(1) option.inject)
    then show ?thesis by (simp add: histogram_of_def)
  qed
  then show ?thesis using assms by (auto simp: well_formed_registry_def implements_def)
qed

text \<open>C28: in every reachable registry the maps are in ascending key order and every histogram has one
  count per bucket, so rendering never indexes past the counts.\<close>

theorem registry_well_formed:
  "case inner_lock (fold apply_event log (metrics_new expose)) of None \<Rightarrow> False | Some g \<Rightarrow> well_formed_registry g"
  using registry_implements [of log expose] implements_well_formed by auto

end
