(* ===== verification/Metrics_Render.thy ===== *)
theory Metrics_Render
  imports Metrics_Log
begin

text \<open>
  The exposition text of \<open>Metrics::render\<close> (\<open>crates/razerd/src/metrics.rs\<close>), built as the list of the
  lines it writes with \<open>writeln!\<close>, one group of lines per metric family, in the order of the code.

  Parameters are the crate version, the printed uptime and \<open>seconds\<close>: the six-decimal text of the
  floating-point sum of durations given in nanoseconds, in that order. The brightness ratio is
  computed: a byte divided by 255 never lies halfway between two numbers of four decimals, so the
  nearest one is what the format prints.
\<close>

definition metric_header :: "string \<Rightarrow> string \<Rightarrow> string \<Rightarrow> string list" where
  "metric_header name help kind =
     [''# HELP '' @ name @ '' '' @ help, ''# TYPE '' @ name @ '' '' @ kind]"

definition sample :: "string \<Rightarrow> string \<Rightarrow> string \<Rightarrow> string" where
  "sample name labels v = name @ ''{'' @ labels @ ''} '' @ v"

definition fmt_ratio :: "u8 \<Rightarrow> string" where
  "fmt_ratio b =
     (let q = (2 * unat b * 10000 + 255) div 510
      in fmt_dec (q div 10000) @ ''.'' @ pad_zero 4 (fmt_dec (q mod 10000)))"

definition fmt_word :: "'a::len word \<Rightarrow> string" where
  "fmt_word v = fmt_dec (unat v)"

subsection \<open>Identity and health\<close>

definition build_lines :: "string \<Rightarrow> string \<Rightarrow> string list" where
  "build_lines version uptime =
     metric_header ''razer_build_info'' ''Build information.'' ''gauge''
     @ [sample ''razer_build_info'' (quoted ''version'' version) ''1'']
     @ metric_header ''razer_uptime_seconds'' ''Seconds since razerd started.'' ''gauge''
     @ [''razer_uptime_seconds '' @ uptime]"

definition info_extra :: "bool \<Rightarrow> device_state \<Rightarrow> string" where
  "info_extra expose s =
     (case st_firmware s of None \<Rightarrow> '''' | Some f \<Rightarrow> '','' @ quoted ''firmware'' f)
     @ (case st_transaction_id s of
          None \<Rightarrow> ''''
        | Some t \<Rightarrow> '','' @ raw_label ''transaction_id'' (''0x'' @ fmt_HEX 2 (unat t)))
     @ (if expose then (case st_serial s of None \<Rightarrow> '''' | Some sn \<Rightarrow> '','' @ quoted ''serial'' sn) else '''')"

text \<open>A family with one sample per device that has a value for it.\<close>

definition device_family ::
  "string \<Rightarrow> string \<Rightarrow> (device_labels \<Rightarrow> device_state \<Rightarrow> (string \<times> string) option)
     \<Rightarrow> (device_labels \<times> device_state) list \<Rightarrow> string list" where
  "device_family name help f ds =
     metric_header name help ''gauge''
     @ concat (map (\<lambda>(l, s). case f l s of None \<Rightarrow> [] | Some (labels, v) \<Rightarrow> [sample name labels v]) ds)"

definition device_lines :: "bool \<Rightarrow> (device_labels \<times> device_state) list \<Rightarrow> string list" where
  "device_lines expose ds =
     device_family ''razer_device_info''
       ''Device identity. Serial is only present when --expose-serial is set.''
       (\<lambda>l s. Some (render_labels l @ info_extra expose s, ''1'')) ds
     @ device_family ''razer_device_present'' ''1 if the device is currently enumerated.''
       (\<lambda>l s. Some (render_labels l, if present s then ''1'' else ''0'')) ds
     @ device_family ''razer_device_usb_devnum''
       ''USB device number. Increments on every re-enumeration, so changes() over a window counts USB disconnects.''
       (\<lambda>l s. map_option (\<lambda>n. (render_labels l, fmt_word n)) (usb_devnum s)) ds
     @ device_family ''razer_device_kernel_driver'' ''Which in-kernel HID driver owns the interfaces.''
       (\<lambda>l s. map_option (\<lambda>d. (render_labels l @ '','' @ quoted ''driver'' d, ''1'')) (kernel_driver s)) ds
     @ device_family ''razer_device_mode''
       ''Operating mode: 0 normal, 3 driver. Driver mode is the state in which the upstream razerkbd transaction-id defect resets this hardware.''
       (\<lambda>l s. map_option (\<lambda>m. (render_labels l, fmt_word m)) (st_device_mode s)) ds
     @ device_family ''razer_device_poll_rate_hz'' ''Polling rate in hertz.''
       (\<lambda>l s. map_option (\<lambda>p. (render_labels l, fmt_word p)) (poll_rate_hz s)) ds
     @ device_family ''razer_device_brightness_ratio'' ''Backlight brightness, 0-1.''
       (\<lambda>l s. map_option (\<lambda>b. (render_labels l, fmt_ratio b)) (st_brightness s)) ds"

subsection \<open>Golden signals\<close>

definition counter_lines :: "string \<Rightarrow> string \<Rightarrow> string \<Rightarrow> (series \<times> u64) list \<Rightarrow> string list" where
  "counter_lines name help label m =
     metric_header name help ''counter''
     @ map (\<lambda>((l, x), v). sample name (render_labels l @ '','' @ quoted label x) (fmt_word v)) m"

definition histogram_lines :: "(nat list \<Rightarrow> string) \<Rightarrow> string \<Rightarrow> histogram \<Rightarrow> string list" where
  "histogram_lines seconds base h =
     map2 (\<lambda>b c. sample ''razer_transaction_duration_seconds_bucket''
             (base @ '','' @ raw_label ''le'' (snd b)) (fmt_word c)) LATENCY_BUCKETS (counts h)
     @ [sample ''razer_transaction_duration_seconds_bucket'' (base @ '','' @ raw_label ''le'' ''+Inf'')
          (fmt_word (hist_total h)),
        sample ''razer_transaction_duration_seconds_sum'' base (seconds (hist_sum h)),
        sample ''razer_transaction_duration_seconds_count'' base (fmt_word (hist_total h))]"

definition latency_lines :: "(nat list \<Rightarrow> string) \<Rightarrow> (series \<times> histogram) list \<Rightarrow> string list" where
  "latency_lines seconds m =
     metric_header ''razer_transaction_duration_seconds'' ''LATENCY: HID feature-report round trip.'' ''histogram''
     @ concat (map (\<lambda>((l, cmd), h).
         histogram_lines seconds (render_labels l @ '','' @ quoted ''command'' cmd) h) m)"

definition signal_lines :: "(nat list \<Rightarrow> string) \<Rightarrow> inner \<Rightarrow> string list" where
  "signal_lines seconds g =
     counter_lines ''razer_transactions_total'' ''TRAFFIC: completed HID transactions.'' ''command'' (transactions g)
     @ counter_lines ''razer_transaction_attempts_total''
       ''SATURATION: attempts consumed, including retries. attempts/transactions > 1 means the device is rejecting well-formed reports.''
       ''command'' (attempts g)
     @ counter_lines ''razer_transaction_errors_total'' ''ERRORS: failed transactions by reason.'' ''reason'' (errors g)
     @ latency_lines seconds (latency g)"

definition poll_lines :: "(nat list \<Rightarrow> string) \<Rightarrow> inner \<Rightarrow> string list" where
  "poll_lines seconds g =
     metric_header ''razer_polls_total'' ''Device poll cycles run.'' ''counter''
     @ [''razer_polls_total '' @ fmt_word (polls g)]
     @ metric_header ''razer_poll_failures_total'' ''Poll cycles that failed for at least one device.'' ''counter''
     @ [''razer_poll_failures_total '' @ fmt_word (poll_failures g)]
     @ metric_header ''razer_poll_duration_seconds'' ''Duration of the most recent poll cycle.'' ''gauge''
     @ [''razer_poll_duration_seconds '' @ seconds [last_poll_duration g]]"

definition render_lines :: "string \<Rightarrow> string \<Rightarrow> (nat list \<Rightarrow> string) \<Rightarrow> metrics \<Rightarrow> string list" where
  "render_lines version uptime seconds m =
     (case inner_lock m of
        None \<Rightarrow> [''# registry poisoned'']
      | Some g \<Rightarrow>
          build_lines version uptime @ device_lines (expose_serial m) (devices g)
          @ signal_lines seconds g @ poll_lines seconds g)"

definition render :: "string \<Rightarrow> string \<Rightarrow> (nat list \<Rightarrow> string) \<Rightarrow> metrics \<Rightarrow> string" where
  "render version uptime seconds m = write_lines (render_lines version uptime seconds m)"

subsection \<open>Privacy\<close>

definition forget_serials :: "metrics \<Rightarrow> metrics" where
  "forget_serials m =
     m\<lparr>inner_lock := map_option (\<lambda>g. g\<lparr>devices := map (\<lambda>(l, s). (l, s\<lparr>st_serial := None\<rparr>)) (devices g)\<rparr>)
         (inner_lock m)\<rparr>"

lemma device_family_forget:
  assumes "\<And>l s. f l (s\<lparr>st_serial := None\<rparr>) = f l s"
  shows "device_family name help f (map (\<lambda>(l, s). (l, s\<lparr>st_serial := None\<rparr>)) ds) = device_family name help f ds"
  unfolding device_family_def by (induction ds) (auto simp: assms)

lemma device_lines_forget:
  "device_lines False (map (\<lambda>(l, s). (l, s\<lparr>st_serial := None\<rparr>)) ds) = device_lines False ds"
  unfolding device_lines_def
  by (simp add: device_family_forget info_extra_def)

lemma render_lines_forget:
  "\<not> expose_serial m \<Longrightarrow>
    render_lines version uptime seconds (forget_serials m) = render_lines version uptime seconds m"
  by (cases "inner_lock m")
    (simp_all add: render_lines_def forget_serials_def device_lines_forget signal_lines_def poll_lines_def)

lemma render_forget:
  "\<not> expose_serial m \<Longrightarrow> render version uptime seconds (forget_serials m) = render version uptime seconds m"
  by (simp add: render_def render_lines_forget)

subsection \<open>Lines\<close>

text \<open>A piece of text that stays within its line.\<close>

definition in_line :: "string \<Rightarrow> bool" where
  "in_line s \<longleftrightarrow> CHR 0x0A \<notin> set s \<and> CHR 0x0D \<notin> set s"

lemma in_line_append [simp]: "in_line (s @ t) \<longleftrightarrow> in_line s \<and> in_line t"
  by (auto simp: in_line_def)

lemma in_line_Nil [simp]: "in_line []"
  by (simp add: in_line_def)

lemma in_line_Cons [simp]: "in_line (c # s) \<longleftrightarrow> c \<noteq> CHR 0x0A \<and> c \<noteq> CHR 0x0D \<and> in_line s"
  by (auto simp: in_line_def)

lemma in_line_escape [simp]: "in_line (escape s)"
  by (induction s) (auto simp: escape_Nil escape_Cons)

lemma in_line_label [simp]:
  "in_line (raw_label name v) \<longleftrightarrow> in_line name \<and> in_line v"
  "in_line (quoted name v) \<longleftrightarrow> in_line name"
  by (simp_all add: raw_label_def quoted_def)

lemma in_line_labels [simp]: "in_line (render_labels l)"
  by (simp add: render_labels_def)

lemma in_line_pad [simp]: "in_line s \<Longrightarrow> in_line (pad_zero w s)"
  by (auto simp: pad_zero_def in_line_def)

lemma in_line_radix:
  assumes "2 \<le> radix" and "radix \<le> 36"
  shows "in_line (fmt_radix radix upper n)"
proof -
  have "c \<noteq> CHR 0x0A \<and> c \<noteq> CHR 0x0D" if c: "c \<in> set (fmt_radix radix upper n)" for c
  proof -
    obtain d where d: "d < radix" "c = digit_char upper d"
      using fmt_radix_chars [OF assms c] by blast
    then have "c \<notin> set ascii_whitespace" using assms digit_char_ascii [of d upper] by simp
    then show ?thesis by (auto simp: ascii_whitespace_def)
  qed
  then show ?thesis by (auto simp: in_line_def)
qed

lemma in_line_numbers [simp]:
  "in_line (fmt_dec n)" "in_line (fmt_word v)" "in_line (fmt_HEX w n)" "in_line (fmt_ratio b)"
  by (simp_all add: fmt_dec_def fmt_word_def fmt_HEX_def fmt_ratio_def Let_def in_line_radix)

text \<open>A line of the exposition: a comment or a sample of one of this program's metrics.\<close>

definition exposition_line :: "string \<Rightarrow> bool" where
  "exposition_line l \<longleftrightarrow> in_line l \<and> (take 2 l = ''# '' \<or> take 6 l = ''razer_'')"

lemma exposition_header:
  "in_line name \<Longrightarrow> in_line help \<Longrightarrow> in_line kind \<Longrightarrow> list_all exposition_line (metric_header name help kind)"
  by (simp add: metric_header_def exposition_line_def)

lemma exposition_sample:
  "take 6 name = ''razer_'' \<Longrightarrow> in_line name \<Longrightarrow> in_line labels \<Longrightarrow> in_line v \<Longrightarrow>
    exposition_line (sample name labels v)"
  by (auto simp: sample_def exposition_line_def)

lemma exposition_device_family:
  assumes "take 6 name = ''razer_''" and "in_line name" and "in_line help"
    and "\<And>l s labels v. f l s = Some (labels, v) \<Longrightarrow> in_line labels \<and> in_line v"
  shows "list_all exposition_line (device_family name help f ds)"
proof -
  have "exposition_line x" if "x \<in> set (case f l s of None \<Rightarrow> [] | Some (labels, v) \<Rightarrow> [sample name labels v])"
    for x l s
    using that assms(4) [of l s] exposition_sample [OF assms(1,2)] by (cases "f l s") auto
  moreover have "list_all exposition_line (metric_header name help ''gauge'')"
    by (rule exposition_header [OF assms(2,3)]) simp
  ultimately show ?thesis
    unfolding device_family_def list_all_append by (fastforce simp: list_all_iff)
qed

lemma in_line_extra [simp]: "in_line (info_extra expose s)"
  by (simp add: info_extra_def split: option.split)

lemma exposition_devices: "list_all exposition_line (device_lines expose ds)"
  unfolding device_lines_def list_all_append
  by (intro conjI exposition_device_family) auto

lemma exposition_counters:
  assumes "take 6 name = ''razer_''" and "in_line name" and "in_line help" and "in_line label"
  shows "list_all exposition_line (counter_lines name help label m)"
  unfolding counter_lines_def list_all_append
  using exposition_sample [OF assms(1,2)] assms(4)
  by (intro conjI exposition_header [OF assms(2,3)]) (auto simp: list_all_iff)

lemma exposition_histogram:
  assumes "in_line base" and "\<And>ds. in_line (seconds ds)"
  shows "list_all exposition_line (histogram_lines seconds base h)"
proof -
  have "in_line (snd b)" if "b \<in> set LATENCY_BUCKETS" for b
    using that by (auto simp: LATENCY_BUCKETS_def)
  then have "list_all exposition_line (map2 (\<lambda>b c. sample ''razer_transaction_duration_seconds_bucket''
      (base @ '','' @ raw_label ''le'' (snd b)) (fmt_word c)) LATENCY_BUCKETS (counts h))"
    using assms(1) by (auto simp: list_all_iff intro!: exposition_sample dest: set_zip_leftD)
  moreover have "exposition_line (sample ''razer_transaction_duration_seconds_sum'' base (seconds ds))" for ds
    using assms by (intro exposition_sample) simp_all
  moreover have "exposition_line (sample ''razer_transaction_duration_seconds_bucket''
      (base @ '','' @ raw_label ''le'' ''+Inf'') (fmt_word n))"
    "exposition_line (sample ''razer_transaction_duration_seconds_count'' base (fmt_word n))" for n :: u64
    using assms by (auto intro!: exposition_sample)
  ultimately show ?thesis by (simp add: histogram_lines_def)
qed

lemma exposition_latency:
  assumes "\<And>ds. in_line (seconds ds)"
  shows "list_all exposition_line (latency_lines seconds m)"
proof -
  have "list_all exposition_line (metric_header ''razer_transaction_duration_seconds''
      ''LATENCY: HID feature-report round trip.'' ''histogram'')"
    by (rule exposition_header) simp_all
  moreover have "list_all exposition_line (histogram_lines seconds
      (render_labels l @ '','' @ quoted ''command'' cmd) h)" for l cmd h
    by (rule exposition_histogram) (simp_all add: assms)
  ultimately show ?thesis by (auto simp: latency_lines_def list_all_iff)
qed

lemma exposition_all:
  assumes "in_line uptime" and "\<And>ds. in_line (seconds ds)"
  shows "list_all exposition_line (render_lines version uptime seconds m)"
proof (cases "inner_lock m")
  case None
  then show ?thesis by (simp add: render_lines_def exposition_line_def)
next
  case (Some g)
  have "list_all exposition_line (build_lines version uptime)"
    unfolding build_lines_def list_all_append
    using assms(1) exposition_sample [of "''razer_build_info''" "quoted ''version'' version" "''1''"]
    by (auto intro!: exposition_header simp: exposition_line_def)
  moreover have "list_all exposition_line (signal_lines seconds g)"
    unfolding signal_lines_def list_all_append
    by (intro conjI exposition_counters exposition_latency assms(2)) simp_all
  moreover have "list_all exposition_line (poll_lines seconds g)"
    unfolding poll_lines_def list_all_append
    using assms(2) by (auto intro!: exposition_header simp: exposition_line_def)
  ultimately show ?thesis by (simp add: render_lines_def Some exposition_devices)
qed

lemma render_read_back:
  assumes "in_line uptime" and "\<And>ds. in_line (seconds ds)"
  shows "str_lines (render version uptime seconds m) = render_lines version uptime seconds m"
  unfolding render_def
  using exposition_all [OF assms] by (intro str_lines_write) (auto simp: list_all_iff exposition_line_def in_line_def)

text \<open>C30: whatever the devices, sysfs and error reasons put into the labels, the exposition text is made
  of exactly the lines the program wrote, and each is a comment or a sample of a metric of this
  program: no label value can add a line of its own.\<close>

theorem exposition_lines:
  assumes "in_line uptime" and "\<And>ds. in_line (seconds ds)"
  shows "str_lines (render version uptime seconds m) = render_lines version uptime seconds m \<and>
    list_all exposition_line (str_lines (render version uptime seconds m))"
  using exposition_all [OF assms] render_read_back [OF assms] by simp

theorem exposition_lines_witness:
  "list_all exposition_line (str_lines (render ''0.1.0'' ''1.500'' (\<lambda>_. ''0.000000'')
     (set_device_state (DeviceLabels ''a'' ''0x028D'')
        \<lparr>present = True, usb_devnum = None, kernel_driver = Some [CHR 0x0A, CHR ''x''], st_firmware = None,
         st_serial = None, st_device_mode = None, poll_rate_hz = None, st_brightness = None,
         st_transaction_id = None\<rparr> (metrics_new False))))"
  by (rule exposition_lines [THEN conjunct2]) simp_all

subsection \<open>Counters as a scrape sees them\<close>

definition series_sample :: "string \<Rightarrow> string \<Rightarrow> series \<Rightarrow> u64 \<Rightarrow> string" where
  "series_sample name label key v = sample name (render_labels (fst key) @ '','' @ quoted label (snd key)) (fmt_word v)"

lemma counter_line:
  "map_of m key = Some v \<Longrightarrow> series_sample name label key v \<in> set (counter_lines name help label m)"
  by (cases key) (auto simp: counter_lines_def series_sample_def image_iff dest!: map_of_SomeD intro!: bexI)


definition sample_event :: event where
  "sample_event = Transaction \<lparr>tx_labels = DeviceLabels ''Razer BlackWidow V4 Pro'' ''0x028D'', tx_command = ''serial'',
     tx_attempts = 5, tx_duration = 50000000, tx_error = Some ''retries_exhausted''\<rparr>"


end
