(* ===== verification/Metrics_Http.thy ===== *)
theory Metrics_Http
  imports Metrics_Render Rust_Text
begin

text \<open>
  The scrape connection of \<open>crates/razerd/src/metrics.rs\<close>: \<open>handle\<close>, from the first bounded read to
  the answer.

  A connection is what its peer does: whether the socket accepts its timeouts and can be cloned, the
  bytes that arrive, and whether reading past them meets an orderly end or an error, such as the read
  timeout. The result is the answer given to \<open>write_all\<close>, \<open>None\<close> when the connection is dropped without
  one; the outcome of the write is ignored by the code. The write itself, the timeouts and the listening
  loop of \<open>serve\<close> are in \<open>Metrics_Serve\<close>.
\<close>

subsection \<open>Bounded reads\<close>

definition MAX_REQUEST_LINE :: nat where "MAX_REQUEST_LINE = 8 * 1024"
definition MAX_HEADER_LINE :: nat where "MAX_HEADER_LINE = 8 * 1024"
definition MAX_HEADERS :: nat where "MAX_HEADERS = 64"

record connection =
  read_timeout_set :: bool
  write_timeout_set :: bool
  cloned :: bool
  incoming :: string
  ends_orderly :: bool

text \<open>\<open>reader.take(limit).read_line(&mut line)\<close> and the input left: up to a line feed, the limit or
  the end of the input; an error if reading fails first or the bytes are not UTF-8.\<close>

definition read_line :: "nat \<Rightarrow> bool \<Rightarrow> string \<Rightarrow> string option \<times> string" where
  "read_line limit orderly input =
     (let chunk = take limit input;
          body = takeWhile (\<lambda>c. c \<noteq> CHR 0x0A) chunk;
          line = (if length body < length chunk then body @ [CHR 0x0A] else body);
          rest = drop (length line) input
      in if length body < length chunk \<or> length chunk = limit \<or> orderly
         then (if utf8_valid line then Some line else None, rest)
         else (None, rest))"

text \<open>The header loop; \<open>False\<close> when a read fails and the connection is dropped.\<close>

fun drain_headers :: "nat \<Rightarrow> bool \<Rightarrow> string \<Rightarrow> bool" where
  "drain_headers 0 orderly input = True"
| "drain_headers (Suc n) orderly input =
     (case read_line MAX_HEADER_LINE orderly input of
        (None, _) \<Rightarrow> False
      | (Some h, rest) \<Rightarrow> if h = [] then True else if trim h = [] then True else drain_headers n orderly rest)"

subsection \<open>Answers\<close>

definition crlf :: string where "crlf = [CHR 0x0D, CHR 0x0A]"

definition route :: "string \<Rightarrow> string \<Rightarrow> string \<times> string \<times> string" where
  "route exposition path =
     (if path = ''/metrics'' then (''200 OK'', ''text/plain; version=0.0.4; charset=utf-8'', exposition)
      else if path = ''/'' then
        (''200 OK'', ''text/html; charset=utf-8'',
         ''<html><body><h1>razerd</h1><a href='' @ [CHR 0x22] @ ''/metrics'' @ [CHR 0x22]
           @ ''>metrics</a></body></html>'' @ [CHR 0x0A])
      else (''404 Not Found'', ''text/plain; charset=utf-8'', ''not found'' @ [CHR 0x0A]))"

definition answer :: "string \<times> string \<times> string \<Rightarrow> string" where
  "answer r =
     (case r of (status, ctype, body) \<Rightarrow>
        ''HTTP/1.1 '' @ status @ crlf @ ''Content-Type: '' @ ctype @ crlf
        @ ''Content-Length: '' @ fmt_dec (length body) @ crlf @ ''Connection: close'' @ crlf @ crlf @ body)"

definition handle ::
  "string \<Rightarrow> string \<Rightarrow> (nat list \<Rightarrow> string) \<Rightarrow> metrics \<Rightarrow> connection \<Rightarrow> string option" where
  "handle version uptime seconds m c =
     (if \<not> read_timeout_set c \<or> \<not> write_timeout_set c then None
      else if \<not> cloned c then None
      else (case read_line MAX_REQUEST_LINE (ends_orderly c) (incoming c) of
              (None, _) \<Rightarrow> None
            | (Some line, rest) \<Rightarrow>
                if MAX_REQUEST_LINE \<le> length line \<and> (line = [] \<or> last line \<noteq> CHR 0x0A) then None
                else
                  let words = split_whitespace line;
                      path = (if 1 < length words then words ! 1 else [])
                  in if drain_headers MAX_HEADERS (ends_orderly c) rest
                     then Some (answer (route (render version uptime seconds m) path)) else None))"

subsection \<open>Well-formed requests\<close>

definition header_line :: "string \<Rightarrow> bool" where
  "header_line h \<longleftrightarrow> list_all is_ascii h \<and> CHR 0x0A \<notin> set h \<and> (\<exists>c \<in> set h. c \<notin> set ascii_whitespace) \<and>
     length h + 2 \<le> MAX_HEADER_LINE"

definition request_line :: "string \<Rightarrow> string \<Rightarrow> string \<Rightarrow> string" where
  "request_line meth target proto = meth @ '' '' @ target @ '' '' @ proto @ [CHR 0x0D]"

definition request :: "string \<Rightarrow> string \<Rightarrow> string \<Rightarrow> string list \<Rightarrow> string" where
  "request meth target proto hs =
     request_line meth target proto @ [CHR 0x0A] @ concat (map (\<lambda>h. h @ crlf) hs) @ crlf"

lemma read_line_line:
  assumes "list_all is_ascii l" and "CHR 0x0A \<notin> set l" and "length l < limit"
  shows "read_line limit orderly (l @ CHR 0x0A # rest) = (Some (l @ [CHR 0x0A]), rest)"
proof -
  have chunk: "take limit (l @ CHR 0x0A # rest) = l @ CHR 0x0A # take (limit - length l - 1) rest"
    using assms(3) by (cases "limit - length l") auto
  have body: "takeWhile (\<lambda>c. c \<noteq> CHR 0x0A) (l @ CHR 0x0A # t) = l" for t
    using assms(2) by (subst takeWhile_append2) auto
  have "utf8_valid (l @ [CHR 0x0A])"
    using assms(1) by (intro utf8_valid_ascii) (simp add: is_ascii_def)
  then show ?thesis unfolding read_line_def chunk body Let_def by simp
qed

lemma drain_header_step:
  assumes "header_line h"
  shows "drain_headers (Suc n) orderly (h @ crlf @ rest) = drain_headers n orderly rest"
proof -
  obtain c where c: "c \<in> set h" "c \<notin> set ascii_whitespace" using assms by (auto simp: header_line_def)
  have "read_line MAX_HEADER_LINE orderly ((h @ [CHR 0x0D]) @ CHR 0x0A # rest)
      = (Some ((h @ [CHR 0x0D]) @ [CHR 0x0A]), rest)"
    using assms by (intro read_line_line) (auto simp: header_line_def is_ascii_def)
  moreover have "trim (h @ [CHR 0x0D, CHR 0x0A]) \<noteq> []"
    using assms c by (intro trim_not_blank [of _ c]) (simp_all add: header_line_def is_ascii_def)
  ultimately show ?thesis by (simp add: crlf_def)
qed

lemma drain_headers_ok:
  "list_all header_line hs \<Longrightarrow>
    drain_headers n orderly (concat (map (\<lambda>h. h @ crlf) hs) @ crlf @ rest)"
proof (induction n arbitrary: hs)
  case 0
  show ?case by simp
next
  case (Suc n)
  show ?case
  proof (cases hs)
    case Nil
    have "read_line MAX_HEADER_LINE orderly ([CHR 0x0D] @ CHR 0x0A # rest) = (Some ([CHR 0x0D] @ [CHR 0x0A]), rest)"
      by (rule read_line_line) (simp_all add: is_ascii_def MAX_HEADER_LINE_def)
    moreover have "trim ([CHR 0x0D] @ [CHR 0x0A]) = []"
      by code_simp
    ultimately show ?thesis by (simp add: Nil crlf_def)
  next
    case (Cons h hs')
    with Suc show ?thesis by (simp del: drain_headers.simps add: drain_header_step)
  qed
qed

text \<open>A run of headers that never ends is read up to the bound, whatever comes after it.\<close>

lemma drain_headers_run:
  "list_all header_line hs \<Longrightarrow> n \<le> length hs \<Longrightarrow>
    drain_headers n orderly (concat (map (\<lambda>h. h @ crlf) hs) @ rest)"
proof (induction n arbitrary: hs)
  case (Suc n)
  then obtain h hs' where "hs = h # hs'" by (cases hs) auto
  with Suc show ?case by (simp del: drain_headers.simps add: drain_header_step)
qed simp

lemma request_line_ascii:
  assumes "plain_word meth" and "plain_word target" and "list_all is_ascii proto"
  shows "list_all is_ascii (request_line meth target proto @ [CHR 0x0A])"
  using assms by (auto simp: request_line_def plain_word_def is_ascii_def list_all_iff)

lemma request_line_words:
  assumes "plain_word meth" and "plain_word target" and "list_all is_ascii proto"
  shows "\<exists>ws. split_whitespace (request_line meth target proto @ [CHR 0x0A]) = meth # target # ws"
proof -
  have space: "CHR '' '' \<in> set ascii_whitespace" by (simp add: ascii_whitespace_def)
  note ascii = request_line_ascii [OF assms, unfolded request_line_def append_assoc append_Cons append_Nil]
  then have rest: "list_all is_ascii (CHR '' '' # target @ CHR '' '' # proto @ [CHR 0x0D, CHR 0x0A])"
    "list_all is_ascii (target @ CHR '' '' # proto @ [CHR 0x0D, CHR 0x0A])"
    by simp_all
  show ?thesis
    unfolding request_line_def append_assoc append_Cons append_Nil
    using split_whitespace_word [OF ascii assms(1) space] split_whitespace_space [OF rest(1) space]
      split_whitespace_word [OF rest(2) assms(2) space] by simp
qed

lemma handle_parsed:
  assumes "read_timeout_set c" and "write_timeout_set c" and "cloned c"
    and "incoming c = request_line meth target proto @ CHR 0x0A # rest"
    and "plain_word meth" and "plain_word target" and "list_all is_ascii proto"
    and "CHR 0x0A \<notin> set proto" and "length (request_line meth target proto) < MAX_REQUEST_LINE"
    and "drain_headers MAX_HEADERS (ends_orderly c) rest"
  shows "handle version uptime seconds m c = Some (answer (route (render version uptime seconds m) target))"
proof -
  let ?l = "request_line meth target proto"
  have words: "CHR 0x0A \<notin> set w" if "plain_word w" for w
    using that by (auto simp: plain_word_def list_all_iff ascii_whitespace_def)
  have "CHR 0x0A \<notin> set ?l"
    using words [OF assms(5)] words [OF assms(6)] assms(8) by (simp add: request_line_def)
  then have "read_line MAX_REQUEST_LINE (ends_orderly c) (?l @ CHR 0x0A # rest) = (Some (?l @ [CHR 0x0A]), rest)"
    using request_line_ascii [OF assms(5-7)] assms(9) by (intro read_line_line) simp_all
  moreover obtain ws where "split_whitespace (?l @ [CHR 0x0A]) = meth # target # ws"
    using request_line_words [OF assms(5-7)] by blast
  ultimately show ?thesis
    using assms(1-4,10) by (simp add: handle_def Let_def)
qed

lemma handle_request:
  assumes "read_timeout_set c" and "write_timeout_set c" and "cloned c"
    and "incoming c = request meth target proto hs @ rest"
    and "plain_word meth" and "plain_word target" and "list_all is_ascii proto"
    and "CHR 0x0A \<notin> set proto" and "length (request_line meth target proto) < MAX_REQUEST_LINE"
    and "list_all header_line hs"
  shows "handle version uptime seconds m c = Some (answer (route (render version uptime seconds m) target))"
  using assms drain_headers_ok [OF assms(10)]
  by (intro handle_parsed [OF assms(1-3) _ assms(5-9)]) (simp_all add: request_def)

definition scrape :: connection where
  "scrape = \<lparr>read_timeout_set = True, write_timeout_set = True, cloned = True,
     incoming = request ''GET'' ''/metrics'' ''HTTP/1.1'' [''Host: localhost''], ends_orderly = False\<rparr>"

text \<open>A well-formed request is answered whatever follows it, whether or not its peer closes, and
  the answer is decided by its target alone: the exposition for \<open>/metrics\<close>, the index for \<open>/\<close>, and
  404 for everything else.\<close>

theorem requests_are_answered:
  assumes "read_timeout_set c" and "write_timeout_set c" and "cloned c"
    and "incoming c = request meth target proto hs @ rest"
    and "plain_word meth" and "plain_word target" and "list_all is_ascii proto"
    and "CHR 0x0A \<notin> set proto" and "length (request_line meth target proto) < MAX_REQUEST_LINE"
    and "list_all header_line hs"
  shows "handle version uptime seconds m c = Some (answer (route (render version uptime seconds m) target))"
  by (rule handle_request [OF assms])

theorem requests_are_answered_witness:
  "handle ''0.1.0'' ''1.500'' (\<lambda>_. ''0.000000'') (metrics_new False) scrape
     = Some (answer (''200 OK'', ''text/plain; version=0.0.4; charset=utf-8'',
         render ''0.1.0'' ''1.500'' (\<lambda>_. ''0.000000'') (metrics_new False)))"
  using requests_are_answered [of scrape "''GET''" "''/metrics''" "''HTTP/1.1''" "[''Host: localhost'']" "[]"]
  by (simp add: scrape_def plain_word_def is_ascii_def ascii_whitespace_def request_line_def MAX_REQUEST_LINE_def
      header_line_def MAX_HEADER_LINE_def route_def)

subsection \<open>Hostile peers\<close>

lemma takeWhile_line:
  "CHR 0x0A \<notin> set s \<Longrightarrow> takeWhile (\<lambda>c. c \<noteq> CHR 0x0A) s = s"
  by (subst takeWhile_eq_all_conv) auto

text \<open>C38: a peer that floods the request line, stays silent before completing it, or whose socket
  cannot be given its timeouts gets no answer.\<close>

theorem bad_requests_unanswered:
  assumes "\<not> read_timeout_set c \<or> \<not> write_timeout_set c \<or> \<not> cloned c \<or>
    CHR 0x0A \<notin> set (take MAX_REQUEST_LINE (incoming c)) \<and>
      (MAX_REQUEST_LINE \<le> length (incoming c) \<or> \<not> ends_orderly c)"
  shows "handle version uptime seconds m c = None"
proof (cases "read_timeout_set c \<and> write_timeout_set c \<and> cloned c")
  case False
  then show ?thesis by (auto simp: handle_def)
next
  case True
  let ?chunk = "take MAX_REQUEST_LINE (incoming c)"
  from True assms have no: "CHR 0x0A \<notin> set ?chunk"
    and how: "MAX_REQUEST_LINE \<le> length (incoming c) \<or> \<not> ends_orderly c" by auto
  show ?thesis
  proof (cases "MAX_REQUEST_LINE \<le> length (incoming c)")
    case True
    then have "length ?chunk = MAX_REQUEST_LINE" by simp
    moreover have "?chunk = [] \<or> last ?chunk \<noteq> CHR 0x0A"
      using no last_in_set by metis
    ultimately show ?thesis
      by (auto simp: handle_def read_line_def takeWhile_line [OF no] Let_def)
  next
    case False
    then have chunk: "?chunk = incoming c" by simp
    have line: "takeWhile (\<lambda>c. c \<noteq> CHR 0x0A) (incoming c) = incoming c"
      using takeWhile_line no unfolding chunk by blast
    then have "fst (read_line MAX_REQUEST_LINE (ends_orderly c) (incoming c)) = None"
      using False how unfolding read_line_def Let_def chunk line by simp
    then show ?thesis
      by (cases "read_line MAX_REQUEST_LINE (ends_orderly c) (incoming c)") (simp add: handle_def)
  qed
qed

theorem bad_requests_unanswered_witness:
  "handle ''0.1.0'' ''1.500'' (\<lambda>_. ''0.000000'') (metrics_new False) (scrape\<lparr>incoming := replicate 16384 (CHR ''A'')\<rparr>) = None \<and>
   handle ''0.1.0'' ''1.500'' (\<lambda>_. ''0.000000'') (metrics_new False) (scrape\<lparr>incoming := ''GET /metr''\<rparr>) = None"
proof
  show "handle ''0.1.0'' ''1.500'' (\<lambda>_. ''0.000000'') (metrics_new False) (scrape\<lparr>incoming := replicate 16384 (CHR ''A'')\<rparr>) = None"
    by (rule bad_requests_unanswered) (simp add: scrape_def MAX_REQUEST_LINE_def)
  show "handle ''0.1.0'' ''1.500'' (\<lambda>_. ''0.000000'') (metrics_new False) (scrape\<lparr>incoming := ''GET /metr''\<rparr>) = None"
    by (rule bad_requests_unanswered) (simp add: scrape_def MAX_REQUEST_LINE_def)
qed

subsection \<open>The bound on what is read\<close>

text \<open>A read of at least its limit of bytes neither sees what follows nor how the input ends, and uses
  up no more than the limit.\<close>

lemma read_line_bounded:
  assumes "limit \<le> length a"
  obtains r k where "k \<le> limit" and "\<And>orderly b. read_line limit orderly (a @ b) = (r, drop k a @ b)"
proof -
  define line where "line =
    (let body = takeWhile (\<lambda>c. c \<noteq> CHR 0x0A) (take limit a)
     in if length body < length (take limit a) then body @ [CHR 0x0A] else body)"
  have "length (takeWhile (\<lambda>c. c \<noteq> CHR 0x0A) (take limit a)) \<le> length (take limit a)"
    by (rule length_takeWhile_le)
  then have le: "length line \<le> limit" using assms by (auto simp: line_def Let_def)
  have chunk: "take limit (a @ b) = take limit a" for b using assms by simp
  have "read_line limit orderly (a @ b) = (if utf8_valid line then Some line else None, drop (length line) a @ b)"
    for orderly b
    using assms le unfolding read_line_def Let_def chunk line_def [unfolded Let_def, symmetric] by simp
  then show thesis using that [OF le] by blast
qed

lemma drain_headers_bounded:
  "n * MAX_HEADER_LINE \<le> length a \<Longrightarrow>
    drain_headers n orderly (a @ b) = drain_headers n orderly' (a @ b')"
proof (induction n arbitrary: a)
  case 0
  show ?case by simp
next
  case (Suc n)
  have "MAX_HEADER_LINE \<le> length a" using Suc.prems by simp
  then obtain k r where k: "k \<le> MAX_HEADER_LINE"
    and step: "\<And>orderly b. read_line MAX_HEADER_LINE orderly (a @ b) = (r, drop k a @ b)"
    by (rule read_line_bounded) blast
  have "n * MAX_HEADER_LINE \<le> length (drop k a)" using Suc.prems k by simp
  from Suc.IH [OF this] show ?case by (cases r) (simp_all add: step)
qed

text \<open>One connection can make the server read at most 65 times 8 KiB: what comes after that, and
  how the connection ends, has no influence on the answer.\<close>

theorem reads_are_bounded:
  assumes "65 * 8192 \<le> length a"
  shows "handle version uptime seconds m (c\<lparr>incoming := a @ b, ends_orderly := orderly\<rparr>)
       = handle version uptime seconds m (c\<lparr>incoming := a @ b', ends_orderly := orderly'\<rparr>)"
proof -
  have "MAX_REQUEST_LINE \<le> length a" using assms by (simp add: MAX_REQUEST_LINE_def)
  then obtain k r where k: "k \<le> MAX_REQUEST_LINE"
    and step: "\<And>orderly b. read_line MAX_REQUEST_LINE orderly (a @ b) = (r, drop k a @ b)"
    by (rule read_line_bounded) blast
  have "MAX_HEADERS * MAX_HEADER_LINE \<le> length (drop k a)"
    using assms k by (simp add: MAX_HEADERS_def MAX_HEADER_LINE_def MAX_REQUEST_LINE_def)
  from drain_headers_bounded [OF this, of orderly b orderly' b'] show ?thesis
    by (cases r) (auto simp: handle_def step Let_def)
qed

theorem reads_are_bounded_witness:
  "handle ''0.1.0'' ''1.500'' (\<lambda>_. ''0.000000'') (metrics_new False)
     (scrape\<lparr>incoming := replicate 532480 (CHR ''A'') @ ''more'', ends_orderly := True\<rparr>)
   = handle ''0.1.0'' ''1.500'' (\<lambda>_. ''0.000000'') (metrics_new False) (scrape\<lparr>incoming := replicate 532480 (CHR ''A'') @ [], ends_orderly := False\<rparr>)"
  by (rule reads_are_bounded) simp

subsection \<open>Framing and privacy\<close>

text \<open>How a client takes an answer apart: the lines up to the first empty one, then the body.\<close>

fun read_head :: "string \<Rightarrow> string \<Rightarrow> string list \<times> string" where
  "read_head line [] = ([line], [])"
| "read_head line (c # cs) =
     (if c = CHR 0x0A
      then (if line = [CHR 0x0D] then ([], cs) else apfst (Cons line) (read_head [] cs))
      else read_head (line @ [c]) cs)"

lemma read_head_line:
  "CHR 0x0A \<notin> set l \<Longrightarrow> read_head line (l @ CHR 0x0A # rest)
    = (if line @ l = [CHR 0x0D] then ([], rest) else apfst (Cons (line @ l)) (read_head [] rest))"
  by (induction l arbitrary: line) auto

lemma read_head_crlf:
  "in_line l \<Longrightarrow> l \<noteq> [] \<Longrightarrow> read_head [] (l @ crlf @ rest) = apfst (Cons (l @ [CHR 0x0D])) (read_head [] rest)"
  "read_head [] (crlf @ rest) = ([], rest)"
  using read_head_line [of "l @ [CHR 0x0D]" "[]" rest]
  by (auto simp: crlf_def in_line_def)

lemma read_head_answer:
  assumes "in_line status" and "in_line ctype"
  shows "read_head [] (answer (status, ctype, body)) =
    ([''HTTP/1.1 '' @ status @ [CHR 0x0D], ''Content-Type: '' @ ctype @ [CHR 0x0D],
      ''Content-Length: '' @ fmt_dec (length body) @ [CHR 0x0D], ''Connection: close'' @ [CHR 0x0D]], body)"
proof -
  have eq: "answer (status, ctype, body) =
    (''HTTP/1.1 '' @ status) @ crlf @ (''Content-Type: '' @ ctype) @ crlf
     @ (''Content-Length: '' @ fmt_dec (length body)) @ crlf @ ''Connection: close'' @ crlf @ crlf @ body"
    by (simp add: answer_def)
  have s: "read_head [] ((''HTTP/1.1 '' @ status) @ crlf @ r)
      = apfst (Cons ((''HTTP/1.1 '' @ status) @ [CHR 0x0D])) (read_head [] r)"
    "read_head [] ((''Content-Type: '' @ ctype) @ crlf @ r)
      = apfst (Cons ((''Content-Type: '' @ ctype) @ [CHR 0x0D])) (read_head [] r)"
    "read_head [] ((''Content-Length: '' @ fmt_dec n) @ crlf @ r)
      = apfst (Cons ((''Content-Length: '' @ fmt_dec n) @ [CHR 0x0D])) (read_head [] r)"
    "read_head [] (''Connection: close'' @ crlf @ r)
      = apfst (Cons (''Connection: close'' @ [CHR 0x0D])) (read_head [] r)" for r n
    by (rule read_head_crlf; simp add: assms)+
  show ?thesis
    unfolding eq s read_head_crlf(2) apfst_conv by simp
qed

text \<open>Every answer is framed: a client that reads lines up to the empty one and then as many bytes
  as \<open>Content-Length\<close> says has read exactly the body the program chose.\<close>

theorem answers_are_framed:
  assumes "handle version uptime seconds m c = Some r"
  shows "\<exists>status ctype body. r = answer (status, ctype, body) \<and> in_line status \<and> in_line ctype \<and>
    read_head [] r =
      ([''HTTP/1.1 '' @ status @ [CHR 0x0D], ''Content-Type: '' @ ctype @ [CHR 0x0D],
        ''Content-Length: '' @ fmt_dec (length body) @ [CHR 0x0D], ''Connection: close'' @ [CHR 0x0D]], body)"
proof -
  obtain path where r: "r = answer (route (render version uptime seconds m) path)"
    using assms by (auto simp: handle_def Let_def split: if_splits option.splits prod.splits)
  obtain status ctype body where route: "route (render version uptime seconds m) path = (status, ctype, body)"
    by (rule prod_cases3)
  moreover from this have "in_line status" "in_line ctype"
    by (auto simp: route_def split: if_splits)
  ultimately show ?thesis using r read_head_answer by auto
qed

theorem answers_are_framed_witness:
  "\<exists>r status ctype body. handle ''0.1.0'' ''1.500'' (\<lambda>_. ''0.000000'') (metrics_new False)
     (scrape\<lparr>incoming := ''GET / HTTP/1.1'' @ crlf @ crlf\<rparr>) = Some r \<and>
   read_head [] r =
      ([''HTTP/1.1 '' @ status @ [CHR 0x0D], ''Content-Type: '' @ ctype @ [CHR 0x0D],
        ''Content-Length: '' @ fmt_dec (length body) @ [CHR 0x0D], ''Connection: close'' @ [CHR 0x0D]], body)"
proof -
  have "handle ''0.1.0'' ''1.500'' (\<lambda>_. ''0.000000'') (metrics_new False)
     (scrape\<lparr>incoming := ''GET / HTTP/1.1'' @ crlf @ crlf\<rparr>)
     = Some (answer (route (render ''0.1.0'' ''1.500'' (\<lambda>_. ''0.000000'') (metrics_new False)) ''/''))"
    by (rule handle_request [of _ "''GET''" "''/''" "''HTTP/1.1''" "[]" "[]"])
      (simp_all add: scrape_def request_def request_line_def crlf_def plain_word_def is_ascii_def
        ascii_whitespace_def MAX_REQUEST_LINE_def)
  from answers_are_framed [OF this] this show ?thesis by blast
qed

text \<open>C32: without \<open>--expose-serial\<close> the serials stay with the program: the exposition text and every
  answer are those of a registry that never knew a serial.\<close>

theorem serials_stay_private:
  assumes "\<not> expose_serial m"
  shows "render version uptime seconds m = render version uptime seconds (forget_serials m) \<and>
    handle version uptime seconds m c = handle version uptime seconds (forget_serials m) c"
  unfolding handle_def render_forget [OF assms] by (intro conjI refl)

theorem serials_stay_private_witness:
  "let m = set_device_state (DeviceLabels ''a'' ''0x028D'')
     \<lparr>present = True, usb_devnum = None, kernel_driver = None, st_firmware = None, st_serial = Some ''IO2433F81500082'',
       st_device_mode = None, poll_rate_hz = None, st_brightness = None, st_transaction_id = None\<rparr> (metrics_new False)
   in render ''0.1.0'' ''1.500'' (\<lambda>_. ''0.000000'') m = render ''0.1.0'' ''1.500'' (\<lambda>_. ''0.000000'') (forget_serials m) \<and>
     forget_serials m \<noteq> m"
  unfolding Let_def
  by (intro conjI serials_stay_private [THEN conjunct1])
    (simp_all add: set_device_state_def metrics_new_def forget_serials_def inner_new_def)

end
