(* ===== verification/Metrics_Serve.thy ===== *)
theory Metrics_Serve
  imports Metrics_Http
begin

text \<open>
  The listening loop \<open>serve\<close> of \<open>crates/razerd/src/metrics.rs\<close> and the time its only thread spends
  reading and writing. A peer is described by what each \<open>read\<close> of its socket returns: the time it takes, in
  nanoseconds, and the bytes (at least one), and by what happens after the last. A read that takes
  \<open>IO_TIMEOUT\<close> or longer fails after that time. \<open>timed_handle\<close> is \<open>handle\<close> over such a peer, with the
  time spent in reads; it is shown to compute what \<open>handle\<close> computes of the bytes that arrive in time.
  \<open>write_all\<close> is the writing of the answer: each \<open>write\<close> of the socket takes some time, at most
  \<open>IO_TIMEOUT\<close>, and accepts some bytes or fails. \<open>timed_exchange\<close> puts the two together.
\<close>

subsection \<open>Peers\<close>

definition IO_TIMEOUT :: nat where "IO_TIMEOUT = 10 * 10 ^ 9"

datatype peer_end = Closes nat | Resets nat | Silent

type_synonym segment = "nat \<times> char \<times> string"

record feed =
  buffered :: string
  coming :: "segment list"
  ending :: peer_end
  waited :: nat

datatype read_result = Byte char | Eof | Failed

text \<open>The next byte: from the buffer, else from one \<open>read\<close> that fills it.\<close>

definition wait_for :: "nat \<Rightarrow> feed \<Rightarrow> feed" where
  "wait_for d f = f\<lparr>waited := waited f + min d IO_TIMEOUT\<rparr>"

definition next_byte :: "feed \<Rightarrow> read_result \<times> feed" where
  "next_byte f =
     (case buffered f of
        c # cs \<Rightarrow> (Byte c, f\<lparr>buffered := cs\<rparr>)
      | [] \<Rightarrow>
          (case coming f of
             (d, c, cs) # rest \<Rightarrow>
               if d < IO_TIMEOUT then (Byte c, (wait_for d f)\<lparr>buffered := cs, coming := rest\<rparr>)
               else (Failed, wait_for d f)
           | [] \<Rightarrow>
               (case ending f of
                  Closes d \<Rightarrow>
                    if d < IO_TIMEOUT then (Eof, (wait_for d f)\<lparr>ending := Closes 0\<rparr>) else (Failed, wait_for d f)
                | Resets d \<Rightarrow> (Failed, wait_for d f)
                | Silent \<Rightarrow> (Failed, wait_for IO_TIMEOUT f))))"

text \<open>At most \<open>n\<close> bytes, up to a line feed or the end of the input; \<open>None\<close> if a read fails first.\<close>

fun take_line :: "nat \<Rightarrow> feed \<Rightarrow> string option \<times> feed" where
  "take_line 0 f = (Some [], f)"
| "take_line (Suc n) f =
     (case next_byte f of
        (Failed, f) \<Rightarrow> (None, f)
      | (Eof, f) \<Rightarrow> (Some [], f)
      | (Byte c, f) \<Rightarrow>
          if c = CHR 0x0A then (Some [c], f)
          else (case take_line n f of (r, f) \<Rightarrow> (map_option (Cons c) r, f)))"

definition timed_read_line :: "nat \<Rightarrow> feed \<Rightarrow> string option \<times> feed" where
  "timed_read_line limit f =
     (case take_line limit f of
        (None, f) \<Rightarrow> (None, f)
      | (Some line, f) \<Rightarrow> (if utf8_valid line then Some line else None, f))"

fun timed_drain :: "nat \<Rightarrow> feed \<Rightarrow> bool \<times> feed" where
  "timed_drain 0 f = (True, f)"
| "timed_drain (Suc n) f =
     (case timed_read_line MAX_HEADER_LINE f of
        (None, f) \<Rightarrow> (False, f)
      | (Some h, f) \<Rightarrow> if h = [] then (True, f) else if trim h = [] then (True, f) else timed_drain n f)"

text \<open>What one \<open>write\<close> of the socket returns: a number of bytes, or an error.\<close>

datatype write_result = Writes nat | Breaks

record peer =
  takes_read_timeout :: bool
  takes_write_timeout :: bool
  can_clone :: bool
  peer_segments :: "segment list"
  peer_ending :: peer_end
  peer_writes :: "(nat \<times> write_result) list"

definition start_feed :: "peer \<Rightarrow> feed" where
  "start_feed p = \<lparr>buffered = [], coming = peer_segments p, ending = peer_ending p, waited = 0\<rparr>"

text \<open>The answer, if any, and the time spent in reads.\<close>

definition timed_handle ::
  "string \<Rightarrow> string \<Rightarrow> (nat list \<Rightarrow> string) \<Rightarrow> metrics \<Rightarrow> peer \<Rightarrow> string option \<times> nat" where
  "timed_handle version uptime seconds m p =
     (if \<not> takes_read_timeout p \<or> \<not> takes_write_timeout p then (None, 0)
      else if \<not> can_clone p then (None, 0)
      else (case timed_read_line MAX_REQUEST_LINE (start_feed p) of
              (None, f) \<Rightarrow> (None, waited f)
            | (Some line, f) \<Rightarrow>
                if MAX_REQUEST_LINE \<le> length line \<and> (line = [] \<or> last line \<noteq> CHR 0x0A) then (None, waited f)
                else
                  let words = split_whitespace line;
                      path = (if 1 < length words then words ! 1 else [])
                  in (case timed_drain MAX_HEADERS f of
                        (ok, f) \<Rightarrow>
                          (if ok then Some (answer (route (render version uptime seconds m) path)) else None,
                           waited f))))"

text \<open>\<open>write_all\<close>: the bytes that reached the socket, and the time spent. It goes on after a partial write
  and stops at an error or at a write of no bytes; a peer beyond its list takes nothing more, and the
  write timeout ends the call. \<open>flush\<close> of a \<open>TcpStream\<close> does nothing.\<close>

fun write_all :: "(nat \<times> write_result) list \<Rightarrow> string \<Rightarrow> string \<times> nat" where
  "write_all ws [] = ([], 0)"
| "write_all [] (c # cs) = ([], IO_TIMEOUT)"
| "write_all ((d, w) # ws) (c # cs) =
     (case w of
        Writes (Suc n) \<Rightarrow>
          (case write_all ws (drop n cs) of (out, t) \<Rightarrow> (c # take n cs @ out, min d IO_TIMEOUT + t))
      | _ \<Rightarrow> ([], min d IO_TIMEOUT))"

text \<open>One connection from the first read to the end of the last write: the answer, if any, the part of it
  that was written, and the time.\<close>

definition timed_exchange ::
  "string \<Rightarrow> string \<Rightarrow> (nat list \<Rightarrow> string) \<Rightarrow> metrics \<Rightarrow> peer \<Rightarrow> string option \<times> string \<times> nat" where
  "timed_exchange version uptime seconds m p =
     (case timed_handle version uptime seconds m p of
        (None, d) \<Rightarrow> (None, [], d)
      | (Some response, d) \<Rightarrow>
          (case write_all (peer_writes p) response of (out, t) \<Rightarrow> (Some response, out, d + t)))"

subsection \<open>The loop\<close>

text \<open>One turn of the loop: the uptime and the registry at that moment, and what \<open>accept\<close> returned.\<close>

datatype accepted = AcceptFailed string | Accepted peer

type_synonym turn = "string \<times> metrics \<times> accepted"

text \<open>What each turn came to: when it began, the answer given, the part of it written, the line logged.\<close>

record served =
  began :: nat
  answered :: "string option"
  delivered :: string
  logged :: "string list"

fun serve_loop :: "string \<Rightarrow> (nat list \<Rightarrow> string) \<Rightarrow> nat \<Rightarrow> turn list \<Rightarrow> served list" where
  "serve_loop version seconds now [] = []"
| "serve_loop version seconds now ((uptime, m, a) # turns) =
     (case a of
        AcceptFailed e \<Rightarrow>
          \<lparr>began = now, answered = None, delivered = [], logged = [''razerd: accept failed: '' @ e]\<rparr>
          # serve_loop version seconds now turns
      | Accepted p \<Rightarrow>
          (case timed_exchange version uptime seconds m p of
             (r, out, d) \<Rightarrow>
               \<lparr>began = now, answered = r, delivered = out, logged = []\<rparr>
               # serve_loop version seconds (now + d) turns))"

record listener =
  bound :: "string option"
  local_addr :: "string + string"
  is_loopback :: bool

definition serve_banner :: "listener \<Rightarrow> string \<Rightarrow> string list" where
  "serve_banner l addr =
     (if \<not> is_loopback l then
        [''razerd: WARNING: metrics listening on '' @ addr @ '', which is not loopback.'',
         ''razerd:          This endpoint is unauthenticated and exposes device identity'',
         ''razerd:          (and the serial, with --expose-serial) to anyone who can reach it.'']
      else [])
     @ [''razerd: metrics on http://'' @ addr @ ''/metrics'']"

text \<open>\<open>bound\<close> is the error of \<open>bind\<close>, if any. The loop serves the given turns.\<close>

definition serve ::
  "string \<Rightarrow> (nat list \<Rightarrow> string) \<Rightarrow> listener \<Rightarrow> turn list \<Rightarrow> string + string list \<times> served list" where
  "serve version seconds l turns =
     (case bound l of
        Some e \<Rightarrow> Inl e
      | None \<Rightarrow>
          (case local_addr l of
             Inl e \<Rightarrow> Inl e
           | Inr addr \<Rightarrow> Inr (serve_banner l addr, serve_loop version seconds 0 turns)))"

definition DEFAULT_ADDR :: string where "DEFAULT_ADDR = ''127.0.0.1:9782''"

subsection \<open>The bytes that arrive in time\<close>

fun timely_bytes :: "segment list \<Rightarrow> string" where
  "timely_bytes [] = []"
| "timely_bytes ((d, c, cs) # rest) = (if d < IO_TIMEOUT then c # cs @ timely_bytes rest else [])"

definition timely_end :: "segment list \<Rightarrow> peer_end \<Rightarrow> bool" where
  "timely_end ss e \<longleftrightarrow> list_all (\<lambda>(d, _). d < IO_TIMEOUT) ss \<and> (case e of Closes d \<Rightarrow> d < IO_TIMEOUT | _ \<Rightarrow> False)"

definition flat :: "feed \<Rightarrow> string" where
  "flat f = buffered f @ timely_bytes (coming f)"

definition orderly :: "feed \<Rightarrow> bool" where
  "orderly f = timely_end (coming f) (ending f)"

definition flat_peer :: "peer \<Rightarrow> connection" where
  "flat_peer p =
     \<lparr>read_timeout_set = takes_read_timeout p, write_timeout_set = takes_write_timeout p, cloned = can_clone p,
      incoming = timely_bytes (peer_segments p), ends_orderly = timely_end (peer_segments p) (peer_ending p)\<rparr>"

lemma next_byte_flat:
  "next_byte f = (Byte c, f') \<Longrightarrow> flat f = c # flat f' \<and> orderly f' = orderly f"
  "next_byte f = (Eof, f') \<Longrightarrow> flat f = [] \<and> orderly f \<and> flat f' = [] \<and> orderly f'"
  "next_byte f = (Failed, f') \<Longrightarrow> flat f = [] \<and> \<not> orderly f"
  by (auto simp: next_byte_def flat_def orderly_def timely_end_def wait_for_def IO_TIMEOUT_def
      split: list.splits prod.splits if_splits peer_end.splits)

lemma next_byte_waited: "waited (snd (next_byte f)) \<le> waited f + IO_TIMEOUT"
  by (auto simp: next_byte_def wait_for_def split: list.splits prod.splits peer_end.splits)

text \<open>The untimed read, byte by byte.\<close>

fun raw_line :: "nat \<Rightarrow> bool \<Rightarrow> string \<Rightarrow> string option \<times> string" where
  "raw_line 0 ok s = (Some [], s)"
| "raw_line (Suc n) ok [] = (if ok then Some [] else None, [])"
| "raw_line (Suc n) ok (c # s) =
     (if c = CHR 0x0A then (Some [c], s) else apfst (map_option (Cons c)) (raw_line n ok s))"

lemma take_line_raw:
  "fst (take_line n f) = fst (raw_line n (orderly f) (flat f)) \<and>
   (fst (take_line n f) \<noteq> None \<longrightarrow>
      flat (snd (take_line n f)) = snd (raw_line n (orderly f) (flat f)) \<and>
      orderly (snd (take_line n f)) = orderly f)"
proof (induction n arbitrary: f)
  case 0
  show ?case by simp
next
  case (Suc n)
  obtain r g where step: "next_byte f = (r, g)" by (rule prod.exhaust)
  then show ?case
    using next_byte_flat [of f] Suc.IH [of g]
    by (cases r) (auto split: prod.split option.splits simp: apfst_def map_prod_def)
qed

lemma raw_line_chunk:
  "raw_line n ok s =
     (let body = takeWhile (\<lambda>c. c \<noteq> CHR 0x0A) (take n s);
          line = (if length body < length (take n s) then body @ [CHR 0x0A] else body)
      in (if length body < length (take n s) \<or> length (take n s) = n \<or> ok then Some line else None,
          drop (length line) s))"
  by (induction n ok s rule: raw_line.induct) (auto simp: Let_def)

lemma read_line_raw:
  "read_line n ok s =
     (case raw_line n ok s of
        (None, rest) \<Rightarrow> (None, rest) | (Some l, rest) \<Rightarrow> (if utf8_valid l then Some l else None, rest))"
  by (simp add: read_line_def raw_line_chunk Let_def)

lemma timed_read_line_flat:
  assumes "timed_read_line n f = (r, f')"
  shows "fst (read_line n (orderly f) (flat f)) = r"
    and "r \<noteq> None \<Longrightarrow> snd (read_line n (orderly f) (flat f)) = flat f' \<and> orderly f' = orderly f"
  using assms take_line_raw [of n f]
  by (auto simp: timed_read_line_def read_line_raw split: prod.splits option.splits if_splits)

lemma timed_drain_flat: "fst (timed_drain n f) = drain_headers n (orderly f) (flat f)"
proof (induction n arbitrary: f)
  case 0
  show ?case by simp
next
  case (Suc n)
  obtain r g where step: "timed_read_line MAX_HEADER_LINE f = (r, g)" by (rule prod.exhaust)
  obtain r' s where read: "read_line MAX_HEADER_LINE (orderly f) (flat f) = (r', s)" by (rule prod.exhaust)
  show ?case
    using timed_read_line_flat [OF step] Suc.IH [of g]
    by (cases r) (simp_all add: step read)
qed

lemma timed_handle_flat:
  "fst (timed_handle version uptime seconds m p) = handle version uptime seconds m (flat_peer p)"
proof -
  have start: "flat (start_feed p) = incoming (flat_peer p)" "orderly (start_feed p) = ends_orderly (flat_peer p)"
    by (simp_all add: flat_def orderly_def start_feed_def flat_peer_def)
  obtain r f where step: "timed_read_line MAX_REQUEST_LINE (start_feed p) = (r, f)" by (rule prod.exhaust)
  obtain r' s where read: "read_line MAX_REQUEST_LINE (ends_orderly (flat_peer p)) (incoming (flat_peer p)) = (r', s)"
    by (rule prod.exhaust)
  have same: "r' = r" "r \<noteq> None \<Longrightarrow> s = flat f \<and> orderly f = ends_orderly (flat_peer p)"
    using timed_read_line_flat [OF step] unfolding start read by simp_all
  obtain ok g where drain: "timed_drain MAX_HEADERS f = (ok, g)" by (rule prod.exhaust)
  show ?thesis
  proof (cases r)
    case None
    then show ?thesis using step read same(1)
      by (simp add: timed_handle_def handle_def flat_peer_def)
  next
    case (Some line)
    have "drain_headers MAX_HEADERS (ends_orderly (flat_peer p)) s = ok"
      using same(2) Some timed_drain_flat [of MAX_HEADERS f] drain by simp
    then show ?thesis using step read same(1) Some drain
      by (simp add: timed_handle_def handle_def Let_def) (auto simp: flat_peer_def)
  qed
qed

subsection \<open>How long a connection is read\<close>

lemma take_line_waited: "waited (snd (take_line n f)) \<le> waited f + n * IO_TIMEOUT"
proof (induction n arbitrary: f)
  case 0
  show ?case by simp
next
  case (Suc n)
  obtain r g where step: "next_byte f = (r, g)" by (rule prod.exhaust)
  have "waited g \<le> waited f + IO_TIMEOUT" using next_byte_waited [of f] step by simp
  moreover have "waited (snd (take_line n g)) \<le> waited g + n * IO_TIMEOUT" by (rule Suc.IH)
  ultimately show ?case by (cases r) (auto simp: step split: prod.split)
qed

lemma timed_read_line_waited: "waited (snd (timed_read_line n f)) \<le> waited f + n * IO_TIMEOUT"
  using take_line_waited [of n f] by (auto simp: timed_read_line_def split: prod.split option.split)

lemma timed_drain_waited: "waited (snd (timed_drain n f)) \<le> waited f + n * (MAX_HEADER_LINE * IO_TIMEOUT)"
proof (induction n arbitrary: f)
  case 0
  show ?case by simp
next
  case (Suc n)
  obtain r g where step: "timed_read_line MAX_HEADER_LINE f = (r, g)" by (rule prod.exhaust)
  have "waited g \<le> waited f + MAX_HEADER_LINE * IO_TIMEOUT"
    using timed_read_line_waited [of MAX_HEADER_LINE f] step by simp
  moreover have "waited (snd (timed_drain n g)) \<le> waited g + n * (MAX_HEADER_LINE * IO_TIMEOUT)" by (rule Suc.IH)
  ultimately show ?case by (auto simp: step split: option.split)
qed

lemma timed_handle_waited:
  "snd (timed_handle version uptime seconds m p)
     \<le> (MAX_REQUEST_LINE + MAX_HEADERS * MAX_HEADER_LINE) * IO_TIMEOUT"
proof -
  obtain r f where step: "timed_read_line MAX_REQUEST_LINE (start_feed p) = (r, f)" by (rule prod.exhaust)
  have f: "waited f \<le> MAX_REQUEST_LINE * IO_TIMEOUT"
    using timed_read_line_waited [of MAX_REQUEST_LINE "start_feed p"] step by (simp add: start_feed_def)
  moreover obtain ok g where drain: "timed_drain MAX_HEADERS f = (ok, g)" by (rule prod.exhaust)
  moreover have "waited g \<le> waited f + MAX_HEADERS * (MAX_HEADER_LINE * IO_TIMEOUT)"
    using timed_drain_waited [of MAX_HEADERS f] drain by simp
  ultimately show ?thesis
    by (cases r) (auto simp: timed_handle_def step drain Let_def add_mult_distrib)
qed

text \<open>C34: the timed handler implements the untimed one: the answer is that of the bytes which arrive
  before the first read that takes too long, however they are split into reads; and reading one
  connection ends after at most 65 times 8192 reads of at most ten seconds.\<close>

theorem timed_handle_refines:
  "fst (timed_handle version uptime seconds m p) = handle version uptime seconds m (flat_peer p) \<and>
   snd (timed_handle version uptime seconds m p) \<le> 65 * 8192 * (10 * 10 ^ 9)"
  using timed_handle_waited [of version uptime seconds m p]
  by (simp add: timed_handle_flat MAX_REQUEST_LINE_def MAX_HEADERS_def MAX_HEADER_LINE_def IO_TIMEOUT_def)

text \<open>A peer that sends a request line without end, one byte at a time.\<close>

definition dripping_peer :: "nat \<Rightarrow> peer" where
  "dripping_peer d =
     \<lparr>takes_read_timeout = True, takes_write_timeout = True, can_clone = True,
      peer_segments = replicate MAX_REQUEST_LINE (d, CHR ''A'', []), peer_ending = Silent, peer_writes = []\<rparr>"

lemma take_line_drip:
  "buffered f = [] \<Longrightarrow> coming f = replicate k (d, CHR ''A'', []) \<Longrightarrow> d < IO_TIMEOUT \<Longrightarrow> n \<le> k \<Longrightarrow>
    fst (take_line n f) = Some (replicate n (CHR ''A'')) \<and> waited (snd (take_line n f)) = waited f + n * d"
proof (induction n arbitrary: f k)
  case 0
  then show ?case by simp
next
  case (Suc n)
  then obtain j where k: "k = Suc j" by (cases k) auto
  let ?g = "(wait_for d f)\<lparr>buffered := [], coming := replicate j (d, CHR ''A'', [])\<rparr>"
  have step: "next_byte f = (Byte (CHR ''A''), ?g)"
    using Suc.prems by (simp add: next_byte_def k)
  have "fst (take_line n ?g) = Some (replicate n (CHR ''A'')) \<and> waited (snd (take_line n ?g)) = waited ?g + n * d"
    by (rule Suc.IH [of _ j]) (use Suc.prems k in simp_all)
  moreover have "waited ?g = waited f + d" using Suc.prems(3) by (simp add: wait_for_def)
  ultimately show ?case by (auto simp: step split: prod.split)
qed

text \<open>C35: the read timeout bounds a single read and not a connection: a peer that sends a byte in just
  under ten seconds, and no line feed, is never answered and yet holds the only serving thread for
  8192 times as long, more than 22 hours.\<close>

theorem dripping_peer_holds:
  assumes "d < IO_TIMEOUT"
  shows "timed_handle version uptime seconds m (dripping_peer d) = (None, 8192 * d)"
proof -
  let ?f = "start_feed (dripping_peer d)"
  obtain line f where step: "take_line MAX_REQUEST_LINE ?f = (line, f)" by (rule prod.exhaust)
  have line: "line = Some (replicate MAX_REQUEST_LINE (CHR ''A''))" and waited: "waited f = MAX_REQUEST_LINE * d"
    using take_line_drip [of ?f MAX_REQUEST_LINE d MAX_REQUEST_LINE] assms step
    by (simp_all add: start_feed_def dripping_peer_def)
  have "utf8_valid (replicate MAX_REQUEST_LINE (CHR ''A''))"
    by (rule utf8_valid_ascii) (simp add: list_all_iff is_ascii_def)
  then have "timed_read_line MAX_REQUEST_LINE ?f = (line, f)"
    by (simp add: timed_read_line_def step line)
  moreover have "last (replicate MAX_REQUEST_LINE (CHR ''A'')) \<noteq> CHR 0x0A"
    by (simp add: MAX_REQUEST_LINE_def)
  ultimately show ?thesis
    by (simp add: timed_handle_def line waited dripping_peer_def) (simp add: MAX_REQUEST_LINE_def)
qed

theorem dripping_peer_holds_witness:
  "let (r, t) = timed_handle ''0.1.0'' ''1.500'' (\<lambda>_. ''0.000000'') (metrics_new False) (dripping_peer (99 * 10 ^ 8))
   in r = None \<and> 22 * 3600 * 10 ^ 9 < t"
  using dripping_peer_holds [of "99 * 10 ^ 8" "''0.1.0''" "''1.500''" "\<lambda>_. ''0.000000''" "metrics_new False"]
  by (simp add: IO_TIMEOUT_def)

subsection \<open>How long an answer is written\<close>

lemma write_all_bound: "snd (write_all ws s) \<le> length s * IO_TIMEOUT"
proof (induction ws s rule: write_all.induct)
  case (3 d w ws c cs)
  show ?case
  proof (cases "\<exists>n. w = Writes (Suc n)")
    case True
    then obtain n where w: "w = Writes (Suc n)" by blast
    have "snd (write_all ws (drop n cs)) \<le> length (drop n cs) * IO_TIMEOUT" by (rule "3.IH" [OF w refl])
    also have "\<dots> \<le> length cs * IO_TIMEOUT" by (intro mult_le_mono) simp_all
    finally show ?thesis by (simp add: w split_beta add_mono)
  next
    case False
    then show ?thesis by (cases w) (auto split: nat.split)
  qed
qed simp_all

text \<open>A peer that reads on: every write accepts something until the answer is out.\<close>

fun reads_on :: "(nat \<times> write_result) list \<Rightarrow> nat \<Rightarrow> bool" where
  "reads_on ws 0 = True"
| "reads_on [] (Suc k) = False"
| "reads_on ((d, w) # ws) (Suc k) = (case w of Writes (Suc n) \<Rightarrow> reads_on ws (k - n) | _ \<Rightarrow> False)"

lemma write_all_complete: "reads_on ws (length s) \<Longrightarrow> fst (write_all ws s) = s"
  by (induction ws s rule: write_all.induct) (auto simp: split_beta split: write_result.splits nat.splits)

text \<open>The longest a connection can occupy the thread: the reads, and a write for each byte of its answer.\<close>

definition longest :: "string option \<Rightarrow> nat" where
  "longest r = 65 * 8192 * (10 * 10 ^ 9) + (case r of None \<Rightarrow> 0 | Some response \<Rightarrow> length response * (10 * 10 ^ 9))"

lemma timed_exchange_bound:
  assumes "timed_exchange version uptime seconds m p = (r, out, d)"
  shows "r = fst (timed_handle version uptime seconds m p)" and "d \<le> longest r"
    and "r = Some response \<Longrightarrow> reads_on (peer_writes p) (length response) \<Longrightarrow> out = response"
proof -
  obtain x t where read: "timed_handle version uptime seconds m p = (x, t)" by (rule prod.exhaust)
  have t: "t \<le> 65 * 8192 * (10 * 10 ^ 9)"
    using timed_handle_waited [of version uptime seconds m p] read
    by (simp add: MAX_REQUEST_LINE_def MAX_HEADERS_def MAX_HEADER_LINE_def IO_TIMEOUT_def)
  show "r = fst (timed_handle version uptime seconds m p)"
    using assms by (auto simp: timed_exchange_def read split: option.splits prod.splits)
  show "d \<le> longest r"
  proof (cases x)
    case None
    with assms t show ?thesis by (auto simp: timed_exchange_def read longest_def)
  next
    case (Some response')
    obtain out' w where wr: "write_all (peer_writes p) response' = (out', w)" by (rule prod.exhaust)
    have "w \<le> length response' * (10 * 10 ^ 9)"
      using write_all_bound [of "peer_writes p" response'] by (simp add: wr IO_TIMEOUT_def)
    with assms t show ?thesis by (auto simp: timed_exchange_def read Some wr longest_def)
  qed
  show "out = response" if "r = Some response" "reads_on (peer_writes p) (length response)"
    using assms that write_all_complete [of "peer_writes p" response]
    by (auto simp: timed_exchange_def read split: option.splits prod.splits)
qed

text \<open>A peer that stops reading holds the thread until the write timeout, once its answer is due.\<close>

lemma stalled_peer_times_out:
  assumes "timed_handle version uptime seconds m p = (Some response, d)" and "response \<noteq> []" and "peer_writes p = []"
  shows "timed_exchange version uptime seconds m p = (Some response, [], d + IO_TIMEOUT)"
  using assms by (cases response) (simp_all add: timed_exchange_def)

subsection \<open>Every scrape is served\<close>

lemma serve_loop_nth:
  assumes "i < length turns" and "turns ! i = (uptime, m, Accepted p)"
    and "out = serve_loop version seconds now turns"
  shows "\<exists>d. timed_exchange version uptime seconds m p = (answered (out ! i), delivered (out ! i), d)"
    and "began (out ! i) \<le> now + (\<Sum>turn \<leftarrow> take i out. longest (answered turn))"
proof -
  have "(\<exists>d. timed_exchange version uptime seconds m p = (answered (out ! i), delivered (out ! i), d)) \<and>
    began (out ! i) \<le> now + (\<Sum>turn \<leftarrow> take i out. longest (answered turn))"
    using assms
  proof (induction turns arbitrary: now i out)
    case Nil
    then show ?case by simp
  next
    case (Cons t turns)
    obtain u m' a where t: "t = (u, m', a)" by (rule prod_cases3)
    show ?case
    proof (cases i)
      case 0
      obtain r out' d where "timed_exchange version uptime seconds m p = (r, out', d)" by (rule prod_cases3)
      with 0 show ?thesis using Cons.prems by (simp add: t)
    next
      case (Suc j)
      then have j: "j < length turns" "turns ! j = (uptime, m, Accepted p)" using Cons.prems by simp_all
      show ?thesis
      proof (cases a)
        case (AcceptFailed e)
        then show ?thesis using Cons.IH [OF j refl, of now] Cons.prems(3) by (simp add: t Suc trans_le_add2)
      next
        case (Accepted q)
        obtain r out' d where h: "timed_exchange version u seconds m' q = (r, out', d)" by (rule prod_cases3)
        have "d \<le> longest r" by (rule timed_exchange_bound(2) [OF h])
        then show ?thesis using Cons.IH [OF j refl, of "now + d"] Cons.prems(3) by (simp add: t Suc Accepted h)
      qed
    qed
  qed
  then show "\<exists>d. timed_exchange version uptime seconds m p = (answered (out ! i), delivered (out ! i), d)"
    and "began (out ! i) \<le> now + (\<Sum>turn \<leftarrow> take i out. longest (answered turn))" by blast+
qed

text \<open>C33: whatever the connections before it did, a well-formed scrape that arrives in time is answered,
  in full if its peer reads on, and its turn has come after at most, for each earlier connection, the
  bound on reading it and ten seconds for every byte of its answer.\<close>

theorem scrapes_are_served:
  assumes "serve version seconds l turns = Inr (log, out)"
    and "i < length turns" and "turns ! i = (uptime, m, Accepted p)"
    and "takes_read_timeout p" and "takes_write_timeout p" and "can_clone p"
    and "timely_bytes (peer_segments p) = request meth target proto hs @ rest"
    and "plain_word meth" and "plain_word target" and "list_all is_ascii proto"
    and "CHR 0x0A \<notin> set proto" and "length (request_line meth target proto) < MAX_REQUEST_LINE"
    and "list_all header_line hs"
    and "response = answer (route (render version uptime seconds m) target)"
  shows "answered (out ! i) = Some response \<and>
    (reads_on (peer_writes p) (length response) \<longrightarrow> delivered (out ! i) = response) \<and>
    began (out ! i) \<le> (\<Sum>turn \<leftarrow> take i out. 65 * 8192 * (10 * 10 ^ 9) +
      (case answered turn of None \<Rightarrow> 0 | Some r \<Rightarrow> length r * (10 * 10 ^ 9)))"
proof -
  have out: "out = serve_loop version seconds 0 turns"
    using assms(1) by (auto simp: serve_def split: option.splits sum.splits)
  have "handle version uptime seconds m (flat_peer p) = Some response"
    unfolding assms(14) by (rule handle_request [OF _ _ _ _ assms(8-13)]) (use assms(4-7) in \<open>simp_all add: flat_peer_def\<close>)
  moreover obtain d where turn: "timed_exchange version uptime seconds m p = (answered (out ! i), delivered (out ! i), d)"
    using serve_loop_nth(1) [OF assms(2,3) out] by blast
  ultimately have "answered (out ! i) = Some response"
    using timed_exchange_bound(1) [OF turn] by (simp add: timed_handle_flat)
  then show ?thesis
    using timed_exchange_bound(3) [OF turn] serve_loop_nth(2) [OF assms(2,3) out] by (simp add: longest_def)
qed

definition prompt_peer :: peer where
  "prompt_peer =
     \<lparr>takes_read_timeout = True, takes_write_timeout = True, can_clone = True,
      peer_segments = [(1000, CHR ''G'', ''ET / HTTP/1.1'' @ crlf), (1000, CHR 0x0D, [CHR 0x0A])], peer_ending = Silent,
      peer_writes = [(1000, Writes 4096)]\<rparr>"

lemma reads_on_one: "n \<le> k \<Longrightarrow> reads_on [(d, Writes k)] n"
  by (cases n; cases k) simp_all

definition index_answer :: string where
  "index_answer = answer (route (render ''0.1.0'' ''2.000'' (\<lambda>_. ''0.000000'') (metrics_new False)) ''/'')"

lemma index_answer_short: "length index_answer \<le> 4096"
  by (simp add: index_answer_def answer_def route_def crlf_def fmt_dec_def fmt_radix.simps)

theorem scrapes_are_served_witness:
  "case serve ''0.1.0'' (\<lambda>_. ''0.000000'') \<lparr>bound = None, local_addr = Inr DEFAULT_ADDR, is_loopback = True\<rparr>
      [(''1.000'', metrics_new False, Accepted (dripping_peer 1)), (''2.000'', metrics_new False, Accepted prompt_peer)] of
     Inl _ \<Rightarrow> False
   | Inr (log, out) \<Rightarrow> answered (out ! 1) = Some index_answer \<and> delivered (out ! 1) = index_answer"
proof -
  let ?turns = "[(''1.000'', metrics_new False, Accepted (dripping_peer 1)), (''2.000'', metrics_new False, Accepted prompt_peer)]"
  let ?l = "\<lparr>bound = None, local_addr = Inr DEFAULT_ADDR, is_loopback = True\<rparr>"
  obtain log out where s: "serve ''0.1.0'' (\<lambda>_. ''0.000000'') ?l ?turns = Inr (log, out)"
    by (simp add: serve_def)
  have "answered (out ! 1) = Some index_answer \<and>
      (reads_on (peer_writes prompt_peer) (length index_answer) \<longrightarrow> delivered (out ! 1) = index_answer) \<and>
      began (out ! 1) \<le> (\<Sum>turn \<leftarrow> take 1 out. 65 * 8192 * (10 * 10 ^ 9) +
        (case answered turn of None \<Rightarrow> 0 | Some r \<Rightarrow> length r * (10 * 10 ^ 9)))"
    by (rule scrapes_are_served [OF s, where p = prompt_peer and meth = "''GET''" and proto = "''HTTP/1.1''"
          and hs = "[]" and rest = "[]" and target = "''/''" and uptime = "''2.000''" and m = "metrics_new False"])
      (simp_all add: prompt_peer_def IO_TIMEOUT_def request_def request_line_def crlf_def plain_word_def is_ascii_def
        ascii_whitespace_def MAX_REQUEST_LINE_def index_answer_def)
  moreover have "reads_on (peer_writes prompt_peer) (length index_answer)"
    by (simp add: prompt_peer_def reads_on_one index_answer_short)
  ultimately show ?thesis unfolding s sum.case prod.case by blast
qed

end
