(* ===== verification/Metrics_Sysfs.thy ===== *)
theory Metrics_Sysfs
  imports Metrics Sysfs Rust_Text
begin

text \<open>
  The host-observable facts of \<open>crates/razerd/src/metrics.rs\<close>: \<open>read_sysfs_state\<close> reads the USB device
  number of a \<open>hidraw\<close> node and the name of the kernel driver of a product. The file system is a
  parameter: the \<open>files\<close> of the sysfs walker, whether a path exists, the raw names a directory lists
  (\<open>Inl ()\<close> an entry that cannot be read) and the target of a symbolic link.
\<close>

record host =
  host_files :: files
  exists :: "string \<Rightarrow> bool"
  dir_entries :: "string \<Rightarrow> (unit + string) list option"
  read_link :: "string \<Rightarrow> string option"

subsection \<open>The USB device above a node\<close>

text \<open>The loop of \<open>usb_parent_dir\<close>; \<open>None\<close> would be a loop that does not end.\<close>

partial_function (option) usb_walk :: "(string \<Rightarrow> bool) \<Rightarrow> string \<Rightarrow> string option option" where
  "usb_walk ex cur =
     (if ex (path_join cur ''devnum'') then Some (Some cur)
      else (case path_parent cur of
              None \<Rightarrow> Some None
            | Some up \<Rightarrow> if length up \<le> length ''/sys'' then Some None else usb_walk ex up))"

definition usb_parent_dir :: "host \<Rightarrow> string \<Rightarrow> string option option" where
  "usb_parent_dir h hidraw_name =
     (case canonicalize (host_files h) (path_join (path_join ''/sys/class/hidraw'' hidraw_name) ''device'') of
        None \<Rightarrow> Some None
      | Some start \<Rightarrow> usb_walk (exists h) start)"

subsection \<open>The driver of a product\<close>

fun split_slash :: "string \<Rightarrow> string list" where
  "split_slash [] = [[]]"
| "split_slash (c # cs) =
     (if c = CHR ''/'' then [] # split_slash cs
      else (case split_slash cs of [] \<Rightarrow> [[c]] | w # ws \<Rightarrow> (c # w) # ws))"

text \<open>\<open>Path::file_name\<close>: the last component, unless it is \<open>..\<close> or there is none.\<close>

definition file_name :: "string \<Rightarrow> string option" where
  "file_name p =
     (let ws = [w \<leftarrow> split_slash p. w \<noteq> [] \<and> w \<noteq> ''.''] in
      if ws = [] \<or> last ws = ''..'' then None else Some (last ws))"

definition HID_DEVICES :: string where "HID_DEVICES = ''/sys/bus/hid/devices''"

definition product_needle :: "u16 \<Rightarrow> string" where
  "product_needle p = '':'' @ fmt_HEX 4 (unat p) @ ''.''"

text \<open>The first listed device of the product whose driver link can be read decides.\<close>

fun driver_loop :: "(string \<Rightarrow> string option) \<Rightarrow> string \<Rightarrow> (unit + string) list \<Rightarrow> string option" where
  "driver_loop link needle [] = None"
| "driver_loop link needle (Inl e # es) = driver_loop link needle es"
| "driver_loop link needle (Inr entry # es) =
     (if \<not> contains_str needle (to_uppercase (to_string_lossy entry)) then driver_loop link needle es
      else (case link (path_join (path_join HID_DEVICES entry) ''driver'') of
              None \<Rightarrow> driver_loop link needle es
            | Some p \<Rightarrow> map_option to_string_lossy (file_name p)))"

definition parse_u64 :: "string \<Rightarrow> u64 option" where
  "parse_u64 s = (case from_str_radix (2 ^ 64) 10 s of Inl _ \<Rightarrow> None | Inr n \<Rightarrow> Some (of_nat n))"

text \<open>\<open>None\<close> as for \<open>usb_parent_dir\<close>; it does not occur.\<close>

definition read_sysfs_state :: "host \<Rightarrow> string \<Rightarrow> u16 \<Rightarrow> (u64 option \<times> string option) option" where
  "read_sysfs_state h hidraw_name p =
     (case usb_parent_dir h hidraw_name of
        None \<Rightarrow> None
      | Some d \<Rightarrow>
          let devnum =
                (case d of
                   None \<Rightarrow> None
                 | Some dir \<Rightarrow>
                     (case read_to_string (host_files h) (path_join dir ''devnum'') of
                        Inl _ \<Rightarrow> None
                      | Inr s \<Rightarrow> parse_u64 (trim s)));
              driver =
                (case dir_entries h HID_DEVICES of
                   None \<Rightarrow> None
                 | Some es \<Rightarrow> driver_loop (read_link h) (product_needle p) es)
          in Some (devnum, driver))"

subsection \<open>The walk ends\<close>

lemma strip_slashes_le: "length (strip_slashes p) \<le> length p"
  using length_dropWhile_le [of _ "rev p"] by (simp add: strip_slashes_def)

lemma path_parent_shorter:
  assumes "path_parent p = Some q"
  shows "length q < length p"
proof -
  let ?s = "strip_slashes p"
  let ?r = "rev (dropWhile (\<lambda>c. c \<noteq> CHR ''/'') (rev ?s))"
  have s: "?s \<noteq> []" and q: "q = (if ?r \<noteq> [] \<and> strip_slashes ?r = [] then ''/'' else strip_slashes ?r)"
    using assms by (auto simp: path_parent_def Let_def split: if_splits)
  have "rev ?s \<noteq> []" and "hd (rev ?s) \<noteq> CHR ''/''"
    using s hd_dropWhile [of "\<lambda>c. c = CHR ''/''" "rev p"] by (auto simp: strip_slashes_def)
  then obtain c cs where c: "rev ?s = c # cs" "c \<noteq> CHR ''/''" by (cases "rev ?s") auto
  have "length ?s = Suc (length cs)" using arg_cong [OF c(1), of length] by simp
  then have "length ?r < length ?s"
    unfolding c(1) using c(2) length_dropWhile_le [of "\<lambda>c. c \<noteq> CHR ''/''" cs] by simp
  moreover have "length q \<le> length ?r"
    using strip_slashes_le [of ?r] by (auto simp: q Suc_le_eq)
  ultimately show ?thesis using strip_slashes_le [of p] by simp
qed

text \<open>The directories the walk visits: the start and what lies above it, strictly below \<open>/sys\<close>.\<close>

function visited :: "string \<Rightarrow> string list" where
  "visited p =
     p # (case path_parent p of None \<Rightarrow> [] | Some up \<Rightarrow> if length up \<le> length ''/sys'' then [] else visited up)"
  by pat_completeness auto
termination by (relation "measure length") (simp_all add: path_parent_shorter)

declare visited.simps [simp del]

lemma usb_walk_find:
  "usb_walk ex p = Some (List.find (\<lambda>d. ex (path_join d ''devnum'')) (visited p))"
proof (induction p rule: visited.induct)
  case (1 p)
  then show ?case
    by (subst usb_walk.simps, subst visited.simps) (auto split: option.split)
qed

text \<open>C36: the walk of \<open>usb_parent_dir\<close> returns for every file system and every start, with the nearest
  directory that has a \<open>devnum\<close> among those strictly below \<open>/sys\<close>.\<close>

theorem usb_parent_dir_returns:
  "usb_parent_dir h n =
     Some (case canonicalize (host_files h) (path_join (path_join ''/sys/class/hidraw'' n) ''device'') of
             None \<Rightarrow> None
           | Some start \<Rightarrow> List.find (\<lambda>d. exists h (path_join d ''devnum'')) (visited start))"
  by (simp add: usb_parent_dir_def usb_walk_find split: option.split)

subsection \<open>Names of the kernel form\<close>

text \<open>How the kernel names a HID device: bus, vendor, product and instance.\<close>

definition hid_name :: "u16 \<Rightarrow> u16 \<Rightarrow> u16 \<Rightarrow> nat \<Rightarrow> string" where
  "hid_name bus vid prd inst =
     fmt_HEX 4 (unat bus) @ '':'' @ fmt_HEX 4 (unat vid) @ '':'' @ fmt_HEX 4 (unat prd) @ ''.'' @ fmt_HEX 4 inst"

lemma fmt_HEX_chars:
  assumes "c \<in> set (fmt_HEX w n)"
  shows "48 \<le> ord c \<and> ord c \<le> 57 \<or> 65 \<le> ord c \<and> ord c \<le> 70"
proof -
  have "c = digit_char True 0 \<or> c \<in> set (fmt_radix 16 True n)"
    using assms by (auto simp: fmt_HEX_def pad_zero_def digit_char_def char_of_def bit_0)
  then obtain d where "d < 16" "c = digit_char True d"
    using fmt_radix_chars [of 16 c True n] by force
  then show ?thesis by (auto simp: digit_char_def)
qed

lemma fmt_HEX_marks [simp]: "CHR '':'' \<notin> set (fmt_HEX w n)" "CHR ''.'' \<notin> set (fmt_HEX w n)"
  using fmt_HEX_chars by fastforce+

lemma fmt_HEX_ascii: "list_all is_ascii (fmt_HEX w n)"
  using fmt_HEX_chars by (fastforce simp: list_all_iff is_ascii_def)

lemma fmt_HEX_upper: "map ascii_upper (fmt_HEX w n) = fmt_HEX w n"
proof (rule map_idI)
  fix c assume "c \<in> set (fmt_HEX w n)"
  from fmt_HEX_chars [OF this] have "\<not> 97 \<le> ord c" by linarith
  then show "ascii_upper c = c" unfolding ascii_upper_def by simp
qed

lemma fmt_HEX_inject: "fmt_HEX w a = fmt_HEX w b \<longleftrightarrow> a = b"
proof
  assume eq: "fmt_HEX w a = fmt_HEX w b"
  have "from_str_radix (Suc (max a b)) 16 (fmt_HEX w a) = Inr a"
    "from_str_radix (Suc (max a b)) 16 (fmt_HEX w b) = Inr b"
    unfolding fmt_HEX_def by (rule from_str_radix_fmt; simp)+
  then have "Inr a = (Inr b :: int_error_kind + nat)" unfolding eq by (rule trans [OF sym])
  then show "a = b" by (rule Inr_inject)
qed simp

lemma hid_name_plain: "to_uppercase (to_string_lossy (hid_name b v q i)) = hid_name b v q i"
proof -
  have "list_all is_ascii (hid_name b v q i)"
    using fmt_HEX_ascii by (simp add: hid_name_def is_ascii_def)
  then show ?thesis
    by (simp add: to_string_lossy_valid utf8_valid_ascii to_uppercase_ascii)
      (simp add: hid_name_def fmt_HEX_upper, simp add: ascii_upper_def)
qed

lemma first_mark:
  "a @ x # b = a' @ x # b' \<Longrightarrow> x \<notin> set a \<Longrightarrow> x \<notin> set a' \<Longrightarrow> a = a' \<and> b = b'"
proof (induction a arbitrary: a')
  case Nil
  then show ?case by (cases a') auto
next
  case (Cons c a)
  then show ?case by (cases a') auto
qed

lemma last_mark:
  assumes "a @ x # b = a' @ x # b'" and "x \<notin> set b" and "x \<notin> set b'"
  shows "b = b'"
  using first_mark [of "rev b" x "rev a" "rev b'" "rev a'"] arg_cong [OF assms(1), of rev] assms(2,3) by simp

text \<open>The needle of a product occurs in the names of its devices and no others, whatever the vendor.\<close>

lemma contains_needle: "contains_str (product_needle p) (hid_name b v q i) \<longleftrightarrow> p = q"
proof
  let ?a = "fmt_HEX 4 (unat b) @ '':'' @ fmt_HEX 4 (unat v)"
  assume "contains_str (product_needle p) (hid_name b v q i)"
  then obtain pre suf where
    eq: "(pre @ CHR '':'' # fmt_HEX 4 (unat p)) @ CHR ''.'' # suf = (?a @ CHR '':'' # fmt_HEX 4 (unat q)) @ CHR ''.'' # fmt_HEX 4 i"
    by (auto simp: contains_str_iff product_needle_def hid_name_def)
  have "(?a @ CHR '':'' # fmt_HEX 4 (unat q)) @ CHR ''.'' # fmt_HEX 4 i
      = (pre @ CHR '':'' # fmt_HEX 4 (unat p)) @ CHR ''.'' # suf \<longleftrightarrow>
    ?a @ CHR '':'' # fmt_HEX 4 (unat q) = pre @ CHR '':'' # fmt_HEX 4 (unat p) \<and> fmt_HEX 4 i = suf"
    by (rule append_Cons_eq_iff) simp_all
  from iffD1 [OF this eq [symmetric]]
  have "pre @ CHR '':'' # fmt_HEX 4 (unat p) = ?a @ CHR '':'' # fmt_HEX 4 (unat q)" by simp
  then have "fmt_HEX 4 (unat p) = fmt_HEX 4 (unat q)" by (rule last_mark) simp_all
  then show "p = q" by (simp add: fmt_HEX_inject word_unat_eq_iff)
next
  assume "p = q"
  then have "hid_name b v q i = (fmt_HEX 4 (unat b) @ '':'' @ fmt_HEX 4 (unat v)) @ product_needle p @ fmt_HEX 4 i"
    by (simp add: hid_name_def product_needle_def)
  then show "contains_str (product_needle p) (hid_name b v q i)"
    unfolding contains_str_iff by blast
qed

lemma driver_loop_names:
  "driver_loop link (product_needle p) (map (\<lambda>(b, v, q, i). Inr (hid_name b v q i)) ds) =
     (case List.find (\<lambda>(b, v, q, i). q = p \<and> link (path_join (path_join HID_DEVICES (hid_name b v q i)) ''driver'') \<noteq> None) ds of
        None \<Rightarrow> None
      | Some (b, v, q, i) \<Rightarrow>
          map_option to_string_lossy
            (file_name (the (link (path_join (path_join HID_DEVICES (hid_name b v q i)) ''driver'')))))"
proof (induction ds)
  case Nil
  show ?case by simp
next
  case (Cons d ds)
  obtain b v q i where d: "d = (b, v, q, i)" by (rule prod_cases4)
  show ?case
    by (cases "link (path_join (path_join HID_DEVICES (hid_name b v q i)) ''driver'')"; cases "q = p")
      (simp_all add: Cons d hid_name_plain contains_needle)
qed

lemma parse_devnum:
  assumes "n < 2 ^ 64"
  shows "parse_u64 (trim (fmt_dec n @ [CHR 0x0A])) = Some (of_nat n)"
proof -
  have "trim (fmt_dec n @ [CHR 0x0A]) = fmt_dec n"
    by (rule trim_fmt_dec) (simp add: ascii_whitespace_def)
  moreover have "from_str_radix (2 ^ 64) 10 (fmt_dec n) = Inr n"
    using from_str_radix_fmt [of 10 n "2 ^ 64" 0 False] assms by (simp add: fmt_dec_def pad_zero_def)
  ultimately show ?thesis by (simp add: parse_u64_def)
qed

text \<open>C37: over a tree of the kernel's form the facts are read back: the device number the kernel printed
  into the nearest \<open>devnum\<close>, and the driver that the first listed device of the product with a
  readable link points to. The vendor in the name plays no part: a device of another vendor with the
  same product id is taken as well.\<close>

theorem sysfs_state_reads_tree:
  assumes "canonicalize (host_files h) (path_join (path_join ''/sys/class/hidraw'' n) ''device'') = Some start"
    and "List.find (\<lambda>d. exists h (path_join d ''devnum'')) (visited start) = Some dir"
    and "read_to_string (host_files h) (path_join dir ''devnum'') = Inr (fmt_dec num @ [CHR 0x0A])" and "num < 2 ^ 64"
    and "dir_entries h HID_DEVICES = Some (map (\<lambda>(b, v, q, i). Inr (hid_name b v q i)) ds)"
    and "List.find (\<lambda>(b, v, q, i). q = p \<and>
           read_link h (path_join (path_join HID_DEVICES (hid_name b v q i)) ''driver'') \<noteq> None) ds = Some (bus, vid, prd, inst)"
    and "read_link h (path_join (path_join HID_DEVICES (hid_name bus vid prd inst)) ''driver'') = Some target"
    and "file_name target = Some driver" and "utf8_valid driver"
  shows "read_sysfs_state h n p = Some (Some (of_nat num), Some driver)"
proof -
  have "usb_parent_dir h n = Some (Some dir)"
    by (simp add: usb_parent_dir_def assms(1) usb_walk_find assms(2))
  moreover have "driver_loop (read_link h) (product_needle p) (map (\<lambda>(b, v, q, i). Inr (hid_name b v q i)) ds) = Some driver"
    unfolding driver_loop_names assms(6) using assms(7-9) by (simp add: to_string_lossy_valid)
  ultimately show ?thesis
    by (simp add: read_sysfs_state_def assms(3,5) parse_devnum [OF assms(4)])
qed

definition sample_host :: host where
  "sample_host =
     \<lparr>host_files = \<lparr>read_dir = \<lambda>_. Inl None,
        canonicalize = \<lambda>_. Some ''/sys/devices/3-2/3-2:1.3'',
        is_file = \<lambda>_. False,
        read_to_string = \<lambda>p. if p = ''/sys/devices/3-2/devnum'' then Inr (''11'' @ [CHR 0x0A]) else Inl ''none'',
        debug_str = \<lambda>s. s\<rparr>,
      exists = \<lambda>p. p = ''/sys/devices/3-2/devnum'',
      dir_entries = \<lambda>_. Some [Inr (hid_name 3 0x1532 0x00AB 1), Inr (hid_name 3 0x1532 0x028D 4)],
      read_link = \<lambda>_. Some ''../../../bus/hid/drivers/razerkbd''\<rparr>"

theorem sysfs_state_reads_tree_witness:
  "read_sysfs_state sample_host ''hidraw3'' 0x028D = Some (Some 11, Some ''razerkbd'')"
proof -
  have devnum: "fmt_dec 11 = ''11''" by code_simp
  have up: "path_parent ''/sys/devices/3-2/3-2:1.3'' = Some ''/sys/devices/3-2''"
    by (simp add: path_parent_def strip_slashes_def)
  obtain rest where rest: "visited ''/sys/devices/3-2'' = ''/sys/devices/3-2'' # rest"
    using visited.simps [of "''/sys/devices/3-2''"] by blast
  have "visited ''/sys/devices/3-2/3-2:1.3'' = ''/sys/devices/3-2/3-2:1.3'' # visited ''/sys/devices/3-2''"
    by (subst visited.simps) (simp add: up)
  then have usb: "List.find (\<lambda>d. exists sample_host (path_join d ''devnum'')) (visited ''/sys/devices/3-2/3-2:1.3'')
      = Some ''/sys/devices/3-2''"
    by (simp add: rest sample_host_def path_join_def)
  have "read_sysfs_state sample_host ''hidraw3'' 0x028D = Some (Some (of_nat 11), Some ''razerkbd'')"
    by (rule sysfs_state_reads_tree [OF _ usb, where ds = "[(3, 0x1532, 0x00AB, 1), (3, 0x1532, 0x028D, 4)]"
          and bus = 3 and vid = "0x1532" and prd = "0x028D" and inst = 4 and target = "''../../../bus/hid/drivers/razerkbd''"])
      (simp_all add: sample_host_def devnum path_join_def HID_DEVICES_def file_name_def utf8_valid_ascii is_ascii_def)
  then show ?thesis by simp
qed

end
