(* ===== verification/Metrics_Threads.thy ===== *)
theory Metrics_Threads
  imports Metrics_Render "HOL-Library.Multiset"
begin

text \<open>
  Several threads recording into one registry. Every recording operation of \<open>Metrics\<close> takes the lock
  for all of its work, so a run of the threads is an interleaving of the operations they perform. The
  counters do not depend on it; the only trace of the schedule is the order in which durations are
  added up and which state or poll was recorded last.
\<close>

subsection \<open>Interleavings\<close>

text \<open>The threads are given by what each still has to do; a step lets thread \<open>i\<close> perform its next
  operation.\<close>

inductive interleaved :: "'a list list \<Rightarrow> 'a list \<Rightarrow> bool" where
  finished: "list_all (\<lambda>t. t = []) ts \<Longrightarrow> interleaved ts []"
| step: "i < length ts \<Longrightarrow> ts ! i = e # t \<Longrightarrow> interleaved (ts[i := t]) log \<Longrightarrow> interleaved ts (e # log)"

inductive_cases interleaved_ConsE: "interleaved ts (e # log)"

lemma interleaved_mset: "interleaved ts log \<Longrightarrow> mset log = sum_list (map mset ts)"
proof (induction rule: interleaved.induct)
  case (finished ts)
  then have "map mset ts = map (\<lambda>_. {#}) ts" by (simp add: list_all_iff)
  then show ?case by (metis mset.simps(1) sum_list_0)
next
  case (step i ts e t log)
  have "map mset ts = map mset (take i ts) @ mset (e # t) # map mset (drop (Suc i) ts)"
    using step.hyps by (metis id_take_nth_drop list.simps(9) map_append)
  moreover have "map mset (ts[i := t]) = map mset (take i ts) @ mset t # map mset (drop (Suc i) ts)"
    using step.hyps(1) by (simp add: upd_conv_take_nth_drop)
  ultimately show ?case using step.IH by simp
qed

subsection \<open>What does not depend on the order\<close>

lemma concat_map_cong_mset:
  assumes "mset log = mset log'"
  shows "mset (concat (map f log)) = mset (concat (map f log'))"
  unfolding mset_concat map_map
  using arg_cong [OF assms, of "\<lambda>M. sum_mset (image_mset (mset \<circ> f) M)"]
  by (simp add: sum_mset_sum_list flip: mset_map)

lemma selections_cong:
  assumes "mset log = mset log'"
  shows "mset (of_series key log) = mset (of_series key log')"
    and "mset (with_error key log) = mset (with_error key log')"
    and "mset (polls_in log) = mset (polls_in log')"
proof -
  have tx: "mset (transactions_in log) = mset (transactions_in log')"
    unfolding transactions_in_def by (rule concat_map_cong_mset [OF assms])
  then show "mset (of_series key log) = mset (of_series key log')"
    and "mset (with_error key log) = mset (with_error key log')"
    by (simp_all add: of_series_def with_error_def)
  show "mset (polls_in log) = mset (polls_in log')"
    unfolding polls_in_def by (rule concat_map_cong_mset [OF assms])
qed

lemma tally_cong:
  "mset xs = mset ys \<Longrightarrow> f xs = f ys \<Longrightarrow> tally f xs = tally f ys"
  by (auto simp: tally_def)

lemma totals_cong:
  assumes "mset xs = mset ys"
  shows "total_count xs = total_count ys" and "total_attempts xs = total_attempts ys"
    and "counts (histogram_of xs) = counts (histogram_of ys)"
    and "hist_total (histogram_of xs) = hist_total (histogram_of ys)"
    and "mset (hist_sum (histogram_of xs)) = mset (hist_sum (histogram_of ys))"
proof -
  have len: "length (filter P xs) = length (filter P ys)" for P
    using assms by (metis mset_filter size_mset)
  show "total_count xs = total_count ys" "hist_total (histogram_of xs) = hist_total (histogram_of ys)"
    using mset_eq_length [OF assms] by (simp_all add: total_count_def histogram_of_def)
  show "total_attempts xs = total_attempts ys"
    using arg_cong [OF assms, of "\<lambda>M. sum_mset (image_mset (\<lambda>t. unat (tx_attempts t)) M)"]
    by (simp add: total_attempts_def sum_mset_sum_list flip: mset_map)
  show "counts (histogram_of xs) = counts (histogram_of ys)"
    using len by (simp add: histogram_of_def)
  show "mset (hist_sum (histogram_of xs)) = mset (hist_sum (histogram_of ys))"
    using assms by (simp add: histogram_of_def)
qed

lemma bt_sorted_unique:
  assumes "bt_sorted m" and "bt_sorted m'" and "map_of m = map_of m'"
  shows "m = m'"
proof -
  have d: "sorted (map fst m)" "distinct (map fst m)" "sorted (map fst m')" "distinct (map fst m')"
    using assms(1,2) by (auto simp: bt_sorted_def strict_sorted_iff)
  have "set m = set m'" using map_of_eq_Some_iff [OF d(2)] map_of_eq_Some_iff [OF d(4)] assms(3) by auto
  with d show ?thesis
    by (intro map_sorted_distinct_set_unique [of fst]) (auto simp: distinct_map)
qed

lemma shown_maps_agree:
  assumes "bt_sorted m" and "bt_sorted m'" and "shows_log (map_of m) f sel log" and "shows_log (map_of m') f sel log'"
    and "\<And>key. mset (sel key log) = mset (sel key log')" and "\<And>xs ys. mset xs = mset ys \<Longrightarrow> v (f xs) = v (f ys)"
  shows "map (\<lambda>(k, x). (k, v x)) m = map (\<lambda>(k, x). (k, v x)) m'"
proof (rule bt_sorted_unique)
  show "bt_sorted (map (\<lambda>(k, x). (k, v x)) m)" "bt_sorted (map (\<lambda>(k, x). (k, v x)) m')"
    using assms(1,2) by (simp_all add: bt_sorted_def comp_def split_def)
  have "map_option v (tally f xs) = tally (\<lambda>zs. v (f zs)) xs" for xs
    by (simp add: tally_def)
  then have "map_option v (map_of m key) = map_option v (map_of m' key)" for key
    using assms(3,4) tally_cong [OF assms(5), of "\<lambda>zs. v (f zs)" key] assms(6) [OF assms(5)]
    by (simp add: shows_log_def)
  then show "map_of (map (\<lambda>(k, x). (k, v x)) m) = map_of (map (\<lambda>(k, x). (k, v x)) m')"
    by (simp add: map_of_map fun_eq_iff)
qed

lemma shown_maps_equal:
  assumes "bt_sorted m" and "bt_sorted m'" and "shows_log (map_of m) f sel log" and "shows_log (map_of m') f sel log'"
    and "\<And>key. mset (sel key log) = mset (sel key log')" and "\<And>xs ys. mset xs = mset ys \<Longrightarrow> f xs = f ys"
  shows "m = m'"
proof -
  have "map (\<lambda>(k, x). (k, x)) m = map (\<lambda>(k, x). (k, x)) m'"
    by (rule shown_maps_agree [OF assms(1-5)]) (rule assms(6))
  then show ?thesis by simp
qed

text \<open>What a scrape shows of the durations, apart from the order in which they are added up.\<close>

definition histogram_view :: "histogram \<Rightarrow> u64 list \<times> u64 \<times> nat multiset" where
  "histogram_view h = (counts h, hist_total h, mset (hist_sum h))"

lemma implements_agree:
  assumes "implements g log" and "implements g' log'" and "mset log = mset log'"
  shows "transactions g = transactions g'" and "attempts g = attempts g'" and "errors g = errors g'"
    and "map (\<lambda>(k, h). (k, histogram_view h)) (latency g) = map (\<lambda>(k, h). (k, histogram_view h)) (latency g')"
    and "polls g = polls g'" and "poll_failures g = poll_failures g'"
proof -
  note cong = selections_cong [OF assms(3)] and g = assms(1) [unfolded implements_def]
    and g' = assms(2) [unfolded implements_def]
  show "transactions g = transactions g'"
    by (rule shown_maps_equal [of _ _ total_count of_series log log'])
      (use g g' cong(1) totals_cong(1) in blast)+
  show "attempts g = attempts g'"
    by (rule shown_maps_equal [of _ _ total_attempts of_series log log'])
      (use g g' cong(1) totals_cong(2) in blast)+
  show "errors g = errors g'"
    by (rule shown_maps_equal [of _ _ total_count with_error log log'])
      (use g g' cong(2) totals_cong(1) in blast)+
  have "histogram_view (histogram_of xs) = histogram_view (histogram_of ys)" if "mset xs = mset ys" for xs ys
    using totals_cong(3-5) [OF that] by (simp add: histogram_view_def)
  then show "map (\<lambda>(k, h). (k, histogram_view h)) (latency g) = map (\<lambda>(k, h). (k, histogram_view h)) (latency g')"
    by (intro shown_maps_agree [of _ _ histogram_of of_series log log'])
      (use g g' cong(1) in blast)+
  show "polls g = polls g'" "poll_failures g = poll_failures g'"
    using g g' mset_eq_length [OF cong(3)] arg_cong [OF cong(3), of "\<lambda>M. size (filter_mset snd M)"]
    by (simp_all flip: mset_filter)
qed

text \<open>C27: recording from several threads loses nothing: whatever order the threads take the lock in, the
  counters, the buckets, the totals and the poll counts are those of running the threads one after
  the other, and each histogram adds up the same durations; only the order of that sum and the
  states recorded last depend on the schedule.\<close>

theorem schedules_agree:
  assumes "interleaved threads log"
  shows "case (inner_lock (fold apply_event log (metrics_new expose)),
               inner_lock (fold apply_event (concat threads) (metrics_new expose))) of
     (Some g, Some g') \<Rightarrow>
       transactions g = transactions g' \<and> attempts g = attempts g' \<and> errors g = errors g' \<and>
       map (\<lambda>(k, h). (k, counts h, hist_total h, mset (hist_sum h))) (latency g)
         = map (\<lambda>(k, h). (k, counts h, hist_total h, mset (hist_sum h))) (latency g') \<and>
       polls g = polls g' \<and> poll_failures g = poll_failures g'
   | _ \<Rightarrow> False"
proof -
  obtain g where g: "inner_lock (fold apply_event log (metrics_new expose)) = Some g" "implements g log"
    using registry_implements by blast
  obtain g' where g': "inner_lock (fold apply_event (concat threads) (metrics_new expose)) = Some g'"
    "implements g' (concat threads)"
    using registry_implements by blast
  have "mset log = mset (concat threads)" using interleaved_mset [OF assms] by (simp add: mset_concat)
  from implements_agree [OF g(2) g'(2) this] show ?thesis
    by (simp add: g(1) g'(1) histogram_view_def)
qed

lemma two_steps: "interleaved [[a], [b]] [b, a]"
  by (rule interleaved.step [of 1], simp, simp, rule interleaved.step [of 0], simp, simp, rule interleaved.finished) simp

theorem schedules_agree_witness:
  "case (inner_lock (fold apply_event [Polled 5 True, sample_event] (metrics_new False)),
         inner_lock (fold apply_event [sample_event, Polled 5 True] (metrics_new False))) of
     (Some g, Some g') \<Rightarrow> transactions g = transactions g' \<and> poll_failures g = poll_failures g'
   | _ \<Rightarrow> False"
  using schedules_agree [OF two_steps [of sample_event "Polled 5 True"], of False]
  by (simp split: option.splits)

end
