(* ===== verification/Tests_Proto.thy ===== *)
theory Tests_Proto
  imports Parse
begin

text \<open>
  The unit tests of \<open>crates/razer-proto/src\<close> (\<open>crc.rs\<close>, \<open>report.rs\<close>, \<open>cmd.rs\<close>, \<open>parse.rs\<close>, \<open>error.rs\<close>),
  translated: a test is the conjunction of its assertions over the model, a loop over values is
  \<open>list_all\<close>, and an \<open>expect\<close> that would panic is \<open>False\<close>. That each holds is a check of the model
  against what the authors of the code expect of it.
\<close>

definition all_u8 :: "u8 list" where "all_u8 = map of_nat [0..<256]"

fun is_malformed :: "proto_error + 'a \<Rightarrow> bool" where
  "is_malformed (Inl (Malformed _)) = True"
| "is_malformed _ = False"

subsection \<open>crc.rs\<close>

definition test_crc_of_all_zeros_is_zero :: bool where
  "test_crc_of_all_zeros_is_zero \<longleftrightarrow> crc (replicate REPORT_LEN 0) = 0x00"

text \<open>\<open>ramp k\<close> fills byte \<open>i\<close> with \<open>i * k\<close>, wrapping.\<close>

definition ramp :: "u8 \<Rightarrow> bytes" where "ramp k = map (\<lambda>i. of_nat i * k) [0..<REPORT_LEN]"

definition test_status_and_transaction_id_do_not_affect_crc :: bool where
  "test_status_and_transaction_id_do_not_affect_crc \<longleftrightarrow>
     (let bytes = ramp 7; baseline = crc bytes; cleared = bytes[0 := 0] in
      list_all (\<lambda>v. crc (bytes[0 := v]) = baseline) all_u8 \<and>
      list_all (\<lambda>v. crc (cleared[1 := v]) = baseline) all_u8)"

definition test_crc_and_reserved_bytes_do_not_affect_crc :: bool where
  "test_crc_and_reserved_bytes_do_not_affect_crc \<longleftrightarrow>
     (let bytes = ramp 3; baseline = crc bytes; cleared = bytes[88 := 0] in
      list_all (\<lambda>v. crc (bytes[88 := v]) = baseline) all_u8 \<and>
      list_all (\<lambda>v. crc (cleared[89 := v]) = baseline) all_u8)"

definition test_every_covered_byte_changes_the_crc :: bool where
  "test_every_covered_byte_changes_the_crc \<longleftrightarrow>
     (let bytes = replicate REPORT_LEN 0; baseline = crc bytes in
      list_all (\<lambda>i. crc (bytes[i := bytes ! i XOR 0x01]) \<noteq> baseline) [2..<88])"

definition test_verify_crc_round_trips :: bool where
  "test_verify_crc_round_trips \<longleftrightarrow>
     (let bytes = (replicate REPORT_LEN 0)[5 := 0x02, 7 := 0x04, 8 := 0x03];
          bytes = bytes[88 := crc bytes]
      in verify_crc bytes \<and> \<not> verify_crc (bytes[88 := bytes ! 88 XOR 0xFF]))"

lemma crc_unaffected: "i < 2 \<or> 88 \<le> i \<Longrightarrow> crc (bs[i := v]) = crc bs"
  by (auto simp: crc_def drop_update_swap)

lemma crc_tests:
  "test_crc_of_all_zeros_is_zero" "test_status_and_transaction_id_do_not_affect_crc"
  "test_crc_and_reserved_bytes_do_not_affect_crc" "test_every_covered_byte_changes_the_crc"
  "test_verify_crc_round_trips"
proof -
  show "test_crc_of_all_zeros_is_zero" by code_simp
  show "test_status_and_transaction_id_do_not_affect_crc"
    by (simp add: test_status_and_transaction_id_do_not_affect_crc_def Let_def crc_unaffected list_all_iff)
  show "test_crc_and_reserved_bytes_do_not_affect_crc"
    by (simp add: test_crc_and_reserved_bytes_do_not_affect_crc_def Let_def crc_unaffected list_all_iff)
  show "test_every_covered_byte_changes_the_crc" by code_simp
  show "test_verify_crc_round_trips" by code_simp
qed

subsection \<open>report.rs\<close>

definition test_encoded_report_is_ninety_bytes :: bool where
  "test_encoded_report_is_ninety_bytes \<longleftrightarrow>
     length (to_bytes (new_report 0x00 0x04 0x02)) = 90 \<and> REPORT_LEN = 90 \<and> ARGS_LEN = 80"

definition sample_report :: razer_report where
  "sample_report =
     (let r = with_transaction_id (new_report 0x0F 0x84 0x03) 0x1F in
      r\<lparr>remaining_packets := 0x0102, protocol_type := 0x00, reserved := 0x00,
        arguments := (arguments r)[0 := 0x01, 1 := 0x05, 79 := 0xAB]\<rparr>)"

definition test_round_trip_preserves_every_field_and_stamps_crc :: bool where
  "test_round_trip_preserves_every_field_and_stamps_crc \<longleftrightarrow>
     (let r = sample_report; bs = to_bytes r; back = from_bytes bs in
      status back = status r \<and> transaction_id back = transaction_id r \<and>
      remaining_packets back = remaining_packets r \<and> protocol_type back = protocol_type r \<and>
      data_size back = data_size r \<and> command_class back = command_class r \<and> command_id back = command_id r \<and>
      arguments back = arguments r \<and> reserved back = reserved r \<and> crc_byte back = crc bs \<and>
      back = r\<lparr>crc_byte := crc bs\<rparr>)"

definition test_field_offsets_are_exact :: bool where
  "test_field_offsets_are_exact \<longleftrightarrow>
     (let r = with_transaction_id (new_report 0xC1 0xC2 0xC3) 0xB1;
          r = r\<lparr>status := Unknown 0xB0, remaining_packets := 0xB2B3, protocol_type := 0xB4, reserved := 0xDD,
                arguments := map (\<lambda>i. 0xE0 + of_nat i) [0..<ARGS_LEN]\<rparr>;
          b = to_bytes r
      in b ! 0 = 0xB0 \<and> b ! 1 = 0xB1 \<and> [b ! 2, b ! 3] = [0xB2, 0xB3] \<and> b ! 4 = 0xB4 \<and> b ! 5 = 0xC3 \<and>
         b ! 6 = 0xC1 \<and> b ! 7 = 0xC2 \<and> take 80 (drop 8 b) = arguments r \<and> b ! 88 = crc b \<and> b ! 89 = 0xDD)"

definition test_remaining_packets_is_big_endian :: bool where
  "test_remaining_packets_is_big_endian \<longleftrightarrow>
     (let b = to_bytes ((new_report 0x00 0x04 0x02)\<lparr>remaining_packets := 0x0102\<rparr>) in
      b ! 2 = 0x01 \<and> b ! 3 = 0x02 \<and> remaining_packets (from_bytes b) = 0x0102)"

definition test_golden_vector_set_driver_mode_on_the_blackwidow_v4_pro :: bool where
  "test_golden_vector_set_driver_mode_on_the_blackwidow_v4_pro \<longleftrightarrow>
     (let bs = to_bytes (with_transaction_id (cmd_set_device_mode Driver) 0x1F);
          expected = (replicate REPORT_LEN 0)[0 := 0x00, 1 := 0x1F, 2 := 0x00, 3 := 0x00, 4 := 0x00, 5 := 0x02,
            6 := 0x00, 7 := 0x04, 8 := 0x03, 9 := 0x00, 88 := 0x05, 89 := 0x00];
          by_hand = foldl (\<lambda>acc b. acc XOR b) 0 [0x02, 0x00, 0x04, 0x03]
      in bs = expected \<and> bs ! 88 = by_hand \<and> by_hand = 0x05)"

definition test_transaction_id_does_not_disturb_the_encoded_crc :: bool where
  "test_transaction_id_does_not_disturb_the_encoded_crc \<longleftrightarrow>
     (let base = cmd_set_device_mode Driver;
          good = to_bytes (with_transaction_id base 0x1F); bugged = to_bytes (with_transaction_id base 0xFF)
      in good ! 88 = bugged ! 88 \<and> good ! 1 \<noteq> bugged ! 1)"

definition test_with_args_fills_the_front_of_the_array :: bool where
  "test_with_args_fills_the_front_of_the_array \<longleftrightarrow>
     (case with_args (new_report 0x0F 0x02 0x09) [1, 2, 3] of
        None \<Rightarrow> False
      | Some r \<Rightarrow>
          take 3 (arguments r) = [1, 2, 3] \<and> list_all (\<lambda>b. b = 0) (drop 3 (arguments r)) \<and> data_size r = 0x09)"

definition test_with_args_accepts_a_full_array :: bool where
  "test_with_args_accepts_a_full_array \<longleftrightarrow>
     (case with_args (new_report 0 0 0) (replicate ARGS_LEN 0xAA) of
        None \<Rightarrow> False | Some r \<Rightarrow> list_all (\<lambda>b. b = 0xAA) (arguments r))"

definition test_with_args_panics_when_too_long :: bool where
  "test_with_args_panics_when_too_long \<longleftrightarrow> with_args (new_report 0 0 0) (replicate (ARGS_LEN + 1) 0) = None"

definition test_args_is_clamped_to_data_size_and_to_the_array :: bool where
  "test_args_is_clamped_to_data_size_and_to_the_array \<longleftrightarrow>
     (case with_args (new_report 0x0F 0x04 0x03) [0x01, 0x05, 0x80, 0xFF] of
        None \<Rightarrow> False
      | Some r \<Rightarrow>
          report_args r = [0x01, 0x05, 0x80] \<and> length (report_args (r\<lparr>data_size := 200\<rparr>)) = ARGS_LEN)"

definition test_is_get_reads_the_direction_bit :: bool where
  "test_is_get_reads_the_direction_bit \<longleftrightarrow>
     \<not> is_get (new_report 0x00 0x04 0x02) \<and> is_get (new_report 0x00 0x84 0x02) \<and> is_get (new_report 0x00 0xC0 0x01)"

definition test_status_round_trips_including_unknown :: bool where
  "test_status_round_trips_including_unknown \<longleftrightarrow>
     list_all (\<lambda>v. status_to_u8 (status_from_u8 v) = v) all_u8 \<and> status_from_u8 0x7F = Unknown 0x7F"

definition test_only_successful_and_busy_are_ok :: bool where
  "test_only_successful_and_busy_are_ok \<longleftrightarrow>
     is_ok Successful \<and> is_ok Busy \<and> \<not> is_ok New \<and> \<not> is_ok Failure \<and> \<not> is_ok Timeout \<and>
     \<not> is_ok NotSupported \<and> \<not> is_ok (Unknown 0x42)"

definition test_device_mode_0x02_is_not_representable :: bool where
  "test_device_mode_0x02_is_not_representable \<longleftrightarrow>
     device_mode_from_u8 0x02 = None \<and> device_mode_from_u8 0x00 = Some Normal \<and>
     device_mode_from_u8 0x03 = Some Driver \<and> device_mode_from_u8 0x01 = None \<and>
     device_mode_to_u8 Normal = 0x00 \<and> device_mode_to_u8 Driver = 0x03"

definition test_storage_and_led_discriminants_match_the_c_defines :: bool where
  "test_storage_and_led_discriminants_match_the_c_defines \<longleftrightarrow>
     storage_as_u8 NoStore = 0x00 \<and> storage_as_u8 VarStore = 0x01 \<and> led_id_as_u8 Zero = 0x00 \<and>
     led_id_as_u8 ScrollWheel = 0x01 \<and> led_id_as_u8 Logo = 0x04 \<and> led_id_as_u8 Backlight = 0x05"

definition ALL_RATES :: "poll_rate list" where
  "ALL_RATES = [Hz125, Hz250, Hz500, Hz1000, Hz2000, Hz4000, Hz8000]"

definition test_poll_rate_hz_round_trips :: bool where
  "test_poll_rate_hz_round_trips \<longleftrightarrow>
     list_all (\<lambda>r. from_hz (hz r) = Some r) ALL_RATES \<and> from_hz 333 = None \<and> from_hz 0 = None"

definition test_legacy_codes_match_the_c_switch :: bool where
  "test_legacy_codes_match_the_c_switch \<longleftrightarrow>
     legacy_code Hz1000 = Some 0x01 \<and> legacy_code Hz500 = Some 0x02 \<and> legacy_code Hz125 = Some 0x08 \<and>
     legacy_code Hz250 = None \<and> legacy_code Hz2000 = None \<and> legacy_code Hz4000 = None \<and> legacy_code Hz8000 = None \<and>
     list_all (\<lambda>r. case legacy_code r of Some c \<Rightarrow> from_legacy_code c = Some r | None \<Rightarrow> True) ALL_RATES \<and>
     from_legacy_code 0x40 = None"

definition test_v2_codes_match_the_c_switch :: bool where
  "test_v2_codes_match_the_c_switch \<longleftrightarrow>
     v2_code Hz8000 = 0x01 \<and> v2_code Hz4000 = 0x02 \<and> v2_code Hz2000 = 0x04 \<and> v2_code Hz1000 = 0x08 \<and>
     v2_code Hz500 = 0x10 \<and> v2_code Hz250 = 0x20 \<and> v2_code Hz125 = 0x40 \<and>
     list_all (\<lambda>r. from_v2_code (v2_code r) = Some r) ALL_RATES \<and> from_v2_code 0x00 = None \<and> from_v2_code 0x03 = None"

definition test_rgb_new_keeps_channel_order :: bool where
  "test_rgb_new_keeps_channel_order \<longleftrightarrow>
     (let c = rgb_new 0x11 0x22 0x33 in (rgb_r c, rgb_g c, rgb_b c) = (0x11, 0x22, 0x33))"

lemma report_tests:
  "test_encoded_report_is_ninety_bytes" "test_round_trip_preserves_every_field_and_stamps_crc"
  "test_field_offsets_are_exact" "test_remaining_packets_is_big_endian"
  "test_golden_vector_set_driver_mode_on_the_blackwidow_v4_pro"
  "test_transaction_id_does_not_disturb_the_encoded_crc" "test_with_args_fills_the_front_of_the_array"
  "test_with_args_accepts_a_full_array" "test_with_args_panics_when_too_long"
  "test_args_is_clamped_to_data_size_and_to_the_array" "test_is_get_reads_the_direction_bit"
  "test_status_round_trips_including_unknown" "test_only_successful_and_busy_are_ok"
  "test_device_mode_0x02_is_not_representable" "test_storage_and_led_discriminants_match_the_c_defines"
  "test_poll_rate_hz_round_trips" "test_legacy_codes_match_the_c_switch" "test_v2_codes_match_the_c_switch"
  "test_rgb_new_keeps_channel_order"
  by code_simp+

subsection \<open>cmd.rs\<close>

definition assert_cmd :: "razer_report \<Rightarrow> u8 \<Rightarrow> u8 \<Rightarrow> u8 \<Rightarrow> bytes \<Rightarrow> bool" where
  "assert_cmd r class cid dsize args \<longleftrightarrow>
     command_class r = class \<and> command_id r = cid \<and> data_size r = dsize \<and> report_args r = args"

definition test_set_device_mode_payloads :: bool where
  "test_set_device_mode_payloads \<longleftrightarrow>
     assert_cmd (cmd_set_device_mode Normal) 0x00 0x04 0x02 [0x00, 0x00] \<and>
     assert_cmd (cmd_set_device_mode Driver) 0x00 0x04 0x02 [0x03, 0x00]"

definition test_standard_getters :: bool where
  "test_standard_getters \<longleftrightarrow>
     assert_cmd cmd_get_device_mode 0x00 0x84 0x02 [0x00, 0x00] \<and>
     assert_cmd cmd_get_firmware_version 0x00 0x81 0x02 [0x00, 0x00] \<and>
     assert_cmd cmd_get_serial 0x00 0x82 0x16 (replicate 0x16 0x00)"

definition test_set_brightness_payload :: bool where
  "test_set_brightness_payload \<longleftrightarrow>
     assert_cmd (cmd_set_brightness VarStore Backlight 0x80) 0x0F 0x04 0x03 [0x01, 0x05, 0x80] \<and>
     assert_cmd (cmd_set_brightness VarStore Zero 0xFF) 0x0F 0x04 0x03 [0x01, 0x00, 0xFF]"

definition test_get_brightness_payload :: bool where
  "test_get_brightness_payload \<longleftrightarrow>
     (let r = cmd_get_brightness VarStore Backlight in
      take 2 (report_args r) = [0x01, 0x05] \<and> assert_cmd r 0x0F 0x84 0x03 [0x01, 0x05, 0x00])"

definition test_static_effect_matches_the_documented_byte_string :: bool where
  "test_static_effect_matches_the_documented_byte_string \<longleftrightarrow>
     assert_cmd (cmd_set_static_effect VarStore Backlight (rgb_new 0xFF 0x00 0x00)) 0x0F 0x02 0x09
       [0x01, 0x05, 0x01, 0x00, 0x00, 0x01, 0xFF, 0x00, 0x00] \<and>
     report_args (cmd_set_static_effect VarStore Backlight (rgb_new 0x00 0xFF 0x00))
       = [0x01, 0x05, 0x01, 0x00, 0x00, 0x01, 0x00, 0xFF, 0x00]"

definition test_effect_none_payload :: bool where
  "test_effect_none_payload \<longleftrightarrow>
     assert_cmd (cmd_set_effect_none VarStore Backlight) 0x0F 0x02 0x06 [0x01, 0x05, 0x00, 0x00, 0x00, 0x00]"

definition test_legacy_poll_rate_payloads :: bool where
  "test_legacy_poll_rate_payloads \<longleftrightarrow>
     (case cmd_set_poll_rate_legacy Hz1000 of Inl _ \<Rightarrow> False | Inr r \<Rightarrow> assert_cmd r 0x00 0x05 0x01 [0x01]) \<and>
     (case cmd_set_poll_rate_legacy Hz500 of Inl _ \<Rightarrow> False | Inr r \<Rightarrow> report_args r = [0x02]) \<and>
     (case cmd_set_poll_rate_legacy Hz125 of Inl _ \<Rightarrow> False | Inr r \<Rightarrow> report_args r = [0x08]) \<and>
     list_all (\<lambda>rate. is_malformed (cmd_set_poll_rate_legacy rate)) [Hz250, Hz2000, Hz4000, Hz8000]"

definition test_get_poll_rate_legacy_shape :: bool where
  "test_get_poll_rate_legacy_shape \<longleftrightarrow> assert_cmd cmd_get_poll_rate_legacy 0x00 0x85 0x01 [0x00]"

definition test_v2_poll_rate_payloads :: bool where
  "test_v2_poll_rate_payloads \<longleftrightarrow>
     list_all (\<lambda>(rate, code). assert_cmd (cmd_set_poll_rate_v2 rate 0x00) 0x00 0x40 0x02 [0x00, code])
       [(Hz8000, 0x01), (Hz4000, 0x02), (Hz2000, 0x04), (Hz1000, 0x08), (Hz500, 0x10), (Hz250, 0x20), (Hz125, 0x40)] \<and>
     report_args (cmd_set_poll_rate_v2 Hz1000 0x01) = [0x01, 0x08]"

definition test_get_poll_rate_v2_shape :: bool where
  "test_get_poll_rate_v2_shape \<longleftrightarrow> assert_cmd cmd_get_poll_rate_v2 0x00 0xC0 0x01 [0x00]"

text \<open>The reports of a list whose fallible entries must be there.\<close>

definition all_built :: "(razer_report \<Rightarrow> bool) \<Rightarrow> (proto_error + razer_report) list \<Rightarrow> bool" where
  "all_built P rs = list_all (\<lambda>r. case r of Inl _ \<Rightarrow> False | Inr r \<Rightarrow> P r) rs"

definition test_no_constructor_stamps_an_id :: bool where
  "test_no_constructor_stamps_an_id \<longleftrightarrow>
     all_built (\<lambda>r. to_bytes r ! 1 = 0x00)
       [Inr (cmd_set_device_mode Normal), Inr (cmd_set_device_mode Driver), Inr cmd_get_device_mode,
        Inr cmd_get_firmware_version, Inr cmd_get_serial, Inr (cmd_set_brightness VarStore Backlight 0x80),
        Inr (cmd_get_brightness VarStore Backlight), Inr (cmd_set_static_effect VarStore Backlight (rgb_new 1 2 3)),
        Inr (cmd_set_effect_none VarStore Backlight), cmd_set_poll_rate_legacy Hz1000, Inr cmd_get_poll_rate_legacy,
        Inr (cmd_set_poll_rate_v2 Hz1000 0x00), Inr cmd_get_poll_rate_v2]"

definition test_every_constructor_is_well_formed :: bool where
  "test_every_constructor_is_well_formed \<longleftrightarrow>
     all_built (\<lambda>r. status r = New \<and> remaining_packets r = 0 \<and> protocol_type r = 0x00 \<and> reserved r = 0x00 \<and>
         unat (data_size r) \<le> ARGS_LEN \<and> verify_crc (to_bytes r))
       [Inr (cmd_set_device_mode Driver), Inr cmd_get_device_mode, Inr cmd_get_firmware_version, Inr cmd_get_serial,
        Inr (cmd_set_brightness VarStore Backlight 0x80), Inr (cmd_get_brightness VarStore Backlight),
        Inr (cmd_set_static_effect VarStore Backlight (rgb_new 1 2 3)), Inr (cmd_set_effect_none VarStore Backlight),
        cmd_set_poll_rate_legacy Hz125, Inr cmd_get_poll_rate_legacy, Inr (cmd_set_poll_rate_v2 Hz8000 0x00),
        Inr cmd_get_poll_rate_v2]"

definition test_getters_have_the_direction_bit_set_and_setters_do_not :: bool where
  "test_getters_have_the_direction_bit_set_and_setters_do_not \<longleftrightarrow>
     list_all is_get
       [cmd_get_device_mode, cmd_get_firmware_version, cmd_get_serial, cmd_get_brightness VarStore Backlight,
        cmd_get_poll_rate_legacy, cmd_get_poll_rate_v2] \<and>
     list_all (\<lambda>r. \<not> is_get r)
       [cmd_set_device_mode Driver, cmd_set_brightness VarStore Backlight 0x80,
        cmd_set_static_effect VarStore Backlight (rgb_new 1 2 3), cmd_set_effect_none VarStore Backlight,
        cmd_set_poll_rate_v2 Hz1000 0x00]"

lemma cmd_tests:
  "test_set_device_mode_payloads" "test_standard_getters" "test_set_brightness_payload" "test_get_brightness_payload"
  "test_static_effect_matches_the_documented_byte_string" "test_effect_none_payload" "test_legacy_poll_rate_payloads"
  "test_get_poll_rate_legacy_shape" "test_v2_poll_rate_payloads" "test_get_poll_rate_v2_shape"
  "test_no_constructor_stamps_an_id" "test_every_constructor_is_well_formed"
  "test_getters_have_the_direction_bit_set_and_setters_do_not"
  by code_simp+

subsection \<open>parse.rs\<close>

text \<open>A plausible response: the request with a status and a payload.\<close>

definition respond :: "razer_report \<Rightarrow> status \<Rightarrow> bytes \<Rightarrow> razer_report" where
  "respond req st args = req\<lparr>status := st, arguments := copy_slice 0 args (replicate ARGS_LEN 0)\<rparr>"

definition ascii_bytes :: "string \<Rightarrow> bytes" where "ascii_bytes s = map (\<lambda>c. of_nat (ord c)) s"

definition test_successful_and_busy_are_both_accepted :: bool where
  "test_successful_and_busy_are_both_accepted \<longleftrightarrow>
     (let req = cmd_get_device_mode in
      list_all (\<lambda>st. check_response req (respond req st [0x03, 0x00]) = Inr ()) [Successful, Busy])"

definition test_mismatches_and_bad_statuses_are_rejected :: bool where
  "test_mismatches_and_bad_statuses_are_rejected \<longleftrightarrow>
     (let req = cmd_get_device_mode; good = respond req Successful [] in
      check_response req (good\<lparr>command_class := 0x0F\<rparr>) = Inl (ResponseMismatch ''command_class'' 0x00 0x0F) \<and>
      check_response req (good\<lparr>command_id := 0x04\<rparr>) = Inl (ResponseMismatch ''command_id'' 0x84 0x04) \<and>
      check_response req (good\<lparr>remaining_packets := 0x0001\<rparr>) = Inl (ResponseMismatch ''remaining_packets'' 0 1) \<and>
      check_response req (respond req NotSupported []) = Inl (DeviceStatus NotSupported) \<and>
      list_all (\<lambda>st. check_response req (respond req st []) = Inl (DeviceStatus st))
        [New, Failure, Timeout, Unknown 0x42])"

definition test_check_request_passes_every_constructor_in_the_crate :: bool where
  "test_check_request_passes_every_constructor_in_the_crate \<longleftrightarrow>
     all_built (\<lambda>r. check_request r = Inr ())
       [Inr (cmd_set_device_mode Driver), Inr (cmd_set_device_mode Normal), Inr cmd_get_device_mode,
        Inr cmd_get_firmware_version, Inr cmd_get_serial, Inr (cmd_set_brightness VarStore Backlight 0x80),
        Inr (cmd_get_brightness VarStore Backlight), Inr (cmd_set_static_effect VarStore Zero (rgb_new 1 2 3)),
        Inr (cmd_set_effect_none VarStore Backlight), cmd_set_poll_rate_legacy Hz1000, Inr cmd_get_poll_rate_legacy,
        Inr (cmd_set_poll_rate_v2 Hz1000 0x00), Inr cmd_get_poll_rate_v2]"

definition test_check_request_rejects_what_must_never_be_sent :: bool where
  "test_check_request_rejects_what_must_never_be_sent \<longleftrightarrow>
     (let base = cmd_set_device_mode Driver in
      check_request (base\<lparr>data_size := 81\<rparr>) = Inl (DataSizeTooLarge 81) \<and>
      check_request (base\<lparr>data_size := 80\<rparr>) = Inr () \<and>
      is_malformed (check_request (base\<lparr>protocol_type := 0x42\<rparr>)) \<and>
      is_malformed (check_request (base\<lparr>reserved := 0x99\<rparr>)) \<and>
      check_request (base\<lparr>remaining_packets := 0xBEEF\<rparr>) = Inr ())"

definition test_oversized_data_size_is_rejected :: bool where
  "test_oversized_data_size_is_rejected \<longleftrightarrow>
     (let req = cmd_get_device_mode;
          fat_response = (respond req Successful [])\<lparr>data_size := 81\<rparr>;
          fat_request = req\<lparr>data_size := 81\<rparr>;
          at_limit = req\<lparr>data_size := 80\<rparr>
      in check_response req fat_response = Inl (DataSizeTooLarge 81) \<and>
         check_response fat_request (respond fat_request Successful []) = Inl (DataSizeTooLarge 81) \<and>
         check_response at_limit (respond at_limit Successful []) = Inr ())"

definition test_brightness_reads_argument_two :: bool where
  "test_brightness_reads_argument_two \<longleftrightarrow>
     (let resp = respond (cmd_get_brightness VarStore Backlight) Successful [0x01, 0x05, 0x42] in
      parse_brightness resp = Inr 0x42 \<and> parse_brightness resp \<noteq> Inr 0x01)"

definition test_poll_rate_readers_use_different_indices :: bool where
  "test_poll_rate_readers_use_different_indices \<longleftrightarrow>
     (let resp = respond cmd_get_poll_rate_v2 Successful [0x01, 0x10] in
      parse_poll_rate_legacy resp = Inr Hz1000 \<and> parse_poll_rate_v2 resp = Inr Hz500 \<and>
      parse_poll_rate_legacy resp \<noteq> parse_poll_rate_v2 resp)"

definition test_poll_rate_readers_reject_unknown_codes :: bool where
  "test_poll_rate_readers_reject_unknown_codes \<longleftrightarrow>
     (let resp = respond cmd_get_poll_rate_legacy Successful [0x7E, 0x7E] in
      is_malformed (parse_poll_rate_legacy resp) \<and> is_malformed (parse_poll_rate_v2 resp))"

definition test_serial_trims_at_the_nul :: bool where
  "test_serial_trims_at_the_nul \<longleftrightarrow>
     (case parse_serial (respond cmd_get_serial Successful (ascii_bytes ''XX1234567890123456789'' @ [0])) of
        Inl _ \<Rightarrow> False
      | Inr s \<Rightarrow>
          s = ''XX1234567890123456789'' \<and> length s = 21 \<and> list_all (\<lambda>c. c \<noteq> CHR 0x00) s \<and> trim_end s = s)"

definition test_serial_trims_trailing_whitespace_and_handles_a_full_field :: bool where
  "test_serial_trims_trailing_whitespace_and_handles_a_full_field \<longleftrightarrow>
     (let req = cmd_get_serial;
          padded = respond req Successful (ascii_bytes ''PM12345678   '' @ [0]);
          full = respond req Successful (ascii_bytes ''0123456789ABCDEFGHIJKL'');
          bleed = full\<lparr>arguments := (arguments full)[22 := of_nat (ord (CHR ''Z''))]\<rparr>
      in parse_serial padded = Inr ''PM12345678'' \<and> parse_serial full = Inr ''0123456789ABCDEFGHIJKL'' \<and>
         parse_serial bleed = Inr ''0123456789ABCDEFGHIJKL'' \<and> parse_serial (respond req Successful []) = Inr '''')"

definition test_serial_rejects_non_ascii :: bool where
  "test_serial_rejects_non_ascii \<longleftrightarrow>
     parse_serial (respond cmd_get_serial Successful [0xFF, 0xFE, 0x00]) = Inl (Malformed ''serial is not ASCII'')"

definition test_firmware_version_reads_the_first_two_arguments :: bool where
  "test_firmware_version_reads_the_first_two_arguments \<longleftrightarrow>
     parse_firmware_version (respond cmd_get_firmware_version Successful [0x01, 0x0B, 0xFF]) = Inr (1, 11)"

definition test_device_mode_returns_the_raw_pair :: bool where
  "test_device_mode_returns_the_raw_pair \<longleftrightarrow>
     (let driver = respond cmd_get_device_mode Successful [0x03, 0x00];
          odd' = respond cmd_get_device_mode Successful [0x02, 0x00]
      in parse_device_mode driver = Inr (0x03, 0x00) \<and>
         (case parse_device_mode driver of Inl _ \<Rightarrow> False | Inr p \<Rightarrow> device_mode_from_u8 (fst p) = Some Driver) \<and>
         parse_device_mode odd' = Inr (0x02, 0x00) \<and> device_mode_from_u8 0x02 = None)"

definition test_end_to_end_over_the_wire_form :: bool where
  "test_end_to_end_over_the_wire_form \<longleftrightarrow>
     (let req = with_transaction_id (cmd_set_device_mode Driver) 0x1F; request_bytes = to_bytes req;
          reply_bytes = request_bytes[0 := status_to_u8 Successful];
          reply_bytes = reply_bytes[88 := crc reply_bytes];
          response = from_bytes reply_bytes
      in verify_crc request_bytes \<and> check_response req response = Inr () \<and>
         parse_device_mode response = Inr (0x03, 0x00))"

lemma parse_tests:
  "test_successful_and_busy_are_both_accepted" "test_mismatches_and_bad_statuses_are_rejected"
  "test_check_request_passes_every_constructor_in_the_crate" "test_check_request_rejects_what_must_never_be_sent"
  "test_oversized_data_size_is_rejected" "test_brightness_reads_argument_two"
  "test_poll_rate_readers_use_different_indices" "test_poll_rate_readers_reject_unknown_codes"
  "test_serial_trims_at_the_nul" "test_serial_trims_trailing_whitespace_and_handles_a_full_field"
  "test_serial_rejects_non_ascii" "test_firmware_version_reads_the_first_two_arguments"
  "test_device_mode_returns_the_raw_pair" "test_end_to_end_over_the_wire_form"
  by code_simp+

subsection \<open>error.rs\<close>

definition test_display_is_non_empty_for_every_variant :: bool where
  "test_display_is_non_empty_for_every_variant \<longleftrightarrow>
     list_all (\<lambda>v. proto_error_display v \<noteq> [])
       [DataSizeTooLarge 81, ResponseMismatch ''command_class'' 0x00 0x0F, DeviceStatus NotSupported,
        BadCrc 0x05 0x00, Malformed ''nope'']"

lemma error_tests: "test_display_is_non_empty_for_every_variant"
  by (simp add: test_display_is_non_empty_for_every_variant_def)

subsection \<open>lib.rs\<close>

definition test_public_surface_is_reachable_from_the_crate_root :: bool where
  "test_public_surface_is_reachable_from_the_crate_root \<longleftrightarrow>
     REPORT_LEN = 90 \<and> ARGS_LEN = 80 \<and>
     (let bs = to_bytes (cmd_set_static_effect VarStore Backlight (rgb_new 0xFF 0x00 0x00)) in
      verify_crc bs \<and> crc bs = bs ! 88 \<and> status_from_u8 (bs ! 0) = New) \<and>
     device_mode_to_u8 Driver = 0x03 \<and> hz Hz1000 = 1000 \<and> proto_error_display (DataSizeTooLarge 81) \<noteq> []"

definition test_no_command_constructor_sets_a_transaction_id :: bool where
  "test_no_command_constructor_sets_a_transaction_id \<longleftrightarrow>
     all_built (\<lambda>r. transaction_id r = 0x00)
       [Inr (cmd_set_device_mode Normal), Inr (cmd_set_device_mode Driver), Inr cmd_get_device_mode,
        Inr cmd_get_firmware_version, Inr cmd_get_serial, Inr (cmd_set_brightness VarStore Backlight 0x80),
        Inr (cmd_get_brightness VarStore Backlight), Inr (cmd_set_static_effect VarStore Zero (rgb_new 1 2 3)),
        Inr (cmd_set_effect_none VarStore Backlight), cmd_set_poll_rate_legacy Hz1000,
        Inr cmd_get_poll_rate_legacy, Inr (cmd_set_poll_rate_v2 Hz1000 0x00), Inr cmd_get_poll_rate_v2]"

definition test_blackwidow_v4_pro_driver_mode_frame :: bool where
  "test_blackwidow_v4_pro_driver_mode_frame \<longleftrightarrow>
     (let bs = to_bytes (with_transaction_id (cmd_set_device_mode Driver) 0x1F) in
      take 10 bs = [0x00, 0x1F, 0x00, 0x00, 0x00, 0x02, 0x00, 0x04, 0x03, 0x00] \<and>
      list_all (\<lambda>b. b = 0) (take (88 - 10) (drop 10 bs)) \<and> bs ! 88 = 0x05 \<and> bs ! 89 = 0x00)"

lemma crate_root_tests:
  "test_public_surface_is_reachable_from_the_crate_root" "test_no_command_constructor_sets_a_transaction_id"
  "test_blackwidow_v4_pro_driver_mode_frame"
proof -
  show "test_public_surface_is_reachable_from_the_crate_root"
    unfolding test_public_surface_is_reachable_from_the_crate_root_def
    by (intro conjI) (code_simp | simp)+
  show "test_no_command_constructor_sets_a_transaction_id"
    by (simp add: test_no_command_constructor_sets_a_transaction_id_def all_built_def cmd_defs)
  show "test_blackwidow_v4_pro_driver_mode_frame" by code_simp
qed

end
