(* ===== verification/Tests_Devices.thy ===== *)
theory Tests_Devices
  imports Devices Rust_Text
begin

text \<open>
  The unit tests of \<open>crates/razer-devices/src\<close> (\<open>capabilities.rs\<close>, \<open>table.rs\<close>), translated as those of
  the protocol crate are: an \<open>expect\<close> on a lookup that fails is \<open>False\<close>.
\<close>

subsection \<open>capabilities.rs\<close>

definition count_ones :: "u32 \<Rightarrow> nat" where
  "count_ones w = length (filter (bit w) [0..<32])"

definition test_none_contains_nothing :: bool where
  "test_none_contains_nothing \<longleftrightarrow> \<not> contains CAP_NONE CAP_SERIAL"

definition test_union_contains_members_not_others :: bool where
  "test_union_contains_members_not_others \<longleftrightarrow>
     (let c = cap_union CAP_SERIAL CAP_BRIGHTNESS in
      contains c CAP_SERIAL \<and> contains c CAP_BRIGHTNESS \<and> \<not> contains c CAP_POLL_RATE)"

definition test_all_flags_distinct_powers_of_two :: bool where
  "test_all_flags_distinct_powers_of_two \<longleftrightarrow>
     (let flags = [CAP_DEVICE_MODE, CAP_FIRMWARE_VERSION, CAP_SERIAL, CAP_BRIGHTNESS, CAP_STATIC_EFFECT,
            CAP_POLL_RATE]
      in list_all (\<lambda>f. count_ones (bits f) = 1) flags \<and>
         list_all (\<lambda>i. list_all (\<lambda>j. bits (flags ! i) \<noteq> bits (flags ! j)) [i + 1..<length flags])
           [0..<length flags])"

lemma capability_tests:
  "test_none_contains_nothing" "test_union_contains_members_not_others"
  "test_all_flags_distinct_powers_of_two"
  by code_simp+

subsection \<open>table.rs\<close>

definition test_table_has_exactly_three_entries :: bool where
  "test_table_has_exactly_three_entries \<longleftrightarrow> length all_devices = 3"

definition test_table_sorted_ascending_by_pid :: bool where
  "test_table_sorted_ascending_by_pid \<longleftrightarrow>
     list_all (\<lambda>(a, b). pid a < pid b) (zip all_devices (tl all_devices))"

definition test_pids_are_exactly_the_expected_set :: bool where
  "test_pids_are_exactly_the_expected_set \<longleftrightarrow> sort (map pid all_devices) = [0x00AA, 0x00AB, 0x028D]"

definition test_vendor_id_is_razer :: bool where
  "test_vendor_id_is_razer \<longleftrightarrow> VENDOR_ID = 0x1532"

definition test_blackwidow_v4_pro_fields :: bool where
  "test_blackwidow_v4_pro_fields \<longleftrightarrow>
     (case lookup 0x028D of None \<Rightarrow> False
      | Some e \<Rightarrow>
          contains_str ''BlackWidow V4 Pro'' (dev_name e) \<and> kind e = Keyboard \<and>
          dev_transaction_id e = 0x1F \<and> report_index e = 3 \<and> response_index e = 3 \<and> wait e = 600 \<and>
          default_led e = 0x05 \<and> poll_rate_kind e = V2)"

definition test_basilisk_v3_pro_wired_fields :: bool where
  "test_basilisk_v3_pro_wired_fields \<longleftrightarrow>
     (case lookup 0x00AA of None \<Rightarrow> False
      | Some e \<Rightarrow>
          contains_str ''Basilisk V3 Pro'' (dev_name e) \<and> contains_str ''Wired'' (dev_name e) \<and>
          kind e = Mouse \<and> dev_transaction_id e = 0x1F \<and> report_index e = 0 \<and> response_index e = 0 \<and>
          wait e = 31000 \<and> default_led e = 0x00 \<and> poll_rate_kind e = Legacy)"

definition test_basilisk_v3_pro_wireless_fields :: bool where
  "test_basilisk_v3_pro_wireless_fields \<longleftrightarrow>
     (case lookup 0x00AB of None \<Rightarrow> False
      | Some e \<Rightarrow>
          contains_str ''Basilisk V3 Pro'' (dev_name e) \<and> contains_str ''Wireless'' (dev_name e) \<and>
          kind e = Mouse \<and> dev_transaction_id e = 0x1F \<and> report_index e = 0 \<and> response_index e = 0 \<and>
          wait e = 31000 \<and> default_led e = 0x00 \<and> poll_rate_kind e = Legacy)"

definition test_all_entries_have_common_capabilities :: bool where
  "test_all_entries_have_common_capabilities \<longleftrightarrow>
     list_all (\<lambda>e. contains (capabilities e) COMMON_CAPS) all_devices"

definition test_kiyo_pro_is_absent :: bool where
  "test_kiyo_pro_is_absent \<longleftrightarrow> Option.is_none (lookup 0x0E05)"

definition test_unknown_pids_return_none :: bool where
  "test_unknown_pids_return_none \<longleftrightarrow>
     Option.is_none (lookup 0x0000) \<and> Option.is_none (lookup 0xFFFF) \<and> Option.is_none (lookup 0x028C) \<and>
     Option.is_none (lookup 0x028E)"

definition test_no_entry_uses_the_buggy_0xff_transaction_id :: bool where
  "test_no_entry_uses_the_buggy_0xff_transaction_id \<longleftrightarrow>
     list_all (\<lambda>e. dev_transaction_id e \<noteq> 0xFF) all_devices"

definition test_report_index_always_equals_response_index :: bool where
  "test_report_index_always_equals_response_index \<longleftrightarrow>
     list_all (\<lambda>e. report_index e = response_index e) all_devices"

lemma table_tests:
  "test_table_has_exactly_three_entries" "test_table_sorted_ascending_by_pid"
  "test_pids_are_exactly_the_expected_set" "test_vendor_id_is_razer"
  "test_all_entries_have_common_capabilities" "test_kiyo_pro_is_absent" "test_unknown_pids_return_none"
  "test_no_entry_uses_the_buggy_0xff_transaction_id" "test_report_index_always_equals_response_index"
  by (simp_all add: test_table_has_exactly_three_entries_def test_table_sorted_ascending_by_pid_def
      test_pids_are_exactly_the_expected_set_def test_vendor_id_is_razer_def VENDOR_ID_def
      test_all_entries_have_common_capabilities_def test_kiyo_pro_is_absent_def
      test_unknown_pids_return_none_def test_no_entry_uses_the_buggy_0xff_transaction_id_def
      test_report_index_always_equals_response_index_def all_devices_def lookup_def TABLE_def device_defs
      contains_def)

lemma lookup_entries:
  "lookup 0x028D = Some blackwidow_v4_pro" "lookup 0x00AA = Some basilisk_v3_pro_wired"
  "lookup 0x00AB = Some basilisk_v3_pro_wireless"
  by (simp_all add: lookup_def TABLE_def device_defs)

lemma entry_tests:
  "test_blackwidow_v4_pro_fields" "test_basilisk_v3_pro_wired_fields" "test_basilisk_v3_pro_wireless_fields"
  by (simp_all add: test_blackwidow_v4_pro_fields_def test_basilisk_v3_pro_wired_fields_def
      test_basilisk_v3_pro_wireless_fields_def lookup_entries device_defs BACKLIGHT_LED_def ZERO_LED_def)

end
