(* ===== verification/Tests_Hid.thy ===== *)
theory Tests_Hid
  imports Enumerate Mock Metrics_Sysfs
begin

text \<open>
  The unit tests of \<open>crates/razer-hid/src\<close> outside the session (\<open>error.rs\<close>, \<open>sysfs.rs\<close>,
  \<open>enumerate.rs\<close>, \<open>mock.rs\<close>, \<open>transport.rs\<close>), translated: an \<open>expect\<close> or a \<open>panic!\<close> that would fire is
  \<open>False\<close>. Left out are the assertions about the layout of a type in memory.
\<close>

subsection \<open>error.rs\<close>

definition test_an_idle_receiver_is_recognised_from_a_timeout_status :: bool where
  "test_an_idle_receiver_is_recognised_from_a_timeout_status \<longleftrightarrow>
     (let e = RetriesExhausted (DeviceStatus Timeout) in
      terminal_status e = Some Timeout \<and> is_receiver_idle e)"

definition test_the_other_terminal_statuses_are_kept_distinct :: bool where
  "test_the_other_terminal_statuses_are_kept_distinct \<longleftrightarrow>
     list_all (\<lambda>st. let e = RetriesExhausted (DeviceStatus st) in
       terminal_status e = Some st \<and> \<not> is_receiver_idle e) [Failure, NotSupported]"

definition test_a_transport_fault_carries_no_device_status :: bool where
  "test_a_transport_fault_carries_no_device_status \<longleftrightarrow>
     (let e = Io ''HIDIOCSFEATURE'' 13 in terminal_status e = None \<and> \<not> is_receiver_idle e)"

definition test_a_non_status_protocol_error_is_not_an_idle_receiver :: bool where
  "test_a_non_status_protocol_error_is_not_an_idle_receiver \<longleftrightarrow>
     (let e = RetriesExhausted (BadCrc 0x05 0x06) in terminal_status e = None \<and> \<not> is_receiver_idle e)"

definition test_display_is_non_empty_for_every_hid_variant :: bool where
  "test_display_is_non_empty_for_every_hid_variant \<longleftrightarrow>
     list_all (\<lambda>v. hid_error_display v \<noteq> [])
       [DeviceNotFound 0x1532 0x028D 3, UnsupportedDevice 0x0E05, Unsupported 0x028D ''poll rate'',
        DeviceIdentityMismatch ''/dev/hidraw3'' (0x1532, 0x028D) (0x046D, 0xC52B),
        Io ''HIDIOCSFEATURE'' 13, ShortRead 0, Sysfs ''idVendor unreadable'', Proto (Malformed ''x''),
        RetriesExhausted (Malformed ''x'')]"

definition test_proto_errors_convert :: bool where
  "test_proto_errors_convert \<longleftrightarrow>
     (case Proto (Malformed ''nope'') of Proto (Malformed m) \<Rightarrow> m = ''nope'' | _ \<Rightarrow> False)"

definition test_is_a_std_error_with_a_source_where_it_should_be :: bool where
  "test_is_a_std_error_with_a_source_where_it_should_be \<longleftrightarrow>
     hid_error_source (Proto (Malformed ''x'')) \<noteq> None \<and> hid_error_source (ShortRead 1) = None"

lemma hid_error_tests:
  "test_an_idle_receiver_is_recognised_from_a_timeout_status"
  "test_the_other_terminal_statuses_are_kept_distinct" "test_a_transport_fault_carries_no_device_status"
  "test_a_non_status_protocol_error_is_not_an_idle_receiver"
  "test_display_is_non_empty_for_every_hid_variant" "test_proto_errors_convert"
  "test_is_a_std_error_with_a_source_where_it_should_be"
  by (simp_all add: test_an_idle_receiver_is_recognised_from_a_timeout_status_def
      test_the_other_terminal_statuses_are_kept_distinct_def
      test_a_transport_fault_carries_no_device_status_def
      test_a_non_status_protocol_error_is_not_an_idle_receiver_def
      test_display_is_non_empty_for_every_hid_variant_def test_proto_errors_convert_def
      test_is_a_std_error_with_a_source_where_it_should_be_def terminal_status_def is_receiver_idle_def
      hid_error_source_def)

subsection \<open>sysfs.rs\<close>

definition test_interface_info_is_comparable_by_value :: bool where
  "test_interface_info_is_comparable_by_value \<longleftrightarrow>
     (let a = \<lparr>info_vendor_id = 0x1532, info_product_id = 0x028D, interface_number = 3,
                interface_protocol = 0x02\<rparr>;
          b = a; c = a\<lparr>interface_number := 0\<rparr>
      in a = b \<and> a \<noteq> c)"

definition test_ancestor_walk_is_bounded :: bool where
  "test_ancestor_walk_is_bounded \<longleftrightarrow>
     0 < MAX_ANCESTOR_WALK \<and> MAX_ANCESTOR_WALK \<le> 32 \<and>
     (let hid_device = ''/sys/devices/pci0000:00/0000:00:14.0/usb1/1-2/1-2.3/1-2.3:1.3/0003:1532:028D.0004'';
          ancestors = ancestors_take (MAX_ANCESTOR_WALK + 1) hid_device;
          before = takeWhile (\<lambda>p. file_name p \<noteq> Some ''1-2.3:1.3'') ancestors
      in length before < length ancestors \<and> length before = 1 \<and> length ancestors \<le> MAX_ANCESTOR_WALK)"

lemma sysfs_test: "test_ancestor_walk_is_bounded"
  by code_simp

subsection \<open>transport.rs\<close>

text \<open>The kernel's request macros for the type \<open>'H'\<close>: writing and reading, and reading only.\<close>

definition request_ioc :: "nat \<Rightarrow> nat \<Rightarrow> u64" where
  "request_ioc nr sz = ioc 3 0x48 nr sz"

definition request_ior :: "nat \<Rightarrow> nat \<Rightarrow> u64" where
  "request_ior nr sz = ioc 2 0x48 nr sz"

definition test_rawinfo_request_number_and_struct_layout_match_the_kernel :: bool where
  "test_rawinfo_request_number_and_struct_layout_match_the_kernel \<longleftrightarrow>
     HIDIOCGRAWINFO = request_ior 0x03 8 \<and> HIDIOCGRAWINFO = 0x80084803"

definition test_product_ids_above_0x7fff_survive_the_kernels_signed_fields :: bool where
  "test_product_ids_above_0x7fff_survive_the_kernels_signed_fields \<longleftrightarrow>
     (let dev = \<lparr>di_bustype = 0x03, di_vendor = 0x1532, di_product = sint (0xC52B :: u16)\<rparr> in
      di_product dev < 0 \<and> (of_int (di_product dev) :: u16) = 0xC52B \<and>
      (of_int (di_vendor dev) :: u16) = 0x1532)"

definition test_buffer_is_one_report_id_plus_ninety_bytes :: bool where
  "test_buffer_is_one_report_id_plus_ninety_bytes \<longleftrightarrow> HIDRAW_BUF_LEN = 1 + 90 \<and> HIDRAW_BUF_LEN = 91"

definition test_ioctl_request_numbers_match_the_ioc_macro :: bool where
  "test_ioctl_request_numbers_match_the_ioc_macro \<longleftrightarrow>
     HIDIOCSFEATURE_91 = request_ioc 0x06 HIDRAW_BUF_LEN \<and> HIDIOCGFEATURE_91 = request_ioc 0x07 HIDRAW_BUF_LEN \<and>
     HIDIOCSFEATURE_91 = 0xC05B4806 \<and> HIDIOCGFEATURE_91 = 0xC05B4807"

lemma transport_tests:
  "test_interface_info_is_comparable_by_value"
  "test_rawinfo_request_number_and_struct_layout_match_the_kernel"
  "test_product_ids_above_0x7fff_survive_the_kernels_signed_fields"
  "test_buffer_is_one_report_id_plus_ninety_bytes" "test_ioctl_request_numbers_match_the_ioc_macro"
  by (simp_all add: test_interface_info_is_comparable_by_value_def
      test_product_ids_above_0x7fff_survive_the_kernels_signed_fields_def
      test_buffer_is_one_report_id_plus_ninety_bytes_def test_ioctl_request_numbers_match_the_ioc_macro_def
      test_rawinfo_request_number_and_struct_layout_match_the_kernel_def HIDIOCGRAWINFO_def
      HIDRAW_BUF_LEN_def HIDIOCSFEATURE_91_def HIDIOCGFEATURE_91_def request_ioc_def
      request_ior_def ioc_def)

subsection \<open>mock.rs\<close>

definition test_blackwidow_fixture_matches_the_documented_layout :: bool where
  "test_blackwidow_fixture_matches_the_documented_layout \<longleftrightarrow>
     (let sysfs = mock_source mock_blackwidow_v4_pro in
      hidraw_names sysfs = Inr [''hidraw0'', ''hidraw1'', ''hidraw2'', ''hidraw3''] \<and>
      (case interface_info sysfs ''hidraw3'' of
         Inr (Some control) \<Rightarrow>
           info_vendor_id control = 0x1532 \<and> info_product_id control = 0x028D \<and>
           interface_number control = 3 \<and> interface_protocol control = 0x02
       | _ \<Rightarrow> False))"

definition test_basilisk_fixture_matches_the_documented_layout :: bool where
  "test_basilisk_fixture_matches_the_documented_layout \<longleftrightarrow>
     (let sysfs = mock_source mock_basilisk_v3_pro_wireless in
      hidraw_names sysfs = Inr [''hidraw4'', ''hidraw5'', ''hidraw6''] \<and>
      (case interface_info sysfs ''hidraw4'' of
         Inr (Some control) \<Rightarrow>
           info_product_id control = 0x00AB \<and> interface_number control = 0 \<and>
           interface_protocol control = 0x02
       | _ \<Rightarrow> False))"

definition test_unknown_node_has_no_interface_info :: bool where
  "test_unknown_node_has_no_interface_info \<longleftrightarrow>
     interface_info (mock_source mock_blackwidow_v4_pro) ''hidraw99'' = Inr None"

definition test_mock_sysfs_preserves_insertion_order :: bool where
  "test_mock_sysfs_preserves_insertion_order \<longleftrightarrow>
     hidraw_names (mock_source (with_node (with_node mock_sysfs_new ''hidraw9'' (usb 0x028D 3 0x02))
       ''hidraw2'' (usb 0x028D 0 0x00))) = Inr [''hidraw9'', ''hidraw2'']"

lemmas mock_tree_defs =
  mock_source_def mock_blackwidow_v4_pro_def mock_basilisk_v3_pro_wireless_def mock_sysfs_new_def
  with_node_def without_usb_parent_def usb_def

lemma mock_tree_tests:
  "test_blackwidow_fixture_matches_the_documented_layout"
  "test_basilisk_fixture_matches_the_documented_layout" "test_unknown_node_has_no_interface_info"
  "test_mock_sysfs_preserves_insertion_order"
  by (simp_all add: test_blackwidow_fixture_matches_the_documented_layout_def
      test_basilisk_fixture_matches_the_documented_layout_def test_unknown_node_has_no_interface_info_def
      test_mock_sysfs_preserves_insertion_order_def mock_tree_defs)

definition test_transport_records_sets_and_replays_gets :: bool where
  "test_transport_records_sets_and_replays_gets \<longleftrightarrow>
     (let t = mock_transport_new; out = (replicate HIDRAW_BUF_LEN 0)[1 := 0xAB] in
      sent t = [] \<and>
      (case mock_set_feature out t of
         (Inl _, _) \<Rightarrow> False
       | (Inr _, t) \<Rightarrow>
           length (sent t) = 1 \<and> sent t ! 0 ! 1 = 0xAB \<and>
           (case mock_get_feature (replicate HIDRAW_BUF_LEN 0) (push_response (new_report 0x00 0x84 0x02) t) of
              ((Inr got, buf), _) \<Rightarrow> got = HIDRAW_BUF_LEN \<and> buf ! 0 = 0x00 \<and> buf ! 8 = 0x84
            | _ \<Rightarrow> False)))"

definition test_transport_with_an_empty_queue_reports_zero_bytes :: bool where
  "test_transport_with_an_empty_queue_reports_zero_bytes \<longleftrightarrow>
     (case mock_get_feature (replicate HIDRAW_BUF_LEN 0) mock_transport_new of
        ((Inr got, _), _) \<Rightarrow> got = 0
      | _ \<Rightarrow> False)"

definition test_fail_next_set_fires_once_only :: bool where
  "test_fail_next_set_fires_once_only \<longleftrightarrow>
     (let t = set_fail_next 13 mock_transport_new; buf = replicate HIDRAW_BUF_LEN 0 in
      case mock_set_feature buf t of
        (Inl (Io oper errno), t) \<Rightarrow>
          oper = ''HIDIOCSFEATURE'' \<and> errno = 13 \<and> sent t = [] \<and>
          (case mock_set_feature buf t of
             (Inr _, t) \<Rightarrow> length (sent t) = 1
           | _ \<Rightarrow> False)
      | _ \<Rightarrow> False)"

definition test_sent_reports_round_trips_what_was_sent :: bool where
  "test_sent_reports_round_trips_what_was_sent \<longleftrightarrow>
     (case with_args (new_report 0x0F 0x04 0x03) [0x01, 0x05, 0x40] of
        None \<Rightarrow> False
      | Some r \<Rightarrow>
          let buf = copy_slice 1 (to_bytes (with_transaction_id r 0x1F)) (replicate HIDRAW_BUF_LEN 0) in
          (case mock_set_feature buf mock_transport_new of
             (Inl _, _) \<Rightarrow> False
           | (Inr _, t) \<Rightarrow>
               let decoded = sent_reports t in
               length decoded = 1 \<and> command_class (decoded ! 0) = 0x0F \<and> command_id (decoded ! 0) = 0x04 \<and>
               transaction_id (decoded ! 0) = 0x1F \<and> report_args (decoded ! 0) = [0x01, 0x05, 0x40]))"

definition test_clock_records_instead_of_sleeping :: bool where
  "test_clock_records_instead_of_sleeping \<longleftrightarrow>
     (let c = mock_clock_new; c' = mock_sleep 10000 (mock_sleep 600 c) in
      mock_total c = 0 \<and> sleeps c' = [600, 10000] \<and> mock_total c' = 10600)"

lemma mock_io_tests:
  "test_transport_records_sets_and_replays_gets" "test_transport_with_an_empty_queue_reports_zero_bytes"
  "test_fail_next_set_fires_once_only" "test_sent_reports_round_trips_what_was_sent"
  "test_clock_records_instead_of_sleeping"
proof -
  show "test_transport_records_sets_and_replays_gets" by code_simp
  show "test_transport_with_an_empty_queue_reports_zero_bytes" by code_simp
  show "test_fail_next_set_fires_once_only"
    by (simp add: test_fail_next_set_fires_once_only_def set_fail_next_def mock_set_feature_def
        mock_transport_new_def Let_def)
  show "test_sent_reports_round_trips_what_was_sent" by code_simp
  show "test_clock_records_instead_of_sleeping" by code_simp
qed

subsection \<open>enumerate.rs\<close>

definition node_info_of :: "u16 \<Rightarrow> u8 \<Rightarrow> u8 \<Rightarrow> usb_interface_info" where
  "node_info_of p iface proto =
     \<lparr>info_vendor_id = 0x1532, info_product_id = p, interface_number = iface, interface_protocol = proto\<rparr>"

definition mock_basilisk_v3_pro_wired :: mock_sysfs where
  "mock_basilisk_v3_pro_wired =
     with_node (with_node (with_node mock_sysfs_new
       ''hidraw4'' (node_info_of 0x00AA 0 0x02))
       ''hidraw5'' (node_info_of 0x00AA 1 0x01))
       ''hidraw6'' (node_info_of 0x00AA 2 0x00)"

text \<open>\<open>None\<close> is the panic on a product id without a fixture.\<close>

definition fixture_for :: "u16 \<Rightarrow> mock_sysfs option" where
  "fixture_for p =
     (if p = 0x028D then Some mock_blackwidow_v4_pro
      else if p = 0x00AB then Some mock_basilisk_v3_pro_wireless
      else if p = 0x00AA then Some mock_basilisk_v3_pro_wired
      else None)"

definition test_blackwidow_control_node_is_hidraw3_on_interface_3 :: bool where
  "test_blackwidow_control_node_is_hidraw3_on_interface_3 \<longleftrightarrow>
     (case find_device (mock_source mock_blackwidow_v4_pro) 0x1532 0x028D 3 of
        Inl _ \<Rightarrow> False
      | Inr node \<Rightarrow>
          node_path node = ''/dev/hidraw3'' \<and> node_name node = ''hidraw3'' \<and>
          interface_number (node_info node) = 3)"

definition test_selection_is_by_interface_number_not_first_razer_node :: bool where
  "test_selection_is_by_interface_number_not_first_razer_node \<longleftrightarrow>
     (case find_device (mock_source mock_blackwidow_v4_pro) 0x1532 0x028D 0 of
        Inl _ \<Rightarrow> False | Inr node \<Rightarrow> node_path node = ''/dev/hidraw0'')"

definition test_basilisk_wireless_control_node_is_hidraw4_on_interface_0 :: bool where
  "test_basilisk_wireless_control_node_is_hidraw4_on_interface_0 \<longleftrightarrow>
     (case find_device (mock_source mock_basilisk_v3_pro_wireless) 0x1532 0x00AB 0 of
        Inl _ \<Rightarrow> False
      | Inr node \<Rightarrow> node_path node = ''/dev/hidraw4'' \<and> interface_protocol (node_info node) = 0x02)"

definition test_absent_pid_is_device_not_found :: bool where
  "test_absent_pid_is_device_not_found \<longleftrightarrow>
     (case find_device (mock_source mock_blackwidow_v4_pro) 0x1532 0x0E05 3 of
        Inl (DeviceNotFound vid p interface) \<Rightarrow> (vid, p, interface) = (0x1532, 0x0E05, 3)
      | _ \<Rightarrow> False)"

definition test_absent_interface_on_a_present_pid_is_device_not_found :: bool where
  "test_absent_interface_on_a_present_pid_is_device_not_found \<longleftrightarrow>
     (case find_device (mock_source mock_blackwidow_v4_pro) 0x1532 0x028D 7 of
        Inl (DeviceNotFound _ _ interface) \<Rightarrow> interface = 7
      | _ \<Rightarrow> False)"

definition test_out_of_order_fixture_gives_a_deterministic_lowest_numbered_pick :: bool where
  "test_out_of_order_fixture_gives_a_deterministic_lowest_numbered_pick \<longleftrightarrow>
     (let sysfs = mock_source (with_node (with_node (with_node mock_sysfs_new
            ''hidraw9'' (node_info_of 0x028D 3 0x02))
            ''hidraw2'' (node_info_of 0x028D 3 0x02))
            ''hidraw11'' (node_info_of 0x028D 3 0x02))
      in list_all (\<lambda>i :: nat. case find_device sysfs 0x1532 0x028D 3 of
           Inl _ \<Rightarrow> False | Inr node \<Rightarrow> node_name node = ''hidraw2'') [0..<100])"

definition test_numeric_not_lexicographic_ordering :: bool where
  "test_numeric_not_lexicographic_ordering \<longleftrightarrow>
     sort_by_index [''hidraw11'', ''hidraw2''] = [''hidraw2'', ''hidraw11'']"

definition test_unparseable_names_sort_last_and_do_not_panic :: bool where
  "test_unparseable_names_sort_last_and_do_not_panic \<longleftrightarrow>
     sort_by_index [''weird'', ''hidraw5''] = [''hidraw5'', ''weird'']"

definition test_nodes_with_no_usb_parent_are_skipped_not_fatal :: bool where
  "test_nodes_with_no_usb_parent_are_skipped_not_fatal \<longleftrightarrow>
     (let sysfs = mock_source (with_node (without_usb_parent mock_sysfs_new ''hidraw0'')
            ''hidraw1'' (node_info_of 0x028D 3 0x02))
      in case find_device sysfs 0x1532 0x028D 3 of
           Inl _ \<Rightarrow> False | Inr node \<Rightarrow> node_name node = ''hidraw1'')"

definition test_report_index_selects_the_control_interface_for_every_table_entry :: bool where
  "test_report_index_selects_the_control_interface_for_every_table_entry \<longleftrightarrow>
     list_all (\<lambda>e.
       case fixture_for (pid e) of
         None \<Rightarrow> False
       | Some sysfs \<Rightarrow>
           (case find_device (mock_source sysfs) VENDOR_ID (pid e) (report_index e) of
              Inl _ \<Rightarrow> False
            | Inr node \<Rightarrow>
                interface_protocol (node_info node) = 0x02 \<and>
                interface_number (node_info node) = report_index e)) all_devices"

definition test_list_razer_nodes_returns_every_node_in_ascending_order :: bool where
  "test_list_razer_nodes_returns_every_node_in_ascending_order \<longleftrightarrow>
     (case list_razer_nodes (mock_source mock_blackwidow_v4_pro) of
        Inl _ \<Rightarrow> False
      | Inr nodes \<Rightarrow> map node_name nodes = [''hidraw0'', ''hidraw1'', ''hidraw2'', ''hidraw3''])"

definition test_list_razer_nodes_omits_non_razer_and_parentless_nodes :: bool where
  "test_list_razer_nodes_omits_non_razer_and_parentless_nodes \<longleftrightarrow>
     (let sysfs = mock_source (with_node (with_node (without_usb_parent mock_sysfs_new ''hidraw0'')
            ''hidraw1'' \<lparr>info_vendor_id = 0x046D, info_product_id = 0xC52B, interface_number = 0,
                         interface_protocol = 0x01\<rparr>)
            ''hidraw2'' (node_info_of 0x028D 3 0x02))
      in case list_razer_nodes sysfs of
           Inl _ \<Rightarrow> False | Inr nodes \<Rightarrow> map node_name nodes = [''hidraw2''])"

lemma hidraw11: "hidraw_name 11 = ''hidraw11''"
  by (simp add: hidraw_name_def fmt_dec_def fmt_radix.simps digit_char_def char_of_def bit_0)

lemma sorted_fixtures:
  "sort_by_index [''hidraw0'', ''hidraw1'', ''hidraw2'', ''hidraw3'']
     = [''hidraw0'', ''hidraw1'', ''hidraw2'', ''hidraw3'']"
  "sort_by_index [''hidraw0'', ''hidraw1'', ''hidraw2''] = [''hidraw0'', ''hidraw1'', ''hidraw2'']"
  "sort_by_index [''hidraw0'', ''hidraw1''] = [''hidraw0'', ''hidraw1'']"
  "sort_by_index [''hidraw4'', ''hidraw5'', ''hidraw6''] = [''hidraw4'', ''hidraw5'', ''hidraw6'']"
  "sort_by_index [''hidraw9'', ''hidraw2'', ''hidraw11''] = [''hidraw2'', ''hidraw9'', ''hidraw11'']"
  "sort_by_index [''hidraw11'', ''hidraw2''] = [''hidraw2'', ''hidraw11'']"
  using sort_names [of "[''hidraw0'', ''hidraw1'', ''hidraw2'', ''hidraw3'']" "[0, 1, 2, 3]"]
    sort_names [of "[''hidraw0'', ''hidraw1'', ''hidraw2'']" "[0, 1, 2]"]
    sort_names [of "[''hidraw0'', ''hidraw1'']" "[0, 1]"]
    sort_names [of "[''hidraw4'', ''hidraw5'', ''hidraw6'']" "[4, 5, 6]"]
    sort_names [of "[''hidraw9'', ''hidraw2'', ''hidraw11'']" "[9, 2, 11]"]
    sort_names [of "[''hidraw11'', ''hidraw2'']" "[11, 2]"]
  by (simp_all add: hidraw_literals hidraw11 del: One_nat_def)

lemma weird_sorts_last: "sort_by_index [''weird'', ''hidraw5''] = [''hidraw5'', ''weird'']"
proof -
  have "hidraw_index ''hidraw5'' = Some 5" using hidraw_index_name [of 5] by (simp add: hidraw_literals)
  then have "index_key ''hidraw5'' = (5, ''hidraw5'')" by (simp add: index_key_def)
  moreover have "index_key ''weird'' = (2 ^ 32 - 1, ''weird'')" by (simp add: index_key_def hidraw_index_def)
  ultimately show ?thesis by (simp add: sort_by_index_def)
qed

lemma search_sorted:
  "hidraw_names (mock_source nodes) = Inr (map fst nodes)"
  "find_device (mock_source nodes) vid p itf
     = find_loop (mock_source nodes) vid p itf (sort_by_index (map fst nodes))"
  "list_razer_nodes (mock_source nodes) = list_loop (mock_source nodes) (sort_by_index (map fst nodes)) []"
  by (simp_all add: mock_source_def find_device_def list_razer_nodes_def)

lemma fixture_names:
  "map fst mock_blackwidow_v4_pro = [''hidraw0'', ''hidraw1'', ''hidraw2'', ''hidraw3'']"
  "map fst mock_basilisk_v3_pro_wireless = [''hidraw4'', ''hidraw5'', ''hidraw6'']"
  "map fst mock_basilisk_v3_pro_wired = [''hidraw4'', ''hidraw5'', ''hidraw6'']"
  by (simp_all add: mock_tree_defs mock_basilisk_v3_pro_wired_def)

lemmas search_eval = search_sorted fixture_names sorted_fixtures

lemma fixture_search_tests:
  "test_blackwidow_control_node_is_hidraw3_on_interface_3"
  "test_selection_is_by_interface_number_not_first_razer_node"
  "test_basilisk_wireless_control_node_is_hidraw4_on_interface_0" "test_absent_pid_is_device_not_found"
  "test_absent_interface_on_a_present_pid_is_device_not_found"
  "test_list_razer_nodes_returns_every_node_in_ascending_order"
  unfolding test_blackwidow_control_node_is_hidraw3_on_interface_3_def
    test_selection_is_by_interface_number_not_first_razer_node_def
    test_basilisk_wireless_control_node_is_hidraw4_on_interface_0_def
    test_absent_pid_is_device_not_found_def test_absent_interface_on_a_present_pid_is_device_not_found_def
    test_list_razer_nodes_returns_every_node_in_ascending_order_def search_eval
  by (simp_all add: mock_tree_defs path_join_def VENDOR_ID_def)

lemma ordering_tests:
  "test_numeric_not_lexicographic_ordering" "test_unparseable_names_sort_last_and_do_not_panic"
  by (simp_all add: test_numeric_not_lexicographic_ordering_def sorted_fixtures weird_sorts_last
      test_unparseable_names_sort_last_and_do_not_panic_def)

lemma composed_search_tests:
  "test_out_of_order_fixture_gives_a_deterministic_lowest_numbered_pick"
  "test_nodes_with_no_usb_parent_are_skipped_not_fatal"
  "test_list_razer_nodes_omits_non_razer_and_parentless_nodes"
  by (simp_all add: test_out_of_order_fixture_gives_a_deterministic_lowest_numbered_pick_def
      test_nodes_with_no_usb_parent_are_skipped_not_fatal_def search_sorted
      test_list_razer_nodes_omits_non_razer_and_parentless_nodes_def Let_def with_node_def
      without_usb_parent_def mock_sysfs_new_def sorted_fixtures del: upt_rec_numeral)
    (simp_all add: mock_source_def node_info_of_def VENDOR_ID_def list_all_iff)

lemma table_fixture_test: "test_report_index_selects_the_control_interface_for_every_table_entry"
  by (simp add: test_report_index_selects_the_control_interface_for_every_table_entry_def all_devices_def
      TABLE_def device_defs fixture_for_def search_eval)
    (simp add: mock_tree_defs mock_basilisk_v3_pro_wired_def node_info_of_def VENDOR_ID_def)

end
