(* ===== verification/Tests_Session.thy ===== *)
theory Tests_Session
  imports Session_Mock
begin

text \<open>
  The unit tests of \<open>crates/razer-hid/src/session.rs\<close>, translated: a session over the in-memory
  transport and clock, whose answers are queued beforehand. An \<open>expect\<close>, \<open>expect_err\<close> or \<open>panic!\<close> that
  would fire is \<open>False\<close>. The tests are proved from the lemmas on a transaction over a queue, not by
  running the encoder.
\<close>

subsection \<open>Helpers of the tests\<close>

type_synonym test_session = "(mock_transport \<times> mock_clock) session"

definition transport :: "test_session \<Rightarrow> mock_transport" where "transport s = fst (io s)"
definition clock :: "test_session \<Rightarrow> mock_clock" where "clock s = snd (io s)"

definition with_session :: "u16 \<Rightarrow> mock_transport \<Rightarrow> (test_session \<Rightarrow> bool) \<Rightarrow> bool" where
  "with_session p t body =
     (case lookup p of None \<Rightarrow> False | Some e \<Rightarrow> body (session_new e (t, mock_clock_new)))"

definition no_capabilities :: device_entry where
  "no_capabilities =
     \<lparr>pid = 0xDEAD, dev_name = ''synthetic capability-guard fixture'', kind = Keyboard,
      dev_transaction_id = 0x1F, report_index = 0x03, response_index = 0x03, wait = 600,
      capabilities = CAP_NONE, default_led = 0x05, poll_rate_kind = V2\<rparr>"

definition ok_response :: "razer_report \<Rightarrow> bytes \<Rightarrow> razer_report option" where
  "ok_response request args =
     map_option (\<lambda>r. r\<lparr>status := Successful, remaining_packets := remaining_packets request\<rparr>)
       (with_args (new_report (command_class request) (command_id request) (data_size request)) args)"

definition with_responses :: "razer_report option list \<Rightarrow> (mock_transport \<Rightarrow> bool) \<Rightarrow> bool" where
  "with_responses rs body =
     (case those rs of None \<Rightarrow> False | Some rs \<Rightarrow> body (fold push_response rs mock_transport_new))"

definition assert_frames_well_formed :: "mock_transport \<Rightarrow> bool" where
  "assert_frames_well_formed t \<longleftrightarrow>
     list_all (\<lambda>buf. length buf = HIDRAW_BUF_LEN \<and> buf ! 0 = 0x00 \<and>
       buf ! 89 = crc (copy_slice 0 (drop 1 buf) (replicate (HIDRAW_BUF_LEN - 1) 0)) \<and> buf ! 90 = 0x00) (sent t)"

definition KBD_WAIT :: nat where "KBD_WAIT = 600"
definition MOUSE_WAIT :: nat where "MOUSE_WAIT = 31000"

subsection \<open>Evaluating a session over a queue\<close>

definition ok_reply :: "razer_report \<Rightarrow> bytes \<Rightarrow> razer_report" where
  "ok_reply request args =
     (fill_args (new_report (command_class request) (command_id request) (data_size request)) args)
       \<lparr>status := Successful, remaining_packets := remaining_packets request\<rparr>"

definition buffer :: "razer_report \<Rightarrow> bytes" where "buffer rep = 0x00 # to_bytes rep"

definition sendable :: "razer_report \<Rightarrow> bool" where
  "sendable rep \<longleftrightarrow> wf_report rep \<and> canonical_status (status rep)"

lemma ok_response_eq: "length args \<le> ARGS_LEN \<Longrightarrow> ok_response request args = Some (ok_reply request args)"
  by (simp add: ok_response_def ok_reply_def with_args_def)

lemma ok_reply_fields [simp]:
  "status (ok_reply request args) = Successful" "transaction_id (ok_reply request args) = 0"
  "remaining_packets (ok_reply request args) = remaining_packets request"
  "data_size (ok_reply request args) = data_size request"
  "command_class (ok_reply request args) = command_class request"
  "command_id (ok_reply request args) = command_id request"
  by (simp_all add: ok_reply_def)

lemma arguments_ok_reply [simp]:
  "length args \<le> ARGS_LEN \<Longrightarrow>
    arguments (ok_reply request args) = args @ replicate (ARGS_LEN - length args) 0"
  by (simp add: ok_reply_def fill_args_new)

lemma sendable_ok_reply [simp]: "length args \<le> ARGS_LEN \<Longrightarrow> sendable (ok_reply request args)"
  by (simp add: sendable_def wf_report_def canonical_status_def)

lemma wf_ok_reply [simp]: "length args \<le> ARGS_LEN \<Longrightarrow> wf_report (ok_reply request args)"
  by (simp add: wf_report_def)

lemma sendable_updates [simp]:
  "sendable (rep\<lparr>command_class := v\<rparr>) = sendable rep"
  "canonical_status st \<Longrightarrow> wf_report rep \<Longrightarrow> sendable (rep\<lparr>status := st\<rparr>)"
  by (simp_all add: sendable_def wf_report_def)

lemma push_sendable:
  "wf_report rep \<Longrightarrow> push_response rep t = t\<lparr>responses := responses t @ [buffer rep]\<rparr>"
  by (simp add: push_response_def buffer_def copy_slice_def REPORT_LEN_def HIDRAW_BUF_LEN_def
      take_Suc_conv_app_nth)

lemma push_answered: "sendable rep \<Longrightarrow> push_response rep (answered q) = answered (q @ [buffer rep])"
  by (simp add: push_sendable sendable_def answered_def)

lemma new_answered: "mock_transport_new = answered []"
  by (simp add: answered_def mock_transport_new_def)

lemma decode_buffer: "sendable rep \<Longrightarrow> mock_decode (buffer rep) = rep\<lparr>crc_byte := crc (to_bytes rep)\<rparr>"
  unfolding buffer_def sendable_def by (simp add: decode_pushed)

lemma check_buffer: "sendable rep \<Longrightarrow> check_response request (mock_decode (buffer rep)) = check_response request rep"
  by (simp add: decode_buffer check_response_def check_data_size_def)

lemma accepts_buffer: "sendable rep \<Longrightarrow> accepts request (buffer rep) \<longleftrightarrow> check_response request rep = Inr ()"
  by (simp add: accepts_def check_buffer)

lemma rejection_buffer:
  "sendable rep \<Longrightarrow> check_response request rep = Inl e \<Longrightarrow> rejection request (buffer rep) = e"
  by (simp add: rejection_def check_buffer)

lemma frames_well_formed:
  assumes "\<forall>buf \<in> set (sent t). \<exists>tid request. buf = frame tid request \<and> wf_report request \<and> reserved request = 0"
  shows "assert_frames_well_formed t"
proof -
  have "length buf = HIDRAW_BUF_LEN \<and> buf ! 0 = 0x00 \<and>
       buf ! 89 = crc (copy_slice 0 (drop 1 buf) (replicate (HIDRAW_BUF_LEN - 1) 0)) \<and> buf ! 90 = 0x00"
    if "buf \<in> set (sent t)" for buf
  proof -
    from that assms obtain tid request where buf: "buf = frame tid request"
      and wf: "wf_report request" and res: "reserved request = 0" by blast
    let ?bs = "to_bytes (with_transaction_id request tid)"
    have wf': "wf_report (with_transaction_id request tid)" using wf by simp
    have len: "length ?bs = 90" using wf by (simp add: REPORT_LEN_def)
    moreover have "verify_crc ?bs" using wf by simp
    then have "?bs ! 88 = crc ?bs" using len by (simp add: verify_crc_def)
    moreover have "?bs ! 89 = 0" using to_bytes_fields(11) [OF wf'] res by (simp add: with_transaction_id_def)
    ultimately show ?thesis
      using wf by (simp add: buf frame_def copy_slice_def HIDRAW_BUF_LEN_def REPORT_LEN_def)
  qed
  then show ?thesis by (simp add: assert_frames_well_formed_def list_all_iff)
qed

lemma require_table:
  "entry s \<in> set TABLE \<Longrightarrow>
    c \<in> {CAP_DEVICE_MODE, CAP_FIRMWARE_VERSION, CAP_SERIAL, CAP_BRIGHTNESS, CAP_STATIC_EFFECT, CAP_POLL_RATE} \<Longrightarrow>
    require s c what = Inr ()"
  using table_capability [of "entry s" c] by (simp add: require_def)

lemma and_then_eq:
  "and_then p k = (case fst p of Inl e \<Rightarrow> (Inl e, snd p) | Inr v \<Rightarrow> k v (snd p))"
  by (cases p rule: prod.exhaust, rename_tac r t, case_tac r) simp_all

lemma entries:
  "lookup 0x028D = Some blackwidow_v4_pro" "lookup 0x00AA = Some basilisk_v3_pro_wired"
  "lookup 0x00AB = Some basilisk_v3_pro_wireless"
  by (simp_all add: lookup_def TABLE_def device_defs)

lemma session_new_fields [simp]:
  "entry (session_new e w) = e" "io (session_new e w) = w" "sess_tid (session_new e w) = dev_transaction_id e"
  by (simp_all add: session_new_def)

lemma entry_fields [simp]:
  "dev_transaction_id blackwidow_v4_pro = 0x1F" "dev_transaction_id basilisk_v3_pro_wired = 0x1F"
  "dev_transaction_id basilisk_v3_pro_wireless = 0x1F" "wait blackwidow_v4_pro = 600"
  "wait basilisk_v3_pro_wired = 31000" "wait basilisk_v3_pro_wireless = 31000"
  "pid blackwidow_v4_pro = 0x028D" "poll_rate_kind blackwidow_v4_pro = V2"
  "poll_rate_kind basilisk_v3_pro_wireless = Legacy"
  by (simp_all add: device_defs)

lemma in_table [simp]:
  "blackwidow_v4_pro \<in> set TABLE" "basilisk_v3_pro_wired \<in> set TABLE" "basilisk_v3_pro_wireless \<in> set TABLE"
  by (simp_all add: TABLE_def)

lemma led_table:
  "entry s = blackwidow_v4_pro \<Longrightarrow> led s = Inr Backlight"
  "entry s = basilisk_v3_pro_wireless \<Longrightarrow> led s = Inr Zero"
  by (simp_all add: led_def device_defs BACKLIGHT_LED_def ZERO_LED_def)

text \<open>One frame over a transport that does not fail.\<close>

lemma mock_send:
  assumes "constructed request" and "fail_next_set (fst (io s)) = None"
  shows "send mock_io request s = (Inr (), s\<lparr>io := ((fst (io s))\<lparr>sent := sent (fst (io s)) @ [frame (sess_tid s) request]\<rparr>,
    mock_sleep (wait (entry s)) (snd (io s)))\<rparr>)"
  using assms(2) unfolding send_frame [OF constructed_wf [OF assms(1)] constructed_check_request [OF assms(1)]]
  by (cases "io s") (simp add: mock_io_def mock_set_feature_def)

lemma frame_nth_2: "wf_report request \<Longrightarrow> frame tid request ! 2 = tid"
  using frame_nth_Suc [of tid request 1] to_bytes_fields(2) [of "with_transaction_id request tid"]
  by (simp add: numeral_2_eq_2 with_transaction_id_def wf_report_def)

lemma constructed_reserved: "constructed request \<Longrightarrow> reserved request = 0"
  using constructed_is_clean by (simp add: clean_request_def)

lemma sent_frames: "constructed request \<Longrightarrow> set (sent t) \<subseteq> {frame tid request} \<Longrightarrow> assert_frames_well_formed t"
  using constructed_wf constructed_reserved by (intro frames_well_formed) blast

lemma start_simps [simp]:
  "sent mock_transport_new = []" "responses mock_transport_new = []" "fail_next_set mock_transport_new = None"
  "sleeps mock_clock_new = []" "sleeps (mock_sleep d c) = sleeps c @ [d]"
  by (simp_all add: mock_transport_new_def mock_clock_new_def mock_sleep_def)

lemmas session_eval = with_session_def entries transport_def clock_def split_def and_then_eq require_table
  mock_transact led_table constructed_wf Let_def

subsection \<open>Wire framing\<close>

definition test_device_mode_driver_encodes_to_the_golden_frame :: bool where
  "test_device_mode_driver_encodes_to_the_golden_frame \<longleftrightarrow>
     with_session 0x028D mock_transport_new (\<lambda>s.
       case send mock_io (cmd_set_device_mode Driver) s of
         (Inl _, _) \<Rightarrow> False
       | (Inr _, s) \<Rightarrow>
           let golden = (replicate 90 0)[1 := 0x1F, 5 := 0x02, 7 := 0x04, 8 := 0x03, 88 := 0x05];
               t = transport s
           in length (sent t) = 1 \<and> sent t ! 0 ! 0 = 0x00 \<and> take 90 (drop 1 (sent t ! 0)) = golden \<and>
              assert_frames_well_formed t)"

definition test_device_mode_uses_0x1f_not_0xff_on_blackwidow_v4_pro :: bool where
  "test_device_mode_uses_0x1f_not_0xff_on_blackwidow_v4_pro \<longleftrightarrow>
     with_session 0x028D mock_transport_new (\<lambda>s.
       case send mock_io (cmd_set_device_mode Driver) s of
         (Inl _, _) \<Rightarrow> False
       | (Inr _, s) \<Rightarrow> sent (transport s) ! 0 ! 2 = 0x1F \<and> sent (transport s) ! 0 ! 2 \<noteq> 0xFF)"

definition test_device_mode_uses_0x1f_on_both_basilisk_pids :: bool where
  "test_device_mode_uses_0x1f_on_both_basilisk_pids \<longleftrightarrow>
     list_all (\<lambda>p. with_session p mock_transport_new (\<lambda>s.
       case send mock_io (cmd_set_device_mode Driver) s of
         (Inl _, _) \<Rightarrow> False
       | (Inr _, s) \<Rightarrow> sent (transport s) ! 0 ! 2 = 0x1F \<and> assert_frames_well_formed (transport s)))
       [0x00AA, 0x00AB]"

definition test_a_preset_transaction_id_on_the_request_is_overwritten :: bool where
  "test_a_preset_transaction_id_on_the_request_is_overwritten \<longleftrightarrow>
     with_session 0x028D mock_transport_new (\<lambda>s.
       let poisoned = with_transaction_id (cmd_set_device_mode Driver) 0xFF in
       case send mock_io poisoned s of
         (Inl _, _) \<Rightarrow> False
       | (Inr _, s) \<Rightarrow> sent (transport s) ! 0 ! 2 = 0x1F)"

definition test_transaction_id_override_emits_the_value_it_was_given :: bool where
  "test_transaction_id_override_emits_the_value_it_was_given \<longleftrightarrow>
     with_session 0x028D mock_transport_new (\<lambda>s.
       let s = with_transaction_id_override s 0xFF in
       sess_tid s = 0xFF \<and> dev_transaction_id (entry s) = 0x1F \<and>
       (case send mock_io (cmd_set_device_mode Driver) s of
          (Inl _, _) \<Rightarrow> False
        | (Inr _, s) \<Rightarrow> sent (transport s) ! 0 ! 2 = 0xFF \<and> assert_frames_well_formed (transport s)))"

definition test_a_session_reports_the_entry_it_was_built_from :: bool where
  "test_a_session_reports_the_entry_it_was_built_from \<longleftrightarrow>
     with_session 0x028D mock_transport_new (\<lambda>s. pid (entry s) = 0x028D \<and> sess_tid s = 0x1F)"

definition test_one_send_on_the_keyboard_waits_600us_exactly_once :: bool where
  "test_one_send_on_the_keyboard_waits_600us_exactly_once \<longleftrightarrow>
     with_session 0x028D mock_transport_new (\<lambda>s.
       case send mock_io (cmd_set_device_mode Driver) s of
         (Inl _, _) \<Rightarrow> False
       | (Inr _, s) \<Rightarrow> sleeps (clock s) = [KBD_WAIT])"

definition test_one_send_on_the_wireless_mouse_waits_31ms_exactly_once :: bool where
  "test_one_send_on_the_wireless_mouse_waits_31ms_exactly_once \<longleftrightarrow>
     with_session 0x00AB mock_transport_new (\<lambda>s.
       case send mock_io (cmd_set_device_mode Driver) s of
         (Inl _, _) \<Rightarrow> False
       | (Inr _, s) \<Rightarrow> sleeps (clock s) = [MOUSE_WAIT] \<and> mock_total (clock s) = MOUSE_WAIT)"

lemma driver_frame: "tl (frame 0x1F (cmd_set_device_mode Driver))
    = (replicate 90 0)[1 := 0x1F, 5 := 0x02, 7 := 0x04, 8 := 0x03, 88 := 0x05]"
  unfolding frame_def list.sel by code_simp

lemma preset_frame: "send E (with_transaction_id request v) s = send E request s"
  by (simp add: send_def with_transaction_id_def check_request_def check_data_size_def)

lemma frame_0: "frame tid request ! 0 = 0" by (simp add: frame_def)

lemma framing_tests:
  "test_device_mode_driver_encodes_to_the_golden_frame"
  "test_device_mode_uses_0x1f_not_0xff_on_blackwidow_v4_pro"
  "test_device_mode_uses_0x1f_on_both_basilisk_pids"
  "test_a_preset_transaction_id_on_the_request_is_overwritten"
  "test_transaction_id_override_emits_the_value_it_was_given"
  "test_a_session_reports_the_entry_it_was_built_from"
  "test_one_send_on_the_keyboard_waits_600us_exactly_once"
  "test_one_send_on_the_wireless_mouse_waits_31ms_exactly_once"
  by (simp_all add: session_eval mock_send frame_nth_2 preset_frame drop_Suc driver_frame frame_0 KBD_WAIT_def
      MOUSE_WAIT_def mock_total_def sent_frames [OF constructed_cmd(1)] with_transaction_id_override_def
      test_device_mode_driver_encodes_to_the_golden_frame_def
      test_device_mode_uses_0x1f_not_0xff_on_blackwidow_v4_pro_def
      test_device_mode_uses_0x1f_on_both_basilisk_pids_def
      test_a_preset_transaction_id_on_the_request_is_overwritten_def
      test_transaction_id_override_emits_the_value_it_was_given_def
      test_a_session_reports_the_entry_it_was_built_from_def
      test_one_send_on_the_keyboard_waits_600us_exactly_once_def
      test_one_send_on_the_wireless_mouse_waits_31ms_exactly_once_def)

subsection \<open>Timing and retries\<close>

definition test_a_receiver_with_no_device_behind_it_is_recognisable :: bool where
  "test_a_receiver_with_no_device_behind_it_is_recognisable \<longleftrightarrow>
     (let request = cmd_get_firmware_version;
          idle = map_option (\<lambda>r. r\<lparr>status := Timeout\<rparr>) (ok_response request [0x00, 0x00])
      in with_responses (replicate MAX_ATTEMPTS idle) (\<lambda>t. with_session 0x00AB t (\<lambda>s.
           case firmware_version mock_io s of
             (Inr _, _) \<Rightarrow> False
           | (Inl err, s) \<Rightarrow>
               is_receiver_idle err \<and> terminal_status err = Some Timeout \<and>
               length (sent (transport s)) = MAX_ATTEMPTS \<and> assert_frames_well_formed (transport s))))"

definition test_other_terminal_statuses_are_not_mistaken_for_an_idle_receiver :: bool where
  "test_other_terminal_statuses_are_not_mistaken_for_an_idle_receiver \<longleftrightarrow>
     list_all (\<lambda>st.
       let request = cmd_get_firmware_version;
           bad = map_option (\<lambda>r. r\<lparr>status := st\<rparr>) (ok_response request [0x00, 0x00])
       in with_responses (replicate MAX_ATTEMPTS bad) (\<lambda>t. with_session 0x00AB t (\<lambda>s.
            case firmware_version mock_io s of
              (Inr _, _) \<Rightarrow> False
            | (Inl err, s) \<Rightarrow> terminal_status err = Some st \<and> \<not> is_receiver_idle err)))
       [Failure, NotSupported]"

definition test_a_permanently_mismatched_response_exhausts_five_attempts :: bool where
  "test_a_permanently_mismatched_response_exhausts_five_attempts \<longleftrightarrow>
     (let request = cmd_get_firmware_version;
          wrong = map_option (\<lambda>r. r\<lparr>command_class := 0x0F\<rparr>) (ok_response request [0x01, 0x02])
      in with_responses (replicate MAX_ATTEMPTS wrong) (\<lambda>t. with_session 0x028D t (\<lambda>s.
           case transact mock_io request s of
             (Inr _, _) \<Rightarrow> False
           | (Inl err, s) \<Rightarrow>
               (case err of RetriesExhausted _ \<Rightarrow> True | _ \<Rightarrow> False) \<and> length (sent (transport s)) = 5 \<and>
               length (filter (\<lambda>d. d = RETRY_DELAY) (sleeps (clock s))) = 4 \<and>
               length (filter (\<lambda>d. d = KBD_WAIT) (sleeps (clock s))) = 5 \<and>
               assert_frames_well_formed (transport s))))"

definition test_a_transaction_that_succeeds_on_the_third_attempt_stops_there :: bool where
  "test_a_transaction_that_succeeds_on_the_third_attempt_stops_there \<longleftrightarrow>
     (let request = cmd_get_firmware_version;
          wrong = map_option (\<lambda>r. r\<lparr>command_class := 0x0F\<rparr>) (ok_response request [])
      in with_responses [wrong, wrong, ok_response request [0x01, 0x0B], ok_response request [0xEE, 0xEE]]
           (\<lambda>t. with_session 0x028D t (\<lambda>s.
           case transact mock_io request s of
             (Inl _, _) \<Rightarrow> False
           | (Inr response, s) \<Rightarrow>
               arguments response ! 0 = 0x01 \<and> arguments response ! 1 = 0x0B \<and>
               length (sent (transport s)) = 3 \<and> pending_responses (transport s) = 1)))"

definition test_a_busy_status_is_accepted_on_the_first_attempt :: bool where
  "test_a_busy_status_is_accepted_on_the_first_attempt \<longleftrightarrow>
     (let request = cmd_get_firmware_version;
          busy = map_option (\<lambda>r. r\<lparr>status := Busy\<rparr>) (ok_response request [0x02, 0x03])
      in with_responses [busy] (\<lambda>t. with_session 0x028D t (\<lambda>s.
           case transact mock_io request s of
             (Inl _, _) \<Rightarrow> False
           | (Inr response, s) \<Rightarrow>
               status response = Busy \<and> length (sent (transport s)) = 1 \<and>
               \<not> List.member (sleeps (clock s)) RETRY_DELAY)))"

definition test_a_failure_status_is_retried_and_then_reported :: bool where
  "test_a_failure_status_is_retried_and_then_reported \<longleftrightarrow>
     (let request = cmd_get_firmware_version;
          failed = map_option (\<lambda>r. r\<lparr>status := Failure\<rparr>) (ok_response request [])
      in with_responses (replicate MAX_ATTEMPTS failed) (\<lambda>t. with_session 0x028D t (\<lambda>s.
           case transact mock_io request s of
             (Inr _, _) \<Rightarrow> False
           | (Inl err, s) \<Rightarrow>
               (case err of RetriesExhausted (DeviceStatus Failure) \<Rightarrow> True | _ \<Rightarrow> False))))"

lemma cmd_fields [simp]:
  "remaining_packets cmd_get_firmware_version = 0" "data_size cmd_get_firmware_version = 2"
  "command_class cmd_get_firmware_version = 0" "command_id cmd_get_firmware_version = 0x81"
  by (simp_all add: cmd_get_firmware_version_def)

text \<open>The body of a test is evaluated only once its queue and session are known.\<close>

lemma test_congs [cong]:
  "rs = rs' \<Longrightarrow> with_responses rs body = with_responses rs' body"
  "p = p' \<Longrightarrow> t = t' \<Longrightarrow> with_session p t check = with_session p' t' check"
  by simp_all

lemma replay_numeral [simp]:
  "replicate (numeral k) x = x # replicate (pred_numeral k) x"
  "replay_result request (numeral k) e [] = Inl (ShortRead 0)"
  "replay_result request (numeral k) e (buf # q) =
     (if accepts request buf then Inr (mock_decode buf)
      else replay_result request (pred_numeral k) (rejection request buf) q)"
  "replay_attempts request (numeral k) [] = 1"
  "replay_attempts request (numeral k) (buf # q) =
     (if accepts request buf then 1 else Suc (replay_attempts request (pred_numeral k) q))"
  "attempt_sleeps d i (numeral k) =
     (if 0 < i then [RETRY_DELAY, d] else [d]) @ attempt_sleeps d (Suc i) (pred_numeral k)"
  by (simp_all add: numeral_eq_Suc)

lemma replay_one [simp]:
  "replicate 1 x = [x]" "replay_result request 1 e q = replay_result request (Suc 0) e q"
  "replay_attempts request 1 q = replay_attempts request (Suc 0) q"
  by simp_all

lemma replayed_frames [simp]:
  assumes "constructed request" and "fail_next_set (fst (io s)) = None" and "sent (fst (io s)) = []"
  shows "assert_frames_well_formed (fst (io (snd (transact mock_io request s))))"
  using assms by (intro sent_frames [OF assms(1), of _ "sess_tid s"]) (auto simp: mock_transact)

lemmas queue_eval = session_eval session_defs with_responses_def new_answered push_answered ok_response_eq
  accepts_buffer rejection_buffer decode_buffer check_response_def check_data_size_def is_ok_def
  canonical_status_def MAX_ATTEMPTS_def ARGS_LEN_def terminal_status_def is_receiver_idle_def
  RETRY_DELAY_def KBD_WAIT_def pending_responses_def

lemma retry_tests:
  "test_a_receiver_with_no_device_behind_it_is_recognisable"
  "test_other_terminal_statuses_are_not_mistaken_for_an_idle_receiver"
  "test_a_permanently_mismatched_response_exhausts_five_attempts"
  "test_a_transaction_that_succeeds_on_the_third_attempt_stops_there"
  "test_a_busy_status_is_accepted_on_the_first_attempt"
  "test_a_failure_status_is_retried_and_then_reported"
  by (simp_all add: queue_eval test_a_receiver_with_no_device_behind_it_is_recognisable_def
      test_other_terminal_statuses_are_not_mistaken_for_an_idle_receiver_def
      test_a_permanently_mismatched_response_exhausts_five_attempts_def
      test_a_transaction_that_succeeds_on_the_third_attempt_stops_there_def
      test_a_busy_status_is_accepted_on_the_first_attempt_def
      test_a_failure_status_is_retried_and_then_reported_def)

subsection \<open>Capability gating\<close>

definition with_bare_session :: "(test_session \<Rightarrow> bool) \<Rightarrow> bool" where
  "with_bare_session body = body (session_new no_capabilities (mock_transport_new, mock_clock_new))"

fun is_err :: "'e + 'a \<Rightarrow> bool" where
  "is_err (Inl _) = True"
| "is_err (Inr _) = False"

definition test_an_unsupported_poll_rate_sends_nothing :: bool where
  "test_an_unsupported_poll_rate_sends_nothing \<longleftrightarrow>
     with_bare_session (\<lambda>s.
       case set_poll_rate mock_io Hz1000 s of
         (Inl (Unsupported p what), s) \<Rightarrow>
           p = 0xDEAD \<and> what = ''poll rate'' \<and> sent (transport s) = [] \<and> sleeps (clock s) = []
       | _ \<Rightarrow> False)"

definition test_every_capability_guard_sends_nothing :: bool where
  "test_every_capability_guard_sends_nothing \<longleftrightarrow>
     with_bare_session (\<lambda>s.
       case set_device_mode mock_io Driver s of (r1, s) \<Rightarrow>
       (case get_device_mode mock_io s of (r2, s) \<Rightarrow>
       (case firmware_version mock_io s of (r3, s) \<Rightarrow>
       (case serial mock_io s of (r4, s) \<Rightarrow>
       (case set_brightness mock_io 0x40 s of (r5, s) \<Rightarrow>
       (case get_brightness mock_io s of (r6, s) \<Rightarrow>
       (case set_static_effect mock_io (rgb_new 0xFF 0 0) s of (r7, s) \<Rightarrow>
       (case get_poll_rate mock_io s of (r8, s) \<Rightarrow>
         is_err r1 \<and> is_err r2 \<and> is_err r3 \<and> is_err r4 \<and> is_err r5 \<and> is_err r6 \<and> is_err r7 \<and> is_err r8 \<and>
         sent (transport s) = []))))))))"

lemma bare_require [simp]:
  "c \<in> {CAP_DEVICE_MODE, CAP_FIRMWARE_VERSION, CAP_SERIAL, CAP_BRIGHTNESS, CAP_STATIC_EFFECT, CAP_POLL_RATE} \<Longrightarrow>
    require (session_new no_capabilities w) c what = Inl (Unsupported 0xDEAD what)"
  by (auto simp: require_def no_capabilities_def contains_def cap_defs)

lemma gating_tests:
  "test_an_unsupported_poll_rate_sends_nothing" "test_every_capability_guard_sends_nothing"
  by (simp_all add: test_an_unsupported_poll_rate_sends_nothing_def test_every_capability_guard_sends_nothing_def
      with_bare_session_def session_defs transport_def clock_def)

subsection \<open>The polling rate families\<close>

definition test_poll_rate_family_follows_the_device_table :: bool where
  "test_poll_rate_family_follows_the_device_table \<longleftrightarrow>
     with_responses [ok_response (cmd_set_poll_rate_v2 Hz1000 0x00) []] (\<lambda>t. with_session 0x028D t (\<lambda>s.
       case set_poll_rate mock_io Hz1000 s of
         (Inl _, _) \<Rightarrow> False
       | (Inr _, s) \<Rightarrow>
           let sent = sent_reports (transport s) in
           command_class (sent ! 0) = 0x00 \<and> command_id (sent ! 0) = 0x40 \<and> data_size (sent ! 0) = 0x02 \<and>
           report_args (sent ! 0) = [0x00, 0x08] \<and> assert_frames_well_formed (transport s))) \<and>
     (case cmd_set_poll_rate_legacy Hz1000 of
        Inl _ \<Rightarrow> False
      | Inr request \<Rightarrow> with_responses [ok_response request []] (\<lambda>t. with_session 0x00AB t (\<lambda>s.
          case set_poll_rate mock_io Hz1000 s of
            (Inl _, _) \<Rightarrow> False
          | (Inr _, s) \<Rightarrow>
              let sent = sent_reports (transport s) in
              command_class (sent ! 0) = 0x00 \<and> command_id (sent ! 0) = 0x05 \<and> data_size (sent ! 0) = 0x01 \<and>
              report_args (sent ! 0) = [0x01] \<and> assert_frames_well_formed (transport s))))"

definition test_a_rate_the_legacy_family_cannot_express_is_refused :: bool where
  "test_a_rate_the_legacy_family_cannot_express_is_refused \<longleftrightarrow>
     with_session 0x00AB mock_transport_new (\<lambda>s.
       case set_poll_rate mock_io Hz8000 s of
         (Inl (Proto _), s) \<Rightarrow> sent (transport s) = []
       | _ \<Rightarrow> False)"

definition test_poll_rate_is_read_from_the_right_argument_slot :: bool where
  "test_poll_rate_is_read_from_the_right_argument_slot \<longleftrightarrow>
     with_responses [ok_response cmd_get_poll_rate_v2 [0x08, 0x04]] (\<lambda>t. with_session 0x028D t (\<lambda>s.
       case get_poll_rate mock_io s of (Inl _, _) \<Rightarrow> False | (Inr rate, _) \<Rightarrow> rate = Hz2000)) \<and>
     with_responses [ok_response cmd_get_poll_rate_legacy [0x02, 0x08]] (\<lambda>t. with_session 0x00AB t (\<lambda>s.
       case get_poll_rate mock_io s of (Inl _, _) \<Rightarrow> False | (Inr rate, _) \<Rightarrow> rate = Hz500))"

lemma sent_reports_eq: "sent_reports t = map mock_decode (sent t)"
  by (simp add: sent_reports_def mock_decode_def)

lemma legacy_1000: "cmd_set_poll_rate_legacy Hz1000 = Inr (fill_args (new_report 0x00 0x05 0x01) [0x01])"
  by (simp add: cmd_set_poll_rate_legacy_def)

lemma legacy_constructed [simp]: "constructed (fill_args (new_report 0 5 1) [1])"
  using constructed.intros(9) [OF legacy_1000] by simp

lemma legacy_8000: "cmd_set_poll_rate_legacy Hz8000 = Inl (Malformed ''poll rate has no legacy encoding'')"
  by (simp add: cmd_set_poll_rate_legacy_def)

lemmas report_eval = queue_eval sent_reports_eq decode_frame constructed_status with_transaction_id_def
  report_args_def fill_args_new

lemma family_test: "test_poll_rate_family_follows_the_device_table"
  by (simp add: test_poll_rate_family_follows_the_device_table_def report_eval legacy_1000)
    (simp add: cmd_defs fill_args_new ARGS_LEN_def)

lemma poll_rate_tests:
  "test_a_rate_the_legacy_family_cannot_express_is_refused"
  "test_poll_rate_is_read_from_the_right_argument_slot"
  by (simp_all add: test_a_rate_the_legacy_family_cannot_express_is_refused_def report_eval legacy_8000
      test_poll_rate_is_read_from_the_right_argument_slot_def)
    (simp_all add: cmd_defs parse_poll_rate_v2_def parse_poll_rate_legacy_def from_v2_code_def from_legacy_code_def
      ARGS_LEN_def)

subsection \<open>Brightness, effects and the other reads\<close>

definition expected_led_id :: "u8 \<Rightarrow> led_id" where
  "expected_led_id expected_led = (if expected_led = 0x05 then Backlight else Zero)"

definition test_brightness_uses_the_devices_own_led_id :: bool where
  "test_brightness_uses_the_devices_own_led_id \<longleftrightarrow>
     list_all (\<lambda>(p, expected_led).
       let request = cmd_set_brightness VarStore (expected_led_id expected_led) 0x80 in
       with_responses [ok_response request []] (\<lambda>t. with_session p t (\<lambda>s.
         case set_brightness mock_io 0x80 s of
           (Inl _, _) \<Rightarrow> False
         | (Inr _, s) \<Rightarrow>
             let sent = sent_reports (transport s) in
             command_class (sent ! 0) = 0x0F \<and> command_id (sent ! 0) = 0x04 \<and>
             arguments (sent ! 0) ! 0 = 0x01 \<and> arguments (sent ! 0) ! 1 = expected_led \<and>
             arguments (sent ! 0) ! 2 = 0x80 \<and> assert_frames_well_formed (transport s))))
       [(0x028D, 0x05), (0x00AB, 0x00)]"

definition test_static_effect_uses_the_devices_own_led_id :: bool where
  "test_static_effect_uses_the_devices_own_led_id \<longleftrightarrow>
     list_all (\<lambda>(p, expected_led).
       let request = cmd_set_static_effect VarStore (expected_led_id expected_led) (rgb_new 0xFF 0x00 0x00) in
       with_responses [ok_response request []] (\<lambda>t. with_session p t (\<lambda>s.
         case set_static_effect mock_io (rgb_new 0xFF 0x00 0x00) s of
           (Inl _, _) \<Rightarrow> False
         | (Inr _, s) \<Rightarrow>
             let sent = sent_reports (transport s) in
             command_class (sent ! 0) = 0x0F \<and> command_id (sent ! 0) = 0x02 \<and> data_size (sent ! 0) = 0x09 \<and>
             report_args (sent ! 0) = [0x01, expected_led, 0x01, 0x00, 0x00, 0x01, 0xFF, 0x00, 0x00])))
       [(0x028D, 0x05), (0x00AB, 0x00)]"

text \<open>\<open>TESTSERIAL00001\<close> and seven NULs.\<close>

definition test_serial_field :: bytes where
  "test_serial_field =
     [0x54, 0x45, 0x53, 0x54, 0x53, 0x45, 0x52, 0x49, 0x41, 0x4C, 0x30, 0x30, 0x30, 0x30, 0x31, 0, 0, 0, 0, 0, 0, 0]"

definition test_firmware_version_and_device_mode_and_serial_round_trip :: bool where
  "test_firmware_version_and_device_mode_and_serial_round_trip \<longleftrightarrow>
     with_responses [ok_response cmd_get_firmware_version [0x01, 0x0B], ok_response cmd_get_device_mode [0x03, 0x00],
         ok_response cmd_get_serial test_serial_field] (\<lambda>t. with_session 0x028D t (\<lambda>s.
       case firmware_version mock_io s of
         (Inl _, _) \<Rightarrow> False
       | (Inr v, s) \<Rightarrow> v = (0x01, 0x0B) \<and>
           (case get_device_mode mock_io s of
              (Inl _, _) \<Rightarrow> False
            | (Inr m, s) \<Rightarrow> m = (0x03, 0x00) \<and>
                (case serial mock_io s of
                   (Inl _, _) \<Rightarrow> False
                 | (Inr ser, s) \<Rightarrow> ser = ''TESTSERIAL00001''))))"

definition test_brightness_reads_back_from_argument_two :: bool where
  "test_brightness_reads_back_from_argument_two \<longleftrightarrow>
     with_responses [ok_response (cmd_get_brightness VarStore Backlight) [0x01, 0x05, 0x7F]]
       (\<lambda>t. with_session 0x028D t (\<lambda>s.
       case get_brightness mock_io s of (Inl _, _) \<Rightarrow> False | (Inr v, _) \<Rightarrow> v = 0x7F))"

definition test_set_device_mode_sends_one_transaction_and_reads_it_back :: bool where
  "test_set_device_mode_sends_one_transaction_and_reads_it_back \<longleftrightarrow>
     with_responses [ok_response (cmd_set_device_mode Normal) [0x00, 0x00]] (\<lambda>t. with_session 0x028D t (\<lambda>s.
       case set_device_mode mock_io Normal s of
         (Inl _, _) \<Rightarrow> False
       | (Inr _, s) \<Rightarrow>
           let sent = sent_reports (transport s) in
           length sent = 1 \<and> transaction_id (sent ! 0) = 0x1F \<and> report_args (sent ! 0) = [0x00, 0x00]))"

lemma led_tests:
  "test_brightness_uses_the_devices_own_led_id" "test_static_effect_uses_the_devices_own_led_id"
  "test_brightness_reads_back_from_argument_two"
  "test_set_device_mode_sends_one_transaction_and_reads_it_back"
  by (simp_all add: test_brightness_uses_the_devices_own_led_id_def expected_led_id_def report_eval
      test_static_effect_uses_the_devices_own_led_id_def test_brightness_reads_back_from_argument_two_def
      test_set_device_mode_sends_one_transaction_and_reads_it_back_def)
    (simp_all add: cmd_defs fill_args_new ARGS_LEN_def parse_brightness_def rgb_new_def)

lemma serial_parsed: "parse_serial (ok_reply cmd_get_serial test_serial_field \<lparr>crc_byte := c\<rparr>) = Inr ''TESTSERIAL00001''"
proof -
  let ?text = "take 15 test_serial_field"
  have "arguments (ok_reply cmd_get_serial test_serial_field \<lparr>crc_byte := c\<rparr>) = ?text @ [] @ replicate 65 0"
    by (simp add: test_serial_field_def ARGS_LEN_def)
  moreover have "serial_field ?text [] (replicate 65 0)"
    by (simp add: serial_field_def test_serial_field_def char_of_byte_eq ascii_whitespace_def)
  ultimately show ?thesis
    using parse_serial_field by (simp add: test_serial_field_def char_of_byte_eq)
qed

lemma reads_test: "test_firmware_version_and_device_mode_and_serial_round_trip"
proof -
  have len: "length test_serial_field = 22" by (simp add: test_serial_field_def)
  show ?thesis
    by (simp add: test_firmware_version_and_device_mode_and_serial_round_trip_def report_eval serial_parsed len
        parse_firmware_version_def parse_device_mode_def)
      (simp add: cmd_defs)
qed

subsection \<open>Error handling\<close>

definition test_a_failing_set_feature_surfaces_the_errno :: bool where
  "test_a_failing_set_feature_surfaces_the_errno \<longleftrightarrow>
     with_session 0x028D (set_fail_next 13 mock_transport_new) (\<lambda>s.
       case send mock_io (cmd_set_device_mode Driver) s of
         (Inl (Io oper errno), s) \<Rightarrow> oper = ''HIDIOCSFEATURE'' \<and> errno = 13 \<and> sleeps (clock s) = []
       | _ \<Rightarrow> False)"

definition test_a_short_feature_read_is_reported_as_such :: bool where
  "test_a_short_feature_read_is_reported_as_such \<longleftrightarrow>
     with_session 0x028D mock_transport_new (\<lambda>s.
       case transact_raw mock_io cmd_get_firmware_version s of
         (Inl (ShortRead got), _) \<Rightarrow> got = 0
       | _ \<Rightarrow> False)"

definition test_a_transport_error_mid_transaction_is_not_retried :: bool where
  "test_a_transport_error_mid_transaction_is_not_retried \<longleftrightarrow>
     with_session 0x028D (set_fail_next 5 mock_transport_new) (\<lambda>s.
       case transact mock_io cmd_get_firmware_version s of
         (Inl (Io _ _), s) \<Rightarrow> sent (transport s) = []
       | _ \<Rightarrow> False)"

definition test_a_raw_response_buffer_is_decoded_verbatim :: bool where
  "test_a_raw_response_buffer_is_decoded_verbatim \<longleftrightarrow>
     (let raw = (replicate HIDRAW_BUF_LEN 0)[1 := 0x02, 2 := 0x1F, 6 := 0x02, 7 := 0x00, 8 := 0x81, 9 := 0x01,
            10 := 0x0B]
      in with_session 0x028D (push_raw raw mock_transport_new) (\<lambda>s.
           case transact_raw mock_io cmd_get_firmware_version s of
             (Inl _, _) \<Rightarrow> False
           | (Inr response, _) \<Rightarrow>
               status response = Successful \<and> transaction_id response = 0x1F \<and> command_id response = 0x81 \<and>
               arguments response ! 0 = 0x01 \<and> arguments response ! 1 = 0x0B))"

lemma failing_send:
  assumes "constructed request" and "io s = (t, c)" and "fail_next_set t = Some errno"
  shows "send mock_io request s = (Inl (Io ''HIDIOCSFEATURE'' errno), s\<lparr>io := (t\<lparr>fail_next_set := None\<rparr>, c)\<rparr>)"
  using assms(2,3) unfolding send_frame [OF constructed_wf [OF assms(1)] constructed_check_request [OF assms(1)]]
  by (simp add: mock_io_def mock_set_feature_def)

lemma failing_transact:
  assumes "constructed request" and "io s = (t, c)" and "fail_next_set t = Some errno"
  shows "transact mock_io request s
    = (Inl (Io ''HIDIOCSFEATURE'' errno), s\<lparr>io := (t\<lparr>fail_next_set := None\<rparr>, c), last_attempts := 1\<rparr>)"
proof -
  have "[0..<MAX_ATTEMPTS] = 0 # [1..<MAX_ATTEMPTS]" by (simp add: MAX_ATTEMPTS_def upt_conv_Cons)
  moreover have "attempt_number 0 = 1" by (simp add: attempt_number_def)
  ultimately show ?thesis
    using failing_send [OF assms(1), of "s\<lparr>last_attempts := 1\<rparr>" t c errno] assms(2,3)
    by (simp add: transact_def transact_raw_def Let_def)
qed

lemma raw_decoded:
  "mock_decode ((replicate HIDRAW_BUF_LEN 0)[1 := 0x02, 2 := 0x1F, 6 := 0x02, 7 := 0x00, 8 := 0x81, 9 := 0x01, 10 := 0x0B])
    = (fill_args (new_report 0x00 0x81 0x02) [0x01, 0x0B])\<lparr>status := Successful, transaction_id := 0x1F\<rparr>"
  by code_simp

lemma error_handling_tests:
  "test_a_failing_set_feature_surfaces_the_errno" "test_a_transport_error_mid_transaction_is_not_retried"
  "test_a_short_feature_read_is_reported_as_such" "test_a_raw_response_buffer_is_decoded_verbatim"
proof -
  show "test_a_failing_set_feature_surfaces_the_errno" "test_a_transport_error_mid_transaction_is_not_retried"
    by (simp_all add: test_a_failing_set_feature_surfaces_the_errno_def session_eval set_fail_next_def failing_send
        test_a_transport_error_mid_transaction_is_not_retried_def failing_transact)
  show "test_a_short_feature_read_is_reported_as_such"
    by (simp add: test_a_short_feature_read_is_reported_as_such_def session_eval mock_exchange_empty
        constructed_check_request del: check_request_ok)
  show "test_a_raw_response_buffer_is_decoded_verbatim"
    by (simp add: test_a_raw_response_buffer_is_decoded_verbatim_def session_eval push_raw_def mock_exchange
        constructed_check_request raw_decoded fill_args_new ARGS_LEN_def
        del: check_request_ok list_update.simps One_nat_def)
qed

end
