(* ===== verification/Tests_Razerd.thy ===== *)
theory Tests_Razerd
  imports Tests_Session Razerd_Info
begin

text \<open>
  The unit tests of \<open>crates/razerd/src/main.rs\<close>, translated: what \<open>read_device\<close> asks of a device with
  queued answers, and how a result becomes a reading.
\<close>

subsection \<open>read_device_tests\<close>

definition response :: "razer_report \<Rightarrow> status \<Rightarrow> bytes \<Rightarrow> razer_report option" where
  "response request st args =
     map_option (\<lambda>r. r\<lparr>status := st, remaining_packets := remaining_packets request\<rparr>)
       (with_args (new_report (command_class request) (command_id request) (data_size request)) args)"

definition exhausted :: "razer_report \<Rightarrow> status \<Rightarrow> razer_report option list" where
  "exhausted request st = replicate 5 (response request st [0x00, 0x00])"

definition run_probe :: "mock_transport \<Rightarrow> (device_report \<Rightarrow> mock_transport \<Rightarrow> bool) \<Rightarrow> bool" where
  "run_probe t body =
     with_session 0x00AB t (\<lambda>s. case read_device mock_io s of (rep, s) \<Rightarrow> body rep (transport s))"

definition test_a_device_absent_from_the_first_read_is_not_asked_again :: bool where
  "test_a_device_absent_from_the_first_read_is_not_asked_again \<longleftrightarrow>
     with_responses (exhausted cmd_get_firmware_version Timeout) (\<lambda>t. run_probe t (\<lambda>rep t.
       rep_firmware rep = ReceiverIdle \<and> rep_serial rep = None \<and> rep_device_mode rep = None \<and>
       receiver_idle rep \<and> length (sent t) = 5))"

definition test_a_device_that_vanishes_mid_run_stops_the_sequence :: bool where
  "test_a_device_that_vanishes_mid_run_stops_the_sequence \<longleftrightarrow>
     with_responses (response cmd_get_firmware_version Successful [0x02, 0x00] # exhausted cmd_get_serial Timeout)
       (\<lambda>t. run_probe t (\<lambda>rep t.
       rep_firmware rep = Value (2, 0) \<and> rep_serial rep = Some ReceiverIdle \<and> rep_device_mode rep = None \<and>
       receiver_idle rep \<and> length (sent t) = 1 + 5))"

definition test_a_hard_failure_does_not_stop_the_sequence :: bool where
  "test_a_hard_failure_does_not_stop_the_sequence \<longleftrightarrow>
     with_responses (response cmd_get_firmware_version Successful [0x02, 0x00]
         # exhausted cmd_get_serial NotSupported @ [response cmd_get_device_mode Successful [0x00, 0x00]])
       (\<lambda>t. run_probe t (\<lambda>rep t.
       (case rep_serial rep of Some (Failed _) \<Rightarrow> True | _ \<Rightarrow> False) \<and>
       rep_device_mode rep = Some (Value (0, 0)) \<and> \<not> receiver_idle rep))"

text \<open>\<open>PM0000000000000\<close>\<close>

definition test_serial_text :: bytes where
  "test_serial_text = [0x50, 0x4D] @ replicate 13 0x30"

definition test_a_fully_present_device_reports_all_three :: bool where
  "test_a_fully_present_device_reports_all_three \<longleftrightarrow>
     with_responses [response cmd_get_firmware_version Successful [0x02, 0x00],
         response cmd_get_serial Successful test_serial_text, response cmd_get_device_mode Successful [0x00, 0x00]]
       (\<lambda>t. run_probe t (\<lambda>rep t.
       rep_firmware rep = Value (2, 0) \<and> (case rep_serial rep of Some (Value _) \<Rightarrow> True | _ \<Rightarrow> False) \<and>
       rep_device_mode rep = Some (Value (0, 0)) \<and> \<not> receiver_idle rep))"

lemma response_eq:
  "length args \<le> ARGS_LEN \<Longrightarrow> response request st args = Some ((ok_reply request args)\<lparr>status := st\<rparr>)"
  by (simp add: response_def ok_reply_def with_args_def)

lemma run_probe_cong [cong]: "t = t' \<Longrightarrow> run_probe t body = run_probe t' body"
  by simp

lemma serial_text_parsed:
  "parse_serial ((ok_reply cmd_get_serial test_serial_text)\<lparr>status := st, crc_byte := c\<rparr>)
     = Inr (map char_of_byte test_serial_text)"
proof -
  let ?r = "(ok_reply cmd_get_serial test_serial_text)\<lparr>status := st, crc_byte := c\<rparr>"
  have "length test_serial_text \<le> ARGS_LEN" by (simp add: test_serial_text_def ARGS_LEN_def)
  then have "arguments ?r = test_serial_text @ [] @ replicate 65 0"
    by (simp add: ARGS_LEN_def) (simp add: test_serial_text_def)
  moreover have "serial_field test_serial_text [] (replicate 65 0)"
    by (simp add: serial_field_def test_serial_text_def char_of_byte_eq ascii_whitespace_def)
  ultimately show ?thesis using parse_serial_field by blast
qed

lemmas probe_eval = report_eval exhausted_def response_eq run_probe_def read_device_def classify_def
  receiver_idle_def parse_firmware_version_def parse_device_mode_def

lemma read_device_tests:
  "test_a_device_absent_from_the_first_read_is_not_asked_again"
  "test_a_device_that_vanishes_mid_run_stops_the_sequence" "test_a_hard_failure_does_not_stop_the_sequence"
  by (simp_all add: probe_eval test_a_device_absent_from_the_first_read_is_not_asked_again_def
      test_a_device_that_vanishes_mid_run_stops_the_sequence_def
      test_a_hard_failure_does_not_stop_the_sequence_def)
    (simp_all add: cmd_defs)

lemma present_device_test: "test_a_fully_present_device_reports_all_three"
proof -
  have "length test_serial_text = 15" by (simp add: test_serial_text_def)
  then show ?thesis
    by (simp add: probe_eval test_a_fully_present_device_reports_all_three_def serial_text_parsed)
      (simp add: cmd_defs)
qed

subsection \<open>reading_tests\<close>

definition test_a_value_is_carried_through :: bool where
  "test_a_value_is_carried_through \<longleftrightarrow> classify (Inr (1 :: u8, 4 :: u8)) = Value (1, 4)"

definition test_a_timeout_is_a_state_not_a_failure :: bool where
  "test_a_timeout_is_a_state_not_a_failure \<longleftrightarrow>
     classify (Inl (RetriesExhausted (DeviceStatus Timeout)) :: hid_error + u8 \<times> u8) = ReceiverIdle"

definition test_other_terminal_statuses_still_report_as_failures :: bool where
  "test_other_terminal_statuses_still_report_as_failures \<longleftrightarrow>
     list_all (\<lambda>st. case classify (Inl (RetriesExhausted (DeviceStatus st)) :: hid_error + u8 \<times> u8) of
       Failed _ \<Rightarrow> True | _ \<Rightarrow> False) [Failure, NotSupported]"

definition test_a_permission_error_is_a_failure_not_an_absent_device :: bool where
  "test_a_permission_error_is_a_failure_not_an_absent_device \<longleftrightarrow>
     (case classify (Inl (Io ''HIDIOCSFEATURE'' 13) :: hid_error + u8 \<times> u8) of Failed _ \<Rightarrow> True | _ \<Rightarrow> False)"

lemma reading_tests:
  "test_a_value_is_carried_through" "test_a_timeout_is_a_state_not_a_failure"
  "test_other_terminal_statuses_still_report_as_failures"
  "test_a_permission_error_is_a_failure_not_an_absent_device"
  by (simp_all add: test_a_value_is_carried_through_def test_a_timeout_is_a_state_not_a_failure_def
      test_other_terminal_statuses_still_report_as_failures_def
      test_a_permission_error_is_a_failure_not_an_absent_device_def classify_def is_receiver_idle_def
      terminal_status_def)

end
