(* ===== verification/Tests_Metrics.thy ===== *)
theory Tests_Metrics
  imports Metrics_Serve
begin

text \<open>
  The unit tests of \<open>crates/razerd/src/metrics.rs\<close>, translated. The texts the program gets from
  elsewhere are fixed: the crate version, an uptime and the printed sums of durations. A scrape is one
  connection whose peer sends its request and waits. For the test of the default
  address the parser of the standard library for addresses of version 4 is written out.
\<close>

subsection \<open>The default address\<close>

definition span_char :: "char \<Rightarrow> string \<Rightarrow> string \<times> string" where
  "span_char c s = (takeWhile (\<lambda>x. x \<noteq> c) s, tl (dropWhile (\<lambda>x. x \<noteq> c) s))"

text \<open>The parser of addresses takes no sign; an octet has at most three digits and no leading zero.\<close>

definition decimal :: "nat \<Rightarrow> string \<Rightarrow> nat option" where
  "decimal lim s =
     (if s \<noteq> [] \<and> hd s = CHR ''+'' then None
      else (case from_str_radix lim 10 s of Inl _ \<Rightarrow> None | Inr n \<Rightarrow> Some n))"

definition octet :: "string \<Rightarrow> nat option" where
  "octet s = (if 3 < length s \<or> (1 < length s \<and> hd s = CHR ''0'') then None else decimal 256 s)"

text \<open>\<open>SocketAddrV4::from_str\<close>: four octets with dots between them, a colon and the port.\<close>

definition socket_addr_v4 :: "string \<Rightarrow> ((nat \<times> nat \<times> nat \<times> nat) \<times> nat) option" where
  "socket_addr_v4 s =
     (let (host, rest) = span_char (CHR '':'') s;
          (a, r) = span_char (CHR ''.'') host; (b, r) = span_char (CHR ''.'') r; (c, d) = span_char (CHR ''.'') r in
      case (octet a, octet b, octet c, octet d, decimal 65536 rest) of
        (Some a, Some b, Some c, Some d, Some port) \<Rightarrow> Some ((a, b, c, d), port)
      | _ \<Rightarrow> None)"

definition v4_loopback :: "nat \<times> nat \<times> nat \<times> nat \<Rightarrow> bool" where
  "v4_loopback ip \<longleftrightarrow> fst ip = 127"

definition test_the_default_address_is_loopback :: bool where
  "test_the_default_address_is_loopback \<longleftrightarrow>
     (case socket_addr_v4 DEFAULT_ADDR of None \<Rightarrow> False | Some (ip, port) \<Rightarrow> v4_loopback ip)"

lemma default_address_test: "test_the_default_address_is_loopback"
  by (simp add: test_the_default_address_is_loopback_def socket_addr_v4_def DEFAULT_ADDR_def span_char_def octet_def
      decimal_def from_str_radix_def to_digit_def digit_value_def v4_loopback_def)

subsection \<open>Searching an exposition\<close>

lemma contains_split:
  assumes "c \<notin> set needle" and "needle \<noteq> []"
  shows "contains_str needle (l @ c # r) \<longleftrightarrow> contains_str needle l \<or> contains_str needle r"
proof (induction l)
  case Nil
  then show ?case using assms by (cases needle) auto
next
  case (Cons a l)
  have "take (length needle) (a # l @ c # r) = needle \<longleftrightarrow> take (length needle) (a # l) = needle"
  proof (cases "length needle \<le> length (a # l)")
    case True
    then show ?thesis by (cases needle) auto
  next
    case False
    then have "c \<in> set (take (length needle) ((a # l) @ c # r))"
      unfolding take_append by (auto simp: take_Cons')
    moreover have "length (take (length needle) (a # l)) < length needle" using False by simp
    ultimately show ?thesis using assms(1) by (metis append_Cons less_irrefl)
  qed
  with Cons show ?case by simp
qed

lemma contains_write_lines:
  assumes "CHR 0x0A \<notin> set needle" and "needle \<noteq> []"
  shows "contains_str needle (write_lines ls) \<longleftrightarrow> (\<exists>l \<in> set ls. contains_str needle l)"
  using assms(2) by (induction ls) (auto simp: write_lines_def contains_split [OF assms])

lemma contains_refl: "contains_str s s"
  by (auto simp: contains_str_iff intro: exI [of _ "[]"])

subsection \<open>Helpers of the tests\<close>

definition test_labels :: device_labels where
  "test_labels = DeviceLabels ''Razer BlackWidow V4 Pro'' ''0x028D''"

definition state_default :: device_state where
  "state_default =
     \<lparr>present = False, usb_devnum = None, kernel_driver = None, st_firmware = None, st_serial = None,
      st_device_mode = None, poll_rate_hz = None, st_brightness = None, st_transaction_id = None\<rparr>"

definition rendered :: "metrics \<Rightarrow> string" where
  "rendered m = render ''0.1.0'' ''0.001'' (\<lambda>_. ''0.003000'') m"

lemma contains_step:
  "contains_str (a # n) (c # cs) =
     (if a = c then take (length n) cs = n \<or> contains_str (a # n) cs else contains_str (a # n) cs)"
  by simp

lemmas rendered_lines = rendered_def render_def contains_write_lines

subsection \<open>The exposition\<close>

definition test_serial_is_absent_unless_opted_in :: bool where
  "test_serial_is_absent_unless_opted_in \<longleftrightarrow>
     (let m = set_device_state test_labels (state_default\<lparr>present := True, st_serial := Some ''IO2433F81500082''\<rparr>)
                (metrics_new False);
          out = rendered m
      in \<not> contains_str ''IO2433F81500082'' out \<and> \<not> contains_str ''serial='' out)"

definition test_serial_is_present_when_opted_in :: bool where
  "test_serial_is_present_when_opted_in \<longleftrightarrow>
     (let m = set_device_state test_labels (state_default\<lparr>present := True, st_serial := Some ''TESTSERIAL00001''\<rparr>)
                (metrics_new True)
      in contains_str (''serial='' @ [CHR 0x22] @ ''TESTSERIAL00001'' @ [CHR 0x22]) (rendered m))"

lemmas registry_eval = set_device_state_def record_transaction_def metrics_new_def inner_new_def test_labels_def
  state_default_def

text \<open>A help text without a character of the needle does not have to be searched.\<close>

lemma header_lacks:
  assumes "c \<in> set needle" and "c \<notin> set name" and "c \<notin> set help" and "c \<notin> set kind"
    and "c \<notin> set ''# HELP TYPE''"
  shows "(\<forall>l \<in> set (metric_header name help kind). \<not> contains_str needle l) = True"
proof -
  have "c \<notin> set l" if "l \<in> set (metric_header name help kind)" for l
    using that assms(2-) by (auto simp: metric_header_def)
  moreover have "set needle \<subseteq> set l" if "contains_str needle l" for l
    using that by (auto simp: contains_str_iff)
  ultimately show ?thesis using assms(1) by blast
qed

lemmas header_lacks_eq = header_lacks [of "CHR ''=''" "''serial=''"]
lemmas header_lacks_4 = header_lacks [of "CHR ''4''" "''IO2433F81500082''"]

lemma lacks_write_lines:
  "CHR 0x0A \<notin> set needle \<Longrightarrow> needle \<noteq> [] \<Longrightarrow>
    (\<not> contains_str needle (write_lines ls)) = (\<forall>l \<in> set ls. \<not> contains_str needle l)"
  by (simp add: contains_write_lines)

lemmas lines_eval = render_lines_def build_lines_def device_lines_def device_family_def info_extra_def
  signal_lines_def counter_lines_def latency_lines_def poll_lines_def histogram_lines_def ball_Un

lemma fmt_word_digits: "fmt_word (0 :: u64) = ''0''" "fmt_word (1 :: u64) = ''1''" "fmt_word (3 :: u64) = ''3''"
  "fmt_word (3 :: u8) = ''3''" "fmt_word (11 :: u64) = ''11''"
  by (simp_all add: fmt_word_def fmt_dec_def fmt_radix.simps digit_char_def char_of_def bit_0)

lemmas text_eval = sample_def render_labels_def quoted_def raw_label_def escape_Nil escape_Cons
  fmt_word_digits contains_step

lemma serial_absent_test: "test_serial_is_absent_unless_opted_in"
  unfolding test_serial_is_absent_unless_opted_in_def Let_def rendered_def render_def
  apply (subst (1 2) lacks_write_lines, simp, simp, simp, simp)
  apply (simp add: registry_eval lines_eval header_lacks_eq header_lacks_4 lacks_write_lines del: contains_str.simps)
  apply (simp add: text_eval del: contains_str.simps(2))
  done

abbreviation lines_of :: "metrics \<Rightarrow> string list" where
  "lines_of m \<equiv> render_lines ''0.1.0'' ''0.001'' (\<lambda>_. ''0.003000'') m"

lemma shown:
  assumes "l \<in> set (lines_of m)" and "l = pre @ needle @ suf"
  shows "contains_str needle (rendered m)"
proof -
  obtain as bs where "lines_of m = as @ l # bs"
    using split_list [OF assms(1)] by blast
  then have "rendered m = (write_lines as @ pre) @ needle @ (suf @ CHR 0x0A # write_lines bs)"
    by (simp add: rendered_def render_def write_lines_def assms(2))
  then show ?thesis unfolding contains_str_iff by blast
qed

definition test_series :: "string \<Rightarrow> string \<Rightarrow> string \<Rightarrow> string" where
  "test_series name label v = name @ ''{'' @ raw_label ''device'' ''Razer BlackWidow V4 Pro'' @ '',''
     @ raw_label ''pid'' ''0x028D'' @ label @ ''} '' @ v"

definition test_attempts_exceed_transactions_when_retrying :: bool where
  "test_attempts_exceed_transactions_when_retrying \<longleftrightarrow>
     (let m = record_transaction test_labels ''firmware_version'' 3 5000000 None (metrics_new False); out = rendered m in
      contains_str (test_series ''razer_transactions_total'' ('','' @ raw_label ''command'' ''firmware_version'') ''1'') out \<and>
      contains_str (test_series ''razer_transaction_attempts_total''
        ('','' @ raw_label ''command'' ''firmware_version'') ''3'') out)"

definition test_errors_are_counted_by_reason :: bool where
  "test_errors_are_counted_by_reason \<longleftrightarrow>
     (let m = record_transaction test_labels ''serial'' 5 50000000 (Some ''retries_exhausted'') (metrics_new False) in
      contains_str (raw_label ''reason'' ''retries_exhausted'' @ ''} 1'') (rendered m))"

definition test_device_mode_and_devnum_render :: bool where
  "test_device_mode_and_devnum_render \<longleftrightarrow>
     (let m = set_device_state test_labels (state_default\<lparr>present := True, usb_devnum := Some 11,
                kernel_driver := Some ''razerkbd'', st_device_mode := Some 0x03\<rparr>) (metrics_new False);
          out = rendered m
      in contains_str (test_series ''razer_device_usb_devnum'' [] ''11'') out \<and>
         contains_str (raw_label ''driver'' ''razerkbd'' @ ''} 1'') out \<and>
         contains_str (test_series ''razer_device_mode'' [] ''3'') out)"

definition test_label_values_are_escaped :: bool where
  "test_label_values_are_escaped \<longleftrightarrow>
     (let m = set_device_state (DeviceLabels (''Weird '' @ [CHR 0x22] @ ''Device'' @ [CHR 0x22]) ''0x0000'')
                (state_default\<lparr>present := True\<rparr>) (metrics_new True)
      in contains_str (raw_label ''device''
           (''Weird '' @ [CHR 0x5C, CHR 0x22] @ ''Device'' @ [CHR 0x5C, CHR 0x22])) (rendered m))"

definition test_carriage_returns_are_escaped_too :: bool where
  "test_carriage_returns_are_escaped_too \<longleftrightarrow>
     (let m = set_device_state test_labels (state_default\<lparr>present := True,
                kernel_driver := Some (''razerkbd'' @ [CHR 0x0D, CHR 0x0A] @ ''not-a-new-series'')\<rparr>) (metrics_new False);
          out = rendered m
      in contains_str (''razerkbd'' @ [CHR 0x5C, CHR ''r'', CHR 0x5C, CHR ''n''] @ ''not-a-new-series'') out \<and>
         CHR 0x0D \<notin> set out)"

definition test_histogram_buckets_are_cumulative :: bool where
  "test_histogram_buckets_are_cumulative \<longleftrightarrow>
     (let m = ((record_transaction test_labels ''x'' 1 1000000 None) ^^ 3) (metrics_new False); out = rendered m in
      contains_str (raw_label ''le'' ''0.001'' @ ''} 3'') out \<and> contains_str (raw_label ''le'' ''0.01'' @ ''} 3'') out \<and>
      contains_str (raw_label ''le'' ''+Inf'' @ ''} 3'') out \<and> contains_str (raw_label ''le'' ''0.0005'' @ ''} 0'') out)"

definition key_text :: string where
  "key_text = raw_label ''device'' ''Razer BlackWidow V4 Pro'' @ '','' @ raw_label ''pid'' ''0x028D''"

lemma render_test_labels: "render_labels test_labels = key_text"
  by (simp add: render_labels_def test_labels_def quoted_def escape_Nil escape_Cons key_text_def)

lemmas shown_eval = render_test_labels sample_def key_text_def test_series_def fmt_word_digits quoted_def
  raw_label_def escape_Nil escape_Cons

lemmas recorded_eval = record_transaction_def set_device_state_def metrics_new_def inner_new_def state_default_def
  bump_def Let_def lines_eval

lemma retrying_test: "test_attempts_exceed_transactions_when_retrying"
proof -
  let ?m = "record_transaction test_labels ''firmware_version'' 3 5000000 None (metrics_new False)"
  let ?l = "\<lambda>name v. sample name (render_labels test_labels @ '','' @ quoted ''command'' ''firmware_version'') (fmt_word (v :: u64))"
  have lines: "?l ''razer_transactions_total'' 1 \<in> set (lines_of ?m)"
    "?l ''razer_transaction_attempts_total'' 3 \<in> set (lines_of ?m)"
    by (simp_all add: recorded_eval)
  show ?thesis
    unfolding test_attempts_exceed_transactions_when_retrying_def Let_def
    by (rule conjI, rule shown [OF lines(1), of "[]" _ "[]"], simp add: shown_eval,
        rule shown [OF lines(2), of "[]" _ "[]"], simp add: shown_eval)
qed

lemma errors_test: "test_errors_are_counted_by_reason"
proof -
  let ?m = "record_transaction test_labels ''serial'' 5 50000000 (Some ''retries_exhausted'') (metrics_new False)"
  have line: "sample ''razer_transaction_errors_total''
      (render_labels test_labels @ '','' @ quoted ''reason'' ''retries_exhausted'') (fmt_word (1 :: u64))
      \<in> set (lines_of ?m)"
    by (simp add: recorded_eval)
  show ?thesis
    unfolding test_errors_are_counted_by_reason_def Let_def
    by (rule shown [OF line, of "''razer_transaction_errors_total{'' @ key_text @ '',''" _ "[]"]) (simp add: shown_eval)
qed

lemma state_test: "test_device_mode_and_devnum_render"
proof -
  let ?m = "set_device_state test_labels (state_default\<lparr>present := True, usb_devnum := Some 11,
    kernel_driver := Some ''razerkbd'', st_device_mode := Some 0x03\<rparr>) (metrics_new False)"
  let ?k = "render_labels test_labels"
  have lines: "sample ''razer_device_usb_devnum'' ?k (fmt_word (11 :: u64))
      \<in> set (lines_of ?m)"
    "sample ''razer_device_kernel_driver'' (?k @ '','' @ quoted ''driver'' ''razerkbd'') ''1''
      \<in> set (lines_of ?m)"
    "sample ''razer_device_mode'' ?k (fmt_word (3 :: u8)) \<in> set (lines_of ?m)"
    by (simp_all add: recorded_eval)
  show ?thesis
    unfolding test_device_mode_and_devnum_render_def Let_def
    by (rule conjI, rule shown [OF lines(1), of "[]" _ "[]"], simp add: shown_eval, rule conjI,
        rule shown [OF lines(2), of "''razer_device_kernel_driver{'' @ key_text @ '',''" _ "[]"], simp add: shown_eval,
        rule shown [OF lines(3), of "[]" _ "[]"], simp add: shown_eval)
qed

lemma opted_in_test: "test_serial_is_present_when_opted_in"
proof -
  let ?m = "set_device_state test_labels (state_default\<lparr>present := True, st_serial := Some ''TESTSERIAL00001''\<rparr>)
    (metrics_new True)"
  have line: "sample ''razer_device_info'' (render_labels test_labels @ '','' @ quoted ''serial'' ''TESTSERIAL00001'') ''1''
      \<in> set (lines_of ?m)"
    by (simp add: recorded_eval)
  show ?thesis
    unfolding test_serial_is_present_when_opted_in_def Let_def
    by (rule shown [OF line, of "''razer_device_info{'' @ key_text @ '',''" _ "''} 1''"]) (simp add: shown_eval)
qed

lemma escaped_test: "test_label_values_are_escaped"
proof -
  let ?d = "DeviceLabels (''Weird '' @ [CHR 0x22] @ ''Device'' @ [CHR 0x22]) ''0x0000''"
  let ?m = "set_device_state ?d (state_default\<lparr>present := True\<rparr>) (metrics_new True)"
  have line: "sample ''razer_device_present'' (render_labels ?d) ''1'' \<in> set (lines_of ?m)"
    by (simp add: recorded_eval)
  show ?thesis
    unfolding test_label_values_are_escaped_def Let_def
    by (rule shown [OF line, of "''razer_device_present{''" _ "'','' @ raw_label ''pid'' ''0x0000'' @ ''} 1''"])
      (simp add: sample_def render_labels_def quoted_def raw_label_def escape_Nil escape_Cons)
qed

lemma return_test: "test_carriage_returns_are_escaped_too"
proof -
  let ?v = "''razerkbd'' @ [CHR 0x0D, CHR 0x0A] @ ''not-a-new-series''"
  let ?m = "set_device_state test_labels (state_default\<lparr>present := True, kernel_driver := Some ?v\<rparr>) (metrics_new False)"
  have line: "sample ''razer_device_kernel_driver'' (render_labels test_labels @ '','' @ quoted ''driver'' ?v) ''1''
      \<in> set (lines_of ?m)"
    by (simp add: recorded_eval)
  have "list_all exposition_line (lines_of ?m)" by (rule exposition_all) simp_all
  then have "CHR 0x0D \<notin> set (rendered ?m)"
    unfolding rendered_def render_def write_lines_def by (auto simp: list_all_iff exposition_line_def in_line_def)
  then show ?thesis
    unfolding test_carriage_returns_are_escaped_too_def Let_def
    by (intro conjI shown [OF line, of "''razer_device_kernel_driver{'' @ key_text @ '',driver='' @ [CHR 0x22]" _
          "[CHR 0x22] @ ''} 1''"]) (simp_all add: shown_eval)
qed

lemma cumulative_test: "test_histogram_buckets_are_cumulative"
proof -
  let ?m = "((record_transaction test_labels ''x'' 1 1000000 None) ^^ 3) (metrics_new False)"
  let ?base = "render_labels test_labels @ '','' @ quoted ''command'' ''x''"
  let ?l = "\<lambda>le n. sample ''razer_transaction_duration_seconds_bucket'' (?base @ '','' @ raw_label ''le'' le) (fmt_word (n :: u64))"
  let ?pre = "''razer_transaction_duration_seconds_bucket{'' @ key_text @ '','' @ raw_label ''command'' ''x'' @ '',''"
  have "?m = record_transaction test_labels ''x'' 1 1000000 None (record_transaction test_labels ''x'' 1 1000000 None
      (record_transaction test_labels ''x'' 1 1000000 None (metrics_new False)))"
    by (simp add: numeral_3_eq_3)
  then have lines: "?l ''0.001'' 3 \<in> set (lines_of ?m)" "?l ''0.01'' 3 \<in> set (lines_of ?m)"
    "?l ''+Inf'' 3 \<in> set (lines_of ?m)" "?l ''0.0005'' 0 \<in> set (lines_of ?m)"
    by (simp_all add: recorded_eval observe_def histogram_new_def LATENCY_BUCKETS_def)
  show ?thesis
    unfolding test_histogram_buckets_are_cumulative_def Let_def
    by (rule conjI, rule shown [OF lines(1), of ?pre _ "[]"], simp add: shown_eval, rule conjI,
        rule shown [OF lines(2), of ?pre _ "[]"], simp add: shown_eval, rule conjI,
        rule shown [OF lines(3), of ?pre _ "[]"], simp add: shown_eval,
        rule shown [OF lines(4), of ?pre _ "[]"], simp add: shown_eval)
qed

subsection \<open>Scrapes\<close>

definition test_scrape :: "string \<Rightarrow> string option" where
  "test_scrape req = handle ''0.1.0'' ''0.001'' (\<lambda>_. ''0.003000'') (metrics_new False)
     \<lparr>read_timeout_set = True, write_timeout_set = True, cloned = True, incoming = req, ends_orderly = False\<rparr>"

definition test_a_well_formed_scrape_is_answered :: bool where
  "test_a_well_formed_scrape_is_answered \<longleftrightarrow>
     (case test_scrape (''GET /metrics HTTP/1.1'' @ crlf @ ''Host: localhost'' @ crlf @ crlf) of
        None \<Rightarrow> False
      | Some out \<Rightarrow> take 15 out = ''HTTP/1.1 200 OK'' \<and> contains_str ''razer_build_info'' out)"

definition test_a_request_line_with_no_newline_is_bounded_not_buffered_forever :: bool where
  "test_a_request_line_with_no_newline_is_bounded_not_buffered_forever \<longleftrightarrow>
     test_scrape (replicate (MAX_REQUEST_LINE * 2) (CHR ''A'')) = None"

definition test_the_header_loop_is_bounded :: bool where
  "test_the_header_loop_is_bounded \<longleftrightarrow>
     (let req = ''GET /metrics HTTP/1.1'' @ crlf
            @ concat (map (\<lambda>i. ''X-Pad-'' @ fmt_dec i @ '': x'' @ crlf) [0..<MAX_HEADERS * 10])
      in case test_scrape req of None \<Rightarrow> False | Some out \<Rightarrow> take 15 out = ''HTTP/1.1 200 OK'')"

lemma answer_body: "\<exists>pre. answer (status, ctype, body) = (''HTTP/1.1 '' @ status) @ pre @ body"
  by (simp add: answer_def)

lemma scrape_answered:
  assumes "test_scrape req = Some (answer (route (rendered (metrics_new False)) ''/metrics''))"
  shows "\<exists>pre. test_scrape req = Some (''HTTP/1.1 200 OK'' @ pre @ rendered (metrics_new False))"
  using answer_body [of "''200 OK''" "''text/plain; version=0.0.4; charset=utf-8''" "rendered (metrics_new False)"]
  by (auto simp: assms route_def)

lemma scrape_test: "test_a_well_formed_scrape_is_answered"
proof -
  let ?req = "''GET /metrics HTTP/1.1'' @ crlf @ ''Host: localhost'' @ crlf @ crlf"
  have "?req = request ''GET'' ''/metrics'' ''HTTP/1.1'' [''Host: localhost''] @ []"
    by (simp add: request_def request_line_def crlf_def)
  then have "test_scrape ?req = Some (answer (route (rendered (metrics_new False)) ''/metrics''))"
    unfolding test_scrape_def rendered_def
    by (intro handle_request [of _ "''GET''" "''/metrics''" "''HTTP/1.1''" "[''Host: localhost'']" "[]"])
      (simp_all add: plain_word_def is_ascii_def ascii_whitespace_def request_line_def MAX_REQUEST_LINE_def
        header_line_def MAX_HEADER_LINE_def)
  then obtain pre where out: "test_scrape ?req = Some (''HTTP/1.1 200 OK'' @ pre @ rendered (metrics_new False))"
    using scrape_answered by blast
  have "hd (metric_header ''razer_build_info'' ''Build information.'' ''gauge'') \<in> set (lines_of (metrics_new False))"
    by (simp add: render_lines_def metrics_new_def build_lines_def metric_header_def)
  then have "contains_str ''razer_build_info'' (rendered (metrics_new False))"
    by (rule shown [of _ _ "''# HELP ''" _ "'' Build information.''"]) (simp add: metric_header_def)
  then obtain a b where "rendered (metrics_new False) = a @ ''razer_build_info'' @ b"
    unfolding contains_str_iff by blast
  then have "contains_str ''razer_build_info'' (''HTTP/1.1 200 OK'' @ pre @ rendered (metrics_new False))"
    unfolding contains_str_iff by (metis append.assoc)
  then show ?thesis
    unfolding test_a_well_formed_scrape_is_answered_def out option.case by (intro conjI) simp_all
qed

lemma flood_test: "test_a_request_line_with_no_newline_is_bounded_not_buffered_forever"
proof -
  let ?chunk = "replicate MAX_REQUEST_LINE (CHR ''A'')"
  have "takeWhile (\<lambda>c. c \<noteq> CHR 0x0A) ?chunk = ?chunk" by (simp add: takeWhile_eq_all_conv)
  moreover have "take MAX_REQUEST_LINE (replicate (MAX_REQUEST_LINE * 2) (CHR ''A'')) = ?chunk" by simp
  moreover have "MAX_REQUEST_LINE \<noteq> 0" by (simp add: MAX_REQUEST_LINE_def)
  ultimately show ?thesis
    unfolding test_a_request_line_with_no_newline_is_bounded_not_buffered_forever_def test_scrape_def handle_def
      read_line_def Let_def by simp
qed

lemma length_fmt_dec: "length (fmt_dec n) \<le> n + 1"
proof -
  have "length (fmt_radix 10 False n) \<le> n + 1"
  proof (induction n rule: less_induct)
    case (less n)
    show ?case
    proof (cases "n < 10")
      case False
      then have "length (fmt_radix 10 False (n div 10)) \<le> n div 10 + 1" by (intro less) simp
      with False show ?thesis by (subst fmt_radix.simps) simp
    qed (simp add: fmt_radix.simps)
  qed
  then show ?thesis by (simp add: fmt_dec_def)
qed

lemma pad_header: "i < 640 \<Longrightarrow> header_line (''X-Pad-'' @ fmt_dec i @ '': x'')"
proof -
  assume "i < 640"
  then have "length (fmt_dec i) \<le> 640" using length_fmt_dec [of i] by simp
  moreover have "list_all is_ascii (fmt_dec i)"
    using fmt_radix_chars [of 10 _ False i] digit_char_ascii by (fastforce simp: fmt_dec_def list_all_iff)
  moreover have "CHR 0x0A \<notin> set (fmt_dec i)" using in_line_numbers(1) by (simp add: in_line_def)
  ultimately show ?thesis
    by (simp add: header_line_def is_ascii_def MAX_HEADER_LINE_def ascii_whitespace_def)
qed

lemma header_run_test: "test_the_header_loop_is_bounded"
proof -
  let ?hs = "map (\<lambda>i. ''X-Pad-'' @ fmt_dec i @ '': x'') [0..<MAX_HEADERS * 10]"
  let ?run = "concat (map (\<lambda>i. ''X-Pad-'' @ fmt_dec i @ '': x'' @ crlf) [0..<MAX_HEADERS * 10])"
  have run: "?run = concat (map (\<lambda>h. h @ crlf) ?hs) @ []" by (simp add: comp_def)
  have "list_all header_line ?hs" using pad_header by (simp add: list_all_iff MAX_HEADERS_def)
  then have "drain_headers MAX_HEADERS False ?run"
    unfolding run by (rule drain_headers_run) simp
  then have "test_scrape (''GET /metrics HTTP/1.1'' @ crlf @ ?run)
      = Some (answer (route (rendered (metrics_new False)) ''/metrics''))"
    unfolding test_scrape_def rendered_def
    by (intro handle_parsed [of _ "''GET''" "''/metrics''" "''HTTP/1.1''" ?run])
      (simp_all add: plain_word_def is_ascii_def ascii_whitespace_def request_line_def MAX_REQUEST_LINE_def crlf_def)
  from scrape_answered [OF this] show ?thesis
    unfolding test_the_header_loop_is_bounded_def Let_def by auto
qed

end
