(* ===== verification/Tests_Golden.thy ===== *)
theory Tests_Golden
  imports Cmd Rust_Text
begin

text \<open>
  The golden vectors of \<open>crates/razer-proto/tests\<close>: the request frames worked out by hand from the C
  driver (\<open>fixtures/golden_vectors.txt\<close>) and the tests of \<open>golden_vectors.rs\<close> that the constructors
  reproduce them. The fixture is given by its named payload lines; reading a line as bytes is the
  code's, with a panic as \<open>None\<close>.
\<close>

definition FIXTURE :: "(string \<times> string) list" where
  "FIXTURE =
     [(''firmware_version_v4pro'',
       ''001f00000002008100000000000000000000000000000000000000000000'' @ ''000000000000000000000000000000000000000000000000000000000000'' @ ''000000000000000000000000000000000000000000000000000000008300''),
      (''serial_v4pro'',
       ''001f00000016008200000000000000000000000000000000000000000000'' @ ''000000000000000000000000000000000000000000000000000000000000'' @ ''000000000000000000000000000000000000000000000000000000009400''),
      (''device_mode_driver_correct'',
       ''001f00000002000403000000000000000000000000000000000000000000'' @ ''000000000000000000000000000000000000000000000000000000000000'' @ ''000000000000000000000000000000000000000000000000000000000500''),
      (''device_mode_driver_buggy'',
       ''00ff00000002000403000000000000000000000000000000000000000000'' @ ''000000000000000000000000000000000000000000000000000000000000'' @ ''000000000000000000000000000000000000000000000000000000000500''),
      (''device_mode_device_correct'',
       ''001f00000002000400000000000000000000000000000000000000000000'' @ ''000000000000000000000000000000000000000000000000000000000000'' @ ''000000000000000000000000000000000000000000000000000000000600'')]"

fun bytes_of_hex :: "string \<Rightarrow> bytes option" where
  "bytes_of_hex [] = Some []"
| "bytes_of_hex [_] = None"
| "bytes_of_hex (a # b # rest) =
     (case from_str_radix (2 ^ 8) 16 [a, b] of
        Inl _ \<Rightarrow> None
      | Inr v \<Rightarrow> map_option (\<lambda>bs. of_nat v # bs) (bytes_of_hex rest))"

definition vector :: "string \<Rightarrow> bytes option" where
  "vector name =
     (case map_of FIXTURE name of
        None \<Rightarrow> None
      | Some hex \<Rightarrow> if length hex = REPORT_LEN * 2 then bytes_of_hex hex else None)"

definition assert_matches :: "string \<Rightarrow> razer_report \<Rightarrow> bool" where
  "assert_matches name built \<longleftrightarrow> vector name = Some (to_bytes built)"

definition test_every_vector_is_ninety_bytes_and_checksum_valid :: bool where
  "test_every_vector_is_ninety_bytes_and_checksum_valid \<longleftrightarrow>
     list_all (\<lambda>name. case vector name of None \<Rightarrow> False | Some bs \<Rightarrow> verify_crc bs)
       [''firmware_version_v4pro'', ''serial_v4pro'', ''device_mode_driver_correct'', ''device_mode_driver_buggy'',
        ''device_mode_device_correct'']"

definition test_firmware_version_vector_matches_the_constructor :: bool where
  "test_firmware_version_vector_matches_the_constructor \<longleftrightarrow>
     assert_matches ''firmware_version_v4pro'' (with_transaction_id cmd_get_firmware_version 0x1F)"

definition test_serial_vector_matches_the_constructor :: bool where
  "test_serial_vector_matches_the_constructor \<longleftrightarrow>
     assert_matches ''serial_v4pro'' (with_transaction_id cmd_get_serial 0x1F)"

definition test_phase3_arm_c_is_the_correct_driver_mode_frame :: bool where
  "test_phase3_arm_c_is_the_correct_driver_mode_frame \<longleftrightarrow>
     assert_matches ''device_mode_driver_correct'' (with_transaction_id (cmd_set_device_mode Driver) 0x1F)"

definition test_phase3_arm_b_is_the_upstream_buggy_frame :: bool where
  "test_phase3_arm_b_is_the_upstream_buggy_frame \<longleftrightarrow>
     assert_matches ''device_mode_driver_buggy'' (with_transaction_id (cmd_set_device_mode Driver) 0xFF)"

definition test_returning_to_normal_mode_matches_the_constructor :: bool where
  "test_returning_to_normal_mode_matches_the_constructor \<longleftrightarrow>
     assert_matches ''device_mode_device_correct'' (with_transaction_id (cmd_set_device_mode Normal) 0x1F)"

definition test_the_two_experiment_arms_differ_only_at_the_transaction_id :: bool where
  "test_the_two_experiment_arms_differ_only_at_the_transaction_id \<longleftrightarrow>
     (case (vector ''device_mode_driver_correct'', vector ''device_mode_driver_buggy'') of
        (Some good, Some bad) \<Rightarrow>
          filter (\<lambda>i. good ! i \<noteq> bad ! i) [0..<REPORT_LEN] = [1] \<and> good ! 1 = 0x1F \<and> bad ! 1 = 0xFF \<and>
          good ! 88 = bad ! 88 \<and> verify_crc good \<and> verify_crc bad
      | _ \<Rightarrow> False)"

definition test_no_vector_leaves_the_transaction_id_unstamped :: bool where
  "test_no_vector_leaves_the_transaction_id_unstamped \<longleftrightarrow>
     list_all (\<lambda>name. case vector name of None \<Rightarrow> False | Some bs \<Rightarrow> bs ! 1 \<noteq> 0x00 \<and> bs ! 1 \<noteq> 0xFF)
       [''firmware_version_v4pro'', ''serial_v4pro'', ''device_mode_driver_correct'', ''device_mode_device_correct'']"

subsection \<open>Reading the vectors\<close>

lemma hex_pairs:
  "from_str_radix 256 16 [CHR ''0'', CHR ''0''] = Inr 0"
  "from_str_radix 256 16 [CHR ''0'', CHR ''2''] = Inr 2"
  "from_str_radix 256 16 [CHR ''0'', CHR ''3''] = Inr 3"
  "from_str_radix 256 16 [CHR ''0'', CHR ''4''] = Inr 4"
  "from_str_radix 256 16 [CHR ''0'', CHR ''5''] = Inr 5"
  "from_str_radix 256 16 [CHR ''0'', CHR ''6''] = Inr 6"
  "from_str_radix 256 16 [CHR ''1'', CHR ''6''] = Inr 22"
  "from_str_radix 256 16 [CHR ''1'', CHR ''f''] = Inr 31"
  "from_str_radix 256 16 [CHR ''8'', CHR ''1''] = Inr 129"
  "from_str_radix 256 16 [CHR ''8'', CHR ''2''] = Inr 130"
  "from_str_radix 256 16 [CHR ''8'', CHR ''3''] = Inr 131"
  "from_str_radix 256 16 [CHR ''9'', CHR ''4''] = Inr 148"
  "from_str_radix 256 16 [CHR ''f'', CHR ''f''] = Inr 255"
  by code_simp+

lemmas read_vector = vector_def FIXTURE_def REPORT_LEN_def hex_pairs

lemma replicate_numeral: "replicate (numeral k) x = x # replicate (pred_numeral k) x"
  by (simp add: numeral_eq_Suc)

definition golden :: "u8 \<Rightarrow> u8 \<Rightarrow> u8 \<Rightarrow> u8 \<Rightarrow> u8 \<Rightarrow> bytes" where
  "golden tid n cid arg check = [0, tid, 0, 0, 0, n, 0, cid, arg] @ replicate 79 0 @ [check, 0]"

lemma vectors:
  "vector ''firmware_version_v4pro'' = Some (golden 0x1F 0x02 0x81 0x00 0x83)"
  "vector ''serial_v4pro'' = Some (golden 0x1F 0x16 0x82 0x00 0x94)"
  "vector ''device_mode_driver_correct'' = Some (golden 0x1F 0x02 0x04 0x03 0x05)"
  "vector ''device_mode_driver_buggy'' = Some (golden 0xFF 0x02 0x04 0x03 0x05)"
  "vector ''device_mode_device_correct'' = Some (golden 0x1F 0x02 0x04 0x00 0x06)"
  by (simp_all add: read_vector golden_def replicate_numeral)

lemma encoded_golden:
  "to_bytes (with_transaction_id cmd_get_firmware_version 0x1F) = golden 0x1F 0x02 0x81 0x00 0x83"
  "to_bytes (with_transaction_id cmd_get_serial 0x1F) = golden 0x1F 0x16 0x82 0x00 0x94"
  "to_bytes (with_transaction_id (cmd_set_device_mode Driver) 0x1F) = golden 0x1F 0x02 0x04 0x03 0x05"
  "to_bytes (with_transaction_id (cmd_set_device_mode Driver) 0xFF) = golden 0xFF 0x02 0x04 0x03 0x05"
  "to_bytes (with_transaction_id (cmd_set_device_mode Normal) 0x1F) = golden 0x1F 0x02 0x04 0x00 0x06"
  by code_simp+

lemma encoded_valid: "constructed rep \<Longrightarrow> verify_crc (to_bytes (with_transaction_id rep tid))"
  using constructed_is_clean [of rep] by (simp add: clean_request_def with_transaction_id_def wf_report_def)

lemma golden_tests:
  "test_firmware_version_vector_matches_the_constructor" "test_serial_vector_matches_the_constructor"
  "test_phase3_arm_c_is_the_correct_driver_mode_frame" "test_phase3_arm_b_is_the_upstream_buggy_frame"
  "test_returning_to_normal_mode_matches_the_constructor"
  by (simp_all add: test_firmware_version_vector_matches_the_constructor_def assert_matches_def vectors
      test_serial_vector_matches_the_constructor_def test_phase3_arm_c_is_the_correct_driver_mode_frame_def
      test_phase3_arm_b_is_the_upstream_buggy_frame_def test_returning_to_normal_mode_matches_the_constructor_def
      encoded_golden)

lemma vectors_valid:
  "verify_crc (golden 0x1F 0x02 0x81 0x00 0x83)" "verify_crc (golden 0x1F 0x16 0x82 0x00 0x94)"
  "verify_crc (golden 0x1F 0x02 0x04 0x03 0x05)" "verify_crc (golden 0xFF 0x02 0x04 0x03 0x05)"
  "verify_crc (golden 0x1F 0x02 0x04 0x00 0x06)"
  using encoded_valid [of cmd_get_firmware_version "0x1F"] encoded_valid [of cmd_get_serial "0x1F"]
    encoded_valid [of "cmd_set_device_mode Driver" "0x1F"] encoded_valid [of "cmd_set_device_mode Driver" "0xFF"]
    encoded_valid [of "cmd_set_device_mode Normal" "0x1F"]
  by (simp_all add: encoded_golden)

lemma arms_differ:
  "filter (\<lambda>i. golden 0x1F n c a k ! i \<noteq> golden 0xFF n c a k ! i) [0..<REPORT_LEN] = [1]"
proof -
  have "golden 0x1F n c a k ! i \<noteq> golden 0xFF n c a k ! i \<longleftrightarrow> i = 1" if "i < REPORT_LEN" for i
    by (cases i; cases "i - 1") (simp_all add: golden_def)
  then have "filter (\<lambda>i. golden 0x1F n c a k ! i \<noteq> golden 0xFF n c a k ! i) [0..<REPORT_LEN]
      = filter (\<lambda>i. i = 1) [0..<REPORT_LEN]" by (intro filter_cong) auto
  also have "\<dots> = [1]" by (simp add: REPORT_LEN_def upt_rec)
  finally show ?thesis .
qed

lemma vector_tests:
  "test_every_vector_is_ninety_bytes_and_checksum_valid"
  "test_the_two_experiment_arms_differ_only_at_the_transaction_id"
  "test_no_vector_leaves_the_transaction_id_unstamped"
  by (simp_all add: test_every_vector_is_ninety_bytes_and_checksum_valid_def vectors vectors_valid arms_differ
      test_the_two_experiment_arms_differ_only_at_the_transaction_id_def
      test_no_vector_leaves_the_transaction_id_unstamped_def)
    (simp_all add: golden_def)

end
