(* ===== verification/Tests_Wire.thy ===== *)
theory Tests_Wire
  imports Tests_Proto
begin

text \<open>
  The integration tests of the protocol crate, \<open>crates/razer-proto/tests/wire_format_spec.rs\<close>,
  translated as the unit tests are: frames built by hand from the C driver with checksums worked out
  by hand, the checksum's range, the boundaries of the acceptance test and the index of every reader.
  A loop over values is \<open>list_all\<close>, and an \<open>expect\<close> or \<open>panic!\<close> that would fire is \<open>False\<close>.
\<close>

definition expect_frame :: "u8 \<Rightarrow> u8 \<Rightarrow> u8 \<Rightarrow> u8 \<Rightarrow> bytes \<Rightarrow> u8 \<Rightarrow> bytes" where
  "expect_frame tid dsize class cid args crc_value =
     (let b = replicate REPORT_LEN 0;
          b = b[0 := 0x00]; b = b[1 := tid]; b = b[2 := 0x00]; b = b[3 := 0x00]; b = b[4 := 0x00];
          b = b[5 := dsize]; b = b[6 := class]; b = b[7 := cid];
          b = copy_slice 8 args b;
          b = b[88 := crc_value]; b = b[89 := 0x00]
      in b)"

definition xor_by_hand :: "bytes \<Rightarrow> u8" where
  "xor_by_hand bs = foldl (\<lambda>a b. a XOR b) 0 bs"

subsection \<open>Golden frames\<close>

definition spec_golden_set_device_mode_normal :: bool where
  "spec_golden_set_device_mode_normal \<longleftrightarrow>
     (let expected = expect_frame 0x1F 0x02 0x00 0x04 [0x00, 0x00] 0x06;
          got = to_bytes (with_transaction_id (cmd_set_device_mode Normal) 0x1F)
      in xor_by_hand [0x02, 0x04] = 0x06 \<and> got = expected)"

definition spec_golden_set_device_mode_driver :: bool where
  "spec_golden_set_device_mode_driver \<longleftrightarrow>
     (let expected = expect_frame 0x1F 0x02 0x00 0x04 [0x03, 0x00] 0x05;
          got = to_bytes (with_transaction_id (cmd_set_device_mode Driver) 0x1F)
      in xor_by_hand [0x02, 0x04, 0x03] = 0x05 \<and> got = expected)"

definition spec_golden_get_device_mode :: bool where
  "spec_golden_get_device_mode \<longleftrightarrow>
     (let expected = expect_frame 0x1F 0x02 0x00 0x84 [] 0x86;
          got = to_bytes (with_transaction_id cmd_get_device_mode 0x1F)
      in xor_by_hand [0x02, 0x84] = 0x86 \<and> got = expected)"

definition spec_golden_get_firmware_version :: bool where
  "spec_golden_get_firmware_version \<longleftrightarrow>
     (let expected = expect_frame 0x1F 0x02 0x00 0x81 [] 0x83;
          got = to_bytes (with_transaction_id cmd_get_firmware_version 0x1F)
      in xor_by_hand [0x02, 0x81] = 0x83 \<and> got = expected)"

definition spec_golden_get_serial :: bool where
  "spec_golden_get_serial \<longleftrightarrow>
     (let expected = expect_frame 0x1F 0x16 0x00 0x82 [] 0x94;
          got = to_bytes (with_transaction_id cmd_get_serial 0x1F)
      in xor_by_hand [0x16, 0x82] = 0x94 \<and> got = expected)"

definition spec_golden_set_brightness_matches_the_c_doc_comment :: bool where
  "spec_golden_set_brightness_matches_the_c_doc_comment \<longleftrightarrow>
     (let expected = expect_frame 0x1F 0x03 0x0F 0x04 [0x01, 0x04, 0xB7] 0xBA;
          got = to_bytes (with_transaction_id (cmd_set_brightness VarStore Logo 0xB7) 0x1F)
      in xor_by_hand [0x03, 0x0F, 0x04, 0x01, 0x04, 0xB7] = 0xBA \<and> got = expected)"

definition spec_golden_get_brightness :: bool where
  "spec_golden_get_brightness \<longleftrightarrow>
     (let expected = expect_frame 0x1F 0x03 0x0F 0x84 [0x01, 0x05] 0x8C;
          got = to_bytes (with_transaction_id (cmd_get_brightness VarStore Backlight) 0x1F)
      in xor_by_hand [0x03, 0x0F, 0x84, 0x01, 0x05] = 0x8C \<and> got = expected \<and> got ! 10 = 0x00)"

definition spec_golden_set_static_effect_matches_the_c_doc_comment :: bool where
  "spec_golden_set_static_effect_matches_the_c_doc_comment \<longleftrightarrow>
     (let expected = expect_frame 0x1F 0x09 0x0F 0x02 [0x01, 0x05, 0x01, 0x00, 0x00, 0x01, 0xFF, 0x00, 0x00] 0xFF;
          got = to_bytes (with_transaction_id (cmd_set_static_effect VarStore Backlight (rgb_new 0xFF 0x00 0x00)) 0x1F)
      in xor_by_hand [0x09, 0x0F, 0x02, 0x01, 0x05, 0x01, 0x01, 0xFF] = 0xFF \<and> got = expected \<and>
         take 9 (drop 8 (to_bytes (cmd_set_static_effect VarStore Backlight (rgb_new 0x00 0x80 0x00))))
           = [0x01, 0x05, 0x01, 0x00, 0x00, 0x01, 0x00, 0x80, 0x00])"

definition spec_golden_set_effect_none_matches_the_c_doc_comment :: bool where
  "spec_golden_set_effect_none_matches_the_c_doc_comment \<longleftrightarrow>
     (let expected = expect_frame 0x1F 0x06 0x0F 0x02 [0x01, 0x05, 0x00, 0x00, 0x00, 0x00] 0x0F;
          got = to_bytes (with_transaction_id (cmd_set_effect_none VarStore Backlight) 0x1F)
      in xor_by_hand [0x06, 0x0F, 0x02, 0x01, 0x05] = 0x0F \<and> got = expected)"

definition spec_golden_poll_rate_legacy_frames :: bool where
  "spec_golden_poll_rate_legacy_frames \<longleftrightarrow>
     list_all (\<lambda>(rate, code, crc_value).
       xor_by_hand [0x01, 0x05, code] = crc_value \<and>
       (case cmd_set_poll_rate_legacy rate of
          Inl _ \<Rightarrow> False
        | Inr r \<Rightarrow> to_bytes (with_transaction_id r 0x1F) = expect_frame 0x1F 0x01 0x00 0x05 [code] crc_value))
       [(Hz1000, 0x01, 0x05), (Hz500, 0x02, 0x06), (Hz125, 0x08, 0x0C)]"

definition spec_golden_get_poll_rate_legacy :: bool where
  "spec_golden_get_poll_rate_legacy \<longleftrightarrow>
     (let expected = expect_frame 0x1F 0x01 0x00 0x85 [] 0x84;
          got = to_bytes (with_transaction_id cmd_get_poll_rate_legacy 0x1F)
      in xor_by_hand [0x01, 0x85] = 0x84 \<and> got = expected)"

definition spec_golden_poll_rate_v2_frames :: bool where
  "spec_golden_poll_rate_v2_frames \<longleftrightarrow>
     list_all (\<lambda>(rate, code).
       let crc_value = xor_by_hand [0x02, 0x40, 0x00, code] in
       to_bytes (with_transaction_id (cmd_set_poll_rate_v2 rate 0x00) 0x1F)
         = expect_frame 0x1F 0x02 0x00 0x40 [0x00, code] crc_value)
       [(Hz8000, 0x01), (Hz4000, 0x02), (Hz2000, 0x04), (Hz1000, 0x08), (Hz500, 0x10), (Hz250, 0x20), (Hz125, 0x40)] \<and>
     xor_by_hand [0x02, 0x40, 0x00, 0x01] = 0x43 \<and> xor_by_hand [0x02, 0x40, 0x00, 0x08] = 0x4A \<and>
     (let with_arg = to_bytes (cmd_set_poll_rate_v2 Hz1000 0x01) in with_arg ! 8 = 0x01 \<and> with_arg ! 9 = 0x08)"

definition spec_golden_get_poll_rate_v2 :: bool where
  "spec_golden_get_poll_rate_v2 \<longleftrightarrow>
     (let expected = expect_frame 0x1F 0x01 0x00 0xC0 [] 0xC1;
          got = to_bytes (with_transaction_id cmd_get_poll_rate_v2 0x1F)
      in xor_by_hand [0x01, 0xC0] = 0xC1 \<and> got = expected)"

lemma golden_specs:
  "spec_golden_set_device_mode_normal"
  "spec_golden_set_device_mode_driver"
  "spec_golden_get_device_mode"
  "spec_golden_get_firmware_version"
  "spec_golden_get_serial"
  "spec_golden_set_brightness_matches_the_c_doc_comment"
  "spec_golden_get_brightness"
  "spec_golden_set_static_effect_matches_the_c_doc_comment"
  "spec_golden_set_effect_none_matches_the_c_doc_comment"
  "spec_golden_poll_rate_legacy_frames"
  "spec_golden_get_poll_rate_legacy"
  "spec_golden_poll_rate_v2_frames"
  "spec_golden_get_poll_rate_v2"
  by code_simp+

subsection \<open>The upstream bug and the checksum\<close>

definition spec_the_upstream_bug_is_one_byte_and_the_checksum_cannot_see_it :: bool where
  "spec_the_upstream_bug_is_one_byte_and_the_checksum_cannot_see_it \<longleftrightarrow>
     (let base = cmd_set_device_mode Driver;
          correct = to_bytes (with_transaction_id base 0x1F); upstream = to_bytes (with_transaction_id base 0xFF)
      in filter (\<lambda>i. correct ! i \<noteq> upstream ! i) [0..<REPORT_LEN] = [1] \<and> verify_crc correct \<and>
         verify_crc upstream \<and> correct ! 88 = 0x05 \<and> upstream ! 88 = 0x05)"

definition spec_transaction_id_is_outside_the_checksum_for_all_256_values :: bool where
  "spec_transaction_id_is_outside_the_checksum_for_all_256_values \<longleftrightarrow>
     (let base = cmd_set_static_effect VarStore Backlight (rgb_new 1 2 3); baseline = to_bytes base ! 88 in
      list_all (\<lambda>tid. let b = to_bytes (with_transaction_id base tid) in b ! 1 = tid \<and> b ! 88 = baseline) all_u8)"

definition spec_checksum_covers_exactly_eighty_six_bytes :: bool where
  "spec_checksum_covers_exactly_eighty_six_bytes \<longleftrightarrow>
     (let flipped = (\<lambda>i. (replicate REPORT_LEN 0)[i := 0xFF]) in
      list_all (\<lambda>i. if crc (flipped i) \<noteq> 0x00 then 2 \<le> i \<and> i \<le> 87 else \<not> (2 \<le> i \<and> i \<le> 87)) [0..<REPORT_LEN] \<and>
      length (filter (\<lambda>i. crc (flipped i) \<noteq> 0x00) [0..<REPORT_LEN]) = 86)"

definition spec_decode_then_encode_is_the_identity_on_a_valid_frame :: bool where
  "spec_decode_then_encode_is_the_identity_on_a_valid_frame \<longleftrightarrow>
     (let b = map (\<lambda>i. of_nat i * 31 + 9) [0..<REPORT_LEN];
          b = b[5 := 0x50]; b = b[88 := crc b]
      in verify_crc b \<and> to_bytes (from_bytes b) = b)"

definition spec_remaining_packets_survives_every_value_big_endian :: bool where
  "spec_remaining_packets_survives_every_value_big_endian \<longleftrightarrow>
     list_all (\<lambda>v. let r = cmd_get_device_mode\<lparr>remaining_packets := v\<rparr>; b = to_bytes r in
       b ! 2 = ucast (drop_bit 8 v) \<and> b ! 3 = ucast (v AND 0xFF) \<and> remaining_packets (from_bytes b) = v)
       (map of_nat [0..<2 ^ 16])"

definition spec_a_corrupt_checksum_survives_decode_and_reencode :: bool where
  "spec_a_corrupt_checksum_survives_decode_and_reencode \<longleftrightarrow>
     (let good = to_bytes (with_transaction_id (cmd_set_device_mode Driver) 0x1F);
          corrupt = good[88 := good ! 88 XOR 0xFF]; decoded = from_bytes corrupt
      in verify_crc good \<and> \<not> verify_crc corrupt \<and> crc corrupt = 0x05 \<and> crc_byte decoded = 0x05 XOR 0xFF \<and>
         verify_crc (to_bytes decoded) \<and> to_bytes decoded = good)"

lemma checksum_specs:
  "spec_the_upstream_bug_is_one_byte_and_the_checksum_cannot_see_it"
  "spec_checksum_covers_exactly_eighty_six_bytes" "spec_decode_then_encode_is_the_identity_on_a_valid_frame"
  "spec_a_corrupt_checksum_survives_decode_and_reencode"
  by code_simp+

text \<open>The two exhaustive loops, from the bytes of a frame.\<close>

lemma exhaustive_frame_specs:
  "spec_transaction_id_is_outside_the_checksum_for_all_256_values"
  "spec_remaining_packets_survives_every_value_big_endian"
proof -
  have "wf_report (cmd_set_static_effect VarStore Backlight (rgb_new 1 2 3))" by (rule constructed_wf) simp
  then show "spec_transaction_id_is_outside_the_checksum_for_all_256_values"
    by (simp add: spec_transaction_id_is_outside_the_checksum_for_all_256_values_def list_all_iff Let_def
        to_bytes_stamp REPORT_LEN_def)
  have low: "ucast (v AND 0xFF) = (ucast v :: u8)" for v :: u16
  proof (rule bit_word_eqI)
    fix n assume "n < LENGTH(8)"
    then have "bit (0xFF :: u16) n" by (auto simp: less_Suc_eq numeral_eq_Suc)
    with \<open>n < LENGTH(8)\<close> show "bit (ucast (v AND 0xFF) :: u8) n \<longleftrightarrow> bit (ucast v :: u8) n"
      by (simp add: bit_simps)
  qed
  have one: "let r = cmd_get_device_mode\<lparr>remaining_packets := v\<rparr>; b = to_bytes r in
      b ! 2 = ucast (drop_bit 8 v) \<and> b ! 3 = ucast (v AND 0xFF) \<and> remaining_packets (from_bytes b) = v" for v
  proof -
    let ?r = "cmd_get_device_mode\<lparr>remaining_packets := v\<rparr>"
    have "wf_report ?r" "canonical_status (status ?r)"
      using constructed_wf [of cmd_get_device_mode]
      by (simp_all add: wf_report_def cmd_get_device_mode_def canonical_status_def)
    then show ?thesis
      using to_bytes_fields(3,4) [of ?r] by (simp add: Let_def decode_encode to_be_bytes_def low)
  qed
  show "spec_remaining_packets_survives_every_value_big_endian"
    unfolding spec_remaining_packets_survives_every_value_big_endian_def list_all_iff
    by (rule ballI) (rule one)
qed

subsection \<open>Acceptance at its boundaries\<close>

definition spec_data_size_boundary_is_eighty_inclusive :: bool where
  "spec_data_size_boundary_is_eighty_inclusive \<longleftrightarrow>
     (let req = cmd_get_device_mode in
      list_all (\<lambda>size. let a = req\<lparr>data_size := size\<rparr>; b = a\<lparr>status := Successful\<rparr> in
        check_response a b = Inr ()) [0, 1, 79, 80] \<and>
      list_all (\<lambda>size. let a = req\<lparr>data_size := size\<rparr>; b = a\<lparr>status := Successful\<rparr> in
        check_response a b = Inl (DataSizeTooLarge size)) [81, 90, 255])"

definition spec_mismatch_reporting_order_is_packets_then_class_then_id :: bool where
  "spec_mismatch_reporting_order_is_packets_then_class_then_id \<longleftrightarrow>
     (let req = cmd_get_device_mode;
          resp = req\<lparr>status := Successful, remaining_packets := 0x0001, command_class := 0x0F, command_id := 0x04\<rparr>;
          same_packets = resp\<lparr>remaining_packets := 0\<rparr>; same_class = same_packets\<lparr>command_class := 0x00\<rparr>
      in check_response req resp = Inl (ResponseMismatch ''remaining_packets'' 0 1) \<and>
         check_response req same_packets = Inl (ResponseMismatch ''command_class'' 0x00 0x0F) \<and>
         check_response req same_class = Inl (ResponseMismatch ''command_id'' 0x84 0x04))"

definition spec_routing_is_checked_before_status :: bool where
  "spec_routing_is_checked_before_status \<longleftrightarrow>
     (let req = cmd_get_device_mode; resp = req\<lparr>status := Failure, command_class := 0x0F\<rparr> in
      case check_response req resp of Inl (ResponseMismatch _ _ _) \<Rightarrow> True | _ \<Rightarrow> False)"

definition spec_exactly_two_status_bytes_are_accepted :: bool where
  "spec_exactly_two_status_bytes_are_accepted \<longleftrightarrow>
     (let req = cmd_get_device_mode in
      list_all (\<lambda>v. let resp = req\<lparr>status := status_from_u8 v\<rparr> in
        (check_response req resp = Inr ()) = (v = 0x01 \<or> v = 0x02)) all_u8)"

lemma boundary_specs:
  "spec_data_size_boundary_is_eighty_inclusive"
  "spec_mismatch_reporting_order_is_packets_then_class_then_id"
  "spec_routing_is_checked_before_status"
  "spec_exactly_two_status_bytes_are_accepted"
  by code_simp+

subsection \<open>Readers\<close>

definition spec_parsers_read_distinct_indices_on_one_fixture :: bool where
  "spec_parsers_read_distinct_indices_on_one_fixture \<longleftrightarrow>
     (let resp = (cmd_get_brightness VarStore Backlight)\<lparr>status := Successful\<rparr>;
          resp = resp\<lparr>arguments := (arguments resp)[0 := 0xA0, 1 := 0xA1, 2 := 0xA2]\<rparr>
      in parse_brightness resp = Inr 0xA2 \<and> parse_firmware_version resp = Inr (0xA0, 0xA1) \<and>
         parse_device_mode resp = Inr (0xA0, 0xA1))"

definition spec_v2_poll_rate_is_read_past_the_declared_data_size :: bool where
  "spec_v2_poll_rate_is_read_past_the_declared_data_size \<longleftrightarrow>
     (let resp = cmd_get_poll_rate_v2; size = data_size resp;
          resp = resp\<lparr>status := Successful, arguments := (arguments resp)[0 := 0x00, 1 := 0x40]\<rparr>
      in size = 0x01 \<and> parse_poll_rate_v2 resp = Inr Hz125 \<and> report_args resp = [0x00])"

definition spec_the_two_poll_rate_encodings_disagree_on_shared_codes :: bool where
  "spec_the_two_poll_rate_encodings_disagree_on_shared_codes \<longleftrightarrow>
     list_all (\<lambda>(code, legacy, v2).
       from_legacy_code code = legacy \<and> from_v2_code code = v2 \<and> legacy \<noteq> v2)
       [(0x01, Some Hz1000, Some Hz8000), (0x02, Some Hz500, Some Hz4000), (0x08, Some Hz125, Some Hz1000)]"

definition spec_poll_rate_code_tables_are_exhaustively_consistent :: bool where
  "spec_poll_rate_code_tables_are_exhaustively_consistent \<longleftrightarrow>
     list_all (\<lambda>code.
       (case from_legacy_code code of
          Some r \<Rightarrow> legacy_code r = Some code
        | None \<Rightarrow> list_all (\<lambda>r. legacy_code r \<noteq> Some code) ALL_RATES) \<and>
       (case from_v2_code code of
          Some r \<Rightarrow> v2_code r = code
        | None \<Rightarrow> list_all (\<lambda>r. v2_code r \<noteq> code) ALL_RATES)) all_u8"

definition spec_serial_respects_the_twenty_two_byte_window :: bool where
  "spec_serial_respects_the_twenty_two_byte_window \<longleftrightarrow>
     (let resp = cmd_get_serial\<lparr>status := Successful\<rparr>;
          junk = replicate ARGS_LEN (of_nat (ord (CHR ''Z'')));
          short = resp\<lparr>arguments := (copy_slice 0 (ascii_bytes ''PM12345'') junk)[7 := 0x00]\<rparr>;
          full = resp\<lparr>arguments := copy_slice 0 (ascii_bytes ''XX1234567890123456789A'') junk\<rparr>;
          ended = resp\<lparr>arguments :=
            copy_slice 0 (ascii_bytes ''XX1234567890123456789'' @ [0]) (replicate ARGS_LEN 0)\<rparr>
      in parse_serial short = Inr ''PM12345'' \<and>
         (case parse_serial full of
            Inl _ \<Rightarrow> False | Inr s \<Rightarrow> s = ''XX1234567890123456789A'' \<and> length s = 22) \<and>
         (case parse_serial ended of
            Inl _ \<Rightarrow> False
          | Inr s \<Rightarrow> s = ''XX1234567890123456789'' \<and> length s = 21 \<and> list_all (\<lambda>c. c \<noteq> CHR 0x00) s \<and>
              s = trim_end s))"

definition spec_firmware_version_decodes_the_documented_pair :: bool where
  "spec_firmware_version_decodes_the_documented_pair \<longleftrightarrow>
     (let resp = cmd_get_firmware_version\<lparr>status := Successful\<rparr>;
          resp = resp\<lparr>arguments := (arguments resp)[0 := 0x01, 1 := 0x0B]\<rparr>;
          full = resp\<lparr>arguments := (arguments resp)[0 := 0xFF, 1 := 0xFF]\<rparr>
      in parse_firmware_version resp = Inr (1, 11) \<and> parse_firmware_version full = Inr (255, 255))"

lemma reader_specs:
  "spec_parsers_read_distinct_indices_on_one_fixture"
  "spec_v2_poll_rate_is_read_past_the_declared_data_size"
  "spec_the_two_poll_rate_encodings_disagree_on_shared_codes"
  "spec_poll_rate_code_tables_are_exhaustively_consistent"
  "spec_serial_respects_the_twenty_two_byte_window"
  "spec_firmware_version_decodes_the_documented_pair"
  by code_simp+

subsection \<open>Structural guarantees\<close>

definition spec_no_constructor_stamps_byte_one_on_the_wire :: bool where
  "spec_no_constructor_stamps_byte_one_on_the_wire \<longleftrightarrow>
     all_built (\<lambda>r. let b = to_bytes r in
         b ! 1 = 0x00 \<and> b ! 0 = 0x00 \<and> [b ! 2, b ! 3] = [0x00, 0x00] \<and> b ! 4 = 0x00 \<and> b ! 89 = 0x00 \<and>
         verify_crc b \<and> unat (b ! 5) \<le> ARGS_LEN)
       [Inr (cmd_set_device_mode Normal), Inr (cmd_set_device_mode Driver), Inr cmd_get_device_mode,
        Inr cmd_get_firmware_version, Inr cmd_get_serial, Inr (cmd_set_brightness VarStore Backlight 0x80),
        Inr (cmd_set_brightness NoStore Zero 0x00), Inr (cmd_get_brightness VarStore Backlight),
        Inr (cmd_set_static_effect VarStore Logo (rgb_new 9 9 9)), Inr (cmd_set_effect_none NoStore ScrollWheel),
        cmd_set_poll_rate_legacy Hz1000, cmd_set_poll_rate_legacy Hz500, cmd_set_poll_rate_legacy Hz125,
        Inr cmd_get_poll_rate_legacy, Inr (cmd_set_poll_rate_v2 Hz8000 0x00), Inr (cmd_set_poll_rate_v2 Hz125 0x01),
        Inr cmd_get_poll_rate_v2]"

definition spec_unrepresentable_legacy_rates_are_refused_not_defaulted :: bool where
  "spec_unrepresentable_legacy_rates_are_refused_not_defaulted \<longleftrightarrow>
     list_all (\<lambda>rate. is_malformed (cmd_set_poll_rate_legacy rate)) [Hz250, Hz2000, Hz4000, Hz8000] \<and>
     (case cmd_set_poll_rate_legacy Hz500 of Inl _ \<Rightarrow> False | Inr r \<Rightarrow> to_bytes r ! 8 = 0x02) \<and>
     (case cmd_set_poll_rate_legacy Hz8000 of Inl _ \<Rightarrow> True | Inr _ \<Rightarrow> False)"

definition spec_status_unknown_is_never_produced_by_decoding :: bool where
  "spec_status_unknown_is_never_produced_by_decoding \<longleftrightarrow>
     list_all (\<lambda>v. let s = status_from_u8 v in
       status_to_u8 s = v \<and>
       (if v \<le> 0x05 then (case s of Unknown _ \<Rightarrow> False | _ \<Rightarrow> True) else s = Unknown v)) all_u8 \<and>
     Unknown 0x02 \<noteq> Successful \<and> \<not> is_ok (Unknown 0x02)"

definition spec_led_and_storage_constants_reach_the_wire :: bool where
  "spec_led_and_storage_constants_reach_the_wire \<longleftrightarrow>
     list_all (\<lambda>(led, byte). to_bytes (cmd_set_brightness VarStore led 0x40) ! 9 = byte)
       [(Zero, 0x00), (ScrollWheel, 0x01), (Logo, 0x04), (Backlight, 0x05)] \<and>
     list_all (\<lambda>(storage, byte). to_bytes (cmd_set_brightness storage Backlight 0x40) ! 8 = byte)
       [(NoStore, 0x00), (VarStore, 0x01)]"

definition spec_direction_bit_matches_every_constructor_name :: bool where
  "spec_direction_bit_matches_every_constructor_name \<longleftrightarrow>
     list_all (\<lambda>r. is_get r \<and> command_id r AND 0x80 = 0x80)
       [cmd_get_device_mode, cmd_get_firmware_version, cmd_get_serial, cmd_get_brightness VarStore Backlight,
        cmd_get_poll_rate_legacy, cmd_get_poll_rate_v2] \<and>
     list_all (\<lambda>r. \<not> is_get r)
       [cmd_set_device_mode Driver, cmd_set_brightness VarStore Backlight 0x10,
        cmd_set_static_effect VarStore Backlight (rgb_new 0 0 0), cmd_set_effect_none VarStore Backlight,
        cmd_set_poll_rate_v2 Hz1000 0x00]"

lemma structural_specs:
  "spec_no_constructor_stamps_byte_one_on_the_wire"
  "spec_unrepresentable_legacy_rates_are_refused_not_defaulted"
  "spec_status_unknown_is_never_produced_by_decoding"
  "spec_led_and_storage_constants_reach_the_wire"
  "spec_direction_bit_matches_every_constructor_name"
  by code_simp+

end
