(* ===== verification/Tests_Table.thy ===== *)
theory Tests_Table
  imports Devices Rust_Text
begin

text \<open>
  The integration tests of the device crate, \<open>crates/razer-devices/tests/table_spec.rs\<close>, translated as
  the unit tests are, with the values written down by hand from the C driver. Left out is the test
  that two calls return the same slice, which compares addresses.
\<close>

definition SPEC_VENDOR_ID :: u16 where "SPEC_VENDOR_ID = 0x1532"
definition SPEC_BASILISK_WIRED :: u16 where "SPEC_BASILISK_WIRED = 0x00AA"
definition SPEC_BASILISK_WIRELESS :: u16 where "SPEC_BASILISK_WIRELESS = 0x00AB"
definition SPEC_BLACKWIDOW :: u16 where "SPEC_BLACKWIDOW = 0x028D"
definition SPEC_MOUSE_WAIT_US :: nat where "SPEC_MOUSE_WAIT_US = 31000"
definition SPEC_KBD_WAIT_US :: nat where "SPEC_KBD_WAIT_US = 600"
definition SPEC_KBD_INDEX :: u8 where "SPEC_KBD_INDEX = 0x03"
definition SPEC_MOUSE_INDEX :: u8 where "SPEC_MOUSE_INDEX = 0x00"
definition SPEC_TXID :: u8 where "SPEC_TXID = 0x1F"
definition C_BUG_TXID :: u8 where "C_BUG_TXID = 0xFF"
definition SPEC_ZERO_LED :: u8 where "SPEC_ZERO_LED = 0x00"
definition SPEC_BACKLIGHT_LED :: u8 where "SPEC_BACKLIGHT_LED = 0x05"
definition KIYO_PRO :: u16 where "KIYO_PRO = 0x0E05"

lemmas spec_values = SPEC_VENDOR_ID_def SPEC_BASILISK_WIRED_def SPEC_BASILISK_WIRELESS_def SPEC_BLACKWIDOW_def
  SPEC_MOUSE_WAIT_US_def SPEC_KBD_WAIT_US_def SPEC_KBD_INDEX_def SPEC_MOUSE_INDEX_def SPEC_TXID_def
  C_BUG_TXID_def SPEC_ZERO_LED_def SPEC_BACKLIGHT_LED_def KIYO_PRO_def

subsection \<open>The shape of the table\<close>

definition spec_vendor_id_is_exactly_the_c_constant :: bool where
  "spec_vendor_id_is_exactly_the_c_constant \<longleftrightarrow>
     VENDOR_ID = SPEC_VENDOR_ID \<and> VENDOR_ID = 0x1532"

definition spec_table_length_is_exactly_three :: bool where
  "spec_table_length_is_exactly_three \<longleftrightarrow>
     length all_devices = 3"

definition spec_table_is_strictly_ascending_by_pid :: bool where
  "spec_table_is_strictly_ascending_by_pid \<longleftrightarrow>
     list_all (\<lambda>(a, b). pid a < pid b) (zip all_devices (tl all_devices))"

definition spec_table_pids_are_exactly_the_expected_set_in_order :: bool where
  "spec_table_pids_are_exactly_the_expected_set_in_order \<longleftrightarrow>
     map pid all_devices = [SPEC_BASILISK_WIRED, SPEC_BASILISK_WIRELESS, SPEC_BLACKWIDOW]"

definition spec_table_names_are_unique :: bool where
  "spec_table_names_are_unique \<longleftrightarrow>
     list_all (\<lambda>i. list_all (\<lambda>j. dev_name (all_devices ! i) \<noteq> dev_name (all_devices ! j))
       [i + 1..<length all_devices]) [0..<length all_devices]"

definition spec_table_holds_one_keyboard_and_two_mice :: bool where
  "spec_table_holds_one_keyboard_and_two_mice \<longleftrightarrow>
     length (filter (\<lambda>e. kind e = Keyboard) all_devices) = 1 \<and>
     length (filter (\<lambda>e. kind e = Mouse) all_devices) = 2"

lemma shape_specs:
  "spec_vendor_id_is_exactly_the_c_constant"
  "spec_table_length_is_exactly_three"
  "spec_table_is_strictly_ascending_by_pid"
  "spec_table_pids_are_exactly_the_expected_set_in_order"
  "spec_table_names_are_unique"
  "spec_table_holds_one_keyboard_and_two_mice"
  by (simp_all add:
      spec_vendor_id_is_exactly_the_c_constant_def spec_table_length_is_exactly_three_def
      spec_table_is_strictly_ascending_by_pid_def
      spec_table_pids_are_exactly_the_expected_set_in_order_def spec_table_names_are_unique_def
      spec_table_holds_one_keyboard_and_two_mice_def all_devices_def TABLE_def device_defs spec_values
      VENDOR_ID_def)

subsection \<open>Every field\<close>

definition spec_blackwidow_v4_pro_every_field_matches_the_c_source :: bool where
  "spec_blackwidow_v4_pro_every_field_matches_the_c_source \<longleftrightarrow>
     (case lookup SPEC_BLACKWIDOW of None \<Rightarrow> False
      | Some e \<Rightarrow>
          pid e = 0x028D \<and> dev_name e = ''Razer BlackWidow V4 Pro'' \<and>
          contains_str ''BlackWidow V4 Pro'' (dev_name e) \<and> kind e = Keyboard \<and>
          dev_transaction_id e = SPEC_TXID \<and> dev_transaction_id e = 0x1F \<and>
          report_index e = SPEC_KBD_INDEX \<and> report_index e = 3 \<and>
          response_index e = SPEC_KBD_INDEX \<and> response_index e = 3 \<and>
          wait e = SPEC_KBD_WAIT_US \<and> wait e = 600 \<and>
          default_led e = SPEC_BACKLIGHT_LED \<and> default_led e = 0x05 \<and> poll_rate_kind e = V2)"

definition spec_basilisk_v3_pro_wired_every_field_matches_the_c_source :: bool where
  "spec_basilisk_v3_pro_wired_every_field_matches_the_c_source \<longleftrightarrow>
     (case lookup SPEC_BASILISK_WIRED of None \<Rightarrow> False
      | Some e \<Rightarrow>
          pid e = 0x00AA \<and> dev_name e = ''Razer Basilisk V3 Pro (Wired)'' \<and>
          contains_str ''Basilisk V3 Pro'' (dev_name e) \<and> contains_str ''Wired'' (dev_name e) \<and>
          \<not> contains_str ''Wireless'' (dev_name e) \<and> kind e = Mouse \<and> dev_transaction_id e = SPEC_TXID \<and>
          report_index e = SPEC_MOUSE_INDEX \<and> response_index e = SPEC_MOUSE_INDEX \<and>
          wait e = SPEC_MOUSE_WAIT_US \<and> wait e = 31000 \<and> default_led e = SPEC_ZERO_LED \<and>
          poll_rate_kind e = Legacy)"

definition spec_basilisk_v3_pro_wireless_every_field_matches_the_c_source :: bool where
  "spec_basilisk_v3_pro_wireless_every_field_matches_the_c_source \<longleftrightarrow>
     (case lookup SPEC_BASILISK_WIRELESS of None \<Rightarrow> False
      | Some e \<Rightarrow>
          pid e = 0x00AB \<and> dev_name e = ''Razer Basilisk V3 Pro (Wireless)'' \<and>
          contains_str ''Basilisk V3 Pro'' (dev_name e) \<and> contains_str ''Wireless'' (dev_name e) \<and>
          kind e = Mouse \<and> dev_transaction_id e = SPEC_TXID \<and>
          report_index e = SPEC_MOUSE_INDEX \<and> response_index e = SPEC_MOUSE_INDEX \<and>
          wait e = SPEC_MOUSE_WAIT_US \<and> default_led e = SPEC_ZERO_LED \<and> poll_rate_kind e = Legacy)"

definition spec_the_two_basilisk_entries_differ_only_in_pid_and_name :: bool where
  "spec_the_two_basilisk_entries_differ_only_in_pid_and_name \<longleftrightarrow>
     (case (lookup SPEC_BASILISK_WIRED, lookup SPEC_BASILISK_WIRELESS) of
        (Some w, Some l) \<Rightarrow>
          pid w \<noteq> pid l \<and> dev_name w \<noteq> dev_name l \<and> kind w = kind l \<and>
          dev_transaction_id w = dev_transaction_id l \<and> report_index w = report_index l \<and>
          response_index w = response_index l \<and> wait w = wait l \<and> default_led w = default_led l \<and>
          capabilities w = capabilities l \<and> poll_rate_kind w = poll_rate_kind l
      | _ \<Rightarrow> False)"

lemma lookups:
  "lookup SPEC_BLACKWIDOW = Some blackwidow_v4_pro" "lookup SPEC_BASILISK_WIRED = Some basilisk_v3_pro_wired"
  "lookup SPEC_BASILISK_WIRELESS = Some basilisk_v3_pro_wireless"
  by (simp_all add: lookup_def TABLE_def device_defs spec_values)

lemma field_specs:
  "spec_blackwidow_v4_pro_every_field_matches_the_c_source"
  "spec_basilisk_v3_pro_wired_every_field_matches_the_c_source"
  "spec_basilisk_v3_pro_wireless_every_field_matches_the_c_source"
  "spec_the_two_basilisk_entries_differ_only_in_pid_and_name"
  by (simp_all add:
      spec_blackwidow_v4_pro_every_field_matches_the_c_source_def
      spec_basilisk_v3_pro_wired_every_field_matches_the_c_source_def
      spec_basilisk_v3_pro_wireless_every_field_matches_the_c_source_def
      spec_the_two_basilisk_entries_differ_only_in_pid_and_name_def lookups)
    (simp_all add: device_defs spec_values ZERO_LED_def BACKLIGHT_LED_def)

subsection \<open>The whole table\<close>

definition spec_every_entry_uses_transaction_id_0x1f :: bool where
  "spec_every_entry_uses_transaction_id_0x1f \<longleftrightarrow>
     list_all (\<lambda>e. dev_transaction_id e = SPEC_TXID) all_devices"

definition spec_no_entry_uses_the_buggy_0xff_transaction_id :: bool where
  "spec_no_entry_uses_the_buggy_0xff_transaction_id \<longleftrightarrow>
     list_all (\<lambda>e. dev_transaction_id e \<noteq> C_BUG_TXID) all_devices"

definition spec_report_index_equals_response_index_for_every_entry :: bool where
  "spec_report_index_equals_response_index_for_every_entry \<longleftrightarrow>
     list_all (\<lambda>e. report_index e = response_index e) all_devices"

definition spec_default_led_matches_device_kind :: bool where
  "spec_default_led_matches_device_kind \<longleftrightarrow>
     list_all (\<lambda>e. let expected = (case kind e of Keyboard \<Rightarrow> SPEC_BACKLIGHT_LED | Mouse \<Rightarrow> SPEC_ZERO_LED) in
       default_led e = expected) all_devices"

definition spec_poll_rate_kind_matches_device_kind :: bool where
  "spec_poll_rate_kind_matches_device_kind \<longleftrightarrow>
     list_all (\<lambda>e. let expected = (case kind e of Keyboard \<Rightarrow> V2 | Mouse \<Rightarrow> Legacy) in
       poll_rate_kind e = expected) all_devices"

definition spec_no_entry_has_a_zero_wait :: bool where
  "spec_no_entry_has_a_zero_wait \<longleftrightarrow>
     list_all (\<lambda>e. wait e > 0) all_devices"

definition spec_lookup_round_trips_every_entry :: bool where
  "spec_lookup_round_trips_every_entry \<longleftrightarrow>
     list_all (\<lambda>e. case lookup (pid e) of None \<Rightarrow> False | Some got \<Rightarrow> pid got = pid e \<and> got = e) all_devices"

definition spec_kiyo_pro_webcam_is_absent :: bool where
  "spec_kiyo_pro_webcam_is_absent \<longleftrightarrow>
     Option.is_none (lookup KIYO_PRO)"

definition spec_neighbouring_and_sentinel_pids_return_none :: bool where
  "spec_neighbouring_and_sentinel_pids_return_none \<longleftrightarrow>
     list_all (\<lambda>p. Option.is_none (lookup p))
       [0x0000, 0xFFFF, 0x028C, 0x028E, 0x00A9, 0x00AC, 0x0E05, 0x00CC, 0x00CD, 0x1532]"

lemma invariant_specs:
  "spec_every_entry_uses_transaction_id_0x1f"
  "spec_no_entry_uses_the_buggy_0xff_transaction_id"
  "spec_report_index_equals_response_index_for_every_entry"
  "spec_default_led_matches_device_kind"
  "spec_poll_rate_kind_matches_device_kind"
  "spec_no_entry_has_a_zero_wait"
  "spec_lookup_round_trips_every_entry"
  "spec_kiyo_pro_webcam_is_absent"
  "spec_neighbouring_and_sentinel_pids_return_none"
  by (simp_all add:
      spec_every_entry_uses_transaction_id_0x1f_def spec_no_entry_uses_the_buggy_0xff_transaction_id_def
      spec_report_index_equals_response_index_for_every_entry_def
      spec_default_led_matches_device_kind_def spec_poll_rate_kind_matches_device_kind_def
      spec_no_entry_has_a_zero_wait_def spec_lookup_round_trips_every_entry_def
      spec_kiyo_pro_webcam_is_absent_def spec_neighbouring_and_sentinel_pids_return_none_def
      all_devices_def lookup_def TABLE_def device_defs spec_values ZERO_LED_def BACKLIGHT_LED_def)

definition spec_exhaustive_sweep_of_the_entire_u16_pid_space :: bool where
  "spec_exhaustive_sweep_of_the_entire_u16_pid_space \<longleftrightarrow>
     (let sweep = map of_nat [0..<2 ^ 16] in
      list_all (\<lambda>p. case lookup p of None \<Rightarrow> True | Some e \<Rightarrow> pid e = p) sweep \<and>
      filter (\<lambda>p. \<not> Option.is_none (lookup p)) sweep
        = [SPEC_BASILISK_WIRED, SPEC_BASILISK_WIRELESS, SPEC_BLACKWIDOW])"

lemma sweep_spec:
  "spec_exhaustive_sweep_of_the_entire_u16_pid_space"
proof -
  have found: "\<not> Option.is_none (lookup p) \<longleftrightarrow> p = 0x00AA \<or> p = 0x00AB \<or> p = 0x028D" for p
    by (simp add: lookup_def TABLE_def device_defs)
  have small: "(of_nat n :: u16) = of_nat k \<longleftrightarrow> n = k" if "n < 65536" "k < 65536" for n k
    using that by (simp add: word_of_nat_eq_iff take_bit_nat_eq_self)
  have "filter (\<lambda>n. n = 170 \<or> n = 171 \<or> n = 653) [0..<65536 :: nat] = [170, 171, 653]"
  proof (rule sorted_distinct_set_unique)
    show "sorted (filter (\<lambda>n. n = 170 \<or> n = 171 \<or> n = 653) [0..<65536 :: nat])"
      by (intro sorted_wrt_filter sorted_upt)
    show "set (filter (\<lambda>n. n = 170 \<or> n = 171 \<or> n = 653) [0..<65536 :: nat]) = set [170, 171, 653]"
      by (auto simp del: upt_rec_numeral)
  qed (simp_all del: upt_rec_numeral)
  moreover have "filter (\<lambda>p. \<not> Option.is_none (lookup p)) (map of_nat [0..<2 ^ 16])
      = map of_nat (filter (\<lambda>n. n = 170 \<or> n = 171 \<or> n = 653) [0..<65536 :: nat])"
    using small [of _ 170] small [of _ 171] small [of _ 653]
    by (auto simp: filter_map found o_def simp del: upt_rec_numeral intro!: arg_cong [of _ _ "map of_nat"] filter_cong)
  moreover have "list_all (\<lambda>p. case lookup p of None \<Rightarrow> True | Some e \<Rightarrow> pid e = p) sweep" for sweep
    by (auto simp: list_all_iff lookup_Some split: option.splits)
  ultimately show ?thesis
    by (simp add: spec_exhaustive_sweep_of_the_entire_u16_pid_space_def spec_values Let_def del: upt_rec_numeral)
qed

subsection \<open>Capabilities\<close>

definition ones :: "u32 \<Rightarrow> nat" where "ones w = length (filter (bit w) [0..<32])"

definition spec_capability_flags_have_exact_pinned_bit_values :: bool where
  "spec_capability_flags_have_exact_pinned_bit_values \<longleftrightarrow>
     bits CAP_NONE = 0b000000 \<and> bits CAP_DEVICE_MODE = 0b000001 \<and> bits CAP_FIRMWARE_VERSION = 0b000010 \<and>
     bits CAP_SERIAL = 0b000100 \<and> bits CAP_BRIGHTNESS = 0b001000 \<and> bits CAP_STATIC_EFFECT = 0b010000 \<and>
     bits CAP_POLL_RATE = 0b100000"

definition spec_all_six_flags_are_distinct_powers_of_two :: bool where
  "spec_all_six_flags_are_distinct_powers_of_two \<longleftrightarrow>
     (let flags = [CAP_DEVICE_MODE, CAP_FIRMWARE_VERSION, CAP_SERIAL, CAP_BRIGHTNESS, CAP_STATIC_EFFECT,
            CAP_POLL_RATE]
      in list_all (\<lambda>f. ones (bits f) = 1) flags \<and>
         list_all (\<lambda>i. list_all (\<lambda>j. bits (flags ! i) \<noteq> bits (flags ! j)) [i + 1..<length flags])
           [0..<length flags])"

definition spec_none_contains_nothing_but_itself :: bool where
  "spec_none_contains_nothing_but_itself \<longleftrightarrow>
     \<not> contains CAP_NONE CAP_SERIAL \<and> \<not> contains CAP_NONE CAP_DEVICE_MODE \<and>
     \<not> contains CAP_NONE CAP_FIRMWARE_VERSION \<and> \<not> contains CAP_NONE CAP_BRIGHTNESS \<and>
     \<not> contains CAP_NONE CAP_STATIC_EFFECT \<and> \<not> contains CAP_NONE CAP_POLL_RATE \<and> contains CAP_NONE CAP_NONE"

definition spec_union_contains_its_members_and_nothing_else :: bool where
  "spec_union_contains_its_members_and_nothing_else \<longleftrightarrow>
     (let c = cap_bitor CAP_SERIAL CAP_BRIGHTNESS in
      contains c CAP_SERIAL \<and> contains c CAP_BRIGHTNESS \<and> contains c (cap_bitor CAP_SERIAL CAP_BRIGHTNESS) \<and>
      \<not> contains c CAP_POLL_RATE \<and> \<not> contains c CAP_DEVICE_MODE \<and> \<not> contains c CAP_FIRMWARE_VERSION \<and>
      \<not> contains c CAP_STATIC_EFFECT \<and> bits c = 0b001100)"

definition spec_union_is_commutative_idempotent_and_absorbs_none :: bool where
  "spec_union_is_commutative_idempotent_and_absorbs_none \<longleftrightarrow>
     (let a = CAP_DEVICE_MODE; b = CAP_POLL_RATE in
      bits (cap_bitor a b) = bits (cap_bitor b a) \<and> bits (cap_bitor a a) = bits a \<and>
      bits (cap_bitor a CAP_NONE) = bits a \<and> bits (cap_union a b) = bits (cap_bitor a b))"

lemma capability_specs:
  "spec_capability_flags_have_exact_pinned_bit_values"
  "spec_all_six_flags_are_distinct_powers_of_two"
  "spec_none_contains_nothing_but_itself"
  "spec_union_contains_its_members_and_nothing_else"
  "spec_union_is_commutative_idempotent_and_absorbs_none"
  by code_simp+

definition spec_contains_is_reflexive_over_every_entry :: bool where
  "spec_contains_is_reflexive_over_every_entry \<longleftrightarrow>
     list_all (\<lambda>e. contains (capabilities e) (capabilities e) \<and> contains (capabilities e) CAP_NONE) all_devices"

definition spec_every_entry_declares_the_six_required_capabilities_by_literal :: bool where
  "spec_every_entry_declares_the_six_required_capabilities_by_literal \<longleftrightarrow>
     list_all (\<lambda>e.
       contains (capabilities e) CAP_DEVICE_MODE \<and> contains (capabilities e) CAP_FIRMWARE_VERSION \<and>
       contains (capabilities e) CAP_SERIAL \<and> contains (capabilities e) CAP_BRIGHTNESS \<and>
       contains (capabilities e) CAP_STATIC_EFFECT \<and> contains (capabilities e) CAP_POLL_RATE) all_devices"

definition spec_no_entry_declares_capabilities_beyond_the_documented_six :: bool where
  "spec_no_entry_declares_capabilities_beyond_the_documented_six \<longleftrightarrow>
     (let known = cap_bitor (cap_bitor (cap_bitor (cap_bitor (cap_bitor CAP_DEVICE_MODE CAP_FIRMWARE_VERSION)
            CAP_SERIAL) CAP_BRIGHTNESS) CAP_STATIC_EFFECT) CAP_POLL_RATE
      in list_all (\<lambda>e. bits (capabilities e) AND NOT (bits known) = 0 \<and> bits (capabilities e) = 0b111111)
           all_devices)"

lemma table_caps: "e \<in> set all_devices \<Longrightarrow> capabilities e = COMMON_CAPS"
  by (auto simp: all_devices_def set_TABLE device_defs)

lemma entry_capability_specs:
  "spec_contains_is_reflexive_over_every_entry"
  "spec_every_entry_declares_the_six_required_capabilities_by_literal"
  "spec_no_entry_declares_capabilities_beyond_the_documented_six"
  by (simp_all add: list_all_iff table_caps Let_def
      spec_contains_is_reflexive_over_every_entry_def
      spec_every_entry_declares_the_six_required_capabilities_by_literal_def
      spec_no_entry_declares_capabilities_beyond_the_documented_six_def COMMON_CAPS_def cap_defs
      contains_def cap_bitor_def cap_union_def)

end
