(* ===== verification/Tests_Adversarial.thy ===== *)
theory Tests_Adversarial
  imports Tests_Session Tests_Hid Session_Device
begin

text \<open>
  The integration tests of the HID crate, \<open>crates/razer-hid/tests/adversarial.rs\<close>, translated as the
  unit tests are: here those on frames, transaction ids, the families of commands and the timing. The
  file brings its own checksum loop, frame builder and a device that echoes every request.
\<close>

subsection \<open>Frames from first principles\<close>

definition BLACKWIDOW_V4_PRO :: u16 where "BLACKWIDOW_V4_PRO = 0x028D"
definition BASILISK_WIRELESS :: u16 where "BASILISK_WIRELESS = 0x00AB"
definition BASILISK_WIRED :: u16 where "BASILISK_WIRED = 0x00AA"

definition required_wait :: "u16 \<Rightarrow> nat option" where
  "required_wait p =
     (if p = BLACKWIDOW_V4_PRO then Some KBD_WAIT
      else if p = BASILISK_WIRED \<or> p = BASILISK_WIRELESS then Some MOUSE_WAIT
      else None)"

text \<open>The loop over the index; \<open>None\<close> is the failed assertion on the length.\<close>

definition c_crc :: "bytes \<Rightarrow> u8 option" where
  "c_crc report =
     (if length report = 90 then Some (foldl (\<lambda>acc i. acc XOR report ! i) 0 [2..<88]) else None)"

definition golden :: "u8 \<Rightarrow> u8 \<Rightarrow> u8 \<Rightarrow> u8 \<Rightarrow> bytes \<Rightarrow> bytes option" where
  "golden tid dsize class cid args =
     (let report = replicate 90 0;
          report = report[0 := 0x00, 1 := tid, 2 := 0x00, 3 := 0x00, 4 := 0x00, 5 := dsize, 6 := class, 7 := cid];
          report = copy_slice 8 args report
      in map_option (\<lambda>c. copy_slice 1 (report[88 := c, 89 := 0x00]) (replicate 91 0)) (c_crc report))"

definition assert_all_frames_valid :: "bytes list \<Rightarrow> bool" where
  "assert_all_frames_valid frames \<longleftrightarrow>
     list_all (\<lambda>buf. buf ! 0 = 0x00 \<and> buf ! 1 = 0x00 \<and> buf ! 5 = 0x00 \<and> buf ! 6 \<le> 80 \<and>
       Some (buf ! 89) = c_crc (drop 1 buf) \<and> buf ! 90 = 0x00) frames"

lemma c_crc_eq: "length bs = 90 \<Longrightarrow> c_crc bs = Some (crc bs)"
proof -
  assume len: "length bs = 90"
  have "take 86 (drop 2 bs) = map ((!) bs) [2..<88]"
    using len by (intro nth_equalityI) (simp_all del: upt_rec_numeral)
  then have "crc bs = foldl (\<lambda>acc b. acc XOR b) 0 (map ((!) bs) [2..<88])"
    by (simp only: crc_eq xor_bytes_def)
  then show ?thesis using len by (simp add: c_crc_def foldl_map del: upt_rec_numeral)
qed

definition valid_buffer :: "bytes \<Rightarrow> bool" where
  "valid_buffer buf \<longleftrightarrow> buf ! 0 = 0x00 \<and> buf ! 1 = 0x00 \<and> buf ! 5 = 0x00 \<and> buf ! 6 \<le> 80 \<and>
     Some (buf ! 89) = c_crc (drop 1 buf) \<and> buf ! 90 = 0x00"

lemma all_valid: "assert_all_frames_valid frames = list_all valid_buffer frames"
  unfolding assert_all_frames_valid_def valid_buffer_def ..

lemma valid_frame [simp]:
  assumes "constructed request"
  shows "valid_buffer (frame tid request)"
proof -
  let ?rep = "with_transaction_id request tid" and ?f = "frame tid request"
  note wf = constructed_wf [OF assms]
  have "wf_report ?rep" using wf by simp
  note bytes = to_bytes_fields [OF this]
  have len: "length (to_bytes ?rep) = 90" using wf by (simp add: REPORT_LEN_def)
  have clean: "status request = New" "protocol_type request = 0" "reserved request = 0"
    "unat (data_size request) \<le> 80"
    using constructed_is_clean [OF assms] by (simp_all add: clean_request_def ARGS_LEN_def)
  have "?f ! 89 = crc (to_bytes ?rep)" "?f ! 90 = 0" "?f ! 1 = 0" "?f ! 5 = 0" "?f ! 6 = data_size request"
    using frame_nth_Suc [of tid request 88] frame_nth_Suc [of tid request 89] frame_nth_Suc [of tid request 0]
      frame_nth_Suc [of tid request 4] frame_nth_Suc [of tid request 5] clean wf
      bytes
    by (simp_all add: with_transaction_id_def)
  moreover have "data_size request \<le> 80" using clean(4) by (simp add: word_le_nat_alt)
  moreover have "drop 1 ?f = to_bytes ?rep" by (simp add: frame_def)
  ultimately show ?thesis using len by (simp add: valid_buffer_def frame_0 c_crc_eq)
qed

subsection \<open>A device that echoes\<close>

text \<open>The payloads of the tests fit the argument array, so the assertion of \<open>with_args\<close> holds.\<close>

record echo_transport =
  echo_sent :: "bytes list"
  reply_args :: bytes
  echo_pending :: "bytes option"

definition echo_new :: "bytes \<Rightarrow> echo_transport" where
  "echo_new args = \<lparr>echo_sent = [], reply_args = args, echo_pending = None\<rparr>"

definition echo_set_feature :: "bytes \<Rightarrow> echo_transport \<Rightarrow> (hid_error + unit) \<times> echo_transport" where
  "echo_set_feature buf t =
     (let t = t\<lparr>echo_sent := echo_sent t @ [buf]\<rparr>;
          request = from_bytes (copy_slice 0 (drop 1 buf) (replicate 90 0));
          response = fill_args (new_report (command_class request) (command_id request) (data_size request))
            (reply_args t);
          response = with_transaction_id response (transaction_id request);
          response = response\<lparr>status := Successful, remaining_packets := remaining_packets request\<rparr>;
          out = copy_slice 1 (to_bytes response) (replicate HIDRAW_BUF_LEN 0)
      in (Inr (), t\<lparr>echo_pending := Some out\<rparr>))"

definition echo_get_feature ::
  "bytes \<Rightarrow> echo_transport \<Rightarrow> ((hid_error + nat) \<times> bytes) \<times> echo_transport" where
  "echo_get_feature buf t =
     (case echo_pending t of
        Some r \<Rightarrow> ((Inr HIDRAW_BUF_LEN, r), t\<lparr>echo_pending := None\<rparr>)
      | None \<Rightarrow> ((Inr 0, buf), t))"

definition echo_io :: "(echo_transport \<times> mock_clock) hid_io" where
  "echo_io =
     \<lparr>set_feature = (\<lambda>buf (t, c). case echo_set_feature buf t of (x, t') \<Rightarrow> (x, t', c)),
      get_feature = (\<lambda>buf (t, c). case echo_get_feature buf t of (x, t') \<Rightarrow> (x, t', c)),
      clock_sleep = (\<lambda>d (t, c). (t, mock_sleep d c))\<rparr>"

text \<open>What it answers, and the transaction with it: one attempt, answered with the payload.\<close>

definition echo_reply :: "u8 \<Rightarrow> razer_report \<Rightarrow> bytes \<Rightarrow> razer_report" where
  "echo_reply tid request args = (ok_reply request args)\<lparr>transaction_id := tid\<rparr>"

definition echo_response :: "u8 \<Rightarrow> razer_report \<Rightarrow> bytes \<Rightarrow> razer_report" where
  "echo_response tid request args = mock_decode (buffer (echo_reply tid request args))"

lemma sendable_echo_reply: "length args \<le> ARGS_LEN \<Longrightarrow> sendable (echo_reply tid request args)"
  using sendable_ok_reply [of args request] by (simp add: echo_reply_def sendable_def wf_report_def)

lemma arguments_echo_response [simp]:
  "length args \<le> ARGS_LEN \<Longrightarrow>
    arguments (echo_response tid request args) = args @ replicate (ARGS_LEN - length args) 0"
  using sendable_echo_reply [of args tid request]
  by (simp add: echo_response_def decode_buffer) (simp add: echo_reply_def)

lemma echo_set_decoded:
  assumes "mock_decode buf = request\<lparr>transaction_id := tid, crc_byte := x\<rparr>"
    and "wf_report (echo_reply tid request (reply_args t))"
  shows "echo_set_feature buf t = (Inr (), t\<lparr>echo_sent := echo_sent t @ [buf],
    echo_pending := Some (buffer (echo_reply tid request (reply_args t)))\<rparr>)"
proof -
  have "copy_slice 1 (to_bytes (echo_reply tid request (reply_args t))) (replicate HIDRAW_BUF_LEN 0)
      = buffer (echo_reply tid request (reply_args t))"
    using assms(2)
    by (simp add: buffer_def copy_slice_def REPORT_LEN_def HIDRAW_BUF_LEN_def take_Suc_conv_app_nth)
  moreover have "fill_args (new_report (command_class request) (command_id request) (data_size request)) args
      \<lparr>transaction_id := tid, status := Successful, remaining_packets := remaining_packets request\<rparr>
      = echo_reply tid request args" for args
    by (rule razer_report.equality) (simp_all add: echo_reply_def ok_reply_def)
  ultimately show ?thesis
    unfolding echo_set_feature_def mock_decode_def [symmetric] assms(1)
    by (simp add: with_transaction_id_def Let_def)
qed

lemma echo_set:
  assumes "constructed request" and "length (reply_args t) \<le> ARGS_LEN"
  shows "set_feature echo_io (frame tid request) (t, c)
    = (Inr (), t\<lparr>echo_sent := echo_sent t @ [frame tid request],
         echo_pending := Some (buffer (echo_reply tid request (reply_args t)))\<rparr>, c)"
proof -
  obtain x where dec: "mock_decode (frame tid request) = request\<lparr>transaction_id := tid, crc_byte := x\<rparr>"
    using assms(1) by (rule decoded_frame)
  have "wf_report (echo_reply tid request (reply_args t))"
    using sendable_echo_reply [OF assms(2)] by (simp add: sendable_def)
  then show ?thesis by (simp add: echo_io_def echo_set_decoded [OF dec])
qed

lemma echo_accepted:
  assumes "constructed request" and "length args \<le> ARGS_LEN"
  shows "check_response request (echo_response tid request args) = Inr ()"
proof -
  have "unat (data_size request) \<le> ARGS_LEN"
    using constructed_is_clean [OF assms(1)] by (simp add: clean_request_def)
  then show ?thesis
    using sendable_echo_reply [OF assms(2), of tid request]
    by (simp add: echo_response_def check_buffer check_response_ok) (simp add: echo_reply_def is_ok_def)
qed

lemma echo_exchange:
  assumes "constructed request" and "io s = (t, c)" and "length (reply_args t) \<le> ARGS_LEN"
  shows "transact_raw echo_io request s = (Inr (echo_response (sess_tid s) request (reply_args t)),
    s\<lparr>io := (t\<lparr>echo_sent := echo_sent t @ [frame (sess_tid s) request], echo_pending := None\<rparr>,
      mock_sleep (wait (entry s)) c)\<rparr>)"
  using assms(2) echo_set [OF assms(1,3), of "sess_tid s" c]
  unfolding transact_raw_def send_frame [OF constructed_wf [OF assms(1)] constructed_check_request [OF assms(1)]]
  by (simp add: receive_def echo_io_def echo_get_feature_def received_decode echo_response_def)

lemma echo_transact:
  assumes "constructed request" and "io s = (t, c)" and "length (reply_args t) \<le> ARGS_LEN"
  shows "transact echo_io request s = (Inr (echo_response (sess_tid s) request (reply_args t)),
    s\<lparr>io := (t\<lparr>echo_sent := echo_sent t @ [frame (sess_tid s) request], echo_pending := None\<rparr>,
        mock_sleep (wait (entry s)) c),
      last_attempts := 1,
      last_response_tid := Some (transaction_id (echo_response (sess_tid s) request (reply_args t)))\<rparr>)"
  using echo_exchange [OF assms(1), of "s\<lparr>last_attempts := 1\<rparr>" t c] assms
    transact_accepted [OF _ echo_accepted [OF assms(1,3)], of echo_io s "sess_tid s"]
  by simp

subsection \<open>The transaction id of every command\<close>

text \<open>\<open>expect\<close> and \<open>expect_err\<close>: the other case is a panic, so the test fails.\<close>

definition expect :: "('e + 'a) \<times> 's \<Rightarrow> ('a \<Rightarrow> 's \<Rightarrow> bool) \<Rightarrow> bool" where
  "expect p body = (case p of (Inl _, _) \<Rightarrow> False | (Inr v, s) \<Rightarrow> body v s)"

definition expect_err :: "('e + 'a) \<times> 's \<Rightarrow> ('e \<Rightarrow> 's \<Rightarrow> bool) \<Rightarrow> bool" where
  "expect_err p body = (case p of (Inl e, s) \<Rightarrow> body e s | (Inr _, _) \<Rightarrow> False)"

type_synonym echo_session = "(echo_transport \<times> mock_clock) session"

definition echoing :: "device_entry \<Rightarrow> bytes \<Rightarrow> echo_session" where
  "echoing e args = session_new e (echo_new args, mock_clock_new)"

definition with_echo :: "u16 \<Rightarrow> bytes \<Rightarrow> (echo_session \<Rightarrow> bool) \<Rightarrow> bool" where
  "with_echo p args body = (case lookup p of None \<Rightarrow> False | Some e \<Rightarrow> body (echoing e args))"

definition echo_frames :: "echo_session \<Rightarrow> bytes list" where
  "echo_frames s = echo_sent (fst (io s))"

definition wide_reply :: bytes where
  "wide_reply = (replicate 24 0)[0 := 0x01, 1 := 0x08, 2 := 0x40]"

definition spec_no_command_on_any_device_ever_emits_a_transaction_id_other_than_the_tables :: bool where
  "spec_no_command_on_any_device_ever_emits_a_transaction_id_other_than_the_tables \<longleftrightarrow>
     list_all (\<lambda>e. let expected = dev_transaction_id e in
       expected = 0x1F \<and>
       expect (set_device_mode echo_io Driver (echoing e wide_reply)) (\<lambda>_ s.
       expect (get_device_mode echo_io s) (\<lambda>_ s.
       expect (firmware_version echo_io s) (\<lambda>_ s.
       expect (serial echo_io s) (\<lambda>_ s.
       expect (set_brightness echo_io 0x40 s) (\<lambda>_ s.
       expect (get_brightness echo_io s) (\<lambda>_ s.
       expect (set_static_effect echo_io (rgb_new 0x11 0x22 0x33) s) (\<lambda>_ s.
       expect (set_poll_rate echo_io Hz1000 s) (\<lambda>_ s.
       expect (get_poll_rate echo_io s) (\<lambda>_ s.
         length (echo_frames s) = 9 \<and>
         list_all (\<lambda>buf. buf ! 2 = expected \<and> buf ! 2 \<noteq> 0xFF \<and> buf ! 2 \<noteq> 0x00) (echo_frames s) \<and>
         assert_all_frames_valid (echo_frames s)))))))))))
       all_devices"

lemma echo_eval:
  assumes "constructed request" and "length (reply_args (fst (io s))) \<le> ARGS_LEN"
  shows "transact echo_io request s = (Inr (echo_response (sess_tid s) request (reply_args (fst (io s)))),
    s\<lparr>io := ((fst (io s))\<lparr>echo_sent := echo_sent (fst (io s)) @ [frame (sess_tid s) request],
          echo_pending := None\<rparr>, mock_sleep (wait (entry s)) (snd (io s))),
      last_attempts := 1,
      last_response_tid := Some (transaction_id (echo_response (sess_tid s) request (reply_args (fst (io s)))))\<rparr>)"
  using assms by (intro echo_transact) simp_all

lemma echoing_fields [simp]:
  "entry (echoing e args) = e" "sess_tid (echoing e args) = dev_transaction_id e"
  "fst (io (echoing e args)) = echo_new args" "snd (io (echoing e args)) = mock_clock_new"
  "reply_args (echo_new args) = args" "echo_sent (echo_new args) = []"
  by (simp_all add: echoing_def echo_new_def)

lemma wired_fields [simp]:
  "poll_rate_kind basilisk_v3_pro_wired = Legacy"
  by (simp_all add: device_defs)

lemma led_wired: "entry s = basilisk_v3_pro_wired \<Longrightarrow> led s = Inr Zero"
  by (simp add: led_def device_defs ZERO_LED_def)

text \<open>The body of a test is evaluated only once the operation has been.\<close>

lemma expect_congs [cong]:
  "p = p' \<Longrightarrow> expect p body = expect p' body" "p = p' \<Longrightarrow> expect_err p check = expect_err p' check"
  "q = q' \<Longrightarrow> with_echo q args k = with_echo q' args k"
  by simp_all

lemma expect_simps [simp]:
  "expect (Inr v, t) body = body v t" "expect (Inl e, t) body = False"
  "expect_err (Inl e, t) check = check e t" "expect_err (Inr v, t) check = False"
  by (simp_all add: expect_def expect_err_def)

lemma legacy_codes:
  "cmd_set_poll_rate_legacy Hz1000 = Inr (fill_args (new_report 0x00 0x05 0x01) [0x01])"
  "cmd_set_poll_rate_legacy Hz500 = Inr (fill_args (new_report 0x00 0x05 0x01) [0x02])"
  by (simp_all add: legacy_request)

lemma legacy_constructed_500 [simp]: "constructed (fill_args (new_report 0 5 1) [2])"
  using constructed.intros(9) [OF legacy_codes(2)] by simp

lemmas echo_run = echo_eval session_defs require_table led_table led_wired legacy_codes ARGS_LEN_def
  parse_serial_def parse_device_mode_def parse_firmware_version_def parse_brightness_def
  parse_poll_rate_v2_def parse_poll_rate_legacy_def from_v2_code_def from_legacy_code_def

lemma transaction_id_spec:
  "spec_no_command_on_any_device_ever_emits_a_transaction_id_other_than_the_tables"
proof -
  have args: "wide_reply = [0x01, 0x08, 0x40, 0, 0, 0, 0, 0, 0, 0, 0, 0, 0, 0, 0, 0, 0, 0, 0, 0, 0, 0, 0, 0]"
    by (simp add: wide_reply_def)
  show ?thesis
    by (simp add: spec_no_command_on_any_device_ever_emits_a_transaction_id_other_than_the_tables_def
        all_devices_def TABLE_def echo_run args echo_frames_def frame_nth_2 constructed_wf all_valid)
qed

definition spec_set_device_mode_frames_match_a_hand_built_golden_buffer :: bool where
  "spec_set_device_mode_frames_match_a_hand_built_golden_buffer \<longleftrightarrow>
     list_all (\<lambda>(mode, mode_byte). with_session BLACKWIDOW_V4_PRO mock_transport_new (\<lambda>s.
       expect (send mock_io (cmd_set_device_mode mode) s) (\<lambda>_ s.
         Some (sent (transport s) ! 0) = golden 0x1F 0x02 0x00 0x04 [mode_byte, 0x00])))
       [(Normal, 0x00), (Driver, 0x03)]"

definition spec_every_command_family_matches_a_hand_built_golden_buffer :: bool where
  "spec_every_command_family_matches_a_hand_built_golden_buffer \<longleftrightarrow>
     list_all (\<lambda>(p, request, want).
       case request of
         Inl _ \<Rightarrow> False
       | Inr request \<Rightarrow> with_session p mock_transport_new (\<lambda>s.
           expect (send mock_io request s) (\<lambda>_ s. Some (sent (transport s) ! 0) = want)))
       [(BLACKWIDOW_V4_PRO, Inr cmd_get_firmware_version, golden 0x1F 0x02 0x00 0x81 []),
        (BLACKWIDOW_V4_PRO, Inr cmd_get_serial, golden 0x1F 0x16 0x00 0x82 []),
        (BLACKWIDOW_V4_PRO, Inr (cmd_set_brightness VarStore Backlight 0x80),
         golden 0x1F 0x03 0x0F 0x04 [0x01, 0x05, 0x80]),
        (BASILISK_WIRELESS, Inr (cmd_set_brightness VarStore Zero 0x80),
         golden 0x1F 0x03 0x0F 0x04 [0x01, 0x00, 0x80]),
        (BLACKWIDOW_V4_PRO, Inr (cmd_set_static_effect VarStore Backlight (rgb_new 0xFF 0 0)),
         golden 0x1F 0x09 0x0F 0x02 [0x01, 0x05, 0x01, 0x00, 0x00, 0x01, 0xFF, 0x00, 0x00]),
        (BLACKWIDOW_V4_PRO, Inr (cmd_set_poll_rate_v2 Hz8000 0x00), golden 0x1F 0x02 0x00 0x40 [0x00, 0x01]),
        (BLACKWIDOW_V4_PRO, Inr cmd_get_poll_rate_v2, golden 0x1F 0x01 0x00 0xC0 []),
        (BASILISK_WIRELESS, cmd_set_poll_rate_legacy Hz125, golden 0x1F 0x01 0x00 0x05 [0x08]),
        (BASILISK_WIRELESS, Inr cmd_get_poll_rate_legacy, golden 0x1F 0x01 0x00 0x85 [])]"

lemma golden_frames:
  "golden 0x1F 0x02 0x00 0x04 [0x00, 0x00] = Some (frame 0x1F (cmd_set_device_mode Normal))"
  "golden 0x1F 0x02 0x00 0x04 [0x03, 0x00] = Some (frame 0x1F (cmd_set_device_mode Driver))"
  "golden 0x1F 0x02 0x00 0x81 [] = Some (frame 0x1F cmd_get_firmware_version)"
  "golden 0x1F 0x16 0x00 0x82 [] = Some (frame 0x1F cmd_get_serial)"
  "golden 0x1F 0x03 0x0F 0x04 [0x01, 0x05, 0x80] = Some (frame 0x1F (cmd_set_brightness VarStore Backlight 0x80))"
  "golden 0x1F 0x03 0x0F 0x04 [0x01, 0x00, 0x80] = Some (frame 0x1F (cmd_set_brightness VarStore Zero 0x80))"
  "golden 0x1F 0x09 0x0F 0x02 [0x01, 0x05, 0x01, 0x00, 0x00, 0x01, 0xFF, 0x00, 0x00]
     = Some (frame 0x1F (cmd_set_static_effect VarStore Backlight (rgb_new 0xFF 0 0)))"
  "golden 0x1F 0x02 0x00 0x40 [0x00, 0x01] = Some (frame 0x1F (cmd_set_poll_rate_v2 Hz8000 0x00))"
  "golden 0x1F 0x01 0x00 0xC0 [] = Some (frame 0x1F cmd_get_poll_rate_v2)"
  "golden 0x1F 0x01 0x00 0x05 [0x08] = Some (frame 0x1F (fill_args (new_report 0x00 0x05 0x01) [0x08]))"
  "golden 0x1F 0x01 0x00 0x85 [] = Some (frame 0x1F cmd_get_poll_rate_legacy)"
  by code_simp+

lemma legacy_125: "cmd_set_poll_rate_legacy Hz125 = Inr (fill_args (new_report 0x00 0x05 0x01) [0x08])"
  by (simp add: legacy_request)

lemma legacy_constructed_125 [simp]: "constructed (fill_args (new_report 0 5 1) [8])"
  using constructed.intros(9) [OF legacy_125] by simp

lemmas pids = BLACKWIDOW_V4_PRO_def BASILISK_WIRELESS_def BASILISK_WIRED_def

lemmas sent_eval = with_session_def entries transport_def clock_def pids mock_send all_valid

lemma golden_buffer_specs:
  "spec_set_device_mode_frames_match_a_hand_built_golden_buffer"
  "spec_every_command_family_matches_a_hand_built_golden_buffer"
  by (simp_all add: spec_set_device_mode_frames_match_a_hand_built_golden_buffer_def sent_eval legacy_125
      spec_every_command_family_matches_a_hand_built_golden_buffer_def golden_frames [simplified])

subsection \<open>The polling rate family and the lamp, both ways\<close>

definition spec_get_poll_rate_uses_the_right_command_id_for_each_family :: bool where
  "spec_get_poll_rate_uses_the_right_command_id_for_each_family \<longleftrightarrow>
     with_echo BLACKWIDOW_V4_PRO [0xFF, 0x08] (\<lambda>s. expect (get_poll_rate echo_io s) (\<lambda>rate s.
       let f = echo_frames s ! 0 in f ! 7 = 0x00 \<and> f ! 8 = 0xC0 \<and> f ! 6 = 0x01 \<and> rate = Hz1000)) \<and>
     list_all (\<lambda>p. with_echo p [0x08, 0xFF] (\<lambda>s. expect (get_poll_rate echo_io s) (\<lambda>rate s.
       let f = echo_frames s ! 0 in f ! 8 = 0x85 \<and> f ! 6 = 0x01 \<and> rate = Hz125)))
       [BASILISK_WIRED, BASILISK_WIRELESS]"

definition spec_the_wired_basilisk_uses_the_legacy_poll_rate_family_too :: bool where
  "spec_the_wired_basilisk_uses_the_legacy_poll_rate_family_too \<longleftrightarrow>
     with_echo BASILISK_WIRED [0x02] (\<lambda>s. expect (set_poll_rate echo_io Hz500 s) (\<lambda>_ s.
       let f = echo_frames s ! 0 in f ! 7 = 0x00 \<and> f ! 8 = 0x05 \<and> f ! 6 = 0x01 \<and> f ! 9 = 0x02))"

definition spec_get_brightness_uses_the_devices_own_led_id :: bool where
  "spec_get_brightness_uses_the_devices_own_led_id \<longleftrightarrow>
     list_all (\<lambda>(p, lamp). with_echo p [0x01, lamp, 0x33] (\<lambda>s. expect (get_brightness echo_io s) (\<lambda>got s.
       let f = echo_frames s ! 0 in
       f ! 7 = 0x0F \<and> f ! 8 = 0x84 \<and> f ! 9 = 0x01 \<and> f ! 10 = lamp \<and> got = 0x33)))
       [(BLACKWIDOW_V4_PRO, 0x05), (BASILISK_WIRELESS, 0x00), (BASILISK_WIRED, 0x00)]"

lemma frame_payload:
  assumes "wf_report request"
  shows "frame tid request ! 6 = data_size request" "frame tid request ! 7 = command_class request"
    "frame tid request ! 8 = command_id request" "frame tid request ! 9 = arguments request ! 0"
    "frame tid request ! 10 = arguments request ! Suc 0"
  using frame_bytes(2,3) [OF assms] frame_bytes(4) [OF assms, of 0] frame_bytes(4) [OF assms, of 1]
    frame_nth_Suc [of tid request 5] to_bytes_fields(6) [of "with_transaction_id request tid"] assms
  by (simp_all add: with_transaction_id_def wf_report_def)

lemma poll_rate_specs:
  "spec_get_poll_rate_uses_the_right_command_id_for_each_family"
  "spec_the_wired_basilisk_uses_the_legacy_poll_rate_family_too"
  "spec_get_brightness_uses_the_devices_own_led_id"
  by (simp_all add: spec_get_poll_rate_uses_the_right_command_id_for_each_family_def with_echo_def entries pids
      spec_the_wired_basilisk_uses_the_legacy_poll_rate_family_too_def echo_run echo_frames_def frame_payload
      spec_get_brightness_uses_the_devices_own_led_id_def constructed_wf Let_def)
    (simp_all add: cmd_defs fill_args_new ARGS_LEN_def)

subsection \<open>Timing\<close>

definition spec_the_wired_basilisk_also_waits_31ms :: bool where
  "spec_the_wired_basilisk_also_waits_31ms \<longleftrightarrow>
     with_session BASILISK_WIRED mock_transport_new (\<lambda>s.
       expect (send mock_io (cmd_set_device_mode Driver) s) (\<lambda>_ s. sleeps (clock s) = [MOUSE_WAIT]))"

definition spec_every_device_waits_its_own_documented_interval :: bool where
  "spec_every_device_waits_its_own_documented_interval \<longleftrightarrow>
     list_all (\<lambda>e. expect (send mock_io cmd_get_firmware_version (session_new e (mock_transport_new, mock_clock_new)))
       (\<lambda>_ s. map Some (sleeps (clock s)) = [required_wait (pid e)])) all_devices"

definition spec_the_retry_schedule_interleaves_device_waits_and_retry_delays :: bool where
  "spec_the_retry_schedule_interleaves_device_waits_and_retry_delays \<longleftrightarrow>
     (let request = cmd_get_firmware_version;
          wrong = map_option (\<lambda>r. r\<lparr>status := Successful\<rparr>)
            (with_args (new_report 0x0F (command_id request) (data_size request)) [0x01, 0x02])
      in with_responses (replicate MAX_ATTEMPTS wrong) (\<lambda>t. with_session BLACKWIDOW_V4_PRO t (\<lambda>s.
           expect_err (transact mock_io request s) (\<lambda>err s.
             (case err of RetriesExhausted _ \<Rightarrow> True | _ \<Rightarrow> False) \<and>
             sleeps (clock s) = [KBD_WAIT, RETRY_DELAY, KBD_WAIT, RETRY_DELAY, KBD_WAIT, RETRY_DELAY, KBD_WAIT,
               RETRY_DELAY, KBD_WAIT] \<and>
             length (sent (transport s)) = MAX_ATTEMPTS \<and> assert_all_frames_valid (sent (transport s))))))"

definition spec_a_mismatched_remaining_packets_is_rejected_and_retried :: bool where
  "spec_a_mismatched_remaining_packets_is_rejected_and_retried \<longleftrightarrow>
     (let request = cmd_get_firmware_version;
          wrong = (new_report (command_class request) (command_id request) (data_size request))
            \<lparr>status := Successful, remaining_packets := 1\<rparr>
      in with_responses (replicate MAX_ATTEMPTS (Some wrong)) (\<lambda>t. with_session BLACKWIDOW_V4_PRO t (\<lambda>s.
           expect_err (transact mock_io request s) (\<lambda>err s.
             (case err of RetriesExhausted _ \<Rightarrow> True | _ \<Rightarrow> False) \<and> length (sent (transport s)) = MAX_ATTEMPTS))))"

definition spec_only_successful_and_busy_count_as_success :: bool where
  "spec_only_successful_and_busy_count_as_success \<longleftrightarrow>
     list_all (\<lambda>st.
       let request = cmd_get_firmware_version;
           r = (new_report (command_class request) (command_id request) (data_size request))\<lparr>status := st\<rparr>
       in with_responses (replicate MAX_ATTEMPTS (Some r)) (\<lambda>t. with_session BLACKWIDOW_V4_PRO t (\<lambda>s.
            expect_err (transact mock_io request s) (\<lambda>err s.
              (case err of RetriesExhausted _ \<Rightarrow> True | _ \<Rightarrow> False) \<and> length (sent (transport s)) = MAX_ATTEMPTS))))
       [Timeout, NotSupported, New]"

lemma sendable_new [simp]:
  "canonical_status st \<Longrightarrow> sendable ((new_report c i n)\<lparr>status := st\<rparr>)"
  "canonical_status st \<Longrightarrow> sendable ((new_report c i n)\<lparr>status := st, remaining_packets := k\<rparr>)"
  "canonical_status st \<Longrightarrow> length xs \<le> ARGS_LEN \<Longrightarrow> sendable ((fill_args (new_report c i n) xs)\<lparr>status := st\<rparr>)"
  by (simp_all add: sendable_def wf_report_def fill_args_new)

lemma expect_eq:
  "expect p body = (case fst p of Inl _ \<Rightarrow> False | Inr v \<Rightarrow> body v (snd p))"
  "expect_err p check = (case fst p of Inl e \<Rightarrow> check e (snd p) | Inr _ \<Rightarrow> False)"
  by (simp_all add: expect_def expect_err_def split_def)

lemma timing_specs:
  "spec_the_wired_basilisk_also_waits_31ms" "spec_every_device_waits_its_own_documented_interval"
  by (simp_all add: spec_the_wired_basilisk_also_waits_31ms_def spec_every_device_waits_its_own_documented_interval_def
      sent_eval MOUSE_WAIT_def KBD_WAIT_def required_wait_def all_devices_def TABLE_def)
    (simp_all add: device_defs)

lemma retry_specs:
  "spec_the_retry_schedule_interleaves_device_waits_and_retry_delays"
  "spec_a_mismatched_remaining_packets_is_rejected_and_retried" "spec_only_successful_and_busy_count_as_success"
  by (simp_all add: spec_the_retry_schedule_interleaves_device_waits_and_retry_delays_def queue_eval pids all_valid
      spec_a_mismatched_remaining_packets_is_rejected_and_retried_def expect_eq with_args_def
      spec_only_successful_and_busy_count_as_success_def)

end
