(* ===== verification/Tests_Adversarial_Faults.thy ===== *)
theory Tests_Adversarial_Faults
  imports Tests_Adversarial
begin

text \<open>
  The rest of \<open>crates/razer-hid/tests/adversarial.rs\<close>: a device whose reads fail, a file system that
  cannot be read, the guards and the outbound check. Left out are the assertions on elapsed wall time.
\<close>

subsection \<open>Transport failures\<close>

text \<open>A device whose read returns a given byte count or \<open>errno\<close>.\<close>

record faulty_transport =
  faulty_sent :: nat
  faulty_result :: "int + nat"

definition faulty_set_feature :: "bytes \<Rightarrow> faulty_transport \<Rightarrow> (hid_error + unit) \<times> faulty_transport" where
  "faulty_set_feature buf t = (Inr (), t\<lparr>faulty_sent := faulty_sent t + 1\<rparr>)"

definition faulty_get_feature ::
  "bytes \<Rightarrow> faulty_transport \<Rightarrow> ((hid_error + nat) \<times> bytes) \<times> faulty_transport" where
  "faulty_get_feature buf t =
     (case faulty_result t of
        Inr n \<Rightarrow> ((Inr n, buf), t)
      | Inl errno \<Rightarrow> ((Inl (Io ''HIDIOCGFEATURE'' errno), buf), t))"

definition faulty_io :: "(faulty_transport \<times> mock_clock) hid_io" where
  "faulty_io =
     \<lparr>set_feature = (\<lambda>buf (t, c). case faulty_set_feature buf t of (x, t') \<Rightarrow> (x, t', c)),
      get_feature = (\<lambda>buf (t, c). case faulty_get_feature buf t of (x, t') \<Rightarrow> (x, t', c)),
      clock_sleep = (\<lambda>d (t, c). (t, mock_sleep d c))\<rparr>"

definition with_faulty ::
  "int + nat \<Rightarrow> ((faulty_transport \<times> mock_clock) session \<Rightarrow> bool) \<Rightarrow> bool" where
  "with_faulty result body =
     (case lookup BLACKWIDOW_V4_PRO of
        None \<Rightarrow> False
      | Some e \<Rightarrow> body (session_new e (\<lparr>faulty_sent = 0, faulty_result = result\<rparr>, mock_clock_new)))"

definition spec_a_ninety_byte_feature_read_is_still_a_short_read :: bool where
  "spec_a_ninety_byte_feature_read_is_still_a_short_read \<longleftrightarrow>
     list_all (\<lambda>got. with_faulty (Inr got) (\<lambda>s.
       expect_err (transact_raw faulty_io cmd_get_firmware_version s) (\<lambda>err _.
         case err of ShortRead reported \<Rightarrow> reported = got | _ \<Rightarrow> False))) [0, 1, 45, 89, 90]"

definition spec_a_full_length_feature_read_is_accepted :: bool where
  "spec_a_full_length_feature_read_is_accepted \<longleftrightarrow>
     with_echo BLACKWIDOW_V4_PRO [0x01, 0x0B] (\<lambda>s.
       expect (transact_raw echo_io cmd_get_firmware_version s) (\<lambda>response _.
         arguments response ! 0 = 0x01 \<and> arguments response ! 1 = 0x0B))"

definition spec_a_failing_get_feature_surfaces_the_errno_and_the_right_op :: bool where
  "spec_a_failing_get_feature_surfaces_the_errno_and_the_right_op \<longleftrightarrow>
     with_faulty (Inl 13) (\<lambda>s.
       expect_err (transact faulty_io cmd_get_firmware_version s) (\<lambda>err s.
         (case err of Io oper errno \<Rightarrow> oper = ''HIDIOCGFEATURE'' \<and> errno = 13 | _ \<Rightarrow> False) \<and>
         faulty_sent (fst (io s)) = 1))"

definition spec_a_short_read_is_not_retried :: bool where
  "spec_a_short_read_is_not_retried \<longleftrightarrow>
     with_faulty (Inr 0) (\<lambda>s.
       expect_err (transact faulty_io cmd_get_firmware_version s) (\<lambda>err s.
         (case err of ShortRead _ \<Rightarrow> True | _ \<Rightarrow> False) \<and> faulty_sent (fst (io s)) = 1 \<and>
         \<not> List.member (sleeps (snd (io s))) RETRY_DELAY))"

lemma faulty_exchange:
  assumes "constructed request" and "io s = (t, c)"
    and "case faulty_result t of Inl _ \<Rightarrow> True | Inr n \<Rightarrow> n < HIDRAW_BUF_LEN"
  shows "transact_raw faulty_io request s =
    (Inl (case faulty_result t of Inl errno \<Rightarrow> Io ''HIDIOCGFEATURE'' errno | Inr n \<Rightarrow> ShortRead n),
     s\<lparr>io := (t\<lparr>faulty_sent := faulty_sent t + 1\<rparr>, mock_sleep (wait (entry s)) c)\<rparr>)"
  using assms(2,3)
  unfolding transact_raw_def send_frame [OF constructed_wf [OF assms(1)] constructed_check_request [OF assms(1)]]
  by (auto simp: faulty_io_def faulty_set_feature_def faulty_get_feature_def receive_def split: sum.splits)

lemma with_faulty_eq:
  "with_faulty result body =
    body (session_new blackwidow_v4_pro (\<lparr>faulty_sent = 0, faulty_result = result\<rparr>, mock_clock_new))"
  by (simp add: with_faulty_def pids entries)

lemma faulty_read_spec: "spec_a_ninety_byte_feature_read_is_still_a_short_read"
  by (simp add: spec_a_ninety_byte_feature_read_is_still_a_short_read_def with_faulty_eq faulty_exchange
      HIDRAW_BUF_LEN_def)

lemma full_read_spec: "spec_a_full_length_feature_read_is_accepted"
proof -
  obtain e where e: "lookup BLACKWIDOW_V4_PRO = Some e" by (simp add: pids entries)
  have io: "io (echoing e [0x01, 0x0B]) = (echo_new [0x01, 0x0B], mock_clock_new)"
    by (simp add: echoing_def)
  show ?thesis
    by (simp add: spec_a_full_length_feature_read_is_accepted_def with_echo_def e
        echo_exchange [OF constructed_cmd(3) io] ARGS_LEN_def)
qed

lemma faulty_transact_specs:
  "spec_a_failing_get_feature_surfaces_the_errno_and_the_right_op" "spec_a_short_read_is_not_retried"
  using transact_failed [OF faulty_exchange [OF constructed_cmd(3)]]
  by (simp_all add: spec_a_failing_get_feature_surfaces_the_errno_and_the_right_op_def
      spec_a_short_read_is_not_retried_def with_faulty_eq HIDRAW_BUF_LEN_def RETRY_DELAY_def)

subsection \<open>Enumeration\<close>

definition adv_info :: "u16 \<Rightarrow> u16 \<Rightarrow> u8 \<Rightarrow> u8 \<Rightarrow> usb_interface_info" where
  "adv_info vid p iface proto =
     \<lparr>info_vendor_id = vid, info_product_id = p, interface_number = iface, interface_protocol = proto\<rparr>"

text \<open>A \<open>/sys\<close> that cannot be read.\<close>

definition broken_sysfs :: "bool \<Rightarrow> sysfs_source" where
  "broken_sysfs fail_listing =
     \<lparr>hidraw_names = (if fail_listing then Inl (Io ''read_dir(/sys/class/hidraw)'' 13) else Inr [''hidraw0'']),
      interface_info = (\<lambda>_. Inl (Sysfs (''idProduct: '' @ [CHR 0x22] @ ''zz'' @ [CHR 0x22] @ '' is not hex''))),
      device_path = path_join ''/dev''\<rparr>"

definition spec_a_foreign_vendor_sharing_the_product_id_is_not_matched :: bool where
  "spec_a_foreign_vendor_sharing_the_product_id_is_not_matched \<longleftrightarrow>
     (let nodes = with_node (with_node mock_sysfs_new ''hidraw0'' (adv_info 0x046D BLACKWIDOW_V4_PRO 3 0x02))
            ''hidraw1'' (adv_info 0x0000 BLACKWIDOW_V4_PRO 3 0x02);
          razer = with_node nodes ''hidraw2'' (adv_info RAZER BLACKWIDOW_V4_PRO 3 0x02)
      in (case find_device (mock_source nodes) RAZER BLACKWIDOW_V4_PRO 3 of
            Inl (DeviceNotFound _ _ _) \<Rightarrow> True | _ \<Rightarrow> False) \<and>
         (case find_device (mock_source razer) RAZER BLACKWIDOW_V4_PRO 3 of
            Inl _ \<Rightarrow> False
          | Inr node \<Rightarrow> node_name node = ''hidraw2'' \<and> info_vendor_id (node_info node) = RAZER))"

definition spec_the_hidraw_number_is_not_the_interface_number :: bool where
  "spec_the_hidraw_number_is_not_the_interface_number \<longleftrightarrow>
     (let nodes = with_node (with_node mock_sysfs_new ''hidraw3'' (adv_info RAZER BLACKWIDOW_V4_PRO 0 0x01))
            ''hidraw7'' (adv_info RAZER BLACKWIDOW_V4_PRO 3 0x02)
      in case find_device (mock_source nodes) RAZER BLACKWIDOW_V4_PRO 3 of
           Inl _ \<Rightarrow> False
         | Inr node \<Rightarrow> node_name node = ''hidraw7'' \<and> node_path node = ''/dev/hidraw7'')"

definition spec_selection_keys_on_the_interface_number_not_the_interface_protocol :: bool where
  "spec_selection_keys_on_the_interface_number_not_the_interface_protocol \<longleftrightarrow>
     (let nodes = with_node (with_node mock_sysfs_new ''hidraw0'' (adv_info RAZER BLACKWIDOW_V4_PRO 1 0x02))
            ''hidraw1'' (adv_info RAZER BLACKWIDOW_V4_PRO 3 0x00)
      in (case find_device (mock_source nodes) RAZER BLACKWIDOW_V4_PRO 3 of
            Inl _ \<Rightarrow> False
          | Inr node \<Rightarrow> node_name node = ''hidraw1'' \<and> interface_number (node_info node) = 3) \<and>
         (case find_device (mock_source nodes) RAZER BLACKWIDOW_V4_PRO 2 of
            Inl (DeviceNotFound _ _ interface) \<Rightarrow> interface = 2 | _ \<Rightarrow> False))"

definition spec_a_sysfs_listing_failure_is_not_reported_as_device_not_found :: bool where
  "spec_a_sysfs_listing_failure_is_not_reported_as_device_not_found \<longleftrightarrow>
     (let sysfs = broken_sysfs True in
      (case find_device sysfs RAZER BLACKWIDOW_V4_PRO 3 of Inl (Io _ errno) \<Rightarrow> errno = 13 | _ \<Rightarrow> False) \<and>
      (case list_razer_nodes sysfs of Inl (Io _ errno) \<Rightarrow> errno = 13 | _ \<Rightarrow> False))"

definition spec_one_unreadable_node_currently_aborts_the_whole_scan :: bool where
  "spec_one_unreadable_node_currently_aborts_the_whole_scan \<longleftrightarrow>
     (case find_device (broken_sysfs False) RAZER BLACKWIDOW_V4_PRO 3 of Inl (Sysfs _) \<Rightarrow> True | _ \<Rightarrow> False)"

definition spec_selection_is_stable_across_a_reshuffled_source :: bool where
  "spec_selection_is_stable_across_a_reshuffled_source \<longleftrightarrow>
     list_all (\<lambda>order.
       let nodes = foldl (\<lambda>sysfs name.
             let iface = (if name = ''hidraw0'' then 0 else if name = ''hidraw2'' then 1 else 3);
                 proto = (if iface = 3 then 0x02 else 0x01)
             in with_node sysfs name (adv_info RAZER BLACKWIDOW_V4_PRO iface proto)) mock_sysfs_new order
       in case find_device (mock_source nodes) RAZER BLACKWIDOW_V4_PRO 3 of
            Inl _ \<Rightarrow> False
          | Inr node \<Rightarrow> node_name node = ''hidraw11'' \<and> interface_protocol (node_info node) = 0x02)
       [[''hidraw2'', ''hidraw11'', ''hidraw0''], [''hidraw11'', ''hidraw0'', ''hidraw2''],
        [''hidraw0'', ''hidraw2'', ''hidraw11'']]"

definition spec_mock_sysfs_paths_are_never_opened :: bool where
  "spec_mock_sysfs_paths_are_never_opened \<longleftrightarrow>
     (case list_razer_nodes (mock_source mock_blackwidow_v4_pro) of
        Inl _ \<Rightarrow> False
      | Inr nodes \<Rightarrow>
          length nodes = 4 \<and>
          list_all (\<lambda>n. take 5 (node_path n) = ''/dev/'' \<and> node_path n = path_join ''/dev'' (node_name n)) nodes)"

lemma hidraw7: "hidraw_name 7 = ''hidraw7''"
  by (simp add: hidraw_name_def fmt_dec_def fmt_radix.simps digit_char_def char_of_def bit_0)

lemma sorted_names:
  "sort_by_index [''hidraw3'', ''hidraw7''] = [''hidraw3'', ''hidraw7'']"
  "sort_by_index [''hidraw2'', ''hidraw11'', ''hidraw0''] = [''hidraw0'', ''hidraw2'', ''hidraw11'']"
  "sort_by_index [''hidraw11'', ''hidraw0'', ''hidraw2''] = [''hidraw0'', ''hidraw2'', ''hidraw11'']"
  "sort_by_index [''hidraw0'', ''hidraw2'', ''hidraw11''] = [''hidraw0'', ''hidraw2'', ''hidraw11'']"
  using sort_names [of "[''hidraw3'', ''hidraw7'']" "[3, 7]"]
    sort_names [of "[''hidraw2'', ''hidraw11'', ''hidraw0'']" "[2, 11, 0]"]
    sort_names [of "[''hidraw11'', ''hidraw0'', ''hidraw2'']" "[11, 0, 2]"]
    sort_names [of "[''hidraw0'', ''hidraw2'', ''hidraw11'']" "[0, 2, 11]"]
  by (simp_all add: hidraw_literals hidraw7 hidraw11 del: One_nat_def)

lemma search_specs:
  "spec_a_foreign_vendor_sharing_the_product_id_is_not_matched"
  "spec_the_hidraw_number_is_not_the_interface_number"
  "spec_selection_keys_on_the_interface_number_not_the_interface_protocol"
  "spec_selection_is_stable_across_a_reshuffled_source"
  by (simp_all add: spec_a_foreign_vendor_sharing_the_product_id_is_not_matched_def
      spec_the_hidraw_number_is_not_the_interface_number_def
      spec_selection_keys_on_the_interface_number_not_the_interface_protocol_def
      spec_selection_is_stable_across_a_reshuffled_source_def search_sorted with_node_def mock_sysfs_new_def
      sorted_fixtures sorted_names Let_def pids)
    (simp_all add: mock_source_def adv_info_def path_join_def)

lemma broken_specs:
  "spec_a_sysfs_listing_failure_is_not_reported_as_device_not_found"
  "spec_one_unreadable_node_currently_aborts_the_whole_scan" "spec_mock_sysfs_paths_are_never_opened"
proof -
  show "spec_a_sysfs_listing_failure_is_not_reported_as_device_not_found"
    "spec_one_unreadable_node_currently_aborts_the_whole_scan"
    by (simp_all add: spec_a_sysfs_listing_failure_is_not_reported_as_device_not_found_def broken_sysfs_def
        spec_one_unreadable_node_currently_aborts_the_whole_scan_def find_device_def list_razer_nodes_def
        sort_by_index_def)
  show "spec_mock_sysfs_paths_are_never_opened"
    unfolding spec_mock_sysfs_paths_are_never_opened_def search_eval
    by (simp add: mock_tree_defs VENDOR_ID_def) (simp add: path_join_def)
qed

subsection \<open>Guards\<close>

definition ONLY_POLL_RATE :: device_entry where
  "ONLY_POLL_RATE =
     \<lparr>pid = 0xDEA1, dev_name = ''synthetic: poll rate only'', kind = Mouse, dev_transaction_id = 0x1F,
      report_index = 0x00, response_index = 0x00, wait = 31000,
      capabilities = Capabilities (bits CAP_POLL_RATE), default_led = 0x00, poll_rate_kind = Legacy\<rparr>"

definition WEIRD_LED :: device_entry where
  "WEIRD_LED =
     \<lparr>pid = 0xDEA2, dev_name = ''synthetic: unmodelled led id'', kind = Keyboard, dev_transaction_id = 0x1F,
      report_index = 0x03, response_index = 0x03, wait = 600,
      capabilities = Capabilities (bits CAP_BRIGHTNESS OR bits CAP_STATIC_EFFECT), default_led = 0x07,
      poll_rate_kind = V2\<rparr>"

definition silent :: "test_session \<Rightarrow> bool" where
  "silent s \<longleftrightarrow> sent (transport s) = [] \<and> sleeps (clock s) = []"

definition spec_capabilities_are_checked_per_flag_not_as_a_yes_no :: bool where
  "spec_capabilities_are_checked_per_flag_not_as_a_yes_no \<longleftrightarrow>
     expect_err (set_device_mode mock_io Driver (session_new ONLY_POLL_RATE (mock_transport_new, mock_clock_new)))
       (\<lambda>err s.
          (case err of Unsupported _ what \<Rightarrow> what = ''device mode'' | _ \<Rightarrow> False) \<and>
          expect_err (firmware_version mock_io s) (\<lambda>_ s.
          expect_err (serial mock_io s) (\<lambda>_ s.
          expect_err (set_brightness mock_io 0x10 s) (\<lambda>_ s.
          expect_err (set_static_effect mock_io (rgb_new 1 2 3) s) (\<lambda>_ s. silent s))))) \<and>
     expect (set_poll_rate echo_io Hz1000 (echoing ONLY_POLL_RATE [0x01])) (\<lambda>_ s. length (echo_frames s) = 1)"

definition spec_an_unmodelled_led_id_is_refused_before_anything_is_sent :: bool where
  "spec_an_unmodelled_led_id_is_refused_before_anything_is_sent \<longleftrightarrow>
     expect_err (set_brightness mock_io 0x40 (session_new WEIRD_LED (mock_transport_new, mock_clock_new)))
       (\<lambda>err s.
          (case err of Unsupported _ _ \<Rightarrow> True | _ \<Rightarrow> False) \<and>
          expect_err (get_brightness mock_io s) (\<lambda>_ s.
          expect_err (set_static_effect mock_io (rgb_new 0 0 0) s) (\<lambda>_ s. silent s)))"

definition spec_the_transaction_id_override_does_not_leak_into_the_device_table :: bool where
  "spec_the_transaction_id_override_does_not_leak_into_the_device_table \<longleftrightarrow>
     with_session BLACKWIDOW_V4_PRO mock_transport_new (\<lambda>s.
       expect (send mock_io (cmd_set_device_mode Driver) (with_transaction_id_override s 0xFF)) (\<lambda>_ _. True)) \<and>
     (case lookup BLACKWIDOW_V4_PRO of None \<Rightarrow> False | Some e \<Rightarrow> dev_transaction_id e = 0x1F) \<and>
     with_session BLACKWIDOW_V4_PRO mock_transport_new (\<lambda>s.
       expect (send mock_io (cmd_set_device_mode Driver) s) (\<lambda>_ s. sent (transport s) ! 0 ! 2 = 0x1F))"

definition spec_the_mock_clock_never_actually_sleeps :: bool where
  "spec_the_mock_clock_never_actually_sleeps \<longleftrightarrow>
     mock_total ((mock_sleep (60 * 1000000) ^^ 1000) mock_clock_new) = 60000 * 1000000"

lemma guard_requires:
  "require (session_new ONLY_POLL_RATE w) c what = (if c = CAP_POLL_RATE then Inr () else Inl (Unsupported 0xDEA1 what))"
  "require (session_new WEIRD_LED w) c what
    = (if c = CAP_BRIGHTNESS \<or> c = CAP_STATIC_EFFECT then Inr () else Inl (Unsupported 0xDEA2 what))"
  if "c \<in> {CAP_DEVICE_MODE, CAP_FIRMWARE_VERSION, CAP_SERIAL, CAP_BRIGHTNESS, CAP_STATIC_EFFECT, CAP_POLL_RATE}"
  using that by (auto simp: require_def ONLY_POLL_RATE_def WEIRD_LED_def contains_def cap_defs)

lemma weird_led: "led (session_new WEIRD_LED w) = Inl (Unsupported 0xDEA2 ''this LED id'')"
  by (simp add: led_def WEIRD_LED_def)

lemma caps_differ [simp]:
  "CAP_DEVICE_MODE \<noteq> CAP_POLL_RATE" "CAP_FIRMWARE_VERSION \<noteq> CAP_POLL_RATE" "CAP_SERIAL \<noteq> CAP_POLL_RATE"
  "CAP_BRIGHTNESS \<noteq> CAP_POLL_RATE" "CAP_STATIC_EFFECT \<noteq> CAP_POLL_RATE"
  by (simp_all add: cap_defs)

lemma guard_specs:
  "spec_capabilities_are_checked_per_flag_not_as_a_yes_no"
  "spec_an_unmodelled_led_id_is_refused_before_anything_is_sent"
proof -
  have "require (echoing ONLY_POLL_RATE [0x01]) CAP_POLL_RATE what = Inr ()" for what
    unfolding echoing_def by (simp add: guard_requires)
  then have "expect (set_poll_rate echo_io Hz1000 (echoing ONLY_POLL_RATE [0x01])) (\<lambda>_ s. length (echo_frames s) = 1)"
    by (simp add: set_poll_rate_def legacy_codes echo_eval ARGS_LEN_def echo_frames_def)
      (simp add: ONLY_POLL_RATE_def legacy_codes echo_eval ARGS_LEN_def echo_frames_def)
  then show "spec_capabilities_are_checked_per_flag_not_as_a_yes_no"
    by (simp add: spec_capabilities_are_checked_per_flag_not_as_a_yes_no_def session_defs guard_requires silent_def
        transport_def clock_def)
  show "spec_an_unmodelled_led_id_is_refused_before_anything_is_sent"
    by (simp add: spec_an_unmodelled_led_id_is_refused_before_anything_is_sent_def session_defs guard_requires
        weird_led silent_def transport_def clock_def)
qed

lemma many_sleeps: "mock_total ((mock_sleep d ^^ n) c) = mock_total c + n * d" "mock_total mock_clock_new = 0"
  by (induction n) (simp_all add: mock_total_def)

lemma override_specs:
  "spec_the_transaction_id_override_does_not_leak_into_the_device_table" "spec_the_mock_clock_never_actually_sleeps"
  by (simp_all add: spec_the_transaction_id_override_does_not_leak_into_the_device_table_def sent_eval
      with_transaction_id_override_def frame_nth_2 constructed_wf spec_the_mock_clock_never_actually_sleeps_def
      many_sleeps)

subsection \<open>Outbound validation\<close>

definition spec_a_malformed_report_is_refused_before_the_ioctl :: bool where
  "spec_a_malformed_report_is_refused_before_the_ioctl \<longleftrightarrow>
     list_all (\<lambda>corrupt.
       let bad = corrupt (cmd_set_device_mode Driver) in
       with_session BLACKWIDOW_V4_PRO mock_transport_new (\<lambda>s.
         expect_err (send mock_io bad s) (\<lambda>err s.
           (case err of Proto _ \<Rightarrow> True | _ \<Rightarrow> False) \<and> silent s)))
       [\<lambda>r. r\<lparr>data_size := 0xFF\<rparr>, \<lambda>r. r\<lparr>protocol_type := 0x42\<rparr>, \<lambda>r. r\<lparr>reserved := 0x99\<rparr>]"

fun send_all :: "razer_report list \<Rightarrow> test_session \<Rightarrow> test_session option" where
  "send_all [] s = Some s"
| "send_all (r # rs) s = (case send mock_io r s of (Inl _, _) \<Rightarrow> None | (Inr _, s) \<Rightarrow> send_all rs s)"

definition spec_the_outbound_guard_passes_every_real_command :: bool where
  "spec_the_outbound_guard_passes_every_real_command \<longleftrightarrow>
     (case cmd_set_poll_rate_legacy Hz500 of
        Inl _ \<Rightarrow> False
      | Inr legacy \<Rightarrow> list_all (\<lambda>e.
          case send_all
              [cmd_set_device_mode Driver, cmd_get_device_mode, cmd_get_firmware_version, cmd_get_serial,
               cmd_set_brightness VarStore Backlight 0x80, cmd_set_static_effect VarStore Zero (rgb_new 1 2 3),
               cmd_set_effect_none VarStore Backlight, cmd_set_poll_rate_v2 Hz1000 0x00, cmd_get_poll_rate_v2,
               legacy, cmd_get_poll_rate_legacy]
              (session_new e (mock_transport_new, mock_clock_new)) of
            None \<Rightarrow> False
          | Some s \<Rightarrow> length (sent (transport s)) = 11 \<and> assert_all_frames_valid (sent (transport s)))
          all_devices)"

definition spec_the_devices_echoed_transaction_id_is_observable :: bool where
  "spec_the_devices_echoed_transaction_id_is_observable \<longleftrightarrow>
     (let request = cmd_get_firmware_version;
          reply = map_option (\<lambda>r. with_transaction_id (r\<lparr>status := Successful\<rparr>) 0x08)
            (with_args (new_report (command_class request) (command_id request) (data_size request)) [0x01, 0x04])
      in with_responses [reply] (\<lambda>t. with_session BLACKWIDOW_V4_PRO t (\<lambda>s.
           last_response_transaction_id s = None \<and>
           expect (firmware_version mock_io s) (\<lambda>v s.
             v = (0x01, 0x04) \<and> session_transaction_id s = 0x1F \<and>
             last_response_transaction_id s = Some 0x08))))"

lemma malformed_spec: "spec_a_malformed_report_is_refused_before_the_ioctl"
  by (simp add: spec_a_malformed_report_is_refused_before_the_ioctl_def with_session_def entries pids send_def
      check_request_def check_data_size_def cmd_set_device_mode_def ARGS_LEN_def silent_def transport_def clock_def)

lemma send_all_sends:
  assumes "list_all constructed rs" and "fail_next_set (fst (io s)) = None"
  shows "\<exists>s'. send_all rs s = Some s' \<and>
    sent (fst (io s')) = sent (fst (io s)) @ map (frame (sess_tid s)) rs"
  using assms
proof (induction rs arbitrary: s)
  case (Cons r rs)
  let ?s = "s\<lparr>io := ((fst (io s))\<lparr>sent := sent (fst (io s)) @ [frame (sess_tid s) r]\<rparr>,
    mock_sleep (wait (entry s)) (snd (io s)))\<rparr>"
  have "send mock_io r s = (Inr (), ?s)" using Cons.prems by (simp add: mock_send)
  then show ?case using Cons.IH [of ?s] Cons.prems by simp
qed simp

lemma outbound_spec: "spec_the_outbound_guard_passes_every_real_command"
  unfolding spec_the_outbound_guard_passes_every_real_command_def legacy_codes sum.case list_all_iff
proof
  fix e :: device_entry
  let ?rs = "[cmd_set_device_mode Driver, cmd_get_device_mode, cmd_get_firmware_version, cmd_get_serial,
    cmd_set_brightness VarStore Backlight 0x80, cmd_set_static_effect VarStore Zero (rgb_new 1 2 3),
    cmd_set_effect_none VarStore Backlight, cmd_set_poll_rate_v2 Hz1000 0x00, cmd_get_poll_rate_v2,
    fill_args (new_report 0x00 0x05 0x01) [0x02], cmd_get_poll_rate_legacy]"
  let ?s = "session_new e (mock_transport_new, mock_clock_new)"
  obtain s' where "send_all ?rs ?s = Some s'"
    and "sent (transport s') = map (frame (dev_transaction_id e)) ?rs"
    using send_all_sends [of ?rs ?s] by (auto simp: transport_def simp del: send_all.simps)
  then show "case send_all ?rs ?s of None \<Rightarrow> False
    | Some s \<Rightarrow> length (sent (transport s)) = 11 \<and> assert_all_frames_valid (sent (transport s))"
    by (simp add: all_valid del: send_all.simps)
qed

lemma echoed_id_spec: "spec_the_devices_echoed_transaction_id_is_observable"
proof -
  define reply where "reply = (fill_args (new_report 0x00 0x81 0x02) [0x01, 0x04])
    \<lparr>status := Successful, transaction_id := 0x08\<rparr>"
  have sendable: "sendable reply"
    by (simp add: reply_def sendable_def wf_report_def canonical_status_def fill_args_new ARGS_LEN_def)
  have fields: "remaining_packets reply = 0" "data_size reply = 2" "command_class reply = 0" "command_id reply = 0x81"
    "status reply = Successful" "transaction_id reply = 0x08" "arguments reply = 0x01 # 0x04 # replicate 78 0"
    by (simp_all add: reply_def fill_args_new ARGS_LEN_def)
  have "with_args (new_report 0x00 0x81 0x02) [0x01, 0x04] = Some (fill_args (new_report 0x00 0x81 0x02) [0x01, 0x04])"
    by (simp add: with_args_def ARGS_LEN_def)
  moreover have "with_transaction_id ((fill_args (new_report 0x00 0x81 0x02) [0x01, 0x04])\<lparr>status := Successful\<rparr>) 0x08
      = reply"
    by (simp add: reply_def with_transaction_id_def)
  ultimately show ?thesis
    by (simp add: spec_the_devices_echoed_transaction_id_is_observable_def queue_eval pids sendable fields expect_eq
        last_response_transaction_id_def session_transaction_id_def parse_firmware_version_def)
      (simp add: session_new_def fields)
qed

end
