(* ===== verification/Spec2Isabelle.thy ===== *)
theory Spec2Isabelle
  imports Razerd_Main Razerd_Answers Razerd_Invocation Razerd_Watch Session_Types Session_Device
    Metrics_Serve Metrics_Sysfs Metrics_Threads
    Tests_Proto Tests_Devices Tests_Hid Tests_Session Tests_Razerd Tests_Metrics
    Tests_Golden Tests_Wire Tests_Table Tests_Adversarial_Faults
begin

text \<open>
  A verification library for \<open>openrazer_rust\<close>, a userspace driver for three Razer devices over
  Linux \<open>hidraw\<close>. The program's purpose is a single byte: every report it sends carries the
  transaction id of its device table, because a wrong one resets a keyboard's firmware. The library
  models the program from the byte layout to the command line and proves, among the rest, that this
  byte is right on every path.

  \<^bold>\<open>The parts of the program and their theories.\<close>

  \<^item> \<open>Prelude\<close>: machine words, a \<open>Result\<close> as the sum \<open>'e + 'a\<close> (\<open>Inl\<close> the error), the \<open>?\<close> operator
    \<open>and_then\<close> between steps that return a result and the new state, slices of fixed arrays, folded
    exclusive or, searching a list sorted by a key.
  \<^item> \<open>Rust_Str\<close>: the string operations of the standard library that the program uses, on UTF-8 bytes:
    trimming, \<open>from_str_radix\<close>, decimal and hexadecimal formatting; parsing inverts printing.
  \<^item> \<open>Report\<close> (\<open>razer-proto/src/report.rs\<close>, \<open>crc.rs\<close>): the 90-byte frame as a record, its encoding and
    decoding, the checksum, and the value types with their codes.
  \<^item> \<open>Proto_Error\<close>, \<open>Cmd\<close>, \<open>Parse\<close> (\<open>error.rs\<close>, \<open>cmd.rs\<close>, \<open>parse.rs\<close>): errors, the twelve command
    constructors, the guard on requests, the acceptance test for responses, the payload readers.
  \<^item> \<open>Devices\<close> (\<open>razer-devices/src\<close>): the capability word and the table.
  \<^item> \<open>Hid_Error\<close>, \<open>Transport\<close>, \<open>Mock\<close> (\<open>razer-hid/src/error.rs\<close>, \<open>transport.rs\<close>, \<open>mock.rs\<close>): errors;
    the contract of a transport as the locale \<open>feature_transport\<close>; \<open>HidrawDevice\<close> over a record \<open>os\<close> of
    system calls and the in-memory transport, each an interpretation of the contract.
  \<^item> \<open>Session\<close> (\<open>razer-hid/src/session.rs\<close>): one transaction, the retry loop, the guards and the nine
    typed operations as functions of the borrowed transport and clock; the methods as inductive
    steps; the locales \<open>session_relation\<close>, \<open>read_relation\<close> and \<open>typed_relation\<close>, which carry a relation
    over single calls to whole runs.
  \<^item> \<open>Session_Trace\<close>, \<open>Session_Safety\<close>, \<open>Session_Mock\<close>: the calls a session makes, recorded by a
    transport that the locale \<open>io_refinement\<close> shows to be transparent; what holds of them over every
    transport; the results of a session whose device answers are known.
  \<^item> \<open>Session_Operations\<close>: the nine operations as a datatype and their common contract.
  \<^item> \<open>Session_Device\<close>: setting and reading operations as a sequence over a device that keeps its
    registers; the registers are the specification that the operations refine.
  \<^item> \<open>Sysfs\<close>, \<open>Enumerate\<close> (\<open>sysfs.rs\<close>, \<open>enumerate.rs\<close>): reading the USB interface behind a node from a
    snapshot of the file system, and picking the node of a device; the trait \<open>SysfsSource\<close> is a record,
    its contract the locale \<open>sysfs_contract\<close>.
  \<^item> \<open>Session_Types\<close>: the ranges of what a session hands out, whatever the kernel puts into the buffers.
  \<^item> \<open>Rust_Text\<close>: the further string operations the command line and the metrics use: UTF-8 validity and
    lossy decoding, splitting at white space, searching, upper case (of ASCII).
  \<^item> \<open>Razerd_Base\<close>, \<open>Razerd_Info\<close>, \<open>Razerd_Mode\<close>, \<open>Razerd_Main\<close> (\<open>razerd/src/main.rs\<close>): the environment
    of the binary, its subcommands \<open>list\<close>, \<open>info\<close> and \<open>set-device-mode\<close> with the lines they print, the
    usage text, the dispatch and the exit status.
  \<^item> \<open>Razerd_Calls\<close>: the system calls of a session over \<open>HidrawDevice\<close> read as calls of the transport, an
    interpretation of \<open>io_refinement\<close>; from it the frames a run of the binary writes and the time it
    sleeps. \<open>Razerd_Invocation\<close>: what any invocation does to the devices, and for how long it sleeps.
  \<^item> \<open>Razerd_Status\<close>, \<open>Razerd_Watch\<close>: the exit status of \<open>set-device-mode\<close> against the writes
    it issued, and its watch for a reset against the readings of the kernel log.
  \<^item> \<open>Razerd_Probe\<close>: \<open>read_device\<close> against a specification as a function of the queued answers.
    \<open>Razerd_Answers\<close>: \<open>info\<close> end to end, through \<open>open\<close>, the \<open>ioctl\<close>s and the printed lines, over a kernel
    that hands out queued answers (the locale \<open>queue_kernel\<close>); such a session refines one over the
    in-memory transport, so the binary prints what the specification of the probe says.
  \<^item> \<open>Metrics\<close> (\<open>razerd/src/metrics.rs\<close>, as all below): labels and their escaping, histograms, the
    registry; its maps through the locale \<open>entry_map\<close>, the contract of the entry interface.
    \<open>Metrics_Log\<close>: the registry refines the log of what was recorded. \<open>Metrics_Threads\<close>: threads that
    record concurrently, as interleavings of operations that hold the lock.
  \<^item> \<open>Metrics_Render\<close>: the exposition text, line by line. \<open>Metrics_Http\<close>: one scrape connection, from the
    first bounded read to the answer. \<open>Metrics_Serve\<close>: the same with the arrival times of the bytes,
    the writing of the answer and the two timeouts, and the loop that serves one connection after the
    other. \<open>Metrics_Sysfs\<close>: the walk up the device tree, as a partial function proved to return, and the
    reader of device number and driver.
  \<^item> \<open>Tests_Proto\<close>, \<open>Tests_Devices\<close>, \<open>Tests_Hid\<close>, \<open>Tests_Session\<close>, \<open>Tests_Razerd\<close>, \<open>Tests_Metrics\<close>: the
    unit tests of the crates as definitions \<open>test_<name>\<close>, each proved of the model; \<open>Tests_Golden\<close>: the
    frames worked out by hand from the C driver, which the constructors reproduce.
  \<^item> \<open>Tests_Wire\<close>, \<open>Tests_Table\<close>, \<open>Tests_Adversarial\<close>, \<open>Tests_Adversarial_Faults\<close>: the integration
    tests \<open>wire_format_spec.rs\<close>, \<open>table_spec.rs\<close> and \<open>adversarial.rs\<close> as definitions \<open>spec_<name>\<close>,
    each proved of the model.

  \<^bold>\<open>How state and operations correspond.\<close> A struct is a record with the same fields; a method on
  \<open>&mut self\<close> takes the state last and returns it updated beside its result. The two trait objects a
  session borrows are one world, the field \<open>io\<close>, on which the record \<open>hid_io\<close> acts. Durations are
  microseconds, in the metrics nanoseconds. Paths and strings are their UTF-8 bytes. A panic of the code
  itself is \<open>None\<close>: the assertion of \<open>with_args\<close> and the \<open>expect\<close> in \<open>info\<close>, and neither is reached. The
  panics of the standard library are in \<open>razerd_process\<close>, which runs \<open>razerd_main\<close>: \<open>std::env::args\<close>
  panics on an argument that is not UTF-8, \<open>println!\<close> and \<open>eprintln!\<close> on a refused line. Everything below
  \<open>razerd_process\<close> describes runs whose arguments are UTF-8 and whose lines are taken; a run that panics
  while printing has done what such a run does up to that line. The \<open>eprintln!\<close> in \<open>serve\<close> is taken to
  succeed.

  \<^bold>\<open>What is a parameter.\<close> The kernel (\<open>os\<close>: open, close, the feature and raw-info \<open>ioctl\<close>, sleep), the
  file system as one enumeration sees it (\<open>files\<close>), other programs and the stopwatch (\<open>env\<close>), and in the
  metrics the crate version and the texts of floating-point numbers. Theorems quantify over them. The
  one assumption made of the programs and the stopwatch is \<open>calls_only_os\<close>: running \<open>journalctl\<close> and
  reading the clock are not device calls of this process; of a printed number, that it stays within
  its line. The firmware is a parameter too: the transports answer as they like. One theorem assumes
  something of it, \<open>keeps_registers\<close>: an accepted write of a setting is what a later read of that
  setting answers with; another, \<open>queue_kernel\<close>, that the kernel opens what it is asked to open, keeps a
  descriptor on its node, and hands out the reports of that node in order.

  \<^bold>\<open>What the lemmas show.\<close> Encoding and decoding invert, the checksum covers what it should;
  requests are clean by construction; acceptance of a response is characterised completely; a
  transaction's calls are exactly one to five exchanges with the waits between them, at most 195 ms
  of sleep for a table device; nothing malformed or unsupported reaches a device; every frame of
  every run is stamped 0x1F until a caller overrides the id, and with that id from then on; typed
  operations can send eleven commands and never the factory or bootloader mode; every operation is
  refused untouched or is one transaction; on a device that keeps its registers, a setting that was
  written and answered is what is read, as long as no operation in between writes it; enumeration
  stops at the first node by number that matches or cannot be read, whatever the listing order; what
  is handed out is well formed (a serial is ASCII, control characters included); a device is used
  only after the kernel confirmed its identity; \<open>info\<close> sends reads only and closes what it opens;
  \<open>set-device-mode\<close> writes only the confirmed mode, fails only if it issued no write, and reports
  the first disconnect that follows; a device found absent is asked nothing more; \<open>info\<close> prints what
  the devices answer, and fails if the nodes cannot be listed or no supported device can be opened.
  Every invocation ends, whatever its arguments, closes what it opened and sends an id other than
  0x1F only if \<open>--transaction-id\<close> names one; it sleeps at most 1.299 s for \<open>info\<close>, and 43 ms and the
  90 s of the watch for \<open>set-device-mode\<close>. The metrics show exactly what was recorded, whatever the
  schedule of the threads; no label value can forge a line; serials stay private unless exposed;
  floods and silent peers are dropped; a well-formed scrape is answered after a bounded delay for
  every connection before it, for its reads and for the writing of its answer, and how long the
  reads can be made is what the lemma on a dripping peer says.

  \<^bold>\<open>Bounds.\<close> No fuel is used: every loop of the program is over a finite list or a structural
  recursion, except trimming and printing, whose termination is proved by the length of the text and
  the size of the number, and the walk to a USB device, a \<open>partial_function\<close> shown to return because a
  parent path is shorter. The search for a USB interface is cut off after twelve levels, as in the
  code. Counters keep their width of 64 bits and wrap.

  \<^bold>\<open>Not modelled.\<close> What a process did before it panicked on a refused line; calls interrupted by a
  signal, which the standard library repeats (the program installs no handler); the floating-point
  sum and its text, which are parameters on the list of summands; upper-casing outside ASCII; the
  zero-sized \<open>HardwareOptIn\<close> token, which exists only for the type checker; derived \<open>Debug\<close> output,
  and how the standard library quotes a text, which is a parameter; assertions of the tests about
  memory layout, implemented traits, the addresses of slices and wall time. The tools in other
  languages, udev rules and service files are outside the library.
\<close>

end
